(* ===== verification/Prelude.thy ===== *)
theory Prelude
  imports Main
begin

text \<open>
  What every theory of the development shares: the collections its simplification and
  case-split hints go into, lists with a unique element, and association lists read as
  JavaScript objects (first occurrence wins on lookup, insertion order kept on update).
\<close>

named_theorems text_simps \<open>rewriting of text operations (split, join, trim, show)\<close>
named_theorems step_simps \<open>unfolding of component operations and handlers\<close>
named_theorems inv_intros \<open>preservation of component invariants\<close>

subsection \<open>Insertion-ordered objects\<close>

text \<open>
  A JavaScript object literal, and an object spread over it, is an association list: a
  later write to a present key changes the value in place, a write to an absent key
  appends it.
\<close>

fun obj_set :: "'k \<Rightarrow> 'v \<Rightarrow> ('k \<times> 'v) list \<Rightarrow> ('k \<times> 'v) list" where
  "obj_set k v [] = [(k, v)]"
| "obj_set k v ((k', v') # kvs) =
     (if k' = k then (k, v) # kvs else (k', v') # obj_set k v kvs)"

text \<open>\<open>{...o, ...p}\<close>: the entries of \<open>p\<close> are written over those of \<open>o\<close>, in order.\<close>

definition obj_spread :: "('k \<times> 'v) list \<Rightarrow> ('k \<times> 'v) list \<Rightarrow> ('k \<times> 'v) list" where
  "obj_spread os ps = fold (\<lambda>(k, v) acc. obj_set k v acc) ps os"

lemma obj_set_fresh: "k \<notin> fst ` set os \<Longrightarrow> obj_set k v os = os @ [(k, v)]"
  by (induction os) auto

lemma obj_spread_fresh:
  "distinct (map fst (os @ ps)) \<Longrightarrow> obj_spread os ps = os @ ps"
proof (induction ps arbitrary: os)
  case (Cons kv ps)
  then have "obj_set (fst kv) (snd kv) os = os @ [kv]" by (intro obj_set_fresh [THEN trans]) auto
  with Cons.IH [of "os @ [kv]"] Cons.prems show ?case
    by (simp add: obj_spread_def split_beta)
qed (simp add: obj_spread_def)

lemma obj_spread_Nil_id: "distinct (map fst ps) \<Longrightarrow> obj_spread [] ps = ps"
  using obj_spread_fresh [of "[]" ps] by simp

text \<open>\<open>const { k, ...rest } = o\<close>: the object without the key \<open>k\<close>.\<close>

definition obj_omit :: "'k \<Rightarrow> ('k \<times> 'v) list \<Rightarrow> ('k \<times> 'v) list" where
  "obj_omit k os = filter (\<lambda>(k', _). k' \<noteq> k) os"

lemma map_of_obj_set [simp]: "map_of (obj_set k v os) = (map_of os)(k \<mapsto> v)"
  by (induction os) (auto simp: fun_eq_iff)

lemma keys_obj_set: "fst ` set (obj_set k v os) = insert k (fst ` set os)"
proof (induction os)
  case (Cons kv os)
  then show ?case by (cases kv) auto
qed simp

lemma distinct_obj_set:
  "distinct (map fst os) \<Longrightarrow> distinct (map fst (obj_set k v os))"
proof (induction os)
  case (Cons kv os)
  then show ?case using keys_obj_set [of k v os] by (cases kv) auto
qed simp

lemma map_of_obj_spread:
  "map_of (obj_spread os ps) = map_of os ++ map_of (rev ps)"
proof (induction ps arbitrary: os)
  case (Cons kv ps)
  then show ?case
    by (cases kv) (auto simp: obj_spread_def fun_eq_iff map_add_def split: option.splits)
qed (simp add: obj_spread_def)

lemma distinct_obj_spread:
  "distinct (map fst os) \<Longrightarrow> distinct (map fst (obj_spread os ps))"
  by (induction ps arbitrary: os) (auto simp: obj_spread_def distinct_obj_set)

lemma map_of_obj_omit [simp]: "map_of (obj_omit k os) = (map_of os)(k := None)"
  by (induction os) (auto simp: obj_omit_def fun_eq_iff)

lemma distinct_obj_omit:
  "distinct (map fst os) \<Longrightarrow> distinct (map fst (obj_omit k os))"
  by (induction os) (auto simp: obj_omit_def)

subsection \<open>Lists\<close>

lemma takeWhile_append_stop:
  "\<forall>x \<in> set xs. P x \<Longrightarrow> (ys = [] \<or> \<not> P (hd ys)) \<Longrightarrow>
     takeWhile P (xs @ ys) = xs \<and> dropWhile P (xs @ ys) = ys"
  by (cases ys) auto

lemma filter_id_all: "\<forall>x \<in> set xs. P x \<Longrightarrow> filter P xs = xs"
  by (induction xs) auto

subsection \<open>Encodings with a decoder\<close>

text \<open>
  An encoder with a decoder that undoes it on the values it is used for: JSON text,
  percent-encoded query components, comma-separated form fields.
\<close>

locale codec =
  fixes enc :: "'a \<Rightarrow> 'b"
    and dec :: "'b \<Rightarrow> 'a option"
    and ok :: "'a \<Rightarrow> bool"
  assumes dec_enc: "ok x \<Longrightarrow> dec (enc x) = Some x"
begin

lemma enc_inject: "ok x \<Longrightarrow> ok y \<Longrightarrow> enc x = enc y \<longleftrightarrow> x = y"
  by (metis dec_enc option.inject)

lemma dec_image: "ok x \<Longrightarrow> y = enc x \<Longrightarrow> dec y = Some x"
  by (simp add: dec_enc)

end

end
