(* ===== verification/JS_Text.thy ===== *)
theory JS_Text
  imports Prelude
begin

text \<open>
  Text as the program sees it. A string is the list of bytes of its UTF-8 encoding, the
  form in which the browser sends it and in which the Go back end holds it. The JavaScript
  operations the front end uses are defined on that form: \<open>length\<close> counts UTF-16 code
  units, \<open>split\<close>, \<open>join\<close>, \<open>includes\<close> and \<open>trim\<close> work on whole
  substrings (UTF-8 is self-synchronising, so substring search on bytes finds exactly the
  occurrences that search on code units finds), \<open>encodeURIComponent\<close> escapes bytes.
  Strings with unpaired surrogates, which have no UTF-8 form, are outside the model.
\<close>

subsection \<open>Characters\<close>

definition code :: "char \<Rightarrow> nat" where
  "code c = of_char c"

definition is_digit :: "char \<Rightarrow> bool" where
  "is_digit c \<longleftrightarrow> 48 \<le> code c \<and> code c \<le> 57"

definition is_alpha :: "char \<Rightarrow> bool" where
  "is_alpha c \<longleftrightarrow> (65 \<le> code c \<and> code c \<le> 90) \<or> (97 \<le> code c \<and> code c \<le> 122)"

lemma code_inject: "code c = code d \<longleftrightarrow> c = d"
  by (simp add: code_def)

lemma code_char_of: "n < 256 \<Longrightarrow> code (char_of n) = n"
  by (simp add: code_def)

lemma code_less: "code c < 256"
  by (simp add: code_def)

text \<open>The number of UTF-16 code units a byte of a UTF-8 sequence accounts for.\<close>

definition unit_weight :: "char \<Rightarrow> nat" where
  "unit_weight c = (let n = code c in
     if n < 128 then 1 else if n < 192 then 0 else if n < 240 then 1 else 2)"

definition js_length :: "string \<Rightarrow> nat" where
  "js_length s = sum_list (map unit_weight s)"

lemma js_length_le: "js_length s \<le> 2 * length s"
  by (induction s) (auto simp: js_length_def unit_weight_def Let_def)

lemma js_length_ascii: "\<forall>c \<in> set s. code c < 128 \<Longrightarrow> js_length s = length s"
  by (induction s) (auto simp: js_length_def unit_weight_def Let_def)

subsection \<open>Prefixes and substrings\<close>

fun starts_with :: "string \<Rightarrow> string \<Rightarrow> bool" where
  "starts_with [] s = True"
| "starts_with (p # ps) [] = False"
| "starts_with (p # ps) (c # cs) = (p = c \<and> starts_with ps cs)"

lemma starts_with_iff: "starts_with p s \<longleftrightarrow> (\<exists>r. s = p @ r)"
  by (induction p s rule: starts_with.induct) auto

lemma starts_with_append [simp]: "starts_with p (p @ r)"
  by (auto simp: starts_with_iff)

text \<open>\<open>s.includes(sub)\<close>\<close>

fun js_includes :: "string \<Rightarrow> string \<Rightarrow> bool" where
  "js_includes [] sub = (sub = [])"
| "js_includes (c # cs) sub = (starts_with sub (c # cs) \<or> js_includes cs sub)"

lemma js_includes_iff: "js_includes s sub \<longleftrightarrow> (\<exists>a b. s = a @ sub @ b)"
proof (induction s)
  case (Cons c cs)
  have "(\<exists>a b. c # cs = a @ sub @ b) \<longleftrightarrow>
      (\<exists>b. c # cs = sub @ b) \<or> (\<exists>a b. cs = a @ sub @ b)"
    by (metis append_Cons append_Nil append_eq_Cons_conv)
  then show ?case by (simp add: Cons.IH starts_with_iff)
qed simp

subsection \<open>split and join\<close>

text \<open>
  \<open>s.split(sep)\<close> for a non-empty separator: leftmost, non-overlapping occurrences. The
  accumulator holds the current piece, reversed.
\<close>

function split_go :: "string \<Rightarrow> string \<Rightarrow> string \<Rightarrow> string list" where
  "split_go sep acc [] = [rev acc]"
| "split_go sep acc (c # cs) =
     (if starts_with sep (c # cs)
      then rev acc # split_go sep [] (drop (length sep - 1) cs)
      else split_go sep (c # acc) cs)"
  by pat_completeness auto
termination
  by (relation "measure (\<lambda>(_, _, s). length s)") auto

definition js_split :: "string \<Rightarrow> string \<Rightarrow> string list" where
  "js_split sep s = split_go sep [] s"

text \<open>\<open>xs.join(sep)\<close>\<close>

fun js_join :: "string \<Rightarrow> string list \<Rightarrow> string" where
  "js_join sep [] = []"
| "js_join sep [x] = x"
| "js_join sep (x # y # xs) = x @ sep @ js_join sep (y # xs)"

lemma split_go_nonempty: "split_go sep acc s \<noteq> []"
  by (induction sep acc s rule: split_go.induct) auto

lemma js_join_Cons: "xs \<noteq> [] \<Longrightarrow> js_join sep (x # xs) = x @ sep @ js_join sep xs"
  by (cases xs) auto

lemma split_go_rejoin:
  "sep \<noteq> [] \<Longrightarrow> js_join sep (split_go sep acc s) = rev acc @ s"
proof (induction sep acc s rule: split_go.induct)
  case (2 sep acc c cs)
  show ?case
  proof (cases "starts_with sep (c # cs)")
    case True
    then obtain r where r: "c # cs = sep @ r" by (auto simp: starts_with_iff)
    with 2(3) have "drop (length sep - 1) cs = r" by (cases sep) auto
    with True 2 have "js_join sep (split_go sep acc (c # cs)) = rev acc @ sep @ r"
      by (simp add: js_join_Cons split_go_nonempty)
    with r show ?thesis by simp
  next
    case False
    with 2 show ?thesis by simp
  qed
qed simp

lemma js_split_join: "sep \<noteq> [] \<Longrightarrow> js_join sep (js_split sep s) = s"
  by (simp add: js_split_def split_go_rejoin)

text \<open>Splitting at a single character: the pieces hold no separator.\<close>

lemma split_go_char_free:
  "c \<notin> set s \<Longrightarrow> split_go [c] acc s = [rev acc @ s]"
  by (induction s arbitrary: acc) auto

lemma split_go_char_append:
  "c \<notin> set s \<Longrightarrow> split_go [c] acc (s @ c # r) = (rev acc @ s) # split_go [c] [] r"
  by (induction s arbitrary: acc) auto

lemma js_split_join_char:
  "xs \<noteq> [] \<Longrightarrow> \<forall>x \<in> set xs. c \<notin> set x \<Longrightarrow> js_split [c] (js_join [c] xs) = xs"
proof (induction "[c]" xs rule: js_join.induct)
  case (3 x y xs)
  then show ?case by (simp add: js_split_def split_go_char_append)
qed (auto simp: js_split_def split_go_char_free)

lemma split_go_char_pieces:
  "c \<notin> set acc \<Longrightarrow> x \<in> set (split_go [c] acc s) \<Longrightarrow> c \<notin> set x"
  by (induction "[c]" acc s arbitrary: x rule: split_go.induct) (auto split: if_splits)

lemma js_split_char_pieces: "x \<in> set (js_split [c] s) \<Longrightarrow> c \<notin> set x"
  by (auto simp: js_split_def dest: split_go_char_pieces [rotated])

text \<open>\<open>text.split(old).join(new)\<close>, the idiom for replacing every occurrence.\<close>

definition replace_all :: "string \<Rightarrow> string \<Rightarrow> string \<Rightarrow> string" where
  "replace_all old new s = js_join new (js_split old s)"

subsection \<open>trim\<close>

text \<open>
  The code points JavaScript's \<open>trim\<close> removes (white space and line terminators),
  each as its UTF-8 sequence. Go's \<open>strings.TrimSpace\<close> differs in two of them.
\<close>

definition common_space :: "string list" where
  "common_space = map (map char_of)
     ([[9], [10], [11], [12], [13], [32], [0xC2, 0xA0], [0xE1, 0x9A, 0x80],
       [0xE2, 0x80, 0x80], [0xE2, 0x80, 0x81], [0xE2, 0x80, 0x82], [0xE2, 0x80, 0x83],
       [0xE2, 0x80, 0x84], [0xE2, 0x80, 0x85], [0xE2, 0x80, 0x86], [0xE2, 0x80, 0x87],
       [0xE2, 0x80, 0x88], [0xE2, 0x80, 0x89], [0xE2, 0x80, 0x8A], [0xE2, 0x80, 0xA8],
       [0xE2, 0x80, 0xA9], [0xE2, 0x80, 0xAF], [0xE2, 0x81, 0x9F], [0xE3, 0x80, 0x80]] :: nat list list)"

definition js_space :: "string list" where
  "js_space = common_space @ [map char_of [0xEF, 0xBB, 0xBF :: nat]]"

definition go_space :: "string list" where
  "go_space = common_space @ [map char_of [0xC2, 0x85 :: nat]]"

definition space_prefix :: "string list \<Rightarrow> string \<Rightarrow> string option" where
  "space_prefix ws s = find (\<lambda>w. w \<noteq> [] \<and> starts_with w s) ws"

lemma space_prefix_Some:
  "space_prefix ws s = Some w \<Longrightarrow> w \<in> set ws \<and> w \<noteq> [] \<and> (\<exists>r. s = w @ r)"
  by (auto simp: space_prefix_def find_Some_iff starts_with_iff)

lemma space_prefix_None_iff:
  "space_prefix ws s = None \<longleftrightarrow> (\<forall>w \<in> set ws. w = [] \<or> \<not> starts_with w s)"
  by (auto simp: space_prefix_def find_None_iff)

function trim_start_by :: "string list \<Rightarrow> string \<Rightarrow> string" where
  "trim_start_by ws s =
     (case space_prefix ws s of
        None \<Rightarrow> s
      | Some w \<Rightarrow> trim_start_by ws (drop (length w) s))"
  by pat_completeness auto
termination
  by (relation "measure (\<lambda>(_, s). length s)") (auto dest!: space_prefix_Some)

declare trim_start_by.simps [simp del]

definition trim_end_by :: "string list \<Rightarrow> string \<Rightarrow> string" where
  "trim_end_by ws s = rev (trim_start_by (map rev ws) (rev s))"

definition trim_by :: "string list \<Rightarrow> string \<Rightarrow> string" where
  "trim_by ws s = trim_end_by ws (trim_start_by ws s)"

text \<open>\<open>s.trim()\<close> of JavaScript and \<open>strings.TrimSpace(s)\<close> of Go.\<close>

definition js_trim :: "string \<Rightarrow> string" where
  "js_trim s = trim_by js_space s"

definition go_trim :: "string \<Rightarrow> string" where
  "go_trim s = trim_by go_space s"

lemma trim_start_none: "space_prefix ws s = None \<Longrightarrow> trim_start_by ws s = s"
  by (subst trim_start_by.simps) simp

lemma trim_start_stops: "space_prefix ws (trim_start_by ws s) = None"
proof (induction ws s rule: trim_start_by.induct)
  case (1 ws s)
  then show ?case
    by (subst trim_start_by.simps) (auto split: option.split)
qed

lemma trim_start_suffix: "\<exists>p. s = p @ trim_start_by ws s"
proof (induction ws s rule: trim_start_by.induct)
  case (1 ws s)
  show ?case
  proof (cases "space_prefix ws s")
    case None
    then show ?thesis by (simp add: trim_start_none)
  next
    case (Some w)
    then obtain r where r: "s = w @ r" by (auto dest: space_prefix_Some)
    from 1 [OF Some] r obtain p where "r = p @ trim_start_by ws r" by auto
    moreover have "trim_start_by ws s = trim_start_by ws r"
      by (subst trim_start_by.simps, simp only: Some option.case) (simp add: r)
    ultimately have "s = (w @ p) @ trim_start_by ws s" using r by simp
    then show ?thesis by (rule exI)
  qed
qed

lemma trim_end_prefix: "\<exists>p. s = trim_end_by ws s @ p"
proof -
  obtain p where "rev s = p @ trim_start_by (map rev ws) (rev s)"
    using trim_start_suffix by blast
  then have "s = rev (trim_start_by (map rev ws) (rev s)) @ rev p"
    by (metis rev_append rev_rev_ident)
  then show ?thesis by (auto simp: trim_end_by_def)
qed

lemma trim_end_idem: "trim_end_by ws (trim_end_by ws s) = trim_end_by ws s"
  by (simp add: trim_end_by_def trim_start_none trim_start_stops)

text \<open>A prefix of a text that begins with no space begins with none.\<close>

lemma space_prefix_None_prefix:
  "space_prefix ws (s @ p) = None \<Longrightarrow> space_prefix ws s = None"
  by (auto simp: space_prefix_None_iff starts_with_iff)

lemma trim_by_idem: "trim_by ws (trim_by ws s) = trim_by ws s"
proof -
  let ?t = "trim_start_by ws s"
  obtain p where p: "?t = trim_end_by ws ?t @ p" using trim_end_prefix by blast
  have "space_prefix ws (trim_end_by ws ?t @ p) = None"
    by (metis p trim_start_stops)
  then have "space_prefix ws (trim_end_by ws ?t) = None"
    by (rule space_prefix_None_prefix)
  then show ?thesis
    by (simp add: trim_by_def trim_start_none trim_end_idem)
qed

lemma space_prefix_Nil: "space_prefix ws [] = None"
  by (simp add: space_prefix_None_iff starts_with_iff)

lemma space_prefix_free:
  assumes "\<forall>c \<in> set s. P c" "\<forall>w \<in> set ws. \<exists>c \<in> set w. \<not> P c"
  shows "space_prefix ws s = None"
  using assms by (fastforce simp: space_prefix_None_iff starts_with_iff)

lemma trim_free:
  assumes "\<forall>c \<in> set s. P c" "\<forall>w \<in> set ws. \<exists>c \<in> set w. \<not> P c"
  shows "trim_by ws s = s"
  using space_prefix_free [OF assms] space_prefix_free [of "rev s" P "map rev ws"] assms
  by (simp add: trim_by_def trim_end_by_def trim_start_none)

lemma js_trim_Nil [simp]: "js_trim [] = []"
  by (simp add: js_trim_def trim_by_def trim_end_by_def trim_start_none space_prefix_Nil)

lemma js_trim_idem [simp]: "js_trim (js_trim s) = js_trim s"
  by (simp add: js_trim_def trim_by_idem)

lemma trim_by_infix: "\<exists>a b. s = a @ trim_by ws s @ b"
  unfolding trim_by_def by (metis append_assoc trim_end_prefix trim_start_suffix)

lemma set_js_trim: "set (js_trim s) \<subseteq> set s"
  using trim_by_infix [of s js_space]
  by (metis js_trim_def order_trans set_append sup_ge1 sup_ge2)

subsection \<open>Comma-separated input\<close>

text \<open>\<open>s.split(',').map(x => x.trim()).filter(Boolean)\<close>\<close>

definition comma_list :: "string \<Rightarrow> string list" where
  "comma_list s = filter (\<lambda>x. x \<noteq> []) (map js_trim (js_split '','' s))"

definition clean_items :: "string list \<Rightarrow> bool" where
  "clean_items xs \<longleftrightarrow> (\<forall>x \<in> set xs. x \<noteq> [] \<and> js_trim x = x \<and> CHR '','' \<notin> set x)"

lemma comma_list_clean: "clean_items (comma_list s)"
  using set_js_trim by (auto simp: clean_items_def comma_list_def dest!: js_split_char_pieces)

lemma comma_list_join:
  assumes "clean_items xs"
  shows "comma_list (js_join '','' xs) = xs"
proof (cases "xs = []")
  case True
  then show ?thesis by (simp add: comma_list_def js_split_def)
next
  case False
  with assms have "js_split '','' (js_join '','' xs) = xs"
    by (intro js_split_join_char) (auto simp: clean_items_def)
  moreover from assms have "map js_trim xs = xs"
    by (auto simp: clean_items_def intro: map_idI)
  moreover from assms have "filter (\<lambda>x. x \<noteq> []) xs = xs"
    by (intro filter_id_all) (auto simp: clean_items_def)
  ultimately show ?thesis by (simp add: comma_list_def)
qed

subsection \<open>Decimal numbers as text\<close>

fun show_nat :: "nat \<Rightarrow> string" where
  "show_nat n =
     (if n < 10 then [char_of (48 + n)]
      else show_nat (n div 10) @ [char_of (48 + n mod 10)])"

declare show_nat.simps [simp del]

definition show_int :: "int \<Rightarrow> string" where
  "show_int i = (if i < 0 then CHR ''-'' # show_nat (nat (- i)) else show_nat (nat i))"

lemma digit_chars [text_simps]:
  "char_of (48::nat) = CHR ''0''" "char_of (49::nat) = CHR ''1''" "char_of (50::nat) = CHR ''2''"
  "char_of (51::nat) = CHR ''3''" "char_of (52::nat) = CHR ''4''" "char_of (53::nat) = CHR ''5''"
  "char_of (54::nat) = CHR ''6''" "char_of (55::nat) = CHR ''7''" "char_of (56::nat) = CHR ''8''"
  "char_of (57::nat) = CHR ''9''"
  by code_simp+

lemmas show_eval [text_simps] = show_nat.simps show_int_def

definition digits_val :: "string \<Rightarrow> nat" where
  "digits_val s = foldl (\<lambda>a c. 10 * a + (code c - 48)) 0 s"

lemma is_digit_char_of: "(d::nat) < 10 \<Longrightarrow> is_digit (char_of (48 + d))"
  by (simp add: is_digit_def code_char_of)

lemma show_nat_digits: "\<forall>c \<in> set (show_nat n). is_digit c"
proof (induction n rule: show_nat.induct)
  case (1 n)
  then show ?case by (subst show_nat.simps) (simp add: is_digit_char_of)
qed

lemma show_nat_nonempty: "show_nat n \<noteq> []"
  by (subst show_nat.simps) simp

lemma digits_val_snoc: "digits_val (s @ [c]) = 10 * digits_val s + (code c - 48)"
  by (simp add: digits_val_def)

lemma digits_val_show: "digits_val (show_nat n) = n"
proof (induction n rule: show_nat.induct)
  case (1 n)
  show ?case
  proof (cases "n < 10")
    case True
    then show ?thesis
      by (subst show_nat.simps) (simp add: digits_val_def code_char_of)
  next
    case False
    with 1 show ?thesis
      by (subst show_nat.simps) (simp add: digits_val_snoc code_char_of)
  qed
qed

lemma show_nat_inject: "show_nat m = show_nat n \<longleftrightarrow> m = n"
  by (metis digits_val_show)

text \<open>No leading zero, except in zero itself.\<close>

lemma show_nat_hd: "n \<noteq> 0 \<Longrightarrow> hd (show_nat n) \<noteq> CHR ''0''"
proof (induction n rule: show_nat.induct)
  case (1 n)
  show ?case
  proof (cases "n < 10")
    case True
    have "code (char_of (48 + n)) \<noteq> code (CHR ''0'')"
      using True 1 by (simp add: code_char_of) (simp add: code_def)
    with True show ?thesis by (subst show_nat.simps) auto
  next
    case False
    with 1 have "hd (show_nat (n div 10)) \<noteq> CHR ''0''" by simp
    with False show ?thesis
      by (subst show_nat.simps) (simp add: show_nat_nonempty)
  qed
qed

lemma show_nat_zero: "show_nat 0 = ''0''"
proof -
  have "code (char_of (48::nat)) = code (CHR ''0'')"
    by (simp add: code_char_of) (simp add: code_def)
  then show ?thesis by (subst show_nat.simps) (simp add: code_inject)
qed

subsection \<open>Percent-encoding\<close>

definition unreserved :: "char \<Rightarrow> bool" where
  "unreserved c \<longleftrightarrow> is_alpha c \<or> is_digit c \<or> c \<in> set ''-_.!~*()'' \<or> code c = 39"

definition hex_digit :: "nat \<Rightarrow> char" where
  "hex_digit n = char_of (if n < 10 then 48 + n else 55 + n)"

definition hex_val :: "char \<Rightarrow> nat option" where
  "hex_val c = (let n = code c in
     if 48 \<le> n \<and> n \<le> 57 then Some (n - 48)
     else if 65 \<le> n \<and> n \<le> 70 then Some (n - 55)
     else if 97 \<le> n \<and> n \<le> 102 then Some (n - 87)
     else None)"

definition encode_char :: "char \<Rightarrow> string" where
  "encode_char c =
     (if unreserved c then [c]
      else [CHR ''%'', hex_digit (code c div 16), hex_digit (code c mod 16)])"

text \<open>\<open>encodeURIComponent(s)\<close>\<close>

definition encodeURIComponent :: "string \<Rightarrow> string" where
  "encodeURIComponent s = concat (map encode_char s)"

text \<open>Go's \<open>url.QueryUnescape\<close>: \<open>None\<close> is its error result.\<close>

fun query_unescape :: "string \<Rightarrow> string option" where
  "query_unescape [] = Some []"
| "query_unescape (c # cs) =
     (if c = CHR ''%'' then
        (case cs of
           h # l # r \<Rightarrow>
             (case (hex_val h, hex_val l) of
                (Some a, Some b) \<Rightarrow> map_option ((#) (char_of (16 * a + b))) (query_unescape r)
              | _ \<Rightarrow> None)
         | _ \<Rightarrow> None)
      else map_option ((#) (if c = CHR ''+'' then CHR '' '' else c)) (query_unescape cs))"

lemma hex_val_digit: "n < 16 \<Longrightarrow> hex_val (hex_digit n) = Some n"
  by (auto simp: hex_val_def hex_digit_def code_char_of Let_def)

lemma unreserved_plain:
  assumes "unreserved c"
  shows "c \<noteq> CHR ''%'' \<and> c \<noteq> CHR ''+'' \<and> c \<noteq> CHR ''&'' \<and> c \<noteq> CHR ''='' \<and> c \<noteq> CHR '';'' \<and> c \<noteq> CHR ''#'' \<and> c \<noteq> CHR ''?''"
  using assms by (auto simp: unreserved_def is_alpha_def is_digit_def code_def)

lemma query_unescape_encode_append:
  "query_unescape (encodeURIComponent s @ r) = map_option ((@) s) (query_unescape r)"
proof (induction s)
  case (Cons c s)
  have "16 * (code c div 16) + code c mod 16 = code c" by simp
  moreover have "char_of (code c) = c" by (simp add: code_def)
  moreover have "code c div 16 < 16" using code_less [of c] by simp
  ultimately show ?case
    using Cons unreserved_plain [of c]
    by (auto simp: encodeURIComponent_def encode_char_def hex_val_digit option.map_comp comp_def)
qed (simp add: encodeURIComponent_def option.map_ident)

lemma query_unescape_encode: "query_unescape (encodeURIComponent s) = Some s"
  using query_unescape_encode_append [of s "[]"] by simp

text \<open>No character that structures a query string survives in an encoded component.\<close>

lemma hex_digit_plain: "n < 16 \<Longrightarrow> hex_digit n \<notin> set ''&=;#?''"
proof -
  assume "n < 16"
  then have "48 \<le> code (hex_digit n) \<and> code (hex_digit n) \<le> 57 \<or>
      65 \<le> code (hex_digit n) \<and> code (hex_digit n) \<le> 70"
    by (auto simp: hex_digit_def code_char_of)
  then show ?thesis by (auto simp: code_def)
qed

lemma encode_char_plain: "set (encode_char c) \<inter> set ''&=;#?'' = {}"
proof (cases "unreserved c")
  case True
  then show ?thesis using unreserved_plain [of c] by (auto simp: encode_char_def)
next
  case False
  have "code c div 16 < 16" using code_less [of c] by simp
  with False show ?thesis
    using hex_digit_plain [of "code c div 16"] hex_digit_plain [of "code c mod 16"]
    by (auto simp: encode_char_def)
qed

lemma encode_plain: "set (encodeURIComponent s) \<inter> set ''&=;#?'' = {}"
  using encode_char_plain by (fastforce simp: encodeURIComponent_def)

subsection \<open>The text encodings as codecs\<close>

interpretation url_codec: codec encodeURIComponent query_unescape "\<lambda>_. True"
  by unfold_locales (rule query_unescape_encode)

interpretation comma_codec: codec "js_join '',''" "\<lambda>s. Some (comma_list s)" clean_items
  by unfold_locales (simp add: comma_list_join)

end
