(* ===== verification/JSON.thy ===== *)
theory JSON
  imports Complex_Main JS_Text
begin

text \<open>
  JavaScript values that come from or go into JSON, and \<open>JSON.parse\<close> and
  \<open>JSON.stringify\<close> on them. A value of type \<open>json option\<close> is a JavaScript
  value, with \<open>None\<close> for \<open>undefined\<close>. Numbers are exact rationals: rounding to
  doubles is not modelled (the back end's numbers and the ports, intervals and counts of
  the forms are integers). Unpaired surrogate escapes are rejected by the parser here.
\<close>

datatype json =
    JNull
  | JBool bool
  | JNum rat
  | JStr string
  | JArr "json list"
  | JObj "(string \<times> json) list"

type_synonym jsval = "json option"

text \<open>What a JavaScript computation throws. \<open>Thrown m\<close> is \<open>new Error(m)\<close>.\<close>

datatype exn = TypeError | SyntaxError | NetworkError | Thrown string

fun truthy :: "jsval \<Rightarrow> bool" where
  "truthy None = False"
| "truthy (Some JNull) = False"
| "truthy (Some (JBool b)) = b"
| "truthy (Some (JNum r)) = (r \<noteq> 0)"
| "truthy (Some (JStr s)) = (s \<noteq> [])"
| "truthy (Some _) = True"

text \<open>Property access \<open>v.k\<close>: an error on \<open>undefined\<close> and \<open>null\<close>.\<close>

fun get_prop :: "jsval \<Rightarrow> string \<Rightarrow> exn + jsval" where
  "get_prop None k = Inl TypeError"
| "get_prop (Some JNull) k = Inl TypeError"
| "get_prop (Some (JObj kvs)) k = Inr (map_of kvs k)"
| "get_prop (Some _) k = Inr None"

text \<open>\<open>v?.includes(sub)\<close>: only strings and arrays have the method.\<close>

fun opt_includes :: "jsval \<Rightarrow> string \<Rightarrow> exn + bool" where
  "opt_includes None sub = Inr False"
| "opt_includes (Some JNull) sub = Inr False"
| "opt_includes (Some (JStr s)) sub = Inr (js_includes s sub)"
| "opt_includes (Some (JArr xs)) sub = Inr (JStr sub \<in> set xs)"
| "opt_includes (Some _) sub = Inl TypeError"

text \<open>\<open>v?.k\<close>, and \<open>v.k\<close> for a \<open>v\<close> known not to be null or undefined.\<close>

definition opt_prop :: "jsval \<Rightarrow> string \<Rightarrow> jsval" where
  "opt_prop v k = (case get_prop v k of Inl _ \<Rightarrow> None | Inr x \<Rightarrow> x)"

definition field :: "json \<Rightarrow> string \<Rightarrow> jsval" where
  "field u k = opt_prop (Some u) k"

text \<open>\<open>a || b\<close> and \<open>a ?? b\<close>\<close>

definition js_or :: "jsval \<Rightarrow> jsval \<Rightarrow> jsval" where
  "js_or a b = (if truthy a then a else b)"

definition coalesce :: "jsval \<Rightarrow> jsval \<Rightarrow> jsval" where
  "coalesce a b = (if a = None \<or> a = Some JNull then b else a)"

text \<open>A chain of property reads \<open>v.k1.k2\<close>.\<close>

fun get_path :: "jsval \<Rightarrow> string list \<Rightarrow> exn + jsval" where
  "get_path v [] = Inr v"
| "get_path v (k # ks) = (case get_prop v k of Inl e \<Rightarrow> Inl e | Inr x \<Rightarrow> get_path x ks)"

subsection \<open>Numbers and strings as text\<close>

fun frac_digits :: "nat \<Rightarrow> rat \<Rightarrow> string" where
  "frac_digits 0 r = []"
| "frac_digits (Suc n) r =
     (if r = 0 then []
      else char_of (48 + nat \<lfloor>10 * r\<rfloor>) # frac_digits n (10 * r - of_int \<lfloor>10 * r\<rfloor>))"

definition show_num :: "rat \<Rightarrow> string" where
  "show_num r =
     (if r = of_int \<lfloor>r\<rfloor> then show_int \<lfloor>r\<rfloor>
      else (if r < 0 then ''-'' else []) @ show_nat (nat \<lfloor>\<bar>r\<bar>\<rfloor>) @ ''.'' @
           frac_digits 17 (\<bar>r\<bar> - of_int \<lfloor>\<bar>r\<bar>\<rfloor>))"

text \<open>\<open>String(v)\<close>, as in template literals.\<close>

fun to_str :: "json \<Rightarrow> string" where
  "to_str JNull = ''null''"
| "to_str (JBool b) = (if b then ''true'' else ''false'')"
| "to_str (JNum r) = show_num r"
| "to_str (JStr s) = s"
| "to_str (JArr xs) = js_join '','' (map (\<lambda>x. if x = JNull then [] else to_str x) xs)"
| "to_str (JObj kvs) = ''[object Object]''"

definition js_string :: "jsval \<Rightarrow> string" where
  "js_string v = (case v of None \<Rightarrow> ''undefined'' | Some j \<Rightarrow> to_str j)"

definition lower_hex :: "nat \<Rightarrow> char" where
  "lower_hex n = char_of (if n < 10 then 48 + n else 87 + n)"

definition escape_char :: "char \<Rightarrow> string" where
  "escape_char c = (let n = code c in
     if n = 34 then [char_of (92::nat), char_of (34::nat)]
     else if n = 92 then [char_of (92::nat), char_of (92::nat)]
     else if n = 8 then [char_of (92::nat), CHR ''b'']
     else if n = 9 then [char_of (92::nat), CHR ''t'']
     else if n = 10 then [char_of (92::nat), CHR ''n'']
     else if n = 12 then [char_of (92::nat), CHR ''f'']
     else if n = 13 then [char_of (92::nat), CHR ''r'']
     else if n < 32 then char_of (92::nat) # ''u00'' @ [lower_hex (n div 16), lower_hex (n mod 16)]
     else [c])"

definition quote_str :: "string \<Rightarrow> string" where
  "quote_str s = char_of (34::nat) # concat (map escape_char s) @ [char_of (34::nat)]"

text \<open>\<open>JSON.stringify(v)\<close>\<close>

fun stringify :: "json \<Rightarrow> string" where
  "stringify JNull = ''null''"
| "stringify (JBool b) = (if b then ''true'' else ''false'')"
| "stringify (JNum r) = show_num r"
| "stringify (JStr s) = quote_str s"
| "stringify (JArr xs) = ''['' @ js_join '','' (map stringify xs) @ '']''"
| "stringify (JObj kvs) =
     ''{'' @ js_join '','' (map (\<lambda>(k, v). quote_str k @ '':'' @ stringify v) kvs) @ ''}''"

subsection \<open>The parser\<close>

definition skip_ws :: "string \<Rightarrow> string" where
  "skip_ws s = dropWhile (\<lambda>c. code c \<in> {9, 10, 13, 32}) s"

text \<open>The UTF-8 form of a code point.\<close>

definition utf8 :: "nat \<Rightarrow> string" where
  "utf8 n =
     (if n < 0x80 then [char_of n]
      else if n < 0x800 then [char_of (0xC0 + n div 64), char_of (0x80 + n mod 64)]
      else if n < 0x10000 then
        [char_of (0xE0 + n div 4096), char_of (0x80 + n div 64 mod 64), char_of (0x80 + n mod 64)]
      else
        [char_of (0xF0 + n div 262144), char_of (0x80 + n div 4096 mod 64),
         char_of (0x80 + n div 64 mod 64), char_of (0x80 + n mod 64)])"

fun hex4 :: "string \<Rightarrow> (nat \<times> string) option" where
  "hex4 (a # b # c # d # r) =
     (case (hex_val a, hex_val b, hex_val c, hex_val d) of
        (Some w, Some x, Some y, Some z) \<Rightarrow> Some (4096 * w + 256 * x + 16 * y + z, r)
      | _ \<Rightarrow> None)"
| "hex4 _ = None"

text \<open>A \<open>\\u\<close> escape, after the \<open>u\<close>: a surrogate pair is one code point.\<close>

definition unicode_escape :: "string \<Rightarrow> (string \<times> string) option" where
  "unicode_escape s =
     (case hex4 s of
        None \<Rightarrow> None
      | Some (n, r) \<Rightarrow>
          if n < 0xD800 \<or> 0xDFFF < n then Some (utf8 n, r)
          else if 0xDBFF < n then None
          else (case r of
                  b # u # r' \<Rightarrow>
                    if code b = 92 \<and> u = CHR ''u'' then
                      (case hex4 r' of
                         Some (m, r'') \<Rightarrow>
                           if 0xDC00 \<le> m \<and> m \<le> 0xDFFF
                           then Some (utf8 (0x10000 + 1024 * (n - 0xD800) + (m - 0xDC00)), r'')
                           else None
                       | None \<Rightarrow> None)
                    else None
                | _ \<Rightarrow> None))"

definition simple_escape :: "char \<Rightarrow> char option" where
  "simple_escape c = (let n = code c in
     if n = 34 \<or> n = 92 \<or> n = 47 then Some c
     else if c = CHR ''b'' then Some (char_of (8::nat))
     else if c = CHR ''t'' then Some (char_of (9::nat))
     else if c = CHR ''n'' then Some (char_of (10::nat))
     else if c = CHR ''f'' then Some (char_of (12::nat))
     else if c = CHR ''r'' then Some (char_of (13::nat))
     else None)"

lemma hex4_length: "hex4 s = Some (n, r) \<Longrightarrow> length r < length s"
  by (cases s rule: hex4.cases) (auto split: option.splits)

lemma unicode_escape_length: "unicode_escape s = Some (x, r) \<Longrightarrow> length r < length s"
  by (auto simp: unicode_escape_def split: option.splits list.splits if_splits dest!: hex4_length)

text \<open>The characters of a string literal, after its opening quote.\<close>

function parse_chars :: "string \<Rightarrow> (string \<times> string) option" where
  "parse_chars [] = None"
| "parse_chars (c # cs) =
     (if code c = 34 then Some ([], cs)
      else if code c < 32 then None
      else if code c = 92 then
        (case cs of
           [] \<Rightarrow> None
         | e # r \<Rightarrow>
             if e = CHR ''u'' then
               (case unicode_escape r of
                  None \<Rightarrow> None
                | Some (u, r') \<Rightarrow> map_option (\<lambda>(x, y). (u @ x, y)) (parse_chars r'))
             else
               (case simple_escape e of
                  None \<Rightarrow> None
                | Some d \<Rightarrow> map_option (\<lambda>(x, y). (d # x, y)) (parse_chars r)))
      else map_option (\<lambda>(x, y). (c # x, y)) (parse_chars cs))"
  by pat_completeness auto
termination
  by (relation "measure length") (auto dest!: unicode_escape_length)

definition take_digits :: "string \<Rightarrow> string \<times> string" where
  "take_digits s = (takeWhile is_digit s, dropWhile is_digit s)"

definition parse_frac :: "string \<Rightarrow> (rat \<times> string) option" where
  "parse_frac s =
     (case s of
        c # r \<Rightarrow>
          if c = CHR ''.'' then
            (case take_digits r of (ds, r') \<Rightarrow>
               if ds = [] then None
               else Some (of_nat (digits_val ds) / 10 ^ length ds, r'))
          else Some (0, s)
      | [] \<Rightarrow> Some (0, s))"

definition parse_exp :: "string \<Rightarrow> (rat \<times> string) option" where
  "parse_exp s =
     (case s of
        c # r \<Rightarrow>
          if c = CHR ''e'' \<or> c = CHR ''E'' then
            (let neg = (r \<noteq> [] \<and> hd r = CHR ''-'');
                 r1 = (if r \<noteq> [] \<and> (hd r = CHR ''-'' \<or> hd r = CHR ''+'') then tl r else r);
                 (ds, r') = take_digits r1
             in if ds = [] then None
                else Some (if neg then 1 / 10 ^ digits_val ds else 10 ^ digits_val ds, r'))
          else Some (1, s)
      | [] \<Rightarrow> Some (1, s))"

definition parse_num :: "string \<Rightarrow> (rat \<times> string) option" where
  "parse_num s =
     (let neg = (s \<noteq> [] \<and> hd s = CHR ''-'');
          (ds, r) = take_digits (if neg then tl s else s)
      in if ds = [] \<or> (hd ds = CHR ''0'' \<and> 1 < length ds) then None
         else case parse_frac r of
                None \<Rightarrow> None
              | Some (f, r') \<Rightarrow>
                  (case parse_exp r' of
                     None \<Rightarrow> None
                   | Some (e, r'') \<Rightarrow>
                       Some ((if neg then - 1 else 1) * (of_nat (digits_val ds) + f) * e, r'')))"

text \<open>
  Values, array elements and object members. Every call spends one unit of fuel; two
  units per character are enough, since each pair of nested calls consumes a character.
\<close>

fun parse_value :: "nat \<Rightarrow> string \<Rightarrow> (json \<times> string) option"
  and parse_elems :: "nat \<Rightarrow> string \<Rightarrow> (json list \<times> string) option"
  and parse_members :: "nat \<Rightarrow> string \<Rightarrow> ((string \<times> json) list \<times> string) option"
where
  "parse_value 0 s = None"
| "parse_value (Suc n) s =
     (case skip_ws s of
        [] \<Rightarrow> None
      | c # cs \<Rightarrow>
          if code c = 34 then map_option (\<lambda>(x, r). (JStr x, r)) (parse_chars cs)
          else if c = CHR ''['' then
            (if starts_with '']'' (skip_ws cs) then Some (JArr [], tl (skip_ws cs))
             else map_option (\<lambda>(xs, r). (JArr xs, r)) (parse_elems n cs))
          else if c = CHR ''{'' then
            (if starts_with ''}'' (skip_ws cs) then Some (JObj [], tl (skip_ws cs))
             else map_option (\<lambda>(kvs, r). (JObj (obj_spread [] kvs), r)) (parse_members n cs))
          else if starts_with ''null'' (c # cs) then Some (JNull, drop 4 (c # cs))
          else if starts_with ''true'' (c # cs) then Some (JBool True, drop 4 (c # cs))
          else if starts_with ''false'' (c # cs) then Some (JBool False, drop 5 (c # cs))
          else map_option (\<lambda>(x, r). (JNum x, r)) (parse_num (c # cs)))"
| "parse_elems 0 s = None"
| "parse_elems (Suc n) s =
     (case parse_value n s of
        None \<Rightarrow> None
      | Some (v, r) \<Rightarrow>
          (case skip_ws r of
             [] \<Rightarrow> None
           | c # r' \<Rightarrow>
               if c = CHR '','' then map_option (\<lambda>(vs, q). (v # vs, q)) (parse_elems n r')
               else if c = CHR '']'' then Some ([v], r')
               else None))"
| "parse_members 0 s = None"
| "parse_members (Suc n) s =
     (case skip_ws s of
        [] \<Rightarrow> None
      | q # cs \<Rightarrow>
          if code q \<noteq> 34 then None
          else case parse_chars cs of
                 None \<Rightarrow> None
               | Some (k, r) \<Rightarrow>
                   (case skip_ws r of
                      [] \<Rightarrow> None
                    | c # r1 \<Rightarrow>
                        if c \<noteq> CHR '':'' then None
                        else case parse_value n r1 of
                               None \<Rightarrow> None
                             | Some (v, r2) \<Rightarrow>
                                 (case skip_ws r2 of
                                    [] \<Rightarrow> None
                                  | d # r3 \<Rightarrow>
                                      if d = CHR '','' then
                                        map_option (\<lambda>(kvs, z). ((k, v) # kvs, z)) (parse_members n r3)
                                      else if d = CHR ''}'' then Some ([(k, v)], r3)
                                      else None)))"

text \<open>\<open>JSON.parse(s)\<close>: \<open>None\<close> is the thrown \<open>SyntaxError\<close>.\<close>

definition json_parse :: "string \<Rightarrow> json option" where
  "json_parse s =
     (case parse_value (2 * length s + 2) s of
        None \<Rightarrow> None
      | Some (v, r) \<Rightarrow> if skip_ws r = [] then Some v else None)"

subsection \<open>Parsing what stringify prints\<close>

lemma code_lits [simp]:
  "code CHR ''u'' = 117" "code CHR ''b'' = 98" "code CHR ''t'' = 116" "code CHR ''n'' = 110"
  "code CHR ''f'' = 102" "code CHR ''r'' = 114" "code CHR ''['' = 91" "code CHR ''{'' = 123"
  "code CHR '']'' = 93" "code CHR ''}'' = 125" "code CHR '','' = 44" "code CHR '':'' = 58"
  "code CHR ''-'' = 45" "code CHR ''+'' = 43" "code CHR ''.'' = 46" "code CHR ''e'' = 101"
  "code CHR ''E'' = 69" "code CHR ''0'' = 48"
  by (simp_all add: code_def)

lemma hex_val_lower: "n < 16 \<Longrightarrow> hex_val (lower_hex n) = Some n"
  by (auto simp: hex_val_def lower_hex_def code_char_of Let_def)

lemma char_of_code [simp]: "char_of (code c) = c"
  by (simp add: code_def)

lemma code_eqD: "code c = n \<Longrightarrow> c = char_of n"
  by (metis char_of_code)

lemma parse_control_escape:
  assumes "code c < 32"
  shows "unicode_escape (''00'' @ [lower_hex (code c div 16), lower_hex (code c mod 16)] @ r) = Some ([c], r)"
proof -
  have "hex_val (CHR ''0'') = Some 0" by (simp add: hex_val_def)
  moreover have "hex_val (lower_hex (code c div 16)) = Some (code c div 16)"
    using assms by (intro hex_val_lower) simp
  moreover have "hex_val (lower_hex (code c mod 16)) = Some (code c mod 16)"
    by (intro hex_val_lower) simp
  ultimately show ?thesis
    using assms by (simp add: unicode_escape_def utf8_def)
qed

lemma quote_not_u: "char_of (34::nat) \<noteq> CHR ''u''" "char_of (92::nat) \<noteq> CHR ''u''"
  by (simp_all add: code_inject [symmetric] code_char_of)

lemma parse_chars_escape:
  "parse_chars (escape_char c @ r) = map_option (\<lambda>(x, y). (c # x, y)) (parse_chars r)"
proof -
  consider "code c < 32" "code c \<notin> {8, 9, 10, 12, 13}" | "code c \<in> {8, 9, 10, 12, 13}"
    | "code c = 34" | "code c = 92" | "32 \<le> code c" "code c \<noteq> 34" "code c \<noteq> 92" by force
  then show ?thesis
  proof cases
    case 1
    then show ?thesis using parse_control_escape [of c r]
      by (simp add: escape_char_def Let_def code_char_of)
  next
    case 2
    then have "c = char_of (8::nat) \<or> c = char_of (9::nat) \<or> c = char_of (10::nat) \<or>
        c = char_of (12::nat) \<or> c = char_of (13::nat)"
      by (auto dest: code_eqD)
    then show ?thesis
      by (elim disjE) (simp_all add: escape_char_def simple_escape_def Let_def code_char_of)
  next
    case 3
    then have "c = char_of (34::nat)" by (auto dest: code_eqD)
    then show ?thesis
      by (simp add: escape_char_def simple_escape_def Let_def code_char_of quote_not_u)
  next
    case 4
    then have "c = char_of (92::nat)" by (auto dest: code_eqD)
    then show ?thesis
      by (simp add: escape_char_def simple_escape_def Let_def code_char_of quote_not_u)
  next
    case 5
    then show ?thesis by (simp add: escape_char_def Let_def)
  qed
qed

lemma parse_chars_quoted:
  "parse_chars (concat (map escape_char s) @ char_of (34::nat) # r) = Some (s, r)"
  by (induction s) (simp_all add: parse_chars_escape code_char_of)

text \<open>A number ends where the text that follows does not continue it.\<close>

definition num_end :: "string \<Rightarrow> bool" where
  "num_end r \<longleftrightarrow> r = [] \<or> \<not> (is_digit (hd r) \<or> hd r \<in> set ''.eE'')"

lemma take_digits_show:
  "num_end r \<Longrightarrow> take_digits (show_nat n @ r) = (show_nat n, r)"
  using show_nat_digits [of n]
  by (cases r) (auto simp: take_digits_def num_end_def takeWhile_append_stop)

lemma show_nat_canonical: "hd (show_nat n) = CHR ''0'' \<Longrightarrow> length (show_nat n) = 1"
  using show_nat_hd [of n] by (cases "n = 0") (simp_all add: show_nat_zero)

lemma hd_show_nat_not_minus: "hd (show_nat n) \<noteq> CHR ''-''"
  using show_nat_digits [of n] show_nat_nonempty [of n]
  by (cases "show_nat n") (auto simp: is_digit_def)

lemma parse_frac_exp_end: "num_end r \<Longrightarrow> parse_frac r = Some (0, r) \<and> parse_exp r = Some (1, r)"
  by (cases r) (auto simp: parse_frac_def parse_exp_def num_end_def)

lemma parse_num_show_int:
  assumes "num_end r"
  shows "parse_num (show_int i @ r) = Some (of_int i, r)"
proof (cases "i < 0")
  case True
  have "of_nat (nat (- i)) = (of_int (- i) :: rat)" using True by (simp add: of_nat_nat)
  with True assms show ?thesis
    using take_digits_show [OF assms, of "nat (- i)"] parse_frac_exp_end [OF assms]
      show_nat_canonical [of "nat (- i)"]
    by (auto simp: show_int_def parse_num_def show_nat_nonempty digits_val_show)
next
  case False
  have "of_nat (nat i) = (of_int i :: rat)" using False by (simp add: of_nat_nat)
  with False assms show ?thesis
    using take_digits_show [OF assms, of "nat i"] parse_frac_exp_end [OF assms]
      show_nat_canonical [of "nat i"] hd_show_nat_not_minus [of "nat i"]
    by (auto simp: show_int_def parse_num_def show_nat_nonempty digits_val_show)
qed

text \<open>
  The values the round trip holds for: integral numbers and objects without repeated
  keys, which is what the program builds and the back end sends.
\<close>

fun plain_json :: "json \<Rightarrow> bool" where
  "plain_json (JNum r) = (r = of_int \<lfloor>r\<rfloor>)"
| "plain_json (JArr xs) = (\<forall>x \<in> set xs. plain_json x)"
| "plain_json (JObj kvs) = (distinct (map fst kvs) \<and> (\<forall>kv \<in> set kvs. plain_json (snd kv)))"
| "plain_json _ = True"

definition value_start :: "string \<Rightarrow> bool" where
  "value_start s \<longleftrightarrow> s \<noteq> [] \<and> code (hd s) \<notin> {9, 10, 13, 32, 93, 125, 44}"

lemma skip_ws_id: "s = [] \<or> code (hd s) \<notin> {9, 10, 13, 32} \<Longrightarrow> skip_ws s = s"
  by (cases s) (auto simp: skip_ws_def)

lemma value_start_show_nat: "value_start (show_nat n)"
  using show_nat_digits [of n] show_nat_nonempty [of n]
  by (cases "show_nat n") (auto simp: value_start_def is_digit_def)

lemma value_start_stringify: "plain_json v \<Longrightarrow> value_start (stringify v)"
  using value_start_show_nat
  by (cases v) (auto simp: show_num_def show_int_def quote_str_def code_char_of value_start_def)

lemma value_start_append: "value_start s \<Longrightarrow> value_start (s @ r)"
  by (cases s) (auto simp: value_start_def)

lemma skip_ws_value: "value_start s \<Longrightarrow> skip_ws (s @ r) = s @ r"
  by (rule skip_ws_id) (cases s, auto simp: value_start_def)

lemma hd_stringify:
  assumes "plain_json v"
  shows "(code (hd (stringify v)) = 34 \<longleftrightarrow> (\<exists>s. v = JStr s)) \<and>
    (hd (stringify v) = CHR ''['' \<longleftrightarrow> (\<exists>xs. v = JArr xs)) \<and>
    (hd (stringify v) = CHR ''{'' \<longleftrightarrow> (\<exists>kvs. v = JObj kvs))"
proof (cases v)
  case (JNum r)
  have "is_digit (hd (show_nat n)) " for n
    using show_nat_digits [of n] show_nat_nonempty [of n] by (cases "show_nat n") auto
  then have d: "48 \<le> code (hd (show_nat n)) \<and> code (hd (show_nat n)) \<le> 57" for n
    by (simp add: is_digit_def)
  have "code (hd (stringify v)) \<in> {45} \<union> {48..57}"
    using assms JNum d by (auto simp: show_num_def show_int_def)
  with JNum show ?thesis by auto
next
  case (JStr s)
  then have "code (hd (stringify v)) = 34" by (simp add: quote_str_def code_char_of)
  with JStr show ?thesis by auto
qed (auto simp: code_def)

lemma parse_elems_join:
  assumes "\<forall>x \<in> set xs. \<forall>n r. 2 * length (stringify x) \<le> n \<longrightarrow> num_end r \<longrightarrow>
      parse_value n (stringify x @ r) = Some (x, r)"
    and "xs \<noteq> []" and "2 * length (js_join '','' (map stringify xs)) + 1 \<le> n"
  shows "parse_elems n (js_join '','' (map stringify xs) @ '']'' @ r) = Some (xs, r)"
  using assms
proof (induction xs arbitrary: n)
  case (Cons x xs)
  then obtain m where n: "n = Suc m" by (cases n) auto
  show ?case
  proof (cases "xs = []")
    case True
    then have "parse_value m (stringify x @ '']'' @ r) = Some (x, '']'' @ r)"
      using Cons.prems n by (auto simp: num_end_def is_digit_def)
    with True n show ?thesis by (simp add: skip_ws_id)
  next
    case False
    let ?j = "js_join '','' (map stringify xs)"
    have j: "js_join '','' (map stringify (x # xs)) = stringify x @ '','' @ ?j"
      using False by (simp add: js_join_Cons)
    have "parse_value m (stringify x @ '','' @ ?j @ '']'' @ r) = Some (x, '','' @ ?j @ '']'' @ r)"
      using Cons.prems n j by (auto simp: num_end_def is_digit_def)
    moreover have "parse_elems m (?j @ '']'' @ r) = Some (xs, r)"
      using Cons.IH [of m] Cons.prems n j False by auto
    ultimately show ?thesis using n j by (simp add: skip_ws_id)
  qed
qed simp

lemma parse_members_join:
  assumes "\<forall>kv \<in> set kvs. \<forall>n r. 2 * length (stringify (snd kv)) \<le> n \<longrightarrow> num_end r \<longrightarrow>
      parse_value n (stringify (snd kv) @ r) = Some (snd kv, r)"
    and "kvs \<noteq> []"
    and "2 * length (js_join '','' (map (\<lambda>(k, v). quote_str k @ '':'' @ stringify v) kvs)) + 1 \<le> n"
  shows "parse_members n (js_join '','' (map (\<lambda>(k, v). quote_str k @ '':'' @ stringify v) kvs) @ ''}'' @ r)
    = Some (kvs, r)"
  using assms
proof (induction kvs arbitrary: n)
  case (Cons kv kvs)
  obtain k v where kv: "kv = (k, v)" by (cases kv)
  obtain m where n: "n = Suc m" using Cons.prems by (cases n) auto
  let ?m = "\<lambda>(k, v). quote_str k @ '':'' @ stringify v"
  let ?q = "char_of (34::nat)"
  have pc: "parse_chars (concat (map escape_char k) @ ?q # t) = Some (k, t)" for t
    by (rule parse_chars_quoted)
  have q: "skip_ws (?q # t) = ?q # t" for t by (simp add: skip_ws_id code_char_of)
  show ?case
  proof (cases "kvs = []")
    case True
    then have "parse_value m (stringify v @ ''}'' @ r) = Some (v, ''}'' @ r)"
      using Cons.prems n kv by (auto simp: num_end_def is_digit_def)
    with True n kv show ?thesis by (simp add: quote_str_def q pc skip_ws_id code_char_of)
  next
    case False
    let ?j = "js_join '','' (map ?m kvs)"
    have j: "js_join '','' (map ?m (kv # kvs)) = quote_str k @ '':'' @ stringify v @ '','' @ ?j"
      using False kv by (simp add: js_join_Cons)
    have "parse_value m (stringify v @ '','' @ ?j @ ''}'' @ r) = Some (v, '','' @ ?j @ ''}'' @ r)"
      using Cons.prems n j kv by (auto simp: num_end_def is_digit_def)
    moreover have "parse_members m (?j @ ''}'' @ r) = Some (kvs, r)"
      using Cons.IH [of m] Cons.prems n j False by auto
    ultimately show ?thesis using n j kv by (simp add: quote_str_def q pc skip_ws_id code_char_of)
  qed
qed simp

lemma parse_value_num:
  assumes "r = of_int i" and "num_end t" and "0 < n"
  shows "parse_value n (stringify (JNum r) @ t) = Some (JNum r, t)"
proof -
  obtain m where m: "n = Suc m" using assms by (cases n) auto
  have p: "plain_json (JNum r)" using assms by simp
  let ?s = "stringify (JNum r)"
  have s: "?s = show_int i" using assms by (simp add: show_num_def)
  have vs: "value_start ?s" using p by (rule value_start_stringify)
  obtain c cs where c: "?s = c # cs" using vs by (cases ?s) (auto simp: value_start_def)
  have "code c \<noteq> 34 \<and> c \<noteq> CHR ''['' \<and> c \<noteq> CHR ''{''" using hd_stringify [OF p] c by auto
  moreover have "CHR ''n'' \<noteq> c \<and> CHR ''t'' \<noteq> c \<and> CHR ''f'' \<noteq> c"
  proof -
    have "c = CHR ''-'' \<or> is_digit c"
      using c s show_nat_digits [of "nat i"]
      by (cases "i < 0") (auto simp: show_int_def dest!: arg_cong [where f = set])
    then show ?thesis by (auto simp: is_digit_def)
  qed
  moreover have "skip_ws (?s @ t) = ?s @ t" using vs by (rule skip_ws_value)
  moreover have "parse_num (?s @ t) = Some (r, t)"
    using parse_num_show_int [OF assms(2), of i] s assms(1) by simp
  ultimately show ?thesis using c m by simp
qed

lemma starts_elem: "value_start s \<Longrightarrow> \<not> starts_with '']'' (skip_ws (s @ t)) \<and> \<not> starts_with ''}'' (skip_ws (s @ t))"
  by (cases s) (auto simp: value_start_def skip_ws_def)

lemma value_start_join: "value_start x \<Longrightarrow> value_start (js_join sep (x # xs))"
  by (cases xs) (auto simp: value_start_append)

lemma parse_value_stringify:
  "plain_json v \<Longrightarrow> 2 * length (stringify v) \<le> n \<Longrightarrow> num_end r \<Longrightarrow>
     parse_value n (stringify v @ r) = Some (v, r)"
proof (induction v arbitrary: n r)
  case (JNum x)
  then have "0 < length (stringify (JNum x))"
    using value_start_stringify [of "JNum x"] by (auto simp: value_start_def)
  with JNum.prems(2) have "0 < n" by linarith
  with JNum show ?case by (intro parse_value_num) auto
next
  case (JArr xs)
  let ?j = "js_join '','' (map stringify xs)"
  from JArr.prems obtain m where m: "n = Suc m" by (cases n) auto
  show ?case
  proof (cases xs)
    case Nil
    with m show ?thesis by (simp add: skip_ws_id)
  next
    case (Cons y ys)
    have "parse_elems m (?j @ '']'' @ r) = Some (xs, r)"
      using JArr m Cons by (intro parse_elems_join) auto
    moreover have "value_start ?j"
      using JArr.prems(1) Cons value_start_join [OF value_start_stringify [of y]] by simp
    ultimately show ?thesis using m starts_elem [of ?j "'']'' @ r"] by (simp add: skip_ws_id)
  qed
next
  case (JObj kvs)
  let ?j = "js_join '','' (map (\<lambda>(k, v). quote_str k @ '':'' @ stringify v) kvs)"
  from JObj.prems obtain m where m: "n = Suc m" by (cases n) auto
  show ?case
  proof (cases kvs)
    case Nil
    with m show ?thesis by (simp add: skip_ws_id)
  next
    case (Cons kv kvs')
    have IH: "\<forall>kv \<in> set kvs. \<forall>n r. 2 * length (stringify (snd kv)) \<le> n \<longrightarrow> num_end r \<longrightarrow>
        parse_value n (stringify (snd kv) @ r) = Some (snd kv, r)"
      using JObj by (fastforce simp: snds.simps)
    then have "parse_members m (?j @ ''}'' @ r) = Some (kvs, r)"
      using JObj.prems m Cons by (intro parse_members_join) auto
    moreover have "value_start (quote_str k @ t)" for k t
      by (simp add: value_start_def quote_str_def code_char_of)
    then have "value_start ?j" using Cons by (cases kv) (auto intro: value_start_join)
    moreover have "obj_spread [] kvs = kvs"
      using JObj.prems by (intro obj_spread_Nil_id) simp
    ultimately show ?thesis using m starts_elem [of ?j "''}'' @ r"] by (simp add: skip_ws_id)
  qed
next
  case (JStr s)
  then obtain m where "n = Suc m" by (cases n) (auto simp: quote_str_def)
  then show ?case by (simp add: quote_str_def skip_ws_id code_char_of parse_chars_quoted)
next
  case JNull
  then obtain m where "n = Suc m" by (cases n) auto
  then show ?case by (simp add: skip_ws_id)
next
  case (JBool b)
  then obtain m where "n = Suc m" by (cases n) (auto split: if_splits)
  then show ?case by (simp add: skip_ws_id)
qed

text \<open>\<open>JSON.parse(JSON.stringify(v))\<close> is \<open>v\<close>.\<close>

lemma json_parse_stringify: "plain_json v \<Longrightarrow> json_parse (stringify v) = Some v"
  using parse_value_stringify [of v "2 * length (stringify v) + 2" "[]"]
  by (simp add: json_parse_def num_end_def skip_ws_def)

interpretation json_codec: codec stringify json_parse plain_json
  by unfold_locales (rule json_parse_stringify)

end
