(* ===== verification/Types.thy ===== *)
theory Types
  imports JSON
begin

text \<open>
  The interfaces of \<open>web/src/types/index.ts\<close>. TypeScript types have no run-time
  form: an interface is modelled as a description of an object's fields, and
  \<open>conforms\<close> decides whether a JSON value has the described shape. An object may
  hold more fields than its interface names, as in TypeScript.
\<close>

datatype ty =
    TString
  | TNumber
  | TBoolean
  | TLiteral "string list"     \<comment> \<open>a union of string literals\<close>
  | TNullable ty               \<comment> \<open>\<open>t | null\<close>\<close>
  | TArray ty
  | TRecord ty                 \<comment> \<open>\<open>Record<string, t>\<close>\<close>
  | TObject "(string \<times> bool \<times> ty) list"  \<comment> \<open>name, required, type\<close>
  | TAny

fun conforms :: "ty \<Rightarrow> json \<Rightarrow> bool" where
  "conforms TString v = (case v of JStr _ \<Rightarrow> True | _ \<Rightarrow> False)"
| "conforms TNumber v = (case v of JNum _ \<Rightarrow> True | _ \<Rightarrow> False)"
| "conforms TBoolean v = (case v of JBool _ \<Rightarrow> True | _ \<Rightarrow> False)"
| "conforms (TLiteral ls) v = (case v of JStr s \<Rightarrow> s \<in> set ls | _ \<Rightarrow> False)"
| "conforms (TNullable t) v = (v = JNull \<or> conforms t v)"
| "conforms (TArray t) v = (case v of JArr xs \<Rightarrow> (\<forall>x \<in> set xs. conforms t x) | _ \<Rightarrow> False)"
| "conforms (TRecord t) v = (case v of JObj kvs \<Rightarrow> (\<forall>kv \<in> set kvs. conforms t (snd kv)) | _ \<Rightarrow> False)"
| "conforms (TObject fs) v =
     (case v of
        JObj kvs \<Rightarrow>
          (\<forall>(k, req, t) \<in> set fs.
             (case map_of kvs k of None \<Rightarrow> \<not> req | Some x \<Rightarrow> conforms t x))
      | _ \<Rightarrow> False)"
| "conforms TAny v = True"

lemma array_elements: "conforms (TArray ty) x \<Longrightarrow> \<exists>xs. x = JArr xs \<and> (\<forall>u \<in> set xs. conforms ty u)"
  by (cases x) simp_all

text \<open>\<open>Partial<T>\<close> and \<open>Omit<T, k>\<close> of an interface.\<close>

fun partial_ty :: "ty \<Rightarrow> ty" where
  "partial_ty (TObject fs) = TObject (map (\<lambda>(k, _, t). (k, False, t)) fs)"
| "partial_ty t = t"

fun omit_ty :: "string list \<Rightarrow> ty \<Rightarrow> ty" where
  "omit_ty ks (TObject fs) = TObject (filter (\<lambda>(k, _, _). k \<notin> set ks) fs)"
| "omit_ty ks t = t"

lemma conforms_partial: "conforms t v \<Longrightarrow> conforms (partial_ty t) v"
  by (cases t) (fastforce split: json.splits option.splits)+

lemma conforms_omit: "conforms t v \<Longrightarrow> conforms (omit_ty ks t) v"
  by (cases t) (fastforce split: json.splits option.splits)+

definition User_ty :: ty where
  "User_ty = TObject
     [(''id'', True, TString), (''username'', True, TString), (''email'', True, TString),
      (''role'', True, TLiteral [''admin'', ''operator'', ''viewer'']),
      (''enabled'', True, TBoolean), (''otp_enabled'', True, TBoolean),
      (''created_at'', False, TString), (''updated_at'', False, TString)]"

definition TokenPair_ty :: ty where
  "TokenPair_ty = TObject
     [(''access_token'', True, TString), (''refresh_token'', True, TString),
      (''expires_in'', True, TNumber)]"

definition ForwardRule_ty :: ty where
  "ForwardRule_ty = TObject
     [(''id'', True, TString), (''name'', True, TString),
      (''protocol'', True, TLiteral [''tcp'', ''udp'', ''both'']),
      (''listen_addr'', True, TString), (''listen_port'', True, TNumber),
      (''target_addr'', True, TString), (''target_port'', True, TNumber),
      (''enable_ipv6'', True, TBoolean),
      (''whitelist'', True, TArray TString), (''blacklist'', True, TArray TString),
      (''enabled'', True, TBoolean),
      (''schedule_on'', True, TString), (''schedule_off'', True, TString),
      (''created_at'', True, TString), (''updated_at'', True, TString)]"

definition ProxyRule_ty :: ty where
  "ProxyRule_ty = TObject
     [(''id'', True, TString), (''name'', True, TString), (''domains'', True, TArray TString),
      (''target_url'', True, TString), (''tls_enabled'', True, TBoolean),
      (''cert_id'', True, TString), (''force_https'', True, TBoolean),
      (''http2'', True, TBoolean), (''websocket'', True, TBoolean),
      (''url_rewrite'', True, TString), (''basic_auth_user'', True, TString),
      (''ip_whitelist'', True, TArray TString), (''ip_blacklist'', True, TArray TString),
      (''ua_whitelist'', True, TArray TString), (''ua_blacklist'', True, TArray TString),
      (''enabled'', True, TBoolean),
      (''created_at'', True, TString), (''updated_at'', True, TString)]"

definition DDNSConfig_ty :: ty where
  "DDNSConfig_ty = TObject
     [(''id'', True, TString), (''name'', True, TString), (''provider'', True, TString),
      (''domain'', True, TString), (''sub_domain'', True, TString),
      (''record_type'', True, TString), (''ttl'', True, TNumber),
      (''credentials'', True, TRecord TString), (''get_ip_url'', True, TString),
      (''get_ip_type'', True, TString), (''net_interface'', True, TString),
      (''interval'', True, TNumber), (''enabled'', True, TBoolean),
      (''created_at'', True, TString), (''updated_at'', True, TString)]"

definition STUNTunnel_ty :: ty where
  "STUNTunnel_ty = TObject
     [(''id'', True, TString), (''name'', True, TString), (''protocol'', True, TString),
      (''local_port'', True, TNumber), (''remote_port'', True, TNumber),
      (''stun_server'', True, TString), (''target_addr'', True, TString),
      (''target_port'', True, TNumber), (''enabled'', True, TBoolean),
      (''created_at'', True, TString), (''updated_at'', True, TString)]"

definition WOLDevice_ty :: ty where
  "WOLDevice_ty = TObject
     [(''id'', True, TString), (''name'', True, TString), (''mac'', True, TString),
      (''broadcast'', True, TString), (''port'', True, TNumber),
      (''platform'', True, TString), (''platform_key'', True, TString),
      (''created_at'', True, TString), (''updated_at'', True, TString)]"

definition CronJob_ty :: ty where
  "CronJob_ty = TObject
     [(''id'', True, TString), (''name'', True, TString), (''schedule'', True, TString),
      (''type'', True, TString), (''command'', True, TString),
      (''module_id'', True, TString), (''module_type'', True, TString),
      (''enabled'', True, TBoolean), (''last_run'', True, TNullable TString),
      (''next_run'', True, TNullable TString),
      (''created_at'', True, TString), (''updated_at'', True, TString)]"

definition ACMECertificate_ty :: ty where
  "ACMECertificate_ty = TObject
     [(''id'', True, TString), (''name'', True, TString), (''domains'', True, TArray TString),
      (''provider'', True, TString), (''dns_provider'', True, TString),
      (''dns_config'', True, TRecord TString), (''email'', True, TString),
      (''auto_renew'', True, TBoolean), (''renew_days'', True, TNumber),
      (''cert_path'', True, TString), (''key_path'', True, TString),
      (''expires_at'', True, TNullable TString), (''status'', True, TString),
      (''error'', True, TString),
      (''created_at'', True, TString), (''updated_at'', True, TString)]"

definition StorageMount_ty :: ty where
  "StorageMount_ty = TObject
     [(''id'', True, TString), (''name'', True, TString), (''type'', True, TString),
      (''source'', True, TString), (''services'', True, TArray TString),
      (''ftp_port'', True, TNumber), (''enabled'', True, TBoolean),
      (''created_at'', True, TString), (''updated_at'', True, TString)]"

definition SystemStatus_ty :: ty where
  "SystemStatus_ty = TObject
     [(''hostname'', True, TString), (''version'', True, TString), (''go_version'', True, TString),
      (''os'', True, TString), (''arch'', True, TString), (''cpu_count'', True, TNumber),
      (''goroutines'', True, TNumber), (''memory_mb'', True, TNumber), (''uptime'', True, TNumber)]"

definition AuditEvent_ty :: ty where
  "AuditEvent_ty = TObject
     [(''id'', True, TNumber), (''tenant_id'', True, TString), (''user_id'', True, TString),
      (''username'', True, TString), (''action'', True, TString),
      (''resource_type'', True, TString), (''resource_id'', True, TString),
      (''changes'', True, TString), (''remote_addr'', True, TString),
      (''created_at'', True, TString)]"

definition WebhookEndpoint_ty :: ty where
  "WebhookEndpoint_ty = TObject
     [(''id'', True, TString), (''name'', True, TString), (''url'', True, TString),
      (''has_secret'', True, TBoolean), (''events'', True, TArray TString),
      (''enabled'', True, TBoolean),
      (''created_at'', True, TString), (''updated_at'', True, TString)]"

definition APIResponse_ty :: "ty \<Rightarrow> ty" where
  "APIResponse_ty t = TObject
     [(''success'', True, TBoolean), (''data'', False, t),
      (''error'', False, TString), (''message'', False, TString)]"

definition PaginatedResponse_ty :: "ty \<Rightarrow> ty" where
  "PaginatedResponse_ty t = TObject
     [(''success'', True, TBoolean), (''data'', True, TArray t), (''total'', True, TNumber),
      (''page'', True, TNumber), (''page_size'', True, TNumber), (''total_pages'', True, TNumber)]"

lemmas interface_defs =
  User_ty_def TokenPair_ty_def ForwardRule_ty_def ProxyRule_ty_def DDNSConfig_ty_def
  STUNTunnel_ty_def WOLDevice_ty_def CronJob_ty_def ACMECertificate_ty_def
  StorageMount_ty_def SystemStatus_ty_def AuditEvent_ty_def WebhookEndpoint_ty_def
  APIResponse_ty_def PaginatedResponse_ty_def

end
