(* ===== verification/Browser.thy ===== *)
theory Browser
  imports JSON
begin

text \<open>
  The parts of the browser the front end keeps state in: \<open>localStorage\<close>, a map from
  keys to strings that survives a page load, behind an interface that says what a read
  returns after a write or a removal.
\<close>

type_synonym web_storage = "string \<Rightarrow> string option"

definition getItem :: "web_storage \<Rightarrow> string \<Rightarrow> string option" where
  "getItem s k = s k"

definition setItem :: "web_storage \<Rightarrow> string \<Rightarrow> string \<Rightarrow> web_storage" where
  "setItem s k v = s(k \<mapsto> v)"

definition removeItem :: "web_storage \<Rightarrow> string \<Rightarrow> web_storage" where
  "removeItem s k = s(k := None)"

locale kv_store =
  fixes get :: "'s \<Rightarrow> 'k \<Rightarrow> 'v option"
    and put :: "'s \<Rightarrow> 'k \<Rightarrow> 'v \<Rightarrow> 's"
    and del :: "'s \<Rightarrow> 'k \<Rightarrow> 's"
  assumes get_put: "get (put s k v) k' = (if k' = k then Some v else get s k')"
    and get_del: "get (del s k) k' = (if k' = k then None else get s k')"
begin

lemma get_put_same: "get (put s k v) k = Some v"
  by (simp add: get_put)

lemma get_put_other: "k' \<noteq> k \<Longrightarrow> get (put s k v) k' = get s k'"
  by (simp add: get_put)

text \<open>A pair of entries written together is read back together, and removed together.\<close>

lemma get_put_pair:
  "k \<noteq> l \<Longrightarrow> get (put (put s k v) l w) k = Some v \<and> get (put (put s k v) l w) l = Some w"
  by (simp add: get_put)

lemma get_del_pair:
  "k \<noteq> l \<Longrightarrow> get (del (del s k) l) k = None \<and> get (del (del s k) l) l = None"
  by (simp add: get_del)

end

interpretation ls: kv_store getItem setItem removeItem
  by unfold_locales (simp_all add: getItem_def setItem_def removeItem_def)

end
