(* ===== verification/Api.thy ===== *)
theory Api
  imports Browser
begin

text \<open>
  \<open>web/src/lib/api.ts\<close>: the module's two token variables and their copies in
  \<open>localStorage\<close>, the token refresh, and \<open>api\<close>, every request of the front end
  goes through. The code is modelled twice: \<open>api\<close> and \<open>refreshAccessToken\<close> in
  direct style, against a network that answers at once, and as the phases a call goes
  through between its awaits (\<open>call_step\<close>), so that concurrent calls interleave.

  The network is a parameter \<open>net\<close>: from its state and a request, its next state and
  what \<open>fetch\<close> gives, a rejection or a response with its status and whole body.
\<close>

subsection \<open>The module's state\<close>

record client =
  accessToken :: jsval
  refreshToken :: jsval
  local_storage :: web_storage
  alerts :: "string list"      \<comment> \<open>calls of \<open>alert\<close>, oldest first\<close>
  hrefs :: "string list"       \<comment> \<open>assignments to \<open>window.location.href\<close>, oldest first\<close>

definition API_BASE :: string where
  "API_BASE = ''/api/v1''"

definition item_val :: "string option \<Rightarrow> jsval" where
  "item_val v = (case v of None \<Rightarrow> Some JNull | Some s \<Rightarrow> Some (JStr s))"

text \<open>Loading the module (on every page load): lines 3 and 4.\<close>

definition load_client :: "web_storage \<Rightarrow> client" where
  "load_client s =
     \<lparr>accessToken = item_val (getItem s ''access_token''),
      refreshToken = item_val (getItem s ''refresh_token''),
      local_storage = s, alerts = [], hrefs = []\<rparr>"

definition setTokens :: "client \<Rightarrow> jsval \<Rightarrow> jsval \<Rightarrow> client" where
  "setTokens c access refresh =
     c\<lparr>accessToken := access, refreshToken := refresh,
       local_storage :=
         setItem (setItem (local_storage c) ''access_token'' (js_string access))
           ''refresh_token'' (js_string refresh)\<rparr>"

definition clearTokens :: "client \<Rightarrow> client" where
  "clearTokens c =
     c\<lparr>accessToken := Some JNull, refreshToken := Some JNull,
       local_storage :=
         removeItem (removeItem (local_storage c) ''access_token'') ''refresh_token''\<rparr>"

definition alert :: "client \<Rightarrow> string \<Rightarrow> client" where
  "alert c m = c\<lparr>alerts := alerts c @ [m]\<rparr>"

definition set_href :: "client \<Rightarrow> string \<Rightarrow> client" where
  "set_href c u = c\<lparr>hrefs := hrefs c @ [u]\<rparr>"

subsection \<open>Requests and responses\<close>

record request =
  req_method :: string
  req_path :: string
  req_headers :: "(string \<times> string) list"
  req_body :: "string option"

datatype net_result = Rejected | Response int string

type_synonym 'w network = "'w \<Rightarrow> request \<Rightarrow> 'w \<times> net_result"

text \<open>The \<open>RequestInit\<close> fields the program passes; no method means GET.\<close>

record request_init =
  init_method :: string
  init_headers :: "(string \<times> string) list"
  init_body :: "string option"

definition res_ok :: "int \<Rightarrow> bool" where
  "res_ok status \<longleftrightarrow> 200 \<le> status \<and> status \<le> 299"

definition res_json :: "string \<Rightarrow> exn + json" where
  "res_json body = (case json_parse body of None \<Rightarrow> Inl SyntaxError | Some j \<Rightarrow> Inr j)"

definition json_headers :: "(string \<times> string) list" where
  "json_headers = [(''Content-Type'', ''application/json'')]"

definition bearer :: "jsval \<Rightarrow> string" where
  "bearer token = ''Bearer '' @ js_string token"

subsection \<open>Token refresh\<close>

definition refresh_request :: "jsval \<Rightarrow> request" where
  "refresh_request token =
     \<lparr>req_method = ''POST'', req_path = API_BASE @ ''/auth/refresh'', req_headers = json_headers,
      req_body = Some (stringify (JObj (case token of None \<Rightarrow> [] | Some v \<Rightarrow> [(''refresh_token'', v)])))\<rparr>"

text \<open>
  The part of \<open>refreshAccessToken\<close> after its \<open>fetch\<close>: every error inside the
  \<open>try\<close> makes it return false.
\<close>

definition refresh_result :: "client \<Rightarrow> net_result \<Rightarrow> bool \<times> client" where
  "refresh_result c res =
     (case res of
        Rejected \<Rightarrow> (False, c)
      | Response status body \<Rightarrow>
          if \<not> res_ok status then (False, c)
          else (case res_json body of
                  Inl _ \<Rightarrow> (False, c)
                | Inr j \<Rightarrow>
                    (case get_prop (Some j) ''data'' of
                       Inl _ \<Rightarrow> (False, c)
                     | Inr d \<Rightarrow>
                         if truthy d then
                           (case (get_prop d ''access_token'', get_prop d ''refresh_token'') of
                              (Inr a, Inr r) \<Rightarrow> (True, setTokens c a r)
                            | _ \<Rightarrow> (False, c))
                         else (False, c))))"

definition refreshAccessToken :: "'w network \<Rightarrow> client \<Rightarrow> 'w \<Rightarrow> bool \<times> client \<times> 'w" where
  "refreshAccessToken net c w =
     (if \<not> truthy (refreshToken c) then (False, c, w)
      else let (w', res) = net w (refresh_request (refreshToken c));
               (ok, c') = refresh_result c res
           in (ok, c', w'))"

subsection \<open>The 403 interceptor\<close>

text \<open>
  \<open>body.redirect === '/settings' || body.error?.includes(m) || body.message?.includes(m)\<close>;
  an error thrown on the way leaves the flag as it was.
\<close>

definition password_message :: string where
  "password_message = ''password change required''"

definition asks_password_change :: "json \<Rightarrow> exn + bool" where
  "asks_password_change body =
     (case get_prop (Some body) ''redirect'' of
        Inl e \<Rightarrow> Inl e
      | Inr r \<Rightarrow>
          if r = Some (JStr ''/settings'') then Inr True
          else (case get_prop (Some body) ''error'' of
                  Inl e \<Rightarrow> Inl e
                | Inr err \<Rightarrow>
                    (case opt_includes err password_message of
                       Inl e \<Rightarrow> Inl e
                     | Inr True \<Rightarrow> Inr True
                     | Inr False \<Rightarrow>
                         (case get_prop (Some body) ''message'' of
                            Inl e \<Rightarrow> Inl e
                          | Inr msg \<Rightarrow> opt_includes msg password_message))))"

definition isPasswordChangeRequired :: "string \<Rightarrow> bool" where
  "isPasswordChangeRequired textData =
     (let flag = js_includes textData password_message \<or> js_includes textData ''/settings''
      in case json_parse textData of
           None \<Rightarrow> flag
         | Some body \<Rightarrow> (case asks_password_change body of Inr True \<Rightarrow> True | _ \<Rightarrow> flag))"

definition password_alert :: string where
  "password_alert = ''First login detected. You must change your initial password in Settings before accessing this feature.''"

text \<open>
  Lines 54 to 74. The \<open>throw new Error('Password change required')\<close> is inside the
  \<open>try\<close> whose \<open>catch\<close> only logs, so control always continues after the block.
\<close>

definition intercept_403 :: "client \<Rightarrow> int \<Rightarrow> string \<Rightarrow> client" where
  "intercept_403 c status body =
     (if status = 403 \<and> isPasswordChangeRequired body
      then set_href (alert c password_alert) ''/settings''
      else c)"

subsection \<open>api\<close>

definition request_headers :: "client \<Rightarrow> request_init \<Rightarrow> (string \<times> string) list" where
  "request_headers c opts =
     (let headers = obj_spread json_headers (init_headers opts)
      in if truthy (accessToken c) then obj_set ''Authorization'' (bearer (accessToken c)) headers
         else headers)"

definition api_request :: "string \<Rightarrow> request_init \<Rightarrow> (string \<times> string) list \<Rightarrow> request" where
  "api_request path opts headers =
     \<lparr>req_method = init_method opts, req_path = API_BASE @ path, req_headers = headers,
      req_body = init_body opts\<rparr>"

definition api ::
  "'w network \<Rightarrow> client \<Rightarrow> 'w \<Rightarrow> string \<Rightarrow> request_init \<Rightarrow> (exn + json) \<times> client \<times> 'w" where
  "api net c w path opts =
     (let headers = request_headers c opts;
          (w1, res) = net w (api_request path opts headers)
      in case res of
           Rejected \<Rightarrow> (Inl NetworkError, c, w1)
         | Response status body \<Rightarrow>
             (let c1 = intercept_403 c status body
              in if status = 401 \<and> truthy (refreshToken c1) then
                   (let (refreshed, c2, w2) = refreshAccessToken net c1 w1
                    in if refreshed then
                         (let headers' = obj_set ''Authorization'' (bearer (accessToken c2)) headers;
                              (w3, retry) = net w2 (api_request path opts headers')
                          in case retry of
                               Rejected \<Rightarrow> (Inl NetworkError, c2, w3)
                             | Response _ body' \<Rightarrow> (res_json body', c2, w3))
                       else (Inl (Thrown ''Session expired''), set_href (clearTokens c2) ''/login'', w2))
                 else (res_json body, c1, w1)))"

text \<open>\<open>apiClient\<close>: a body is sent when it is truthy.\<close>

definition body_text :: "jsval \<Rightarrow> string option" where
  "body_text body = (if truthy body then map_option stringify body else None)"

definition get_init :: request_init where
  "get_init = \<lparr>init_method = ''GET'', init_headers = [], init_body = None\<rparr>"

definition post_init :: "jsval \<Rightarrow> request_init" where
  "post_init body = \<lparr>init_method = ''POST'', init_headers = [], init_body = body_text body\<rparr>"

definition put_init :: "jsval \<Rightarrow> request_init" where
  "put_init body = \<lparr>init_method = ''PUT'', init_headers = [], init_body = body_text body\<rparr>"

definition delete_init :: request_init where
  "delete_init = \<lparr>init_method = ''DELETE'', init_headers = [], init_body = None\<rparr>"

subsection \<open>A call between its awaits\<close>

text \<open>
  The phases of one call of \<open>api\<close>: a request is sent, later the server handles it,
  later the call resumes with the reply. \<open>Refreshed b\<close> is the point between
  \<open>refreshAccessToken\<close> returning \<open>b\<close> and its caller resuming.
\<close>

datatype phase =
    Begin
  | FirstSent request
  | FirstReply net_result
  | RefreshSent request
  | RefreshReply net_result
  | Refreshed bool
  | RetrySent request
  | RetryReply net_result
  | Finished "exn + json"

record call =
  call_path :: string
  call_init :: request_init
  call_headers :: "(string \<times> string) list"
  call_phase :: phase

definition new_call :: "string \<Rightarrow> request_init \<Rightarrow> call" where
  "new_call path opts =
     \<lparr>call_path = path, call_init = opts, call_headers = [], call_phase = Begin\<rparr>"

text \<open>Resuming a call: \<open>None\<close> while it waits for the network or has finished.\<close>

definition call_step :: "client \<Rightarrow> call \<Rightarrow> (client \<times> call) option" where
  "call_step c k =
     (case call_phase k of
        Begin \<Rightarrow>
          (let headers = request_headers c (call_init k)
           in Some (c, k\<lparr>call_headers := headers,
                call_phase := FirstSent (api_request (call_path k) (call_init k) headers)\<rparr>))
      | FirstReply Rejected \<Rightarrow> Some (c, k\<lparr>call_phase := Finished (Inl NetworkError)\<rparr>)
      | FirstReply (Response status body) \<Rightarrow>
          (let c1 = intercept_403 c status body
           in if status = 401 \<and> truthy (refreshToken c1)
              then Some (c1, k\<lparr>call_phase := RefreshSent (refresh_request (refreshToken c1))\<rparr>)
              else Some (c1, k\<lparr>call_phase := Finished (res_json body)\<rparr>))
      | RefreshReply res \<Rightarrow>
          (let (ok, c') = refresh_result c res in Some (c', k\<lparr>call_phase := Refreshed ok\<rparr>))
      | Refreshed True \<Rightarrow>
          (let headers' = obj_set ''Authorization'' (bearer (accessToken c)) (call_headers k)
           in Some (c, k\<lparr>call_headers := headers',
                call_phase := RetrySent (api_request (call_path k) (call_init k) headers')\<rparr>))
      | Refreshed False \<Rightarrow>
          Some (set_href (clearTokens c) ''/login'',
            k\<lparr>call_phase := Finished (Inl (Thrown ''Session expired''))\<rparr>)
      | RetryReply Rejected \<Rightarrow> Some (c, k\<lparr>call_phase := Finished (Inl NetworkError)\<rparr>)
      | RetryReply (Response _ body) \<Rightarrow> Some (c, k\<lparr>call_phase := Finished (res_json body)\<rparr>)
      | _ \<Rightarrow> None)"

text \<open>A request in flight, and the phase its reply puts the call in.\<close>

definition in_flight :: "phase \<Rightarrow> (request \<times> (net_result \<Rightarrow> phase)) option" where
  "in_flight p =
     (case p of
        FirstSent q \<Rightarrow> Some (q, FirstReply)
      | RefreshSent q \<Rightarrow> Some (q, RefreshReply)
      | RetrySent q \<Rightarrow> Some (q, RetryReply)
      | _ \<Rightarrow> None)"

text \<open>One call on its own.\<close>

definition lone_step :: "'w network \<Rightarrow> client \<times> 'w \<times> call \<Rightarrow> client \<times> 'w \<times> call" where
  "lone_step net = (\<lambda>(c, w, k).
     case in_flight (call_phase k) of
       Some (q, reply) \<Rightarrow> (let (w', res) = net w q in (c, w', k\<lparr>call_phase := reply res\<rparr>))
     | None \<Rightarrow> (case call_step c k of Some (c', k') \<Rightarrow> (c', w, k') | None \<Rightarrow> (c, w, k)))"


text \<open>A call is waiting, finished, or can resume.\<close>

lemma call_progress:
  "in_flight (call_phase k) \<noteq> None \<or> call_step c k \<noteq> None \<or> (\<exists>r. call_phase k = Finished r)"
  by (auto simp: in_flight_def call_step_def Let_def split: phase.splits net_result.splits bool.splits prod.splits)

subsection \<open>Concurrent calls\<close>

record 'w sys =
  sys_client :: client
  sys_net :: 'w
  sys_calls :: "call list"

text \<open>
  What can happen next: a call starts, the server handles a request in flight, a call
  resumes, the user logs in or out, or the page is loaded anew, which drops the calls and
  the module's variables.
\<close>

inductive sys_step :: "'w network \<Rightarrow> 'w sys \<Rightarrow> 'w sys \<Rightarrow> bool" for net where
  spawn: "sys_step net s (s\<lparr>sys_calls := sys_calls s @ [new_call path opts]\<rparr>)"
| serve: "i < length (sys_calls s) \<Longrightarrow> in_flight (call_phase (sys_calls s ! i)) = Some (q, reply) \<Longrightarrow>
    net (sys_net s) q = (w', res) \<Longrightarrow>
    sys_step net s (s\<lparr>sys_net := w', sys_calls := (sys_calls s)[i := (sys_calls s ! i)\<lparr>call_phase := reply res\<rparr>]\<rparr>)"
| resume: "i < length (sys_calls s) \<Longrightarrow> call_step (sys_client s) (sys_calls s ! i) = Some (c', k') \<Longrightarrow>
    sys_step net s (s\<lparr>sys_client := c', sys_calls := (sys_calls s)[i := k']\<rparr>)"
| log_in: "sys_step net s (s\<lparr>sys_client := setTokens (sys_client s) (Some (JStr a)) (Some (JStr r))\<rparr>)"
| log_out: "sys_step net s (s\<lparr>sys_client := clearTokens (sys_client s)\<rparr>)"
| reload: "sys_step net s (s\<lparr>sys_client := load_client (local_storage (sys_client s)), sys_calls := []\<rparr>)"

inductive sys_reach :: "'w network \<Rightarrow> 'w sys \<Rightarrow> 'w sys \<Rightarrow> bool" for net where
  sys_refl: "sys_reach net s s"
| sys_more: "sys_reach net s s' \<Longrightarrow> sys_step net s' s'' \<Longrightarrow> sys_reach net s s''"

definition fresh_sys :: "web_storage \<Rightarrow> 'w \<Rightarrow> 'w sys" where
  "fresh_sys st w = \<lparr>sys_client = load_client st, sys_net = w, sys_calls = []\<rparr>"

subsection \<open>Memory and storage agree\<close>

definition synced :: "client \<Rightarrow> bool" where
  "synced c \<longleftrightarrow>
     accessToken c = item_val (getItem (local_storage c) ''access_token'') \<and>
     refreshToken c = item_val (getItem (local_storage c) ''refresh_token'')"

text \<open>A refresh response that reports tokens reports them as strings.\<close>

definition string_tokens :: "net_result \<Rightarrow> bool" where
  "string_tokens res =
     (case res of
        Rejected \<Rightarrow> True
      | Response status body \<Rightarrow>
          res_ok status \<longrightarrow>
          (case json_parse body of
             None \<Rightarrow> True
           | Some j \<Rightarrow>
               (case get_prop (Some j) ''data'' of
                  Inl _ \<Rightarrow> True
                | Inr d \<Rightarrow> truthy d \<longrightarrow>
                    (case (get_prop d ''access_token'', get_prop d ''refresh_token'') of
                       (Inr (Some (JStr _)), Inr (Some (JStr _))) \<Rightarrow> True
                     | _ \<Rightarrow> False))))"

lemma synced_load [inv_intros]: "synced (load_client s)"
  by (simp add: synced_def load_client_def)

lemma synced_clear [inv_intros]: "synced (clearTokens c)"
  by (simp add: synced_def clearTokens_def ls.get_del item_val_def)

lemma synced_set [inv_intros]: "synced (setTokens c (Some (JStr a)) (Some (JStr r)))"
  by (simp add: synced_def setTokens_def ls.get_put item_val_def js_string_def)

lemma synced_alert [inv_intros]: "synced c \<Longrightarrow> synced (alert c m)"
  by (simp add: synced_def alert_def)

lemma synced_href [inv_intros]: "synced c \<Longrightarrow> synced (set_href c u)"
  by (simp add: synced_def set_href_def)

lemma synced_intercept [inv_intros]: "synced c \<Longrightarrow> synced (intercept_403 c status body)"
  by (simp add: intercept_403_def synced_alert synced_href)

text \<open>A refresh either leaves the tokens alone or takes both from the response.\<close>

lemma refresh_result_cases:
  obtains (kept) "refresh_result c res = (False, c)"
  | (taken) status body j d a r where "res = Response status body" "res_ok status"
      "json_parse body = Some j" "get_prop (Some j) ''data'' = Inr d" "truthy d"
      "get_prop d ''access_token'' = Inr a" "get_prop d ''refresh_token'' = Inr r"
      "refresh_result c res = (True, setTokens c a r)"
proof (cases res)
  case Rejected
  then show ?thesis by (intro kept) (simp add: refresh_result_def)
next
  case res: (Response status body)
  show ?thesis
  proof (cases "res_ok status \<and> json_parse body \<noteq> None")
    case False
    with res show ?thesis
      by (intro kept) (auto simp: refresh_result_def res_json_def split: option.splits)
  next
    case True
    then obtain j where j: "res_ok status" "json_parse body = Some j" by auto
    show ?thesis
    proof (cases "\<exists>d a r. get_prop (Some j) ''data'' = Inr d \<and> truthy d \<and>
        get_prop d ''access_token'' = Inr a \<and> get_prop d ''refresh_token'' = Inr r")
      case True
      then obtain d a r where "get_prop (Some j) ''data'' = Inr d" "truthy d"
        "get_prop d ''access_token'' = Inr a" "get_prop d ''refresh_token'' = Inr r" by blast
      with res j show ?thesis by (intro taken) (simp_all add: refresh_result_def res_json_def)
    next
      case False
      with res j show ?thesis
        by (intro kept) (auto simp: refresh_result_def res_json_def split: sum.splits)
    qed
  qed
qed

lemma synced_refresh_result [inv_intros]:
  assumes "synced c" "string_tokens res"
  shows "synced (snd (refresh_result c res))"
proof (cases rule: refresh_result_cases [of c res])
  case kept
  with assms show ?thesis by simp
next
  case (taken status body j d a r)
  with assms(2) obtain x y where "a = Some (JStr x)" "r = Some (JStr y)"
    by (auto simp: string_tokens_def split: option.splits json.splits)
  with taken show ?thesis by (simp add: synced_set)
qed

text \<open>Reloading a page whose tokens are in step loses nothing: the tokens are read back.\<close>

lemma synced_reload:
  "synced c \<Longrightarrow> accessToken (load_client (local_storage c)) = accessToken c \<and>
     refreshToken (load_client (local_storage c)) = refreshToken c"
  by (simp add: synced_def load_client_def)

subsection \<open>The two forms of api agree\<close>

lemma intercept_other [simp]: "status \<noteq> 403 \<Longrightarrow> intercept_403 c status body = c"
  by (simp add: intercept_403_def)

text \<open>The three ways through \<open>api\<close>: rejected, answered, and refused with a token to renew.\<close>

lemma api_rejected:
  "net w (api_request path opts (request_headers c opts)) = (w1, Rejected) \<Longrightarrow>
     api net c w path opts = (Inl NetworkError, c, w1)"
  by (simp add: api_def Let_def)

lemma api_answered:
  "net w (api_request path opts (request_headers c opts)) = (w1, Response status body) \<Longrightarrow>
     status \<noteq> 401 \<or> \<not> truthy (refreshToken c) \<Longrightarrow>
     api net c w path opts = (res_json body, intercept_403 c status body, w1)"
  by (auto simp: api_def Let_def intercept_403_def)

lemma api_refused:
  assumes "net w (api_request path opts (request_headers c opts)) = (w1, Response 401 body)"
    and "truthy (refreshToken c)"
    and "net w1 (refresh_request (refreshToken c)) = (w2, res)" and "refresh_result c res = (ok, c2)"
  shows "api net c w path opts =
    (if ok then
       (let h = obj_set ''Authorization'' (bearer (accessToken c2)) (request_headers c opts);
            (w3, retry) = net w2 (api_request path opts h)
        in (case retry of Rejected \<Rightarrow> Inl NetworkError | Response _ body \<Rightarrow> res_json body, c2, w3))
     else (Inl (Thrown ''Session expired''), set_href (clearTokens c2) ''/login'', w2))"
  using assms
  by (auto simp: api_def refreshAccessToken_def Let_def split: prod.split net_result.split)


lemma lone_run_split: "(lone_step net ^^ (m + n)) x = (lone_step net ^^ n) ((lone_step net ^^ m) x)"
  by (metis add.commute comp_apply funpow_add)

lemma lone_sent:
  "in_flight (call_phase k) = Some (q, reply) \<Longrightarrow> net w q = (w', res) \<Longrightarrow>
     lone_step net (c, w, k) = (c, w', k\<lparr>call_phase := reply res\<rparr>)"
  by (simp add: lone_step_def)

lemma lone_resume:
  "in_flight (call_phase k) = None \<Longrightarrow> call_step c k = Some (c', k') \<Longrightarrow>
     lone_step net (c, w, k) = (c', w, k')"
  by (simp add: lone_step_def)







subsection \<open>Properties of api\<close>


text \<open>A network that keeps the requests it was sent.\<close>

definition logged :: "'w network \<Rightarrow> ('w \<times> request list) network" where
  "logged net = (\<lambda>(w, sent) q. let (w', res) = net w q in ((w', sent @ [q]), res))"

lemma logged_eq: "logged net (w, sent) q = ((fst (net w q), sent @ [q]), snd (net w q))"
  by (simp add: logged_def split_beta)

lemma logged_simp: "net w q = (w', res) \<Longrightarrow> logged net (w, sent) q = ((w', sent @ [q]), res)"
  by (simp add: logged_def)

definition api_log :: "'w network \<Rightarrow> client \<Rightarrow> 'w \<Rightarrow> string \<Rightarrow> request_init \<Rightarrow> request list" where
  "api_log net c w path opts =
     snd (snd (snd (api (logged net) c (w, []) path opts)))"

text \<open>The requests of one call: the first, the first and a refresh, or these and the retry.\<close>

definition expected_requests :: "client \<Rightarrow> string \<Rightarrow> request_init \<Rightarrow> request list \<Rightarrow> bool" where
  "expected_requests c path opts sent \<longleftrightarrow>
     (let first = api_request path opts (request_headers c opts);
          renew = refresh_request (refreshToken c)
      in sent = [first] \<or> (truthy (refreshToken c) \<and>
           (sent = [first, renew] \<or>
            (\<exists>token. sent = [first, renew,
               first\<lparr>req_headers := obj_set ''Authorization'' (bearer token) (req_headers first)\<rparr>]))))"

text \<open>
  C35. One call of \<open>api\<close> sends at most three requests: the caller's own, a token refresh
  with the stored refresh token (only if there is one), and the caller's own once more,
  the same in method, path, body and every header but \<open>Authorization\<close>. It never
  refreshes twice and never retries without a refresh before it.
\<close>

theorem api_requests: "expected_requests c path opts (api_log net c w path opts)"
proof -
  let ?q = "api_request path opts (request_headers c opts)"
  let ?r = "refresh_request (refreshToken c)"
  obtain w1 res where n: "net w ?q = (w1, res)" by fastforce
  note l1 = logged_simp [of net w ?q w1 res "[]", OF n, simplified]
  show ?thesis
  proof (cases res)
    case Rejected
    with l1 show ?thesis
      by (simp add: api_log_def api_rejected expected_requests_def Let_def)
  next
    case res: (Response status body)
    show ?thesis
    proof (cases "status = 401 \<and> truthy (refreshToken c)")
      case False
      with res l1 show ?thesis
        using api_answered [of "logged net" "(w, [])" path opts c "(w1, [?q])" status body]
        by (auto simp: api_log_def expected_requests_def Let_def)
    next
      case True
      then have r: "res = Response 401 body" and t: "truthy (refreshToken c)" using res by auto
      obtain w2 res2 where n2: "net w1 ?r = (w2, res2)" by fastforce
      obtain ok c2 where rr: "refresh_result c res2 = (ok, c2)" by fastforce
      note out = api_refused [OF l1 [unfolded r] t logged_simp [of net w1 ?r w2 res2 "[?q]", OF n2] rr]
      show ?thesis
        using t unfolding api_log_def expected_requests_def out
        by (auto simp: Let_def logged_eq api_request_def)
    qed
  qed
qed




definition logged_in :: client where
  "logged_in = setTokens (load_client (\<lambda>_. None)) (Some (JStr ''A'')) (Some (JStr ''R''))"



subsection \<open>Properties of concurrent calls\<close>

definition honest_refresh :: "'w network \<Rightarrow> bool" where
  "honest_refresh net \<longleftrightarrow> (\<forall>w token. string_tokens (snd (net w (refresh_request token))))"

text \<open>What a call holds on to is a refresh request, or an answer to one.\<close>

definition call_ok :: "call \<Rightarrow> bool" where
  "call_ok k \<longleftrightarrow>
     (case call_phase k of
        RefreshSent q \<Rightarrow> (\<exists>token. q = refresh_request token)
      | RefreshReply res \<Rightarrow> string_tokens res
      | _ \<Rightarrow> True)"

definition sys_ok :: "'w sys \<Rightarrow> bool" where
  "sys_ok s \<longleftrightarrow> synced (sys_client s) \<and> (\<forall>k \<in> set (sys_calls s). call_ok k)"

lemma call_ok_new [simp]: "call_ok (new_call path opts)"
  by (simp add: call_ok_def new_call_def)

lemma call_ok_served:
  "honest_refresh net \<Longrightarrow> call_ok k \<Longrightarrow> in_flight (call_phase k) = Some (q, reply) \<Longrightarrow>
     net w q = (w', res) \<Longrightarrow> call_ok (k\<lparr>call_phase := reply res\<rparr>)"
  by (auto simp: call_ok_def in_flight_def honest_refresh_def split: phase.splits) (metis snd_conv)

lemma call_step_ok:
  assumes "synced c" "call_ok k" "call_step c k = Some (c', k')"
  shows "synced c' \<and> call_ok k'"
proof (cases "call_phase k")
  case (RefreshReply res)
  with assms have "string_tokens res" by (simp add: call_ok_def)
  with RefreshReply assms synced_refresh_result [of c res] show ?thesis
    by (auto simp: call_step_def call_ok_def split: prod.splits)
qed (use assms in \<open>auto simp: call_step_def call_ok_def Let_def intro: inv_intros
       split: net_result.splits bool.splits if_splits\<close>)

lemma sys_ok_update:
  "sys_ok s \<Longrightarrow> call_ok k \<Longrightarrow> \<forall>j \<in> set ((sys_calls s)[i := k]). call_ok j"
  unfolding sys_ok_def using set_update_subset_insert [of "sys_calls s" i k] by blast

lemma sys_ok_step:
  assumes "honest_refresh net" "sys_step net s s'" "sys_ok s"
  shows "sys_ok s'"
  using assms(2)
proof cases
  case (serve i q reply w' res)
  then have "call_ok (sys_calls s ! i)" using assms(3) by (simp add: sys_ok_def)
  then have "call_ok ((sys_calls s ! i)\<lparr>call_phase := reply res\<rparr>)"
    using call_ok_served [OF assms(1)] serve by blast
  with serve assms(3) sys_ok_update [OF assms(3)] show ?thesis by (simp add: sys_ok_def)
next
  case (resume i c' k')
  then have "call_ok (sys_calls s ! i)" using assms(3) by (simp add: sys_ok_def)
  then have "synced c' \<and> call_ok k'"
    using call_step_ok [of "sys_client s" "sys_calls s ! i" c' k'] resume assms(3) by (simp add: sys_ok_def)
  with resume sys_ok_update [OF assms(3), of k' i] show ?thesis by (simp add: sys_ok_def)
qed (use assms(3) in \<open>auto simp: sys_ok_def intro: inv_intros\<close>)

text \<open>
  C21. However calls, their answers, logins, logouts and page loads interleave, the token
  variables of \<open>api.ts\<close> and their copies in \<open>localStorage\<close> say the same: what the
  memory holds is what a page load at that moment would read back. The back end reports
  tokens as strings, which is all that is asked of the network.
\<close>

theorem tokens_survive_reload:
  assumes "honest_refresh net" "sys_reach net (fresh_sys store w) s"
  shows "accessToken (load_client (local_storage (sys_client s))) = accessToken (sys_client s) \<and>
    refreshToken (load_client (local_storage (sys_client s))) = refreshToken (sys_client s)"
proof -
  have "sys_ok s" using assms(2)
  proof (induction "fresh_sys store w" s rule: sys_reach.induct)
    case sys_refl
    then show ?case by (simp add: sys_ok_def fresh_sys_def synced_load)
  next
    case (sys_more s' s'')
    then show ?case using sys_ok_step [OF assms(1)] by blast
  qed
  then show ?thesis using synced_reload by (simp add: sys_ok_def)
qed

text \<open>How far a call has to go.\<close>

fun phase_rank :: "phase \<Rightarrow> nat" where
  "phase_rank Begin = 8"
| "phase_rank (FirstSent q) = 7"
| "phase_rank (FirstReply r) = 6"
| "phase_rank (RefreshSent q) = 5"
| "phase_rank (RefreshReply r) = 4"
| "phase_rank (Refreshed b) = 3"
| "phase_rank (RetrySent q) = 2"
| "phase_rank (RetryReply r) = 1"
| "phase_rank (Finished r) = 0"

definition call_rank :: "call \<Rightarrow> nat" where
  "call_rank k = phase_rank (call_phase k)"

lemma rank_served:
  "in_flight (call_phase k) = Some (q, reply) \<Longrightarrow> call_rank (k\<lparr>call_phase := reply res\<rparr>) < call_rank k"
  by (auto simp: in_flight_def call_rank_def split: phase.splits)

lemma rank_resumed: "call_step c k = Some (c', k') \<Longrightarrow> call_rank k' < call_rank k"
  by (auto simp: call_step_def call_rank_def Let_def
      split: phase.splits net_result.splits bool.splits if_splits prod.splits)

text \<open>
  C27. No schedule keeps a call of \<open>api\<close> going: a step of the system that leaves the
  page's calls in place leaves each call as it is or brings it nearer to its end (from at
  most eight steps away), and a call that has not ended can always take its next step, by
  the server answering it or by resuming.
\<close>

theorem calls_end:
  assumes "sys_step net s s'" "i < length (sys_calls s)" "sys_calls s' \<noteq> []"
  shows "i < length (sys_calls s') \<and>
    (sys_calls s' ! i = sys_calls s ! i \<or> call_rank (sys_calls s' ! i) < call_rank (sys_calls s ! i)) \<and>
    call_rank (sys_calls s ! i) \<le> 8 \<and>
    (call_rank (sys_calls s ! i) = 0 \<or>
     (\<exists>t. sys_step net s t \<and> i < length (sys_calls t) \<and>
        call_rank (sys_calls t ! i) < call_rank (sys_calls s ! i)))"
proof (intro conjI)
  show "i < length (sys_calls s')" using assms by cases auto
  show "sys_calls s' ! i = sys_calls s ! i \<or> call_rank (sys_calls s' ! i) < call_rank (sys_calls s ! i)"
    using assms
    by cases (auto simp: nth_append nth_list_update dest: rank_served rank_resumed)
  show "call_rank (sys_calls s ! i) \<le> 8"
    unfolding call_rank_def by (cases "call_phase (sys_calls s ! i)") simp_all
  let ?k = "sys_calls s ! i"
  show "call_rank ?k = 0 \<or> (\<exists>t. sys_step net s t \<and> i < length (sys_calls t) \<and>
        call_rank (sys_calls t ! i) < call_rank ?k)"
  proof (cases "in_flight (call_phase ?k)")
    case None
    then consider (fin) r where "call_phase ?k = Finished r"
      | (step) c' k' where "call_step (sys_client s) ?k = Some (c', k')"
      using call_progress [of ?k "sys_client s"] by auto
    then show ?thesis
    proof cases
      case step
      from sys_step.resume [OF assms(2) step] rank_resumed [OF step] assms(2) show ?thesis
        by (intro disjI2) (auto intro!: exI)
    qed (simp add: call_rank_def)
  next
    case (Some x)
    then obtain q reply where q: "in_flight (call_phase ?k) = Some (q, reply)" by (cases x) auto
    obtain w' res where n: "net (sys_net s) q = (w', res)" by fastforce
    from sys_step.serve [of i s q reply net w' res, OF assms(2) q n] rank_served [OF q] assms(2) show ?thesis
      by (intro disjI2) (auto intro!: exI)
  qed
qed

text \<open>A page with one call of \<open>/users\<close> under way, on a network that is down.\<close>

definition down :: "unit network" where
  "down w q = (w, Rejected)"

definition one_call :: "unit sys" where
  "one_call = \<lparr>sys_client = logged_in, sys_net = (), sys_calls = [new_call ''/users'' get_init]\<rparr>"

definition one_sent :: "unit sys" where
  "one_sent = one_call\<lparr>sys_calls := [(new_call ''/users'' get_init)
     \<lparr>call_headers := request_headers logged_in get_init,
      call_phase := FirstSent (api_request ''/users'' get_init (request_headers logged_in get_init))\<rparr>]\<rparr>"

lemma one_call_sends: "sys_step net one_call one_sent"
  using sys_step.resume [of 0 one_call logged_in "hd (sys_calls one_sent)" net]
  by (simp add: one_call_def one_sent_def call_step_def new_call_def Let_def)

lemma one_call_reached: "sys_reach net (fresh_sys (\<lambda>_. None) ()) one_sent"
proof -
  let ?s0 = "fresh_sys (\<lambda>_. None) ()"
  let ?s1 = "?s0\<lparr>sys_client := setTokens (sys_client ?s0) (Some (JStr ''A'')) (Some (JStr ''R''))\<rparr>"
  have "sys_step net ?s1 one_call"
    using sys_step.spawn [of net ?s1 "''/users''" get_init]
    by (simp add: one_call_def logged_in_def fresh_sys_def)
  then show ?thesis
    using one_call_sends sys_step.log_in [of net ?s0 "''A''" "''R''"] by (meson sys_refl sys_more)
qed

lemma honest_down: "honest_refresh down"
  by (simp add: honest_refresh_def down_def string_tokens_def)

lemma tokens_survive_reload_witness:
  "refreshToken (load_client (local_storage (sys_client one_sent))) = Some (JStr ''R'')"
  using tokens_survive_reload [OF honest_down one_call_reached]
  by (simp add: one_sent_def one_call_def logged_in_def setTokens_def)

lemma calls_end_witness:
  "call_rank (hd (sys_calls one_sent)) < call_rank (hd (sys_calls one_call)) \<and>
     (\<exists>t. sys_step down one_call t \<and> call_rank (sys_calls t ! 0) < 8)"
proof -
  have len: "0 < length (sys_calls one_call)" "sys_calls one_sent \<noteq> []"
    by (simp_all add: one_call_def one_sent_def)
  have rank: "call_rank (sys_calls one_call ! 0) = 8" "call_rank (hd (sys_calls one_call)) = 8"
    "call_rank (hd (sys_calls one_sent)) = 7"
    by (simp_all add: one_call_def one_sent_def call_rank_def new_call_def)
  from calls_end [OF one_call_sends len] rank show ?thesis by auto
qed

end
