(* ===== verification/Auth_Store.thy ===== *)
theory Auth_Store
  imports Api
begin

text \<open>
  \<open>web/src/stores/auth.ts\<close>: the store every page reads the signed-in user from, and its
  three actions. They are modelled on the direct form of \<open>api\<close>; the state of the client
  and of the network is passed through.
\<close>

subsection \<open>The store\<close>

record auth_state =
  user :: jsval
  loading :: bool

text \<open>The store as the module creates it: \<open>loading\<close> when there is a saved access token.\<close>

definition useAuth :: "web_storage \<Rightarrow> auth_state" where
  "useAuth s =
     \<lparr>user = Some JNull, loading = (case getItem s ''access_token'' of None \<Rightarrow> False | Some v \<Rightarrow> v \<noteq> [])\<rparr>"

definition login_body :: "string \<Rightarrow> string \<Rightarrow> jsval" where
  "login_body username password = Some (JObj [(''username'', JStr username), (''password'', JStr password)])"

text \<open>
  What \<open>login\<close> does with the answer: the tokens are read before they are set, and set
  before the user is read.
\<close>

definition take_login :: "client \<Rightarrow> auth_state \<Rightarrow> json \<Rightarrow> (exn + bool) \<times> client \<times> auth_state" where
  "take_login c au res =
     (case get_prop (Some res) ''data'' of
        Inl e \<Rightarrow> (Inl e, c, au)
      | Inr d \<Rightarrow>
          if \<not> truthy d then (Inr False, c, au)
          else (case get_path d [''tokens'', ''access_token''] of
                  Inl e \<Rightarrow> (Inl e, c, au)
                | Inr a \<Rightarrow>
                    (case get_path d [''tokens'', ''refresh_token''] of
                       Inl e \<Rightarrow> (Inl e, c, au)
                     | Inr r \<Rightarrow>
                         (case get_prop d ''user'' of
                            Inl e \<Rightarrow> (Inl e, setTokens c a r, au)
                          | Inr u \<Rightarrow> (Inr True, setTokens c a r, au\<lparr>user := u\<rparr>)))))"

definition login ::
  "'w network \<Rightarrow> client \<Rightarrow> auth_state \<Rightarrow> 'w \<Rightarrow> string \<Rightarrow> string \<Rightarrow>
     (exn + bool) \<times> client \<times> auth_state \<times> 'w" where
  "login net c au w username password =
     (case api net c w ''/auth/login'' (post_init (login_body username password)) of
        (Inl e, c', w') \<Rightarrow> (Inl e, c', au, w')
      | (Inr res, c', w') \<Rightarrow> (case take_login c' au res of (ok, c'', au') \<Rightarrow> (ok, c'', au', w')))"

definition logout :: "client \<Rightarrow> auth_state \<Rightarrow> client \<times> auth_state" where
  "logout c au = (clearTokens c, au\<lparr>user := Some JNull\<rparr>)"

text \<open>
  What \<open>fetchUser\<close> does with what \<open>api\<close> came to; reading \<open>res.data\<close> may throw, which
  is caught like the call's own errors.
\<close>

definition take_user :: "auth_state \<Rightarrow> exn + json \<Rightarrow> auth_state" where
  "take_user au out =
     (case out of
        Inl _ \<Rightarrow> au\<lparr>user := Some JNull, loading := False\<rparr>
      | Inr res \<Rightarrow>
          (case get_prop (Some res) ''data'' of
             Inl _ \<Rightarrow> au\<lparr>user := Some JNull, loading := False\<rparr>
           | Inr d \<Rightarrow> if truthy d then au\<lparr>user := d, loading := False\<rparr> else au))"

definition fetchUser :: "'w network \<Rightarrow> client \<Rightarrow> auth_state \<Rightarrow> 'w \<Rightarrow> client \<times> auth_state \<times> 'w" where
  "fetchUser net c au w =
     (case api net c w ''/auth/me'' get_init of (out, c', w') \<Rightarrow> (c', take_user au out, w'))"

text \<open>The effect of \<open>App\<close> on mount: \<open>fetchUser\<close> when there is a saved access token.\<close>

definition on_mount :: "'w network \<Rightarrow> client \<Rightarrow> auth_state \<Rightarrow> 'w \<Rightarrow> client \<times> auth_state \<times> 'w" where
  "on_mount net c au w =
     (case getItem (local_storage c) ''access_token'' of
        Some (x # xs) \<Rightarrow> fetchUser net c au w
      | _ \<Rightarrow> (c, au, w))"

lemma take_user_loading:
  "loading (take_user au out) \<longleftrightarrow>
     loading au \<and> (\<exists>res. out = Inr res \<and> res \<noteq> JNull \<and> \<not> truthy (opt_prop (Some res) ''data''))"
proof (cases out)
  case (Inr res)
  then show ?thesis by (cases res) (auto simp: take_user_def opt_prop_def)
qed (simp add: take_user_def)

lemma get_path_object:
  "get_path d (k # k' # ks) = Inr v \<Longrightarrow> \<exists>kvs. d = Some (JObj kvs)"
  by (cases "(d, k)" rule: get_prop.cases) (auto split: sum.splits)

text \<open>The answer of a login either changes nothing or sets the tokens and the user.\<close>

lemma take_login_cases:
  obtains (refused) out where "take_login c au res = (out, c, au)" "out \<noteq> Inr True"
  | (taken) d a r u where "get_prop (Some res) ''data'' = Inr d"
      "get_path d [''tokens'', ''access_token''] = Inr a"
      "get_path d [''tokens'', ''refresh_token''] = Inr r" "get_prop d ''user'' = Inr u"
      "take_login c au res = (Inr True, setTokens c a r, au\<lparr>user := u\<rparr>)"
proof (cases "get_prop (Some res) ''data''")
  case (Inl e)
  then show ?thesis by (intro refused [of "Inl e"]) (simp_all add: take_login_def)
next
  case d: (Inr d)
  show ?thesis
  proof (cases "truthy d \<and> (\<exists>a r. get_path d [''tokens'', ''access_token''] = Inr a \<and>
      get_path d [''tokens'', ''refresh_token''] = Inr r)")
    case True
    then obtain a r where ar: "get_path d [''tokens'', ''access_token''] = Inr a"
      "get_path d [''tokens'', ''refresh_token''] = Inr r" by blast
    from get_path_object [OF ar(1)] obtain kvs where kvs: "d = Some (JObj kvs)" by blast
    then have "get_prop d ''user'' = Inr (map_of kvs ''user'')" by simp
    with d ar True show ?thesis
      by (intro taken [OF d ar]) (auto simp: take_login_def simp del: get_path.simps)
  next
    case False
    then have "\<exists>out. take_login c au res = (out, c, au) \<and> out \<noteq> Inr True"
      using d by (auto simp: take_login_def simp del: get_path.simps split: sum.split)
    then show ?thesis using refused by blast
  qed
qed

subsection \<open>Properties of the store\<close>

text \<open>
  A login sets the tokens and the user together or not at all: \<open>login\<close> returns true
  exactly when the answer holds \<open>data\<close> with both tokens and a user field to read, and then
  both tokens are in memory and in \<open>localStorage\<close> and the user is the answer's; otherwise
  the store is unchanged and the tokens are what the request itself left.
\<close>

theorem login_all_or_nothing:
  "case login net c au w username password of (ok, c', au', w') \<Rightarrow>
     (ok = Inr True \<and>
        (\<exists>res a r. fst (api net c w ''/auth/login'' (post_init (login_body username password))) = Inr res \<and>
           get_path (Some res) [''data'', ''tokens'', ''access_token''] = Inr a \<and>
           get_path (Some res) [''data'', ''tokens'', ''refresh_token''] = Inr r \<and>
           get_path (Some res) [''data'', ''user''] = Inr (user au') \<and> loading au' = loading au \<and>
           accessToken c' = a \<and> refreshToken c' = r \<and>
           getItem (local_storage c') ''access_token'' = Some (js_string a) \<and>
           getItem (local_storage c') ''refresh_token'' = Some (js_string r)))
     \<or> (ok \<noteq> Inr True \<and> au' = au \<and>
        c' = fst (snd (api net c w ''/auth/login'' (post_init (login_body username password)))))"
proof -
  obtain out c1 w1 where o: "api net c w ''/auth/login'' (post_init (login_body username password)) = (out, c1, w1)"
    by (metis prod_cases3)
  show ?thesis
  proof (cases out)
    case (Inl e)
    with o show ?thesis by (simp add: login_def)
  next
    case res: (Inr res)
    show ?thesis
    proof (cases rule: take_login_cases [of c1 au res])
      case (refused ok)
      with o res show ?thesis by (simp add: login_def)
    next
      case (taken d a r u)
      with o res show ?thesis
        by (auto simp: login_def setTokens_def ls.get_put split: sum.splits)
    qed
  qed
qed

text \<open>
  The load of the page ends with the spinner gone except in one case. After the
  effect on mount, \<open>loading\<close> is still set exactly when there is a saved access token and
  \<open>/auth/me\<close> came to an answer (of whatever status) that is not null and has no \<open>data\<close>,
  such as the back end's error answers, which \<open>api\<close> hands on like any other. Nothing
  else ever clears the flag.
\<close>

theorem startup_spinner:
  "loading (fst (snd (on_mount net (load_client s) (useAuth s) w))) \<longleftrightarrow>
     (\<exists>x xs res. getItem s ''access_token'' = Some (x # xs) \<and>
        fst (api net (load_client s) w ''/auth/me'' get_init) = Inr res \<and>
        res \<noteq> JNull \<and> \<not> truthy (opt_prop (Some res) ''data''))"
proof (cases "getItem s ''access_token''")
  case None
  then show ?thesis by (simp add: on_mount_def load_client_def useAuth_def)
next
  case (Some v)
  then show ?thesis
    by (cases v) (auto simp: on_mount_def load_client_def useAuth_def fetchUser_def take_user_loading
        split: prod.splits)
qed

end
