(* ===== verification/I18n.thy ===== *)
theory I18n
  imports Browser
begin

text \<open>
  \<open>web/src/i18n/index.tsx\<close>: the Chinese dictionary (its text as UTF-8 bytes, one
  definition per commented section of the source), the translation function \<open>t\<close> with
  its placeholder substitution, and the provider's language state, kept in
  \<open>localStorage\<close>. Keys reach \<open>t\<close> as literals of the program, so the lookup of an
  inherited property name on the dictionary object does not arise.
\<close>

datatype lang = En | Zh

definition lang_str :: "lang \<Rightarrow> string" where
  "lang_str l = (case l of En \<Rightarrow> ''en'' | Zh \<Rightarrow> ''zh'')"

definition zh_layout :: "(string \<times> string) list" where
  "zh_layout =
    [(''Dashboard'', [CHR 0xE4, CHR 0xBB, CHR 0xAA, CHR 0xE8, CHR 0xA1, CHR 0xA8, CHR 0xE7, CHR 0x9B,
       CHR 0x98]),
     (''Port Forwarding'', [CHR 0xE7, CHR 0xAB, CHR 0xAF, CHR 0xE5, CHR 0x8F, CHR 0xA3, CHR 0xE8,
       CHR 0xBD, CHR 0xAC, CHR 0xE5, CHR 0x8F, CHR 0x91]),
     (''Reverse Proxy'', [CHR 0xE5, CHR 0x8F, CHR 0x8D, CHR 0xE5, CHR 0x90, CHR 0x91, CHR 0xE4,
       CHR 0xBB, CHR 0xA3, CHR 0xE7, CHR 0x90, CHR 0x86]),
     (''DDNS'', [CHR 0xE5, CHR 0x8A, CHR 0xA8, CHR 0xE6, CHR 0x80, CHR 0x81, CHR 0xE5, CHR 0x9F,
       CHR 0x9F, CHR 0xE5, CHR 0x90, CHR 0x8D] @ '' DDNS''),
     (''STUN Tunnel'', ''STUN '' @ [CHR 0xE9, CHR 0x9A, CHR 0xA7, CHR 0xE9, CHR 0x81, CHR 0x93]),
     (''Wake-on-LAN'', [CHR 0xE7, CHR 0xBD, CHR 0x91, CHR 0xE7, CHR 0xBB, CHR 0x9C, CHR 0xE5, CHR 0x94,
       CHR 0xA4, CHR 0xE9, CHR 0x86, CHR 0x92]),
     (''Cron Jobs'', [CHR 0xE5, CHR 0xAE, CHR 0x9A, CHR 0xE6, CHR 0x97, CHR 0xB6, CHR 0xE4, CHR 0xBB,
       CHR 0xBB, CHR 0xE5, CHR 0x8A, CHR 0xA1]),
     (''Certificates'', [CHR 0xE8, CHR 0xAF, CHR 0x81, CHR 0xE4, CHR 0xB9, CHR 0xA6]),
     (''Storage'', [CHR 0xE5, CHR 0xAD, CHR 0x98, CHR 0xE5, CHR 0x82, CHR 0xA8]),
     (''Users'', [CHR 0xE7, CHR 0x94, CHR 0xA8, CHR 0xE6, CHR 0x88, CHR 0xB7]),
     (''Audit Log'', [CHR 0xE5, CHR 0xAE, CHR 0xA1, CHR 0xE8, CHR 0xAE, CHR 0xA1, CHR 0xE6, CHR 0x97,
       CHR 0xA5, CHR 0xE5, CHR 0xBF, CHR 0x97]),
     (''Webhooks'', ''Webhook''),
     (''Settings'', [CHR 0xE8, CHR 0xAE, CHR 0xBE, CHR 0xE7, CHR 0xBD, CHR 0xAE]),
     (''System Online'', [CHR 0xE7, CHR 0xB3, CHR 0xBB, CHR 0xE7, CHR 0xBB, CHR 0x9F, CHR 0xE5,
       CHR 0x9C, CHR 0xA8, CHR 0xE7, CHR 0xBA, CHR 0xBF])]"

definition zh_login :: "(string \<times> string) list" where
  "zh_login =
    [(''Sign in to your admin panel'', [CHR 0xE7, CHR 0x99, CHR 0xBB, CHR 0xE5, CHR 0xBD, CHR 0x95,
       CHR 0xE7, CHR 0xAE, CHR 0xA1, CHR 0xE7, CHR 0x90, CHR 0x86, CHR 0xE9, CHR 0x9D, CHR 0xA2,
       CHR 0xE6, CHR 0x9D, CHR 0xBF]),
     (''Username'', [CHR 0xE7, CHR 0x94, CHR 0xA8, CHR 0xE6, CHR 0x88, CHR 0xB7, CHR 0xE5, CHR 0x90,
       CHR 0x8D]),
     (''Password'', [CHR 0xE5, CHR 0xAF, CHR 0x86, CHR 0xE7, CHR 0xA0, CHR 0x81]),
     (''Enter username'', [CHR 0xE8, CHR 0xAF, CHR 0xB7, CHR 0xE8, CHR 0xBE, CHR 0x93, CHR 0xE5,
       CHR 0x85, CHR 0xA5, CHR 0xE7, CHR 0x94, CHR 0xA8, CHR 0xE6, CHR 0x88, CHR 0xB7, CHR 0xE5,
       CHR 0x90, CHR 0x8D]),
     (''Signing in...'', [CHR 0xE7, CHR 0x99, CHR 0xBB, CHR 0xE5, CHR 0xBD, CHR 0x95, CHR 0xE4,
       CHR 0xB8, CHR 0xAD, CHR 0xE2, CHR 0x80, CHR 0xA6]),
     (''Sign in'', [CHR 0xE7, CHR 0x99, CHR 0xBB, CHR 0xE5, CHR 0xBD, CHR 0x95]),
     (''Invalid credentials'', [CHR 0xE7, CHR 0x94, CHR 0xA8, CHR 0xE6, CHR 0x88, CHR 0xB7, CHR 0xE5,
       CHR 0x90, CHR 0x8D, CHR 0xE6, CHR 0x88, CHR 0x96, CHR 0xE5, CHR 0xAF, CHR 0x86, CHR 0xE7,
       CHR 0xA0, CHR 0x81, CHR 0xE9, CHR 0x94, CHR 0x99, CHR 0xE8, CHR 0xAF, CHR 0xAF])]"

definition zh_dashboard :: "(string \<times> string) list" where
  "zh_dashboard =
    [(''Real-time overview of all network services'', [CHR 0xE6, CHR 0x89, CHR 0x80, CHR 0xE6,
       CHR 0x9C, CHR 0x89, CHR 0xE7, CHR 0xBD, CHR 0x91, CHR 0xE7, CHR 0xBB, CHR 0x9C, CHR 0xE6,
       CHR 0x9C, CHR 0x8D, CHR 0xE5, CHR 0x8A, CHR 0xA1, CHR 0xE7, CHR 0x9A, CHR 0x84, CHR 0xE5,
       CHR 0xAE, CHR 0x9E, CHR 0xE6, CHR 0x97, CHR 0xB6, CHR 0xE6, CHR 0x80, CHR 0xBB, CHR 0xE8,
       CHR 0xA7, CHR 0x88]),
     (''STUN Tunnels'', ''STUN '' @ [CHR 0xE9, CHR 0x9A, CHR 0xA7, CHR 0xE9, CHR 0x81, CHR 0x93]),
     (''WOL Devices'', [CHR 0xE7, CHR 0xBD, CHR 0x91, CHR 0xE7, CHR 0xBB, CHR 0x9C, CHR 0xE5, CHR 0x94,
       CHR 0xA4, CHR 0xE9, CHR 0x86, CHR 0x92, CHR 0xE8, CHR 0xAE, CHR 0xBE, CHR 0xE5, CHR 0xA4,
       CHR 0x87]),
     (''STUN Topology'', ''STUN '' @ [CHR 0xE6, CHR 0x8B, CHR 0x93, CHR 0xE6, CHR 0x89, CHR 0x91]),
     (''Live'', [CHR 0xE5, CHR 0xAE, CHR 0x9E, CHR 0xE6, CHR 0x97, CHR 0xB6]),
     (''Polling'', [CHR 0xE8, CHR 0xBD, CHR 0xAE, CHR 0xE8, CHR 0xAF, CHR 0xA2, CHR 0xE4, CHR 0xB8,
       CHR 0xAD]),
     (''NAT Type'', ''NAT '' @ [CHR 0xE7, CHR 0xB1, CHR 0xBB, CHR 0xE5, CHR 0x9E, CHR 0x8B]),
     (''Public IP'', [CHR 0xE5, CHR 0x85, CHR 0xAC, CHR 0xE7, CHR 0xBD, CHR 0x91] @ '' IP''),
     (''Mapped Port'', [CHR 0xE6, CHR 0x98, CHR 0xA0, CHR 0xE5, CHR 0xB0, CHR 0x84, CHR 0xE7, CHR 0xAB,
       CHR 0xAF, CHR 0xE5, CHR 0x8F, CHR 0xA3]),
     (''STUN Servers'', ''STUN '' @ [CHR 0xE6, CHR 0x9C, CHR 0x8D, CHR 0xE5, CHR 0x8A, CHR 0xA1,
       CHR 0xE5, CHR 0x99, CHR 0xA8]),
     (''Type {n}'', [CHR 0xE7, CHR 0xB1, CHR 0xBB, CHR 0xE5, CHR 0x9E, CHR 0x8B] @ '' {n}''),
     (''Storage Mounts'', [CHR 0xE5, CHR 0xAD, CHR 0x98, CHR 0xE5, CHR 0x82, CHR 0xA8, CHR 0xE6,
       CHR 0x8C, CHR 0x82, CHR 0xE8, CHR 0xBD, CHR 0xBD]),
     (''Mounted'', [CHR 0xE5, CHR 0xB7, CHR 0xB2, CHR 0xE6, CHR 0x8C, CHR 0x82, CHR 0xE8, CHR 0xBD,
       CHR 0xBD]),
     (''Off'', [CHR 0xE5, CHR 0xB7, CHR 0xB2, CHR 0xE5, CHR 0x85, CHR 0xB3, CHR 0xE9, CHR 0x97,
       CHR 0xAD]),
     (''Active Forward Connections'', [CHR 0xE6, CHR 0xB4, CHR 0xBB, CHR 0xE8, CHR 0xB7, CHR 0x83,
       CHR 0xE8, CHR 0xBD, CHR 0xAC, CHR 0xE5, CHR 0x8F, CHR 0x91, CHR 0xE8, CHR 0xBF, CHR 0x9E,
       CHR 0xE6, CHR 0x8E, CHR 0xA5]),
     (''Connecting...'', [CHR 0xE8, CHR 0xBF, CHR 0x9E, CHR 0xE6, CHR 0x8E, CHR 0xA5, CHR 0xE4,
       CHR 0xB8, CHR 0xAD, CHR 0xE2, CHR 0x80, CHR 0xA6]),
     (''Connections'', [CHR 0xE8, CHR 0xBF, CHR 0x9E, CHR 0xE6, CHR 0x8E, CHR 0xA5, CHR 0xE6, CHR 0x95,
       CHR 0xB0]),
     (''In'', [CHR 0xE5, CHR 0x85, CHR 0xA5]),
     (''Out'', [CHR 0xE5, CHR 0x87, CHR 0xBA]),
     (''System Information'', [CHR 0xE7, CHR 0xB3, CHR 0xBB, CHR 0xE7, CHR 0xBB, CHR 0x9F, CHR 0xE4,
       CHR 0xBF, CHR 0xA1, CHR 0xE6, CHR 0x81, CHR 0xAF]),
     (''Uptime:'', [CHR 0xE8, CHR 0xBF, CHR 0x90, CHR 0xE8, CHR 0xA1, CHR 0x8C, CHR 0xE6, CHR 0x97,
       CHR 0xB6, CHR 0xE9, CHR 0x97, CHR 0xB4, CHR 0xEF, CHR 0xBC, CHR 0x9A]),
     (''Version:'', [CHR 0xE7, CHR 0x89, CHR 0x88, CHR 0xE6, CHR 0x9C, CHR 0xAC, CHR 0xEF, CHR 0xBC,
       CHR 0x9A]),
     (''Goroutines:'', [CHR 0xE5, CHR 0x8D, CHR 0x8F, CHR 0xE7, CHR 0xA8, CHR 0x8B, CHR 0xE6, CHR 0x95,
       CHR 0xB0, CHR 0xEF, CHR 0xBC, CHR 0x9A]),
     (''Memory:'', [CHR 0xE5, CHR 0x86, CHR 0x85, CHR 0xE5, CHR 0xAD, CHR 0x98, CHR 0xEF, CHR 0xBC,
       CHR 0x9A]),
     (''Unknown'', [CHR 0xE6, CHR 0x9C, CHR 0xAA, CHR 0xE7, CHR 0x9F, CHR 0xA5]),
     (''Open'', [CHR 0xE5, CHR 0xBC, CHR 0x80, CHR 0xE6, CHR 0x94, CHR 0xBE]),
     (''Full Cone'', [CHR 0xE5, CHR 0x85, CHR 0xA8, CHR 0xE9, CHR 0x94, CHR 0xA5, CHR 0xE5, CHR 0x9E,
       CHR 0x8B]),
     (''Restricted Cone'', [CHR 0xE9, CHR 0x99, CHR 0x90, CHR 0xE5, CHR 0x88, CHR 0xB6, CHR 0xE9,
       CHR 0x94, CHR 0xA5, CHR 0xE5, CHR 0x9E, CHR 0x8B]),
     (''Port Restricted'', [CHR 0xE7, CHR 0xAB, CHR 0xAF, CHR 0xE5, CHR 0x8F, CHR 0xA3, CHR 0xE9,
       CHR 0x99, CHR 0x90, CHR 0xE5, CHR 0x88, CHR 0xB6, CHR 0xE9, CHR 0x94, CHR 0xA5, CHR 0xE5,
       CHR 0x9E, CHR 0x8B]),
     (''Symmetric'', [CHR 0xE5, CHR 0xAF, CHR 0xB9, CHR 0xE7, CHR 0xA7, CHR 0xB0, CHR 0xE5, CHR 0x9E,
       CHR 0x8B])]"

definition zh_forward :: "(string \<times> string) list" where
  "zh_forward =
    [(''TCP/UDP port forwarding rules for IPv4 and IPv6'', [CHR 0xE9, CHR 0x9D, CHR 0xA2, CHR 0xE5,
       CHR 0x90, CHR 0x91] @ '' IPv4/IPv6 '' @ [CHR 0xE7, CHR 0x9A, CHR 0x84] @ '' TCP/UDP '' @
       [CHR 0xE7, CHR 0xAB, CHR 0xAF, CHR 0xE5, CHR 0x8F, CHR 0xA3, CHR 0xE8, CHR 0xBD, CHR 0xAC,
       CHR 0xE5, CHR 0x8F, CHR 0x91, CHR 0xE8, CHR 0xA7, CHR 0x84, CHR 0xE5, CHR 0x88, CHR 0x99]),
     (''Add Rule'', [CHR 0xE6, CHR 0xB7, CHR 0xBB, CHR 0xE5, CHR 0x8A, CHR 0xA0, CHR 0xE8, CHR 0xA7,
       CHR 0x84, CHR 0xE5, CHR 0x88, CHR 0x99]),
     (''Name'', [CHR 0xE5, CHR 0x90, CHR 0x8D, CHR 0xE7, CHR 0xA7, CHR 0xB0]),
     (''Rule name'', [CHR 0xE8, CHR 0xA7, CHR 0x84, CHR 0xE5, CHR 0x88, CHR 0x99, CHR 0xE5, CHR 0x90,
       CHR 0x8D, CHR 0xE7, CHR 0xA7, CHR 0xB0]),
     (''Protocol'', [CHR 0xE5, CHR 0x8D, CHR 0x8F, CHR 0xE8, CHR 0xAE, CHR 0xAE]),
     (''Listen Addr'', [CHR 0xE7, CHR 0x9B, CHR 0x91, CHR 0xE5, CHR 0x90, CHR 0xAC, CHR 0xE5, CHR 0x9C,
       CHR 0xB0, CHR 0xE5, CHR 0x9D, CHR 0x80]),
     (''Listen Port'', [CHR 0xE7, CHR 0x9B, CHR 0x91, CHR 0xE5, CHR 0x90, CHR 0xAC, CHR 0xE7, CHR 0xAB,
       CHR 0xAF, CHR 0xE5, CHR 0x8F, CHR 0xA3]),
     (''Target Addr'', [CHR 0xE7, CHR 0x9B, CHR 0xAE, CHR 0xE6, CHR 0xA0, CHR 0x87, CHR 0xE5, CHR 0x9C,
       CHR 0xB0, CHR 0xE5, CHR 0x9D, CHR 0x80]),
     (''Target Port'', [CHR 0xE7, CHR 0x9B, CHR 0xAE, CHR 0xE6, CHR 0xA0, CHR 0x87, CHR 0xE7, CHR 0xAB,
       CHR 0xAF, CHR 0xE5, CHR 0x8F, CHR 0xA3]),
     (''IPv6'', ''IPv6''),
     (''Enabled'', [CHR 0xE5, CHR 0x90, CHR 0xAF, CHR 0xE7, CHR 0x94, CHR 0xA8]),
     (''Save Rule'', [CHR 0xE4, CHR 0xBF, CHR 0x9D, CHR 0xE5, CHR 0xAD, CHR 0x98, CHR 0xE8, CHR 0xA7,
       CHR 0x84, CHR 0xE5, CHR 0x88, CHR 0x99]),
     (''Listen'', [CHR 0xE7, CHR 0x9B, CHR 0x91, CHR 0xE5, CHR 0x90, CHR 0xAC]),
     (''Target'', [CHR 0xE7, CHR 0x9B, CHR 0xAE, CHR 0xE6, CHR 0xA0, CHR 0x87]),
     (''Status'', [CHR 0xE7, CHR 0x8A, CHR 0xB6, CHR 0xE6, CHR 0x80, CHR 0x81]),
     (''Actions'', [CHR 0xE6, CHR 0x93, CHR 0x8D, CHR 0xE4, CHR 0xBD, CHR 0x9C]),
     (''Loading...'', [CHR 0xE5, CHR 0x8A, CHR 0xA0, CHR 0xE8, CHR 0xBD, CHR 0xBD, CHR 0xE4, CHR 0xB8,
       CHR 0xAD, CHR 0xE2, CHR 0x80, CHR 0xA6]),
     (''No rules yet'', [CHR 0xE6, CHR 0x9A, CHR 0x82, CHR 0xE6, CHR 0x97, CHR 0xA0, CHR 0xE8,
       CHR 0xA7, CHR 0x84, CHR 0xE5, CHR 0x88, CHR 0x99]),
     (''On'', [CHR 0xE5, CHR 0xB7, CHR 0xB2, CHR 0xE5, CHR 0xBC, CHR 0x80, CHR 0xE5, CHR 0x90,
       CHR 0xAF])]"

definition zh_proxy :: "(string \<times> string) list" where
  "zh_proxy =
    [(''HTTP/HTTPS reverse proxy with URL rewrite and access control'', [CHR 0xE5, CHR 0xB8, CHR 0xA6]
       @ '' URL '' @ [CHR 0xE9, CHR 0x87, CHR 0x8D, CHR 0xE5, CHR 0x86, CHR 0x99, CHR 0xE4, CHR 0xB8,
       CHR 0x8E, CHR 0xE8, CHR 0xAE, CHR 0xBF, CHR 0xE9, CHR 0x97, CHR 0xAE, CHR 0xE6, CHR 0x8E,
       CHR 0xA7, CHR 0xE5, CHR 0x88, CHR 0xB6, CHR 0xE7, CHR 0x9A, CHR 0x84] @ '' HTTP/HTTPS '' @
       [CHR 0xE5, CHR 0x8F, CHR 0x8D, CHR 0xE5, CHR 0x90, CHR 0x91, CHR 0xE4, CHR 0xBB, CHR 0xA3,
       CHR 0xE7, CHR 0x90, CHR 0x86]),
     (''Add Proxy'', [CHR 0xE6, CHR 0xB7, CHR 0xBB, CHR 0xE5, CHR 0x8A, CHR 0xA0, CHR 0xE4, CHR 0xBB,
       CHR 0xA3, CHR 0xE7, CHR 0x90, CHR 0x86]),
     (''Proxy name'', [CHR 0xE4, CHR 0xBB, CHR 0xA3, CHR 0xE7, CHR 0x90, CHR 0x86, CHR 0xE5, CHR 0x90,
       CHR 0x8D, CHR 0xE7, CHR 0xA7, CHR 0xB0]),
     (''Domains'', [CHR 0xE5, CHR 0x9F, CHR 0x9F, CHR 0xE5, CHR 0x90, CHR 0x8D]),
     (''Target URL'', [CHR 0xE7, CHR 0x9B, CHR 0xAE, CHR 0xE6, CHR 0xA0, CHR 0x87] @ '' URL''),
     (''TLS'', ''TLS''),
     (''Force HTTPS'', [CHR 0xE5, CHR 0xBC, CHR 0xBA, CHR 0xE5, CHR 0x88, CHR 0xB6] @ '' HTTPS''),
     (''WebSocket'', ''WebSocket''),
     (''Save Proxy'', [CHR 0xE4, CHR 0xBF, CHR 0x9D, CHR 0xE5, CHR 0xAD, CHR 0x98, CHR 0xE4, CHR 0xBB,
       CHR 0xA3, CHR 0xE7, CHR 0x90, CHR 0x86]),
     (''No proxies yet'', [CHR 0xE6, CHR 0x9A, CHR 0x82, CHR 0xE6, CHR 0x97, CHR 0xA0, CHR 0xE4,
       CHR 0xBB, CHR 0xA3, CHR 0xE7, CHR 0x90, CHR 0x86]),
     (''WS'', ''WS'')]"

definition zh_ddns :: "(string \<times> string) list" where
  "zh_ddns =
    [(''Dynamic DNS'', [CHR 0xE5, CHR 0x8A, CHR 0xA8, CHR 0xE6, CHR 0x80, CHR 0x81, CHR 0xE5, CHR 0x9F,
       CHR 0x9F, CHR 0xE5, CHR 0x90, CHR 0x8D] @ '' DDNS''),
     (''Auto-update DNS records for dynamic IP addresses'', [CHR 0xE4, CHR 0xB8, CHR 0xBA, CHR 0xE5,
       CHR 0x8A, CHR 0xA8, CHR 0xE6, CHR 0x80, CHR 0x81] @ '' IP '' @ [CHR 0xE8, CHR 0x87, CHR 0xAA,
       CHR 0xE5, CHR 0x8A, CHR 0xA8, CHR 0xE6, CHR 0x9B, CHR 0xB4, CHR 0xE6, CHR 0x96, CHR 0xB0] @
       '' DNS '' @ [CHR 0xE8, CHR 0xAE, CHR 0xB0, CHR 0xE5, CHR 0xBD, CHR 0x95]),
     (''Add DDNS'', [CHR 0xE6, CHR 0xB7, CHR 0xBB, CHR 0xE5, CHR 0x8A, CHR 0xA0] @ '' DDNS''),
     (''Config name'', [CHR 0xE9, CHR 0x85, CHR 0x8D, CHR 0xE7, CHR 0xBD, CHR 0xAE, CHR 0xE5, CHR 0x90,
       CHR 0x8D, CHR 0xE7, CHR 0xA7, CHR 0xB0]),
     (''Provider'', [CHR 0xE6, CHR 0x9C, CHR 0x8D, CHR 0xE5, CHR 0x8A, CHR 0xA1, CHR 0xE5, CHR 0x95,
       CHR 0x86]),
     (''Domain'', [CHR 0xE5, CHR 0x9F, CHR 0x9F, CHR 0xE5, CHR 0x90, CHR 0x8D]),
     (''Subdomain'', [CHR 0xE5, CHR 0xAD, CHR 0x90, CHR 0xE5, CHR 0x9F, CHR 0x9F, CHR 0xE5, CHR 0x90,
       CHR 0x8D]),
     (''Type'', [CHR 0xE7, CHR 0xB1, CHR 0xBB, CHR 0xE5, CHR 0x9E, CHR 0x8B]),
     (''A (IPv4)'', ''A'' @ [CHR 0xEF, CHR 0xBC, CHR 0x88] @ ''IPv4'' @ [CHR 0xEF, CHR 0xBC, CHR 0x89]),
     (''AAAA (IPv6)'', ''AAAA'' @ [CHR 0xEF, CHR 0xBC, CHR 0x88] @ ''IPv6'' @ [CHR 0xEF, CHR 0xBC,
       CHR 0x89]),
     (''Interval (s)'', [CHR 0xE9, CHR 0x97, CHR 0xB4, CHR 0xE9, CHR 0x9A, CHR 0x94, CHR 0xEF,
       CHR 0xBC, CHR 0x88, CHR 0xE7, CHR 0xA7, CHR 0x92, CHR 0xEF, CHR 0xBC, CHR 0x89]),
     (''Save Config'', [CHR 0xE4, CHR 0xBF, CHR 0x9D, CHR 0xE5, CHR 0xAD, CHR 0x98, CHR 0xE9, CHR 0x85,
       CHR 0x8D, CHR 0xE7, CHR 0xBD, CHR 0xAE]),
     (''No DDNS configs'', [CHR 0xE6, CHR 0x9A, CHR 0x82, CHR 0xE6, CHR 0x97, CHR 0xA0] @ '' DDNS '' @
       [CHR 0xE9, CHR 0x85, CHR 0x8D, CHR 0xE7, CHR 0xBD, CHR 0xAE]),
     (''Interval'', [CHR 0xE9, CHR 0x97, CHR 0xB4, CHR 0xE9, CHR 0x9A, CHR 0x94])]"

definition zh_stun :: "(string \<times> string) list" where
  "zh_stun =
    [(''NAT traversal tunnels for accessing services behind NAT'', [CHR 0xE7, CHR 0x94, CHR 0xA8,
       CHR 0xE4, CHR 0xBA, CHR 0x8E, CHR 0xE8, CHR 0xAE, CHR 0xBF, CHR 0xE9, CHR 0x97, CHR 0xAE] @
       '' NAT '' @ [CHR 0xE5, CHR 0x90, CHR 0x8E, CHR 0xE6, CHR 0x9C, CHR 0x8D, CHR 0xE5, CHR 0x8A,
       CHR 0xA1, CHR 0xE7, CHR 0x9A, CHR 0x84, CHR 0xE7, CHR 0xA9, CHR 0xBF, CHR 0xE9, CHR 0x80,
       CHR 0x8F, CHR 0xE9, CHR 0x9A, CHR 0xA7, CHR 0xE9, CHR 0x81, CHR 0x93]),
     (''Add Tunnel'', [CHR 0xE6, CHR 0xB7, CHR 0xBB, CHR 0xE5, CHR 0x8A, CHR 0xA0, CHR 0xE9, CHR 0x9A,
       CHR 0xA7, CHR 0xE9, CHR 0x81, CHR 0x93]),
     (''Tunnel name'', [CHR 0xE9, CHR 0x9A, CHR 0xA7, CHR 0xE9, CHR 0x81, CHR 0x93, CHR 0xE5, CHR 0x90,
       CHR 0x8D, CHR 0xE7, CHR 0xA7, CHR 0xB0]),
     (''STUN Server'', ''STUN '' @ [CHR 0xE6, CHR 0x9C, CHR 0x8D, CHR 0xE5, CHR 0x8A, CHR 0xA1,
       CHR 0xE5, CHR 0x99, CHR 0xA8]),
     (''Local Port'', [CHR 0xE6, CHR 0x9C, CHR 0xAC, CHR 0xE5, CHR 0x9C, CHR 0xB0, CHR 0xE7, CHR 0xAB,
       CHR 0xAF, CHR 0xE5, CHR 0x8F, CHR 0xA3]),
     (''Remote Port'', [CHR 0xE8, CHR 0xBF, CHR 0x9C, CHR 0xE7, CHR 0xAB, CHR 0xAF, CHR 0xE7, CHR 0xAB,
       CHR 0xAF, CHR 0xE5, CHR 0x8F, CHR 0xA3]),
     (''Save'', [CHR 0xE4, CHR 0xBF, CHR 0x9D, CHR 0xE5, CHR 0xAD, CHR 0x98]),
     (''Local:Remote'', [CHR 0xE6, CHR 0x9C, CHR 0xAC, CHR 0xE5, CHR 0x9C, CHR 0xB0] @ '':'' @
       [CHR 0xE8, CHR 0xBF, CHR 0x9C, CHR 0xE7, CHR 0xAB, CHR 0xAF]),
     (''No tunnels'', [CHR 0xE6, CHR 0x9A, CHR 0x82, CHR 0xE6, CHR 0x97, CHR 0xA0, CHR 0xE9, CHR 0x9A,
       CHR 0xA7, CHR 0xE9, CHR 0x81, CHR 0x93]),
     (''Active'', [CHR 0xE8, CHR 0xBF, CHR 0x90, CHR 0xE8, CHR 0xA1, CHR 0x8C, CHR 0xE4, CHR 0xB8,
       CHR 0xAD])]"

definition zh_wol :: "(string \<times> string) list" where
  "zh_wol =
    [(''Remotely wake devices on your network via magic packet'', [CHR 0xE9, CHR 0x80, CHR 0x9A,
       CHR 0xE8, CHR 0xBF, CHR 0x87, CHR 0xE7, CHR 0xBD, CHR 0x91, CHR 0xE7, CHR 0xBB, CHR 0x9C,
       CHR 0xE9, CHR 0xAD, CHR 0x94, CHR 0xE6, CHR 0x9C, CHR 0xAF, CHR 0xE5, CHR 0x8C, CHR 0x85,
       CHR 0xE8, CHR 0xBF, CHR 0x9C, CHR 0xE7, CHR 0xA8, CHR 0x8B, CHR 0xE5, CHR 0x94, CHR 0xA4,
       CHR 0xE9, CHR 0x86, CHR 0x92, CHR 0xE8, CHR 0xAE, CHR 0xBE, CHR 0xE5, CHR 0xA4, CHR 0x87]),
     (''Add Device'', [CHR 0xE6, CHR 0xB7, CHR 0xBB, CHR 0xE5, CHR 0x8A, CHR 0xA0, CHR 0xE8, CHR 0xAE,
       CHR 0xBE, CHR 0xE5, CHR 0xA4, CHR 0x87]),
     (''Device name'', [CHR 0xE8, CHR 0xAE, CHR 0xBE, CHR 0xE5, CHR 0xA4, CHR 0x87, CHR 0xE5, CHR 0x90,
       CHR 0x8D, CHR 0xE7, CHR 0xA7, CHR 0xB0]),
     (''MAC Address'', ''MAC '' @ [CHR 0xE5, CHR 0x9C, CHR 0xB0, CHR 0xE5, CHR 0x9D, CHR 0x80]),
     (''Broadcast'', [CHR 0xE5, CHR 0xB9, CHR 0xBF, CHR 0xE6, CHR 0x92, CHR 0xAD, CHR 0xE5, CHR 0x9C,
       CHR 0xB0, CHR 0xE5, CHR 0x9D, CHR 0x80]),
     (''Port'', [CHR 0xE7, CHR 0xAB, CHR 0xAF, CHR 0xE5, CHR 0x8F, CHR 0xA3]),
     (''Save Device'', [CHR 0xE4, CHR 0xBF, CHR 0x9D, CHR 0xE5, CHR 0xAD, CHR 0x98, CHR 0xE8, CHR 0xAE,
       CHR 0xBE, CHR 0xE5, CHR 0xA4, CHR 0x87]),
     (''MAC'', ''MAC''),
     (''No devices'', [CHR 0xE6, CHR 0x9A, CHR 0x82, CHR 0xE6, CHR 0x97, CHR 0xA0, CHR 0xE8, CHR 0xAE,
       CHR 0xBE, CHR 0xE5, CHR 0xA4, CHR 0x87]),
     (''Wake'', [CHR 0xE5, CHR 0x94, CHR 0xA4, CHR 0xE9, CHR 0x86, CHR 0x92])]"

definition zh_cron :: "(string \<times> string) list" where
  "zh_cron =
    [(''Schedule commands and module operations'', [CHR 0xE8, CHR 0xB0, CHR 0x83, CHR 0xE5, CHR 0xBA,
       CHR 0xA6, CHR 0xE5, CHR 0x91, CHR 0xBD, CHR 0xE4, CHR 0xBB, CHR 0xA4, CHR 0xE4, CHR 0xB8,
       CHR 0x8E, CHR 0xE6, CHR 0xA8, CHR 0xA1, CHR 0xE5, CHR 0x9D, CHR 0x97, CHR 0xE6, CHR 0x93,
       CHR 0x8D, CHR 0xE4, CHR 0xBD, CHR 0x9C]),
     (''Add Job'', [CHR 0xE6, CHR 0xB7, CHR 0xBB, CHR 0xE5, CHR 0x8A, CHR 0xA0, CHR 0xE4, CHR 0xBB,
       CHR 0xBB, CHR 0xE5, CHR 0x8A, CHR 0xA1]),
     (''Job name'', [CHR 0xE4, CHR 0xBB, CHR 0xBB, CHR 0xE5, CHR 0x8A, CHR 0xA1, CHR 0xE5, CHR 0x90,
       CHR 0x8D, CHR 0xE7, CHR 0xA7, CHR 0xB0]),
     (''Cron Expression'', ''Cron '' @ [CHR 0xE8, CHR 0xA1, CHR 0xA8, CHR 0xE8, CHR 0xBE, CHR 0xBE,
       CHR 0xE5, CHR 0xBC, CHR 0x8F]),
     (''Shell Command'', ''Shell '' @ [CHR 0xE5, CHR 0x91, CHR 0xBD, CHR 0xE4, CHR 0xBB, CHR 0xA4]),
     (''Module Toggle'', [CHR 0xE6, CHR 0xA8, CHR 0xA1, CHR 0xE5, CHR 0x9D, CHR 0x97, CHR 0xE5,
       CHR 0xBC, CHR 0x80, CHR 0xE5, CHR 0x85, CHR 0xB3]),
     (''Command'', [CHR 0xE5, CHR 0x91, CHR 0xBD, CHR 0xE4, CHR 0xBB, CHR 0xA4]),
     (''Module'', [CHR 0xE6, CHR 0xA8, CHR 0xA1, CHR 0xE5, CHR 0x9D, CHR 0x97]),
     (''Save Job'', [CHR 0xE4, CHR 0xBF, CHR 0x9D, CHR 0xE5, CHR 0xAD, CHR 0x98, CHR 0xE4, CHR 0xBB,
       CHR 0xBB, CHR 0xE5, CHR 0x8A, CHR 0xA1]),
     (''Schedule'', [CHR 0xE8, CHR 0xB0, CHR 0x83, CHR 0xE5, CHR 0xBA, CHR 0xA6]),
     (''Last Run'', [CHR 0xE4, CHR 0xB8, CHR 0x8A, CHR 0xE6, CHR 0xAC, CHR 0xA1, CHR 0xE8, CHR 0xBF,
       CHR 0x90, CHR 0xE8, CHR 0xA1, CHR 0x8C]),
     (''No jobs'', [CHR 0xE6, CHR 0x9A, CHR 0x82, CHR 0xE6, CHR 0x97, CHR 0xA0, CHR 0xE4, CHR 0xBB,
       CHR 0xBB, CHR 0xE5, CHR 0x8A, CHR 0xA1]),
     (''Shell'', ''Shell''),
     (''Toggle'', [CHR 0xE5, CHR 0xBC, CHR 0x80, CHR 0xE5, CHR 0x85, CHR 0xB3]),
     (''Never'', [CHR 0xE4, CHR 0xBB, CHR 0x8E, CHR 0xE6, CHR 0x9C, CHR 0xAA]),
     (''Paused'', [CHR 0xE5, CHR 0xB7, CHR 0xB2, CHR 0xE6, CHR 0x9A, CHR 0x82, CHR 0xE5, CHR 0x81,
       CHR 0x9C])]"

definition zh_acme :: "(string \<times> string) list" where
  "zh_acme =
    [(''SSL Certificates'', ''SSL '' @ [CHR 0xE8, CHR 0xAF, CHR 0x81, CHR 0xE4, CHR 0xB9, CHR 0xA6]),
     (''Automatic SSL/TLS certificate management via ACME'', [CHR 0xE9, CHR 0x80, CHR 0x9A, CHR 0xE8,
       CHR 0xBF, CHR 0x87] @ '' ACME '' @ [CHR 0xE8, CHR 0x87, CHR 0xAA, CHR 0xE5, CHR 0x8A, CHR 0xA8,
       CHR 0xE7, CHR 0xAE, CHR 0xA1, CHR 0xE7, CHR 0x90, CHR 0x86] @ '' SSL/TLS '' @ [CHR 0xE8, CHR 0xAF,
       CHR 0x81, CHR 0xE4, CHR 0xB9, CHR 0xA6]),
     (''Request Certificate'', [CHR 0xE7, CHR 0x94, CHR 0xB3, CHR 0xE8, CHR 0xAF, CHR 0xB7, CHR 0xE8,
       CHR 0xAF, CHR 0x81, CHR 0xE4, CHR 0xB9, CHR 0xA6]),
     (''Cert name'', [CHR 0xE8, CHR 0xAF, CHR 0x81, CHR 0xE4, CHR 0xB9, CHR 0xA6, CHR 0xE5, CHR 0x90,
       CHR 0x8D, CHR 0xE7, CHR 0xA7, CHR 0xB0]),
     (''Domains (comma-separated)'', [CHR 0xE5, CHR 0x9F, CHR 0x9F, CHR 0xE5, CHR 0x90, CHR 0x8D,
       CHR 0xEF, CHR 0xBC, CHR 0x88, CHR 0xE9, CHR 0x80, CHR 0x97, CHR 0xE5, CHR 0x8F, CHR 0xB7,
       CHR 0xE5, CHR 0x88, CHR 0x86, CHR 0xE9, CHR 0x9A, CHR 0x94, CHR 0xEF, CHR 0xBC, CHR 0x89]),
     (''Email'', [CHR 0xE9, CHR 0x82, CHR 0xAE, CHR 0xE7, CHR 0xAE, CHR 0xB1]),
     (''DNS Provider'', ''DNS '' @ [CHR 0xE6, CHR 0x9C, CHR 0x8D, CHR 0xE5, CHR 0x8A, CHR 0xA1,
       CHR 0xE5, CHR 0x95, CHR 0x86]),
     (''Auto Renew'', [CHR 0xE8, CHR 0x87, CHR 0xAA, CHR 0xE5, CHR 0x8A, CHR 0xA8, CHR 0xE7, CHR 0xBB,
       CHR 0xAD, CHR 0xE6, CHR 0x9C, CHR 0x9F]),
     (''Issue Certificate'', [CHR 0xE7, CHR 0xAD, CHR 0xBE, CHR 0xE5, CHR 0x8F, CHR 0x91, CHR 0xE8,
       CHR 0xAF, CHR 0x81, CHR 0xE4, CHR 0xB9, CHR 0xA6]),
     (''Expires'', [CHR 0xE5, CHR 0x88, CHR 0xB0, CHR 0xE6, CHR 0x9C, CHR 0x9F, CHR 0xE6, CHR 0x97,
       CHR 0xB6, CHR 0xE9, CHR 0x97, CHR 0xB4]),
     (''No certificates'', [CHR 0xE6, CHR 0x9A, CHR 0x82, CHR 0xE6, CHR 0x97, CHR 0xA0, CHR 0xE8,
       CHR 0xAF, CHR 0x81, CHR 0xE4, CHR 0xB9, CHR 0xA6]),
     (''Renew'', [CHR 0xE7, CHR 0xBB, CHR 0xAD, CHR 0xE6, CHR 0x9C, CHR 0x9F])]"

definition zh_storage :: "(string \<times> string) list" where
  "zh_storage =
    [(''Network Storage'', [CHR 0xE7, CHR 0xBD, CHR 0x91, CHR 0xE7, CHR 0xBB, CHR 0x9C, CHR 0xE5,
       CHR 0xAD, CHR 0x98, CHR 0xE5, CHR 0x82, CHR 0xA8]),
     (''Mount local or remote storage and serve via FileBrowser, WebDAV, FTP'', [CHR 0xE6, CHR 0x8C,
       CHR 0x82, CHR 0xE8, CHR 0xBD, CHR 0xBD, CHR 0xE6, CHR 0x9C, CHR 0xAC, CHR 0xE5, CHR 0x9C,
       CHR 0xB0, CHR 0xE6, CHR 0x88, CHR 0x96, CHR 0xE8, CHR 0xBF, CHR 0x9C, CHR 0xE7, CHR 0xA8,
       CHR 0x8B, CHR 0xE5, CHR 0xAD, CHR 0x98, CHR 0xE5, CHR 0x82, CHR 0xA8, CHR 0xEF, CHR 0xBC,
       CHR 0x8C, CHR 0xE9, CHR 0x80, CHR 0x9A, CHR 0xE8, CHR 0xBF, CHR 0x87] @
       '' FileBrowser / WebDAV / FTP '' @ [CHR 0xE6, CHR 0x8F, CHR 0x90, CHR 0xE4, CHR 0xBE, CHR 0x9B,
       CHR 0xE6, CHR 0x9C, CHR 0x8D, CHR 0xE5, CHR 0x8A, CHR 0xA1]),
     (''Add Mount'', [CHR 0xE6, CHR 0xB7, CHR 0xBB, CHR 0xE5, CHR 0x8A, CHR 0xA0, CHR 0xE6, CHR 0x8C,
       CHR 0x82, CHR 0xE8, CHR 0xBD, CHR 0xBD]),
     (''Mount name'', [CHR 0xE6, CHR 0x8C, CHR 0x82, CHR 0xE8, CHR 0xBD, CHR 0xBD, CHR 0xE5, CHR 0x90,
       CHR 0x8D, CHR 0xE7, CHR 0xA7, CHR 0xB0]),
     (''Local Path'', [CHR 0xE6, CHR 0x9C, CHR 0xAC, CHR 0xE5, CHR 0x9C, CHR 0xB0, CHR 0xE8, CHR 0xB7,
       CHR 0xAF, CHR 0xE5, CHR 0xBE, CHR 0x84]),
     (''AliyunDrive'', [CHR 0xE9, CHR 0x98, CHR 0xBF, CHR 0xE9, CHR 0x87, CHR 0x8C, CHR 0xE4, CHR 0xBA,
       CHR 0x91, CHR 0xE7, CHR 0x9B, CHR 0x98]),
     (''Source'', [CHR 0xE6, CHR 0x9D, CHR 0xA5, CHR 0xE6, CHR 0xBA, CHR 0x90]),
     (''Services:'', [CHR 0xE6, CHR 0x9C, CHR 0x8D, CHR 0xE5, CHR 0x8A, CHR 0xA1, CHR 0xEF, CHR 0xBC,
       CHR 0x9A]),
     (''Services'', [CHR 0xE6, CHR 0x9C, CHR 0x8D, CHR 0xE5, CHR 0x8A, CHR 0xA1]),
     (''FTP Port'', ''FTP '' @ [CHR 0xE7, CHR 0xAB, CHR 0xAF, CHR 0xE5, CHR 0x8F, CHR 0xA3]),
     (''Save Mount'', [CHR 0xE4, CHR 0xBF, CHR 0x9D, CHR 0xE5, CHR 0xAD, CHR 0x98, CHR 0xE6, CHR 0x8C,
       CHR 0x82, CHR 0xE8, CHR 0xBD, CHR 0xBD]),
     (''No mounts'', [CHR 0xE6, CHR 0x9A, CHR 0x82, CHR 0xE6, CHR 0x97, CHR 0xA0, CHR 0xE6, CHR 0x8C,
       CHR 0x82, CHR 0xE8, CHR 0xBD, CHR 0xBD])]"

definition zh_users :: "(string \<times> string) list" where
  "zh_users =
    [(''User management'', [CHR 0xE7, CHR 0x94, CHR 0xA8, CHR 0xE6, CHR 0x88, CHR 0xB7, CHR 0xE7,
       CHR 0xAE, CHR 0xA1, CHR 0xE7, CHR 0x90, CHR 0x86]),
     (''You do not have permission to manage users.'', [CHR 0xE6, CHR 0x82, CHR 0xA8, CHR 0xE6,
       CHR 0xB2, CHR 0xA1, CHR 0xE6, CHR 0x9C, CHR 0x89, CHR 0xE6, CHR 0x9D, CHR 0x83, CHR 0xE9,
       CHR 0x99, CHR 0x90, CHR 0xE7, CHR 0xAE, CHR 0xA1, CHR 0xE7, CHR 0x90, CHR 0x86, CHR 0xE7,
       CHR 0x94, CHR 0xA8, CHR 0xE6, CHR 0x88, CHR 0xB7, CHR 0xE3, CHR 0x80, CHR 0x82]),
     (''New password for {name} (min 8 characters):'', [CHR 0xE4, CHR 0xB8, CHR 0xBA] @ '' {name} '' @
       [CHR 0xE8, CHR 0xAE, CHR 0xBE, CHR 0xE7, CHR 0xBD, CHR 0xAE, CHR 0xE6, CHR 0x96, CHR 0xB0,
       CHR 0xE5, CHR 0xAF, CHR 0x86, CHR 0xE7, CHR 0xA0, CHR 0x81, CHR 0xEF, CHR 0xBC, CHR 0x88,
       CHR 0xE8, CHR 0x87, CHR 0xB3, CHR 0xE5, CHR 0xB0, CHR 0x91] @ '' 8 '' @ [CHR 0xE4, CHR 0xB8,
       CHR 0xAA, CHR 0xE5, CHR 0xAD, CHR 0x97, CHR 0xE7, CHR 0xAC, CHR 0xA6, CHR 0xEF, CHR 0xBC,
       CHR 0x89, CHR 0xEF, CHR 0xBC, CHR 0x9A]),
     (''Password must be at least 8 characters'', [CHR 0xE5, CHR 0xAF, CHR 0x86, CHR 0xE7, CHR 0xA0,
       CHR 0x81, CHR 0xE8, CHR 0x87, CHR 0xB3, CHR 0xE5, CHR 0xB0, CHR 0x91, CHR 0xE9, CHR 0x9C,
       CHR 0x80, CHR 0xE8, CHR 0xA6, CHR 0x81] @ '' 8 '' @ [CHR 0xE4, CHR 0xB8, CHR 0xAA, CHR 0xE5,
       CHR 0xAD, CHR 0x97, CHR 0xE7, CHR 0xAC, CHR 0xA6]),
     (''Delete user {name}?'', [CHR 0xE7, CHR 0xA1, CHR 0xAE, CHR 0xE5, CHR 0xAE, CHR 0x9A, CHR 0xE5,
       CHR 0x88, CHR 0xA0, CHR 0xE9, CHR 0x99, CHR 0xA4, CHR 0xE7, CHR 0x94, CHR 0xA8, CHR 0xE6,
       CHR 0x88, CHR 0xB7] @ '' {name} '' @ [CHR 0xE5, CHR 0x90, CHR 0x97, CHR 0xEF, CHR 0xBC, CHR 0x9F]),
     (''Create and manage user accounts and roles'', [CHR 0xE5, CHR 0x88, CHR 0x9B, CHR 0xE5, CHR 0xBB,
       CHR 0xBA, CHR 0xE5, CHR 0xB9, CHR 0xB6, CHR 0xE7, CHR 0xAE, CHR 0xA1, CHR 0xE7, CHR 0x90,
       CHR 0x86, CHR 0xE7, CHR 0x94, CHR 0xA8, CHR 0xE6, CHR 0x88, CHR 0xB7, CHR 0xE8, CHR 0xB4,
       CHR 0xA6, CHR 0xE6, CHR 0x88, CHR 0xB7, CHR 0xE4, CHR 0xB8, CHR 0x8E, CHR 0xE8, CHR 0xA7,
       CHR 0x92, CHR 0xE8, CHR 0x89, CHR 0xB2]),
     (''Add User'', [CHR 0xE6, CHR 0xB7, CHR 0xBB, CHR 0xE5, CHR 0x8A, CHR 0xA0, CHR 0xE7, CHR 0x94,
       CHR 0xA8, CHR 0xE6, CHR 0x88, CHR 0xB7]),
     (''Role'', [CHR 0xE8, CHR 0xA7, CHR 0x92, CHR 0xE8, CHR 0x89, CHR 0xB2]),
     (''Initial Password'', [CHR 0xE5, CHR 0x88, CHR 0x9D, CHR 0xE5, CHR 0xA7, CHR 0x8B, CHR 0xE5,
       CHR 0xAF, CHR 0x86, CHR 0xE7, CHR 0xA0, CHR 0x81]),
     (''min 8 chars'', [CHR 0xE8, CHR 0x87, CHR 0xB3, CHR 0xE5, CHR 0xB0, CHR 0x91] @ '' 8 '' @
       [CHR 0xE4, CHR 0xB8, CHR 0xAA, CHR 0xE5, CHR 0xAD, CHR 0x97, CHR 0xE7, CHR 0xAC, CHR 0xA6]),
     (''New users must change their password on first login.'', [CHR 0xE6, CHR 0x96, CHR 0xB0,
       CHR 0xE7, CHR 0x94, CHR 0xA8, CHR 0xE6, CHR 0x88, CHR 0xB7, CHR 0xE9, CHR 0xA6, CHR 0x96,
       CHR 0xE6, CHR 0xAC, CHR 0xA1, CHR 0xE7, CHR 0x99, CHR 0xBB, CHR 0xE5, CHR 0xBD, CHR 0x95,
       CHR 0xE6, CHR 0x97, CHR 0xB6, CHR 0xE5, CHR 0xBF, CHR 0x85, CHR 0xE9, CHR 0xA1, CHR 0xBB,
       CHR 0xE4, CHR 0xBF, CHR 0xAE, CHR 0xE6, CHR 0x94, CHR 0xB9, CHR 0xE5, CHR 0xAF, CHR 0x86,
       CHR 0xE7, CHR 0xA0, CHR 0x81, CHR 0xE3, CHR 0x80, CHR 0x82]),
     (''No users yet'', [CHR 0xE6, CHR 0x9A, CHR 0x82, CHR 0xE6, CHR 0x97, CHR 0xA0, CHR 0xE7,
       CHR 0x94, CHR 0xA8, CHR 0xE6, CHR 0x88, CHR 0xB7]),
     (''you'', [CHR 0xE4, CHR 0xBD, CHR 0xA0]),
     (''Reset password'', [CHR 0xE9, CHR 0x87, CHR 0x8D, CHR 0xE7, CHR 0xBD, CHR 0xAE, CHR 0xE5,
       CHR 0xAF, CHR 0x86, CHR 0xE7, CHR 0xA0, CHR 0x81]),
     (''Delete user'', [CHR 0xE5, CHR 0x88, CHR 0xA0, CHR 0xE9, CHR 0x99, CHR 0xA4, CHR 0xE7, CHR 0x94,
       CHR 0xA8, CHR 0xE6, CHR 0x88, CHR 0xB7]),
     (''Create failed '' @ [CHR 0xE2, CHR 0x80, CHR 0x94] @ '' username may already exist'', [CHR 0xE5,
       CHR 0x88, CHR 0x9B, CHR 0xE5, CHR 0xBB, CHR 0xBA, CHR 0xE5, CHR 0xA4, CHR 0xB1, CHR 0xE8,
       CHR 0xB4, CHR 0xA5, CHR 0xE2, CHR 0x80, CHR 0x94, CHR 0xE2, CHR 0x80, CHR 0x94, CHR 0xE7,
       CHR 0x94, CHR 0xA8, CHR 0xE6, CHR 0x88, CHR 0xB7, CHR 0xE5, CHR 0x90, CHR 0x8D, CHR 0xE5,
       CHR 0x8F, CHR 0xAF, CHR 0xE8, CHR 0x83, CHR 0xBD, CHR 0xE5, CHR 0xB7, CHR 0xB2, CHR 0xE5,
       CHR 0xAD, CHR 0x98, CHR 0xE5, CHR 0x9C, CHR 0xA8])]"

definition zh_audit :: "(string \<times> string) list" where
  "zh_audit =
    [(''Security audit trail'', [CHR 0xE5, CHR 0xAE, CHR 0x89, CHR 0xE5, CHR 0x85, CHR 0xA8, CHR 0xE5,
       CHR 0xAE, CHR 0xA1, CHR 0xE8, CHR 0xAE, CHR 0xA1, CHR 0xE8, CHR 0xBF, CHR 0xBD, CHR 0xE8,
       CHR 0xB8, CHR 0xAA]),
     (''You do not have permission to view audit logs.'', [CHR 0xE6, CHR 0x82, CHR 0xA8, CHR 0xE6,
       CHR 0xB2, CHR 0xA1, CHR 0xE6, CHR 0x9C, CHR 0x89, CHR 0xE6, CHR 0x9D, CHR 0x83, CHR 0xE9,
       CHR 0x99, CHR 0x90, CHR 0xE6, CHR 0x9F, CHR 0xA5, CHR 0xE7, CHR 0x9C, CHR 0x8B, CHR 0xE5,
       CHR 0xAE, CHR 0xA1, CHR 0xE8, CHR 0xAE, CHR 0xA1, CHR 0xE6, CHR 0x97, CHR 0xA5, CHR 0xE5,
       CHR 0xBF, CHR 0x97, CHR 0xE3, CHR 0x80, CHR 0x82]),
     (''Security audit trail of all mutations'', [CHR 0xE6, CHR 0x89, CHR 0x80, CHR 0xE6, CHR 0x9C,
       CHR 0x89, CHR 0xE5, CHR 0x8F, CHR 0x98, CHR 0xE6, CHR 0x9B, CHR 0xB4, CHR 0xE6, CHR 0x93,
       CHR 0x8D, CHR 0xE4, CHR 0xBD, CHR 0x9C, CHR 0xE7, CHR 0x9A, CHR 0x84, CHR 0xE5, CHR 0xAE,
       CHR 0x89, CHR 0xE5, CHR 0x85, CHR 0xA8, CHR 0xE5, CHR 0xAE, CHR 0xA1, CHR 0xE8, CHR 0xAE,
       CHR 0xA1, CHR 0xE8, CHR 0xBF, CHR 0xBD, CHR 0xE8, CHR 0xB8, CHR 0xAA]),
     (''Action'', [CHR 0xE6, CHR 0x93, CHR 0x8D, CHR 0xE4, CHR 0xBD, CHR 0x9C]),
     (''All'', [CHR 0xE5, CHR 0x85, CHR 0xA8, CHR 0xE9, CHR 0x83, CHR 0xA8]),
     (''Resource'', [CHR 0xE8, CHR 0xB5, CHR 0x84, CHR 0xE6, CHR 0xBA, CHR 0x90]),
     (''filter by user'', [CHR 0xE6, CHR 0x8C, CHR 0x89, CHR 0xE7, CHR 0x94, CHR 0xA8, CHR 0xE6,
       CHR 0x88, CHR 0xB7, CHR 0xE7, CHR 0xAD, CHR 0x9B, CHR 0xE9, CHR 0x80, CHR 0x89]),
     (''Apply'', [CHR 0xE5, CHR 0xBA, CHR 0x94, CHR 0xE7, CHR 0x94, CHR 0xA8]),
     (''Time'', [CHR 0xE6, CHR 0x97, CHR 0xB6, CHR 0xE9, CHR 0x97, CHR 0xB4]),
     (''User'', [CHR 0xE7, CHR 0x94, CHR 0xA8, CHR 0xE6, CHR 0x88, CHR 0xB7]),
     (''Resource ID'', [CHR 0xE8, CHR 0xB5, CHR 0x84, CHR 0xE6, CHR 0xBA, CHR 0x90] @ '' ID''),
     (''Remote'', [CHR 0xE6, CHR 0x9D, CHR 0xA5, CHR 0xE6, CHR 0xBA, CHR 0x90, CHR 0xE5, CHR 0x9C,
       CHR 0xB0, CHR 0xE5, CHR 0x9D, CHR 0x80]),
     (''No audit events'', [CHR 0xE6, CHR 0x9A, CHR 0x82, CHR 0xE6, CHR 0x97, CHR 0xA0, CHR 0xE5,
       CHR 0xAE, CHR 0xA1, CHR 0xE8, CHR 0xAE, CHR 0xA1, CHR 0xE4, CHR 0xBA, CHR 0x8B, CHR 0xE4,
       CHR 0xBB, CHR 0xB6]),
     (''Page {page} of {total} ({count} events)'', [CHR 0xE7, CHR 0xAC, CHR 0xAC] @
       '' {page} / {total} '' @ [CHR 0xE9, CHR 0xA1, CHR 0xB5, CHR 0xEF, CHR 0xBC, CHR 0x88, CHR 0xE5,
       CHR 0x85, CHR 0xB1] @ '' {count} '' @ [CHR 0xE6, CHR 0x9D, CHR 0xA1, CHR 0xE4, CHR 0xBA, CHR 0x8B,
       CHR 0xE4, CHR 0xBB, CHR 0xB6, CHR 0xEF, CHR 0xBC, CHR 0x89]),
     (''Prev'', [CHR 0xE4, CHR 0xB8, CHR 0x8A, CHR 0xE4, CHR 0xB8, CHR 0x80, CHR 0xE9, CHR 0xA1,
       CHR 0xB5]),
     (''Next'', [CHR 0xE4, CHR 0xB8, CHR 0x8B, CHR 0xE4, CHR 0xB8, CHR 0x80, CHR 0xE9, CHR 0xA1,
       CHR 0xB5])]"

definition zh_webhooks :: "(string \<times> string) list" where
  "zh_webhooks =
    [(''Receive NetBerth events at an external URL'', [CHR 0xE5, CHR 0x9C, CHR 0xA8, CHR 0xE5,
       CHR 0xA4, CHR 0x96, CHR 0xE9, CHR 0x83, CHR 0xA8] @ '' URL '' @ [CHR 0xE6, CHR 0x8E, CHR 0xA5,
       CHR 0xE6, CHR 0x94, CHR 0xB6] @ '' NetBerth '' @ [CHR 0xE4, CHR 0xBA, CHR 0x8B, CHR 0xE4,
       CHR 0xBB, CHR 0xB6]),
     (''Add Webhook'', [CHR 0xE6, CHR 0xB7, CHR 0xBB, CHR 0xE5, CHR 0x8A, CHR 0xA0] @ '' Webhook''),
     (''Save failed: {message}'', [CHR 0xE4, CHR 0xBF, CHR 0x9D, CHR 0xE5, CHR 0xAD, CHR 0x98,
       CHR 0xE5, CHR 0xA4, CHR 0xB1, CHR 0xE8, CHR 0xB4, CHR 0xA5, CHR 0xEF, CHR 0xBC, CHR 0x9A] @
       ''{message}''),
     (''Delete failed: {message}'', [CHR 0xE5, CHR 0x88, CHR 0xA0, CHR 0xE9, CHR 0x99, CHR 0xA4,
       CHR 0xE5, CHR 0xA4, CHR 0xB1, CHR 0xE8, CHR 0xB4, CHR 0xA5, CHR 0xEF, CHR 0xBC, CHR 0x9A] @
       ''{message}''),
     (''Test delivery succeeded'', [CHR 0xE6, CHR 0xB5, CHR 0x8B, CHR 0xE8, CHR 0xAF, CHR 0x95,
       CHR 0xE6, CHR 0x8A, CHR 0x95, CHR 0xE9, CHR 0x80, CHR 0x92, CHR 0xE6, CHR 0x88, CHR 0x90,
       CHR 0xE5, CHR 0x8A, CHR 0x9F]),
     (''Test delivery failed: {message}'', [CHR 0xE6, CHR 0xB5, CHR 0x8B, CHR 0xE8, CHR 0xAF, CHR 0x95,
       CHR 0xE6, CHR 0x8A, CHR 0x95, CHR 0xE9, CHR 0x80, CHR 0x92, CHR 0xE5, CHR 0xA4, CHR 0xB1,
       CHR 0xE8, CHR 0xB4, CHR 0xA5, CHR 0xEF, CHR 0xBC, CHR 0x9A] @ ''{message}''),
     (''Ops webhook'', [CHR 0xE8, CHR 0xBF, CHR 0x90, CHR 0xE7, CHR 0xBB, CHR 0xB4] @ '' Webhook''),
     (''URL'', ''URL''),
     (''Secret (HMAC-SHA256)'', [CHR 0xE5, CHR 0xAF, CHR 0x86, CHR 0xE9, CHR 0x92, CHR 0xA5, CHR 0xEF,
       CHR 0xBC, CHR 0x88] @ ''HMAC-SHA256'' @ [CHR 0xEF, CHR 0xBC, CHR 0x89]),
     (''Leave empty to keep'', [CHR 0xE7, CHR 0x95, CHR 0x99, CHR 0xE7, CHR 0xA9, CHR 0xBA, CHR 0xE4,
       CHR 0xBF, CHR 0x9D, CHR 0xE6, CHR 0x8C, CHR 0x81, CHR 0xE4, CHR 0xB8, CHR 0x8D, CHR 0xE5,
       CHR 0x8F, CHR 0x98]),
     (''Events (comma-separated, empty = all)'', [CHR 0xE4, CHR 0xBA, CHR 0x8B, CHR 0xE4, CHR 0xBB,
       CHR 0xB6, CHR 0xEF, CHR 0xBC, CHR 0x88, CHR 0xE9, CHR 0x80, CHR 0x97, CHR 0xE5, CHR 0x8F,
       CHR 0xB7, CHR 0xE5, CHR 0x88, CHR 0x86, CHR 0xE9, CHR 0x9A, CHR 0x94, CHR 0xEF, CHR 0xBC,
       CHR 0x8C, CHR 0xE7, CHR 0x95, CHR 0x99, CHR 0xE7, CHR 0xA9, CHR 0xBA] @ '' = '' @ [CHR 0xE5,
       CHR 0x85, CHR 0xA8, CHR 0xE9, CHR 0x83, CHR 0xA8, CHR 0xEF, CHR 0xBC, CHR 0x89]),
     (''Save Changes'', [CHR 0xE4, CHR 0xBF, CHR 0x9D, CHR 0xE5, CHR 0xAD, CHR 0x98, CHR 0xE6,
       CHR 0x9B, CHR 0xB4, CHR 0xE6, CHR 0x94, CHR 0xB9]),
     (''Save Webhook'', [CHR 0xE4, CHR 0xBF, CHR 0x9D, CHR 0xE5, CHR 0xAD, CHR 0x98] @ '' Webhook''),
     (''Cancel'', [CHR 0xE5, CHR 0x8F, CHR 0x96, CHR 0xE6, CHR 0xB6, CHR 0x88]),
     (''No webhooks configured'', [CHR 0xE5, CHR 0xB0, CHR 0x9A, CHR 0xE6, CHR 0x9C, CHR 0xAA,
       CHR 0xE9, CHR 0x85, CHR 0x8D, CHR 0xE7, CHR 0xBD, CHR 0xAE] @ '' Webhook''),
     (''Set'', [CHR 0xE5, CHR 0xB7, CHR 0xB2, CHR 0xE8, CHR 0xAE, CHR 0xBE, CHR 0xE7, CHR 0xBD,
       CHR 0xAE]),
     (''Events'', [CHR 0xE4, CHR 0xBA, CHR 0x8B, CHR 0xE4, CHR 0xBB, CHR 0xB6]),
     (''Secret'', [CHR 0xE5, CHR 0xAF, CHR 0x86, CHR 0xE9, CHR 0x92, CHR 0xA5]),
     (''Test webhook'', [CHR 0xE6, CHR 0xB5, CHR 0x8B, CHR 0xE8, CHR 0xAF, CHR 0x95] @ '' Webhook''),
     (''Edit webhook'', [CHR 0xE7, CHR 0xBC, CHR 0x96, CHR 0xE8, CHR 0xBE, CHR 0x91] @ '' Webhook''),
     (''Delete webhook'', [CHR 0xE5, CHR 0x88, CHR 0xA0, CHR 0xE9, CHR 0x99, CHR 0xA4] @ '' Webhook'')]"

definition zh_settings :: "(string \<times> string) list" where
  "zh_settings =
    [(''System configuration and user management'', [CHR 0xE7, CHR 0xB3, CHR 0xBB, CHR 0xE7, CHR 0xBB,
       CHR 0x9F, CHR 0xE9, CHR 0x85, CHR 0x8D, CHR 0xE7, CHR 0xBD, CHR 0xAE, CHR 0xE4, CHR 0xB8,
       CHR 0x8E, CHR 0xE7, CHR 0x94, CHR 0xA8, CHR 0xE6, CHR 0x88, CHR 0xB7, CHR 0xE7, CHR 0xAE,
       CHR 0xA1, CHR 0xE7, CHR 0x90, CHR 0x86]),
     (''Change Password'', [CHR 0xE4, CHR 0xBF, CHR 0xAE, CHR 0xE6, CHR 0x94, CHR 0xB9, CHR 0xE5,
       CHR 0xAF, CHR 0x86, CHR 0xE7, CHR 0xA0, CHR 0x81]),
     (''Update your account password. Minimum 8 characters.'', [CHR 0xE6, CHR 0x9B, CHR 0xB4, CHR 0xE6,
       CHR 0x96, CHR 0xB0, CHR 0xE6, CHR 0x82, CHR 0xA8, CHR 0xE7, CHR 0x9A, CHR 0x84, CHR 0xE8,
       CHR 0xB4, CHR 0xA6, CHR 0xE6, CHR 0x88, CHR 0xB7, CHR 0xE5, CHR 0xAF, CHR 0x86, CHR 0xE7,
       CHR 0xA0, CHR 0x81, CHR 0xEF, CHR 0xBC, CHR 0x8C, CHR 0xE8, CHR 0x87, CHR 0xB3, CHR 0xE5,
       CHR 0xB0, CHR 0x91] @ '' 8 '' @ [CHR 0xE4, CHR 0xB8, CHR 0xAA, CHR 0xE5, CHR 0xAD, CHR 0x97,
       CHR 0xE7, CHR 0xAC, CHR 0xA6, CHR 0xE3, CHR 0x80, CHR 0x82]),
     (''Current Password'', [CHR 0xE5, CHR 0xBD, CHR 0x93, CHR 0xE5, CHR 0x89, CHR 0x8D, CHR 0xE5,
       CHR 0xAF, CHR 0x86, CHR 0xE7, CHR 0xA0, CHR 0x81]),
     (''New Password'', [CHR 0xE6, CHR 0x96, CHR 0xB0, CHR 0xE5, CHR 0xAF, CHR 0x86, CHR 0xE7,
       CHR 0xA0, CHR 0x81]),
     (''Confirm Password'', [CHR 0xE7, CHR 0xA1, CHR 0xAE, CHR 0xE8, CHR 0xAE, CHR 0xA4, CHR 0xE5,
       CHR 0xAF, CHR 0x86, CHR 0xE7, CHR 0xA0, CHR 0x81]),
     (''Passwords do not match'', [CHR 0xE4, CHR 0xB8, CHR 0xA4, CHR 0xE6, CHR 0xAC, CHR 0xA1,
       CHR 0xE8, CHR 0xBE, CHR 0x93, CHR 0xE5, CHR 0x85, CHR 0xA5, CHR 0xE7, CHR 0x9A, CHR 0x84,
       CHR 0xE5, CHR 0xAF, CHR 0x86, CHR 0xE7, CHR 0xA0, CHR 0x81, CHR 0xE4, CHR 0xB8, CHR 0x8D,
       CHR 0xE4, CHR 0xB8, CHR 0x80, CHR 0xE8, CHR 0x87, CHR 0xB4]),
     (''Password changed successfully'', [CHR 0xE5, CHR 0xAF, CHR 0x86, CHR 0xE7, CHR 0xA0, CHR 0x81,
       CHR 0xE4, CHR 0xBF, CHR 0xAE, CHR 0xE6, CHR 0x94, CHR 0xB9, CHR 0xE6, CHR 0x88, CHR 0x90,
       CHR 0xE5, CHR 0x8A, CHR 0x9F]),
     (''Failed to change password'', [CHR 0xE4, CHR 0xBF, CHR 0xAE, CHR 0xE6, CHR 0x94, CHR 0xB9,
       CHR 0xE5, CHR 0xAF, CHR 0x86, CHR 0xE7, CHR 0xA0, CHR 0x81, CHR 0xE5, CHR 0xA4, CHR 0xB1,
       CHR 0xE8, CHR 0xB4, CHR 0xA5]),
     (''Update Password'', [CHR 0xE6, CHR 0x9B, CHR 0xB4, CHR 0xE6, CHR 0x96, CHR 0xB0, CHR 0xE5,
       CHR 0xAF, CHR 0x86, CHR 0xE7, CHR 0xA0, CHR 0x81]),
     (''Two-Factor Authentication'', [CHR 0xE4, CHR 0xB8, CHR 0xA4, CHR 0xE6, CHR 0xAD, CHR 0xA5,
       CHR 0xE9, CHR 0xAA, CHR 0x8C, CHR 0xE8, CHR 0xAF, CHR 0x81, CHR 0xEF, CHR 0xBC, CHR 0x88] @
       ''2FA'' @ [CHR 0xEF, CHR 0xBC, CHR 0x89]),
     (''Add an extra layer of security to your account.'', [CHR 0xE4, CHR 0xB8, CHR 0xBA, CHR 0xE6,
       CHR 0x82, CHR 0xA8, CHR 0xE7, CHR 0x9A, CHR 0x84, CHR 0xE8, CHR 0xB4, CHR 0xA6, CHR 0xE6,
       CHR 0x88, CHR 0xB7, CHR 0xE5, CHR 0xA2, CHR 0x9E, CHR 0xE5, CHR 0x8A, CHR 0xA0, CHR 0xE4,
       CHR 0xB8, CHR 0x80, CHR 0xE5, CHR 0xB1, CHR 0x82, CHR 0xE5, CHR 0xAE, CHR 0x89, CHR 0xE5,
       CHR 0x85, CHR 0xA8, CHR 0xE4, CHR 0xBF, CHR 0x9D, CHR 0xE6, CHR 0x8A, CHR 0xA4, CHR 0xE3,
       CHR 0x80, CHR 0x82]),
     (''Status:'', [CHR 0xE7, CHR 0x8A, CHR 0xB6, CHR 0xE6, CHR 0x80, CHR 0x81, CHR 0xEF, CHR 0xBC,
       CHR 0x9A]),
     (''Disabled'', [CHR 0xE5, CHR 0xB7, CHR 0xB2, CHR 0xE7, CHR 0xA6, CHR 0x81, CHR 0xE7, CHR 0x94,
       CHR 0xA8]),
     (''Disable 2FA'', [CHR 0xE5, CHR 0x85, CHR 0xB3, CHR 0xE9, CHR 0x97, CHR 0xAD] @ '' 2FA''),
     (''Enable 2FA'', [CHR 0xE5, CHR 0xBC, CHR 0x80, CHR 0xE5, CHR 0x90, CHR 0xAF] @ '' 2FA''),
     (''Setup failed'', [CHR 0xE8, CHR 0xAE, CHR 0xBE, CHR 0xE7, CHR 0xBD, CHR 0xAE, CHR 0xE5,
       CHR 0xA4, CHR 0xB1, CHR 0xE8, CHR 0xB4, CHR 0xA5]),
     (''Secret:'', [CHR 0xE5, CHR 0xAF, CHR 0x86, CHR 0xE9, CHR 0x92, CHR 0xA5, CHR 0xEF, CHR 0xBC,
       CHR 0x9A]),
     (''URL:'', ''URL'' @ [CHR 0xEF, CHR 0xBC, CHR 0x9A]),
     (''Scan with Google Authenticator or Authy, then enter the 6-digit code:'', [CHR 0xE4, CHR 0xBD,
       CHR 0xBF, CHR 0xE7, CHR 0x94, CHR 0xA8] @ '' Google Authenticator '' @ [CHR 0xE6, CHR 0x88,
       CHR 0x96] @ '' Authy '' @ [CHR 0xE6, CHR 0x89, CHR 0xAB, CHR 0xE7, CHR 0xA0, CHR 0x81, CHR 0xEF,
       CHR 0xBC, CHR 0x8C, CHR 0xE7, CHR 0x84, CHR 0xB6, CHR 0xE5, CHR 0x90, CHR 0x8E, CHR 0xE8,
       CHR 0xBE, CHR 0x93, CHR 0xE5, CHR 0x85, CHR 0xA5] @ '' 6 '' @ [CHR 0xE4, CHR 0xBD, CHR 0x8D,
       CHR 0xE9, CHR 0xAA, CHR 0x8C, CHR 0xE8, CHR 0xAF, CHR 0x81, CHR 0xE7, CHR 0xA0, CHR 0x81,
       CHR 0xEF, CHR 0xBC, CHR 0x9A]),
     (''Verify'', [CHR 0xE9, CHR 0xAA, CHR 0x8C, CHR 0xE8, CHR 0xAF, CHR 0x81]),
     (''2FA enabled!'', ''2FA '' @ [CHR 0xE5, CHR 0xB7, CHR 0xB2, CHR 0xE5, CHR 0xBC, CHR 0x80,
       CHR 0xE5, CHR 0x90, CHR 0xAF, CHR 0xEF, CHR 0xBC, CHR 0x81]),
     (''Invalid code'', [CHR 0xE9, CHR 0xAA, CHR 0x8C, CHR 0xE8, CHR 0xAF, CHR 0x81, CHR 0xE7,
       CHR 0xA0, CHR 0x81, CHR 0xE6, CHR 0x97, CHR 0xA0, CHR 0xE6, CHR 0x95, CHR 0x88]),
     (''About NetBerth'', [CHR 0xE5, CHR 0x85, CHR 0xB3, CHR 0xE4, CHR 0xBA, CHR 0x8E] @ '' NetBerth''),
     (''NetBerth is a security-first network service management platform. Port forwarding, reverse proxy, DDNS, STUN, WOL, cron, ACME, and storage ''
       @ [CHR 0xE2, CHR 0x80, CHR 0x94] @ '' all in one.'', ''NetBerth '' @ [CHR 0xE6, CHR 0x98,
       CHR 0xAF, CHR 0xE5, CHR 0xAE, CHR 0x89, CHR 0xE5, CHR 0x85, CHR 0xA8, CHR 0xE4, CHR 0xBC,
       CHR 0x98, CHR 0xE5, CHR 0x85, CHR 0x88, CHR 0xE7, CHR 0x9A, CHR 0x84, CHR 0xE7, CHR 0xBD,
       CHR 0x91, CHR 0xE7, CHR 0xBB, CHR 0x9C, CHR 0xE6, CHR 0x9C, CHR 0x8D, CHR 0xE5, CHR 0x8A,
       CHR 0xA1, CHR 0xE7, CHR 0xAE, CHR 0xA1, CHR 0xE7, CHR 0x90, CHR 0x86, CHR 0xE5, CHR 0xB9,
       CHR 0xB3, CHR 0xE5, CHR 0x8F, CHR 0xB0, CHR 0xE3, CHR 0x80, CHR 0x82, CHR 0xE7, CHR 0xAB,
       CHR 0xAF, CHR 0xE5, CHR 0x8F, CHR 0xA3, CHR 0xE8, CHR 0xBD, CHR 0xAC, CHR 0xE5, CHR 0x8F,
       CHR 0x91, CHR 0xE3, CHR 0x80, CHR 0x81, CHR 0xE5, CHR 0x8F, CHR 0x8D, CHR 0xE5, CHR 0x90,
       CHR 0x91, CHR 0xE4, CHR 0xBB, CHR 0xA3, CHR 0xE7, CHR 0x90, CHR 0x86, CHR 0xE3, CHR 0x80,
       CHR 0x81] @ ''DDNS'' @ [CHR 0xE3, CHR 0x80, CHR 0x81] @ ''STUN'' @ [CHR 0xE3, CHR 0x80, CHR 0x81]
       @ ''WOL'' @ [CHR 0xE3, CHR 0x80, CHR 0x81, CHR 0xE5, CHR 0xAE, CHR 0x9A, CHR 0xE6, CHR 0x97,
       CHR 0xB6, CHR 0xE4, CHR 0xBB, CHR 0xBB, CHR 0xE5, CHR 0x8A, CHR 0xA1, CHR 0xE3, CHR 0x80,
       CHR 0x81] @ ''ACME '' @ [CHR 0xE4, CHR 0xB8, CHR 0x8E, CHR 0xE5, CHR 0xAD, CHR 0x98, CHR 0xE5,
       CHR 0x82, CHR 0xA8, CHR 0xE2, CHR 0x80, CHR 0x94, CHR 0xE2, CHR 0x80, CHR 0x94, CHR 0xE4,
       CHR 0xB8, CHR 0x80, CHR 0xE5, CHR 0xBA, CHR 0x94, CHR 0xE4, CHR 0xBF, CHR 0xB1, CHR 0xE5,
       CHR 0x85, CHR 0xA8, CHR 0xE3, CHR 0x80, CHR 0x82])]"

definition zhDict :: "(string \<times> string) list" where
  "zhDict = zh_layout @ zh_login @ zh_dashboard @ zh_forward @ zh_proxy @ zh_ddns @ zh_stun @
     zh_wol @ zh_cron @ zh_acme @ zh_storage @ zh_users @ zh_audit @ zh_webhooks @ zh_settings"

definition dictionaries :: "lang \<Rightarrow> (string \<times> string) list" where
  "dictionaries l = (case l of En \<Rightarrow> [] | Zh \<Rightarrow> zhDict)"

text \<open>
  \<open>t(key, params)\<close>: the dictionary's text (a repeated key of an object literal takes its
  last value) or the key itself, then every \<open>{k}\<close> replaced, one parameter after the
  other. The parameters are given as text, after \<open>String(v)\<close>.
\<close>

definition hole_text :: "string \<Rightarrow> string" where
  "hole_text k = ''{'' @ k @ ''}''"

definition fill :: "string \<Rightarrow> (string \<times> string) list \<Rightarrow> string" where
  "fill text params = fold (\<lambda>(k, v) txt. replace_all (hole_text k) v txt) params text"

definition lookup_text :: "lang \<Rightarrow> string \<Rightarrow> string" where
  "lookup_text l key =
     (case map_of (rev (dictionaries l)) key of None \<Rightarrow> key | Some text \<Rightarrow> text)"

definition t :: "lang \<Rightarrow> string \<Rightarrow> (string \<times> string) list \<Rightarrow> string" where
  "t l key params = fill (lookup_text l key) params"

subsection \<open>The provider\<close>

record i18n_state =
  lang :: lang
  store :: web_storage
  document_lang :: string

definition STORAGE_KEY :: string where
  "STORAGE_KEY = ''nb_lang''"

definition saved_lang :: "web_storage \<Rightarrow> lang" where
  "saved_lang s =
     (case getItem s STORAGE_KEY of
        Some v \<Rightarrow> if v = ''zh'' then Zh else if v = ''en'' then En else En
      | None \<Rightarrow> En)"

text \<open>Mounting the provider: the initial state, then the effect on \<open>[lang]\<close>.\<close>

definition I18nProvider :: "web_storage \<Rightarrow> i18n_state" where
  "I18nProvider s =
     (let l = saved_lang s in \<lparr>lang = l, store = s, document_lang = lang_str l\<rparr>)"

text \<open>\<open>setLang(next)\<close>, followed by the effect when the state changed.\<close>

definition setLang :: "i18n_state \<Rightarrow> lang \<Rightarrow> i18n_state" where
  "setLang st next =
     st\<lparr>store := setItem (store st) STORAGE_KEY (lang_str next), lang := next,
        document_lang := (if next = lang st then document_lang st else lang_str next)\<rparr>"

text \<open>\<open>useI18n()\<close> outside a provider throws.\<close>

definition useI18n :: "i18n_state option \<Rightarrow> exn + i18n_state" where
  "useI18n ctx =
     (case ctx of None \<Rightarrow> Inl (Thrown ''useI18n must be used within I18nProvider'')
      | Some c \<Rightarrow> Inr c)"

subsection \<open>Substitution as a template\<close>

text \<open>
  A reference for the substitution: a text cut into literal pieces and holes, all holes
  filled at once.
\<close>

datatype seg = Lit string | Hole string

fun seg_text :: "seg \<Rightarrow> string" where
  "seg_text (Lit s) = s"
| "seg_text (Hole k) = hole_text k"

definition render :: "seg list \<Rightarrow> string" where
  "render segs = concat (map seg_text segs)"

definition brace_free :: "string \<Rightarrow> bool" where
  "brace_free s \<longleftrightarrow> CHR ''{'' \<notin> set s \<and> CHR ''}'' \<notin> set s"

fun wf_seg :: "seg \<Rightarrow> bool" where
  "wf_seg (Lit s) = brace_free s"
| "wf_seg (Hole k) = brace_free k"

definition holes :: "seg list \<Rightarrow> string list" where
  "holes segs = [k. Hole k \<leftarrow> segs]"

fun fill_seg :: "(string \<times> string) list \<Rightarrow> seg \<Rightarrow> string" where
  "fill_seg ps (Lit s) = s"
| "fill_seg ps (Hole k) = (case map_of ps k of None \<Rightarrow> hole_text k | Some v \<Rightarrow> v)"

fun parse_lit :: "string \<Rightarrow> string \<Rightarrow> seg list option"
  and parse_hole :: "string \<Rightarrow> string \<Rightarrow> seg list option" where
  "parse_lit acc [] = Some [Lit (rev acc)]"
| "parse_lit acc (c # cs) =
     (if c = CHR ''{'' then map_option ((#) (Lit (rev acc))) (parse_hole [] cs)
      else if c = CHR ''}'' then None
      else parse_lit (c # acc) cs)"
| "parse_hole acc [] = None"
| "parse_hole acc (c # cs) =
     (if c = CHR ''}'' then map_option ((#) (Hole (rev acc))) (parse_lit [] cs)
      else if c = CHR ''{'' then None
      else parse_hole (c # acc) cs)"

definition template :: "string \<Rightarrow> seg list option" where
  "template s = parse_lit [] s"

lemma parse_template_sound:
  "brace_free acc \<Longrightarrow> parse_lit acc s = Some segs \<Longrightarrow>
     list_all wf_seg segs \<and> render segs = rev acc @ s"
  "brace_free acc \<Longrightarrow> parse_hole acc s = Some segs \<Longrightarrow>
     list_all wf_seg segs \<and> render segs = ''{'' @ rev acc @ s"
  by (induction acc s and acc s arbitrary: segs and segs rule: parse_lit_parse_hole.induct)
    (auto simp: brace_free_def render_def hole_text_def split: if_splits)

lemma template_sound: "template s = Some segs \<Longrightarrow> list_all wf_seg segs \<and> render segs = s"
  using parse_template_sound(1) [of "[]" s segs] by (simp add: template_def brace_free_def)

text \<open>Replacing every occurrence, as one recursion.\<close>

function replace_rec :: "string \<Rightarrow> string \<Rightarrow> string \<Rightarrow> string" where
  "replace_rec old new [] = []"
| "replace_rec old new (c # cs) =
     (if starts_with old (c # cs) then new @ replace_rec old new (drop (length old - 1) cs)
      else c # replace_rec old new cs)"
  by pat_completeness auto
termination
  by (relation "measure (\<lambda>(_, _, s). length s)") auto

lemma replace_split_go:
  "js_join new (split_go old acc s) = rev acc @ replace_rec old new s"
  by (induction old acc s rule: split_go.induct) (auto simp: js_join_Cons split_go_nonempty)

lemma replace_all_rec: "replace_all old new s = replace_rec old new s"
  by (simp add: replace_all_def js_split_def replace_split_go)

lemma replace_rec_lit:
  "brace_free s \<Longrightarrow> replace_rec (hole_text k) v (s @ r) = s @ replace_rec (hole_text k) v r"
  by (induction s) (auto simp: brace_free_def hole_text_def)

lemma hole_end_unique:
  assumes "brace_free k" "brace_free k'" "k @ CHR ''}'' # x = k' @ CHR ''}'' # y"
  shows "k = k' \<and> x = y"
  using assms
proof (induction k arbitrary: k')
  case Nil
  then show ?case by (cases k') (auto simp: brace_free_def)
next
  case (Cons c k)
  then show ?case by (cases k') (auto simp: brace_free_def)
qed

lemma replace_rec_hole:
  assumes "brace_free k" "brace_free k'"
  shows "replace_rec (hole_text k) v (hole_text k' @ r) =
    (if k = k' then v else hole_text k') @ replace_rec (hole_text k) v r"
proof (cases "k = k'")
  case True
  then show ?thesis by (simp add: hole_text_def starts_with_iff)
next
  case False
  then have "\<not> starts_with (hole_text k) (hole_text k' @ r)"
    by (auto simp: starts_with_iff hole_text_def dest!: hole_end_unique [OF assms(2,1)])
  moreover have "replace_rec (hole_text k) v (k' @ ''}'' @ r) = k' @ ''}'' @ replace_rec (hole_text k) v r"
    using assms(2) by (subst replace_rec_lit) (auto simp: hole_text_def)
  ultimately show ?thesis using False by (simp add: hole_text_def)
qed

fun put_hole :: "string \<Rightarrow> string \<Rightarrow> seg \<Rightarrow> seg" where
  "put_hole k v (Lit s) = Lit s"
| "put_hole k v (Hole k') = (if k = k' then Lit v else Hole k')"

lemma replace_all_render:
  "list_all wf_seg segs \<Longrightarrow> brace_free k \<Longrightarrow>
     replace_all (hole_text k) v (render segs) = render (map (put_hole k v) segs)"
proof (induction segs)
  case (Cons seg segs)
  then show ?case
    by (cases seg) (simp_all add: replace_all_rec render_def replace_rec_lit replace_rec_hole)
qed (simp add: render_def replace_all_rec)

lemma put_hole_wf: "list_all wf_seg segs \<Longrightarrow> brace_free v \<Longrightarrow> list_all wf_seg (map (put_hole k v) segs)"
  by (induction segs rule: list.induct) (auto elim: wf_seg.elims)

lemma fill_put_hole: "fill_seg ps (put_hole k v seg) = fill_seg ((k, v) # ps) seg"
  by (cases seg) auto

definition plain_params :: "(string \<times> string) list \<Rightarrow> bool" where
  "plain_params ps \<longleftrightarrow> (\<forall>(k, v) \<in> set ps. brace_free k \<and> brace_free v)"

lemma fill_render:
  "list_all wf_seg segs \<Longrightarrow> plain_params ps \<Longrightarrow> fill (render segs) ps = concat (map (fill_seg ps) segs)"
proof (induction ps arbitrary: segs)
  case Nil
  have "fill_seg [] = seg_text" by (rule ext) (rule seg_text.induct, simp_all)
  then show ?case by (simp add: fill_def render_def)
next
  case (Cons kv ps)
  obtain k v where kv: "kv = (k, v)" by (cases kv)
  with Cons.prems have kv_ok: "brace_free k" "brace_free v" "plain_params ps"
    by (auto simp: plain_params_def)
  have "fill (render segs) (kv # ps) = fill (render (map (put_hole k v) segs)) ps"
    using Cons.prems kv kv_ok by (simp add: fill_def replace_all_render)
  also have "\<dots> = concat (map (fill_seg ps) (map (put_hole k v) segs))"
    using Cons.IH kv_ok Cons.prems by (intro Cons.IH put_hole_wf)
  finally show ?case by (simp add: kv comp_def fill_put_hole)
qed

lemma fill_complete:
  assumes "list_all wf_seg segs" "plain_params ps" "set (holes segs) \<subseteq> fst ` set ps"
  shows "brace_free (concat (map (fill_seg ps) segs))"
proof -
  have "brace_free (fill_seg ps seg)" if "seg \<in> set segs" for seg
  proof (cases seg)
    case (Lit s)
    with that assms(1) show ?thesis by (auto simp: list_all_iff)
  next
    case (Hole k)
    with that assms(3) have "k \<in> fst ` set ps" by (force simp: holes_def)
    then obtain v where v: "map_of ps k = Some v" by (metis map_of_eq_None_iff option.exhaust)
    then have "brace_free v" using assms(2) by (auto simp: plain_params_def dest!: map_of_SomeD)
    with Hole v show ?thesis by simp
  qed
  then show ?thesis by (auto simp: brace_free_def)
qed

subsection \<open>The dictionary\<close>

text \<open>An entry whose text names exactly the placeholders its key names.\<close>

definition same_holes :: "string \<times> string \<Rightarrow> bool" where
  "same_holes kv =
     (case (template (fst kv), template (snd kv)) of
        (Some a, Some b) \<Rightarrow> set (holes a) = set (holes b)
      | _ \<Rightarrow> False)"

lemma zh_sections_same_holes:
  "list_all same_holes zh_layout" "list_all same_holes zh_login"
  "list_all same_holes zh_dashboard" "list_all same_holes zh_forward"
  "list_all same_holes zh_proxy" "list_all same_holes zh_ddns" "list_all same_holes zh_stun"
  "list_all same_holes zh_wol" "list_all same_holes zh_cron" "list_all same_holes zh_acme"
  "list_all same_holes zh_storage" "list_all same_holes zh_users"
  "list_all same_holes zh_audit" "list_all same_holes zh_webhooks"
  "list_all same_holes zh_settings"
  by code_simp+

lemma zhDict_same_holes: "kv \<in> set zhDict \<Longrightarrow> same_holes kv"
  using zh_sections_same_holes by (auto simp: zhDict_def list_all_iff)

lemma lookup_text_holes:
  assumes "template key = Some segs"
  shows "\<exists>segs'. template (lookup_text l key) = Some segs' \<and> set (holes segs') = set (holes segs)"
proof (cases "map_of (rev (dictionaries l)) key")
  case None
  with assms show ?thesis by (simp add: lookup_text_def)
next
  case (Some x)
  then have "(key, x) \<in> set zhDict"
    by (cases l) (auto simp: dictionaries_def dest!: map_of_SomeD)
  then have "same_holes (key, x)" by (rule zhDict_same_holes)
  with assms Some show ?thesis
    by (auto simp: same_holes_def lookup_text_def split: option.splits)
qed

subsection \<open>What the pages rely on\<close>

text \<open>In either language, a text whose key is a template and whose placeholders are all
  given brace-free values comes out with no placeholder left: the Chinese text of every
  dictionary entry names the same placeholders as its key.\<close>

theorem t_fills_all_placeholders:
  assumes "template key = Some segs" "set (holes segs) \<subseteq> fst ` set ps" "plain_params ps"
  shows "brace_free (t l key ps)"
proof -
  obtain segs' where s: "template (lookup_text l key) = Some segs'" "set (holes segs') = set (holes segs)"
    using lookup_text_holes [OF assms(1)] by blast
  then have w: "list_all wf_seg segs'" "render segs' = lookup_text l key"
    using template_sound by blast+
  then have "t l key ps = concat (map (fill_seg ps) segs')"
    using fill_render [OF w(1) assms(3)] by (simp add: t_def)
  then show ?thesis using fill_complete [OF w(1) assms(3)] s(2) assms(2) by simp
qed

theorem t_fills_all_placeholders_witness:
  "brace_free (t Zh ''Delete user {name}?'' [(''name'', ''alice'')])"
proof (rule t_fills_all_placeholders)
  show "template ''Delete user {name}?'' = Some [Lit ''Delete user '', Hole ''name'', Lit ''?'']"
    by code_simp
  show "set (holes [Lit ''Delete user '', Hole ''name'', Lit ''?'']) \<subseteq> fst ` set [(''name'', ''alice'')]"
    by code_simp
  show "plain_params [(''name'', ''alice'')]" by code_simp
qed

text \<open>The parameters are substituted one after the other, each over the whole text; with
  brace-free parameters this is the simultaneous substitution into the template, so their
  order does not matter and a substituted value is never substituted into.\<close>

theorem t_simultaneous:
  assumes "template (lookup_text l key) = Some segs" "plain_params ps"
  shows "t l key ps = concat (map (fill_seg ps) segs)"
  using template_sound [OF assms(1)] fill_render [OF _ assms(2), of segs] by (simp add: t_def)

theorem t_simultaneous_witness:
  "t En ''Page {page} of {total} ({count} events)'' [(''page'', ''2''), (''total'', ''7''), (''count'', ''131'')]
   = ''Page 2 of 7 (131 events)''"
proof -
  let ?key = "''Page {page} of {total} ({count} events)''"
  let ?segs = "[Lit ''Page '', Hole ''page'', Lit '' of '', Hole ''total'', Lit '' ('', Hole ''count'', Lit '' events)'']"
  have "template (lookup_text En ?key) = Some ?segs" by code_simp
  moreover have "plain_params [(''page'', ''2''), (''total'', ''7''), (''count'', ''131'')]" by code_simp
  ultimately show ?thesis by (simp add: t_simultaneous)
qed

text \<open>The chosen language survives a reload of the page: after any language choice, a
  provider mounted on the stored data comes up in that language, with the document's
  \<open>lang\<close> attribute set to it.\<close>

definition i18n_ok :: "i18n_state \<Rightarrow> bool" where
  "i18n_ok st \<longleftrightarrow> document_lang st = lang_str (lang st)"

lemma i18n_ok_mount [inv_intros]: "i18n_ok (I18nProvider s)"
  by (simp add: i18n_ok_def I18nProvider_def Let_def)

lemma i18n_ok_setLang [inv_intros]: "i18n_ok st \<Longrightarrow> i18n_ok (setLang st l)"
  by (simp add: i18n_ok_def setLang_def)

theorem language_persists:
  assumes "i18n_ok st"
  shows "I18nProvider (store (setLang st l)) = setLang st l"
proof -
  have "saved_lang (store (setLang st l)) = l"
    by (cases l) (simp_all add: saved_lang_def setLang_def ls.get_put_same lang_str_def)
  then show ?thesis
    using assms by (simp add: I18nProvider_def setLang_def i18n_ok_def Let_def)
qed

theorem language_persists_witness:
  "I18nProvider (store (setLang (I18nProvider (\<lambda>_. None)) Zh)) = setLang (I18nProvider (\<lambda>_. None)) Zh"
  by (rule language_persists) (rule i18n_ok_mount)

end
