(* ===== verification/View.thy ===== *)
theory View
  imports I18n
begin

text \<open>
  What a React component returns and what the user can do with it. A node is the element a
  component renders to, with its attributes, handlers and children; class names, icons and
  keys are left out. A handler's value is its \<open>reaction\<close>: what running it in the state
  the element was rendered from does.
\<close>

subsection \<open>Elements\<close>

datatype 'a attr =
    Attr string string            \<comment> \<open>\<open>type\<close>, \<open>placeholder\<close>, \<open>title\<close>, \<open>variant\<close>, ...\<close>
  | Value string                  \<comment> \<open>\<open>value\<close> of a controlled input, select or option\<close>
  | Checked bool
  | Disabled bool
  | OnClick 'a
  | OnSubmit 'a
  | OnChange "string \<Rightarrow> 'a"        \<comment> \<open>from \<open>e.target.value\<close>\<close>
  | OnKeyDown "string \<Rightarrow> 'a"       \<comment> \<open>from \<open>e.key\<close>\<close>
  | OnCheckedChange "bool \<Rightarrow> 'a"

text \<open>\<open>Broken\<close> stands for an expression that throws while the component renders.\<close>

datatype 'a node = Txt string | El string "'a attr list" "'a node list" | Broken

definition is_disabled :: "'a attr list \<Rightarrow> bool" where
  "is_disabled as \<longleftrightarrow> list_ex (\<lambda>a. case a of Disabled b \<Rightarrow> b | _ \<Rightarrow> False) as"

definition checked_now :: "'a attr list \<Rightarrow> bool" where
  "checked_now as \<longleftrightarrow> list_ex (\<lambda>a. case a of Checked b \<Rightarrow> b | _ \<Rightarrow> False) as"

fun attr_value :: "'a attr list \<Rightarrow> string option" where
  "attr_value [] = None"
| "attr_value (Value v # as) = Some v"
| "attr_value (_ # as) = attr_value as"

fun has_attr :: "string \<Rightarrow> 'a attr list \<Rightarrow> bool" where
  "has_attr k [] = False"
| "has_attr k (Attr k' v # as) = (k = k' \<or> has_attr k as)"
| "has_attr k (_ # as) = has_attr k as"

fun attr_is :: "string \<Rightarrow> string \<Rightarrow> 'a attr list \<Rightarrow> bool" where
  "attr_is k v [] = False"
| "attr_is k v (Attr k' v' # as) = (k = k' \<and> v = v' \<or> attr_is k v as)"
| "attr_is k v (_ # as) = attr_is k v as"

text \<open>
  A form is submitted through its submit button (by clicking it, or by Enter in one of the
  inputs), so a disabled submit button blocks it. A button without a \<open>type\<close> is one.
\<close>

fun first_some :: "'b option list \<Rightarrow> 'b option" where
  "first_some [] = None"
| "first_some (Some x # xs) = Some x"
| "first_some (None # xs) = first_some xs"

fun submit_button :: "'a node \<Rightarrow> 'a attr list option" where
  "submit_button (El tag as kids) =
     (if tag = ''button'' \<and> (\<not> has_attr ''type'' as \<or> attr_is ''type'' ''submit'' as) then Some as
      else first_some (map submit_button kids))"
| "submit_button _ = None"

definition submit_blocked :: "'a node list \<Rightarrow> bool" where
  "submit_blocked kids =
     (case first_some (map submit_button kids) of None \<Rightarrow> False | Some as \<Rightarrow> is_disabled as)"

text \<open>The values of a select's options.\<close>

fun option_values :: "'a node list \<Rightarrow> string list" where
  "option_values [] = []"
| "option_values (El tag as kids # ns) =
     (case attr_value as of
        Some v \<Rightarrow> if tag = ''option'' then v # option_values ns else option_values ns
      | None \<Rightarrow> option_values ns)"
| "option_values (_ # ns) = option_values ns"

text \<open>
  \<open>fires n a\<close>: the user can make the handler with value \<open>a\<close> run by using a control of
  \<open>n\<close>: clicking, submitting, typing any text, choosing one of a select's options, pressing
  a key, or toggling a switch away from its current position. A disabled control gives
  nothing.
\<close>

inductive fires :: "'a node \<Rightarrow> 'a \<Rightarrow> bool" where
  click: "OnClick a \<in> set as \<Longrightarrow> \<not> is_disabled as \<Longrightarrow> fires (El tag as kids) a"
| submit: "OnSubmit a \<in> set as \<Longrightarrow> \<not> submit_blocked kids \<Longrightarrow> fires (El tag as kids) a"
| change: "OnChange f \<in> set as \<Longrightarrow> \<not> is_disabled as \<Longrightarrow>
    (tag = ''select'' \<Longrightarrow> v \<in> set (option_values kids)) \<Longrightarrow> fires (El tag as kids) (f v)"
| press: "OnKeyDown f \<in> set as \<Longrightarrow> \<not> is_disabled as \<Longrightarrow> fires (El tag as kids) (f key)"
| toggle: "OnCheckedChange f \<in> set as \<Longrightarrow> \<not> is_disabled as \<Longrightarrow>
    fires (El tag as kids) (f (\<not> checked_now as))"
| inside: "k \<in> set kids \<Longrightarrow> fires k a \<Longrightarrow> fires (El tag as kids) a"

inductive_simps fires_Txt [simp]: "fires (Txt s) a"
inductive_simps fires_Broken [simp]: "fires Broken a"
inductive_simps fires_El: "fires (El tag as kids) a"

text \<open>What an element's own attributes react with.\<close>

definition own_fires :: "string \<Rightarrow> 'a attr list \<Rightarrow> 'a node list \<Rightarrow> 'a \<Rightarrow> bool" where
  "own_fires tag as kids a \<longleftrightarrow>
     OnSubmit a \<in> set as \<and> \<not> submit_blocked kids \<or>
     \<not> is_disabled as \<and>
       (OnClick a \<in> set as \<or>
        (\<exists>f v. OnChange f \<in> set as \<and> (tag = ''select'' \<longrightarrow> v \<in> set (option_values kids)) \<and> a = f v) \<or>
        (\<exists>f key. OnKeyDown f \<in> set as \<and> a = f key) \<or>
        (\<exists>f. OnCheckedChange f \<in> set as \<and> a = f (\<not> checked_now as)))"

definition any_fires :: "'a node list \<Rightarrow> 'a \<Rightarrow> bool" where
  "any_fires ns a \<longleftrightarrow> (\<exists>k \<in> set ns. fires k a)"

lemma fires_own: "fires (El tag as kids) a \<longleftrightarrow> own_fires tag as kids a \<or> any_fires kids a"
  unfolding fires_El own_fires_def any_fires_def by blast

lemma any_fires_simps:
  "any_fires [] a = False"
  "any_fires (n # ns) a \<longleftrightarrow> fires n a \<or> any_fires ns a"
  "any_fires (ns @ ms) a \<longleftrightarrow> any_fires ns a \<or> any_fires ms a"
  "any_fires (map f xs) a \<longleftrightarrow> (\<exists>x \<in> set xs. fires (f x) a)"
  "any_fires (if b then ns else ms) a \<longleftrightarrow> (if b then any_fires ns a else any_fires ms a)"
  by (auto simp: any_fires_def)

lemma fires_if: "fires (if b then n else m) a \<longleftrightarrow> (if b then fires n a else fires m a)"
  by simp

lemmas fires_simps = fires_own any_fires_simps fires_if own_fires_def is_disabled_def checked_now_def

subsection \<open>Values as children\<close>

text \<open>\<open>{cond && node}\<close>\<close>

definition show_if :: "bool \<Rightarrow> 'a node \<Rightarrow> 'a node list" where
  "show_if b n = (if b then [n] else [])"

lemma any_fires_show_if [simp]: "any_fires (show_if b n) a \<longleftrightarrow> b \<and> fires n a"
  by (simp add: show_if_def any_fires_def)

text \<open>\<open>{v}\<close>: null, undefined and booleans show nothing, an object throws.\<close>

fun child :: "jsval \<Rightarrow> 'a node list" where
  "child None = []"
| "child (Some JNull) = []"
| "child (Some (JBool b)) = []"
| "child (Some (JNum r)) = [Txt (show_num r)]"
| "child (Some (JStr s)) = (if s = [] then [] else [Txt s])"
| "child (Some (JArr xs)) = concat (map (\<lambda>x. child (Some x)) xs)"
| "child (Some (JObj kvs)) = [Broken]"

lemma child_quiet [simp]: "\<not> any_fires (child v) a"
  by (induction v rule: child.induct) (auto simp: any_fires_def)

text \<open>\<open>v?.length === 0\<close>\<close>

definition has_no_elements :: "jsval \<Rightarrow> bool" where
  "has_no_elements v \<longleftrightarrow> v = Some (JArr []) \<or> v = Some (JStr [])"

text \<open>
  \<open>v?.map(f)\<close> as children: nothing without a list, an error on what has no \<open>map\<close>, and for
  each element its row. Rows read properties of the element, so a null element throws.
\<close>

definition map_rows :: "jsval \<Rightarrow> (json \<Rightarrow> 'a node) \<Rightarrow> 'a node list" where
  "map_rows v f =
     (case v of
        None \<Rightarrow> []
      | Some JNull \<Rightarrow> []
      | Some (JArr xs) \<Rightarrow> map (\<lambda>x. if x = JNull then Broken else f x) xs
      | Some _ \<Rightarrow> [Broken])"

definition elements :: "jsval \<Rightarrow> json list" where
  "elements v = (case v of Some (JArr xs) \<Rightarrow> xs | _ \<Rightarrow> [])"

lemma any_fires_map_rows:
  "any_fires (map_rows v f) a \<longleftrightarrow> (\<exists>x \<in> set (elements v). x \<noteq> JNull \<and> fires (f x) a)"
  by (auto simp: map_rows_def elements_def any_fires_simps split: option.split json.split)

subsection \<open>Reactions\<close>

text \<open>
  What a handler does: a new component state and effects, in order, or a browser dialog
  first. \<open>Start m\<close> starts the asynchronous operation \<open>m\<close> of the component, whose end is
  handled later.
\<close>

datatype 'm effect =
    Start 'm
  | Invalidate string          \<comment> \<open>\<open>queryClient.invalidateQueries\<close>\<close>
  | Alert string
  | Navigate string
  | Switch_lang lang
  | Logout
  | Fetch_user

datatype ('s, 'm) reaction =
    Done 's "'m effect list"
  | Prompt string "string option \<Rightarrow> ('s, 'm) reaction"
  | Confirm string "bool \<Rightarrow> ('s, 'm) reaction"

text \<open>What a reaction can end in, over all answers of the user.\<close>

inductive ends_in :: "('s, 'm) reaction \<Rightarrow> 's \<Rightarrow> 'm effect list \<Rightarrow> bool" where
  at_once: "ends_in (Done s es) s es"
| prompt: "ends_in (f ans) s es \<Longrightarrow> ends_in (Prompt txt f) s es"
| confirm: "ends_in (g yes) s es \<Longrightarrow> ends_in (Confirm txt g) s es"

inductive_simps ends_in_Done [simp]: "ends_in (Done s es) s' es'"
inductive_simps ends_in_Prompt [simp]: "ends_in (Prompt txt f) s es"
inductive_simps ends_in_Confirm [simp]: "ends_in (Confirm txt g) s es"

subsection \<open>Pages\<close>

text \<open>
  What a page reads from outside: the language, the signed-in user of the auth store, and
  its query's data and loading flag.
\<close>

record env =
  env_lang :: lang
  env_user :: jsval
  env_data :: jsval
  env_loading :: bool

definition tr :: "env \<Rightarrow> string \<Rightarrow> string" where
  "tr e key = t (env_lang e) key []"

record ('s, 'm, 'r) page =
  page_view :: "env \<Rightarrow> 's \<Rightarrow> ('s, 'm) reaction node"
  page_done :: "env \<Rightarrow> 'm \<Rightarrow> exn + 'r \<Rightarrow> 's \<Rightarrow> ('s, 'm) reaction"

text \<open>A mounted page: its environment, its state and the operations it has started.\<close>

record ('s, 'm) mounted =
  m_env :: env
  m_state :: 's
  m_pending :: "'m list"

definition started :: "'m effect list \<Rightarrow> 'm list" where
  "started es = [m. Start m \<leftarrow> es]"

text \<open>
  The page's steps: the user uses a control of what is shown, a pending operation ends in
  any way, or the query's data or the store change.
\<close>

inductive page_step ::
  "('s, 'm, 'r) page \<Rightarrow> ('s, 'm) mounted \<Rightarrow> 'm effect list \<Rightarrow> ('s, 'm) mounted \<Rightarrow> bool" for p where
  use_control: "fires (page_view p (m_env x) (m_state x)) r \<Longrightarrow> ends_in r s es \<Longrightarrow>
    page_step p x es (x\<lparr>m_state := s, m_pending := m_pending x @ started es\<rparr>)"
| op_ends: "m \<in> set (m_pending x) \<Longrightarrow> ends_in (page_done p (m_env x) m res (m_state x)) s es \<Longrightarrow>
    page_step p x es (x\<lparr>m_state := s, m_pending := remove1 m (m_pending x) @ started es\<rparr>)"
| refetch: "page_step p x [] (x\<lparr>m_env := (m_env x)\<lparr>env_data := d, env_loading := b\<rparr>\<rparr>)"

inductive page_run :: "('s, 'm, 'r) page \<Rightarrow> ('s, 'm) mounted \<Rightarrow> 'm effect list \<Rightarrow> ('s, 'm) mounted \<Rightarrow> bool" for p where
  run_none: "page_run p x [] x"
| run_more: "page_run p x es y \<Longrightarrow> page_step p y es' z \<Longrightarrow> page_run p x (es @ es') z"

subsection \<open>Pages that keep a promise\<close>

text \<open>
  The contract a page is checked against: a predicate on its state that every control and
  every ended operation keeps, and a predicate on effects, given the signed-in user, that
  all effects satisfy. Then every run of the page satisfies both.
\<close>

locale safe_page =
  fixes p :: "('s, 'm, 'r) page"
    and inv :: "'s \<Rightarrow> bool"
    and okay :: "jsval \<Rightarrow> 'm effect \<Rightarrow> bool"
  assumes control_ok: "fires (page_view p e s) r \<Longrightarrow> ends_in r s' es \<Longrightarrow> inv s \<Longrightarrow>
      inv s' \<and> (\<forall>x \<in> set es. okay (env_user e) x)"
    and ended_ok: "ends_in (page_done p e m res s) s' es \<Longrightarrow> inv s \<Longrightarrow>
      inv s' \<and> (\<forall>x \<in> set es. okay (env_user e) x)"
begin

lemma step_safe:
  "page_step p x es y \<Longrightarrow> inv (m_state x) \<Longrightarrow>
     inv (m_state y) \<and> (\<forall>a \<in> set es. okay (env_user (m_env x)) a) \<and> env_user (m_env y) = env_user (m_env x)"
  by (induction rule: page_step.induct) (auto dest: control_ok ended_ok)

lemma run_safe:
  "page_run p x es y \<Longrightarrow> inv (m_state x) \<Longrightarrow>
     inv (m_state y) \<and> (\<forall>a \<in> set es. okay (env_user (m_env x)) a) \<and> env_user (m_env y) = env_user (m_env x)"
proof (induction rule: page_run.induct)
  case (run_more x es y es' z)
  then show ?case using step_safe by fastforce
qed simp

text \<open>Operations the page starts satisfy the predicate, so whatever is pending does.\<close>

lemma pending_safe:
  assumes "page_run p x es y" "inv (m_state x)" "m_pending x = []" "m \<in> set (m_pending y)"
  shows "okay (env_user (m_env x)) (Start m)"
proof -
  have "set (m_pending y) \<subseteq> {m. Start m \<in> set es}" using assms(1,3)
  proof (induction rule: page_run.induct)
    case (run_more x es y es' z)
    from run_more.hyps(2) have "set (m_pending z) \<subseteq> set (m_pending y) \<union> {m. Start m \<in> set es'}"
      by cases (auto simp: started_def dest: notin_set_remove1 split: effect.splits)
    with run_more show ?case by auto
  qed simp
  with run_safe [OF assms(1,2)] assms(4) show ?thesis by auto
qed

end

end
