(* ===== verification/Ui.thy ===== *)
theory Ui
  imports View
begin

text \<open>
  \<open>web/src/components/ui\<close>: the building blocks of the pages. Each forwards its properties
  and children to one HTML element; what it adds besides class names (a wrapping element, a
  default variant) is kept. \<open>Label\<close> and \<open>Switch\<close> rest on Radix primitives, of which the
  documented behaviour is used: a label is a \<open>label\<close> element, a switch is a button that
  reports the opposite of its \<open>checked\<close> property.
\<close>

subsection \<open>Plain elements\<close>

abbreviation box :: "'a node list \<Rightarrow> 'a node" where
  "box kids \<equiv> El ''div'' [] kids"

abbreviation para :: "'a node list \<Rightarrow> 'a node" where
  "para kids \<equiv> El ''p'' [] kids"

abbreviation span :: "'a node list \<Rightarrow> 'a node" where
  "span kids \<equiv> El ''span'' [] kids"

definition select_of :: "'a attr list \<Rightarrow> 'a node list \<Rightarrow> 'a node" where
  "select_of as opts = El ''select'' as opts"

definition option_of :: "string \<Rightarrow> string \<Rightarrow> 'a node" where
  "option_of v label = El ''option'' [Value v] [Txt label]"

subsection \<open>Variants\<close>

text \<open>\<open>defaultVariants\<close>\<close>

definition with_default :: "string \<Rightarrow> string \<Rightarrow> 'a attr list \<Rightarrow> 'a attr list" where
  "with_default k v as = (if has_attr k as then as else as @ [Attr k v])"

lemma with_default_handlers [simp]:
  "OnClick a \<in> set (with_default k v as) \<longleftrightarrow> OnClick a \<in> set as"
  "OnSubmit a \<in> set (with_default k v as) \<longleftrightarrow> OnSubmit a \<in> set as"
  "OnChange f \<in> set (with_default k v as) \<longleftrightarrow> OnChange f \<in> set as"
  "OnKeyDown f \<in> set (with_default k v as) \<longleftrightarrow> OnKeyDown f \<in> set as"
  "OnCheckedChange g \<in> set (with_default k v as) \<longleftrightarrow> OnCheckedChange g \<in> set as"
  "is_disabled (with_default k v as) \<longleftrightarrow> is_disabled as"
  "checked_now (with_default k v as) \<longleftrightarrow> checked_now as"
  by (simp_all add: with_default_def is_disabled_def checked_now_def)

lemma own_fires_default [simp]:
  "own_fires tag (with_default k v as) kids a \<longleftrightarrow> own_fires tag as kids a"
  by (simp add: own_fires_def)

subsection \<open>Components\<close>

definition Button :: "'a attr list \<Rightarrow> 'a node list \<Rightarrow> 'a node" where
  "Button as kids = El ''button'' (with_default ''size'' ''default'' (with_default ''variant'' ''default'' as)) kids"

definition Badge :: "'a attr list \<Rightarrow> 'a node list \<Rightarrow> 'a node" where
  "Badge as kids = El ''div'' (with_default ''variant'' ''default'' as) kids"

definition Card :: "'a attr list \<Rightarrow> 'a node list \<Rightarrow> 'a node" where
  "Card as kids = El ''div'' as kids"

definition CardHeader :: "'a attr list \<Rightarrow> 'a node list \<Rightarrow> 'a node" where
  "CardHeader as kids = El ''div'' as kids"

definition CardTitle :: "'a attr list \<Rightarrow> 'a node list \<Rightarrow> 'a node" where
  "CardTitle as kids = El ''h3'' as kids"

definition CardDescription :: "'a attr list \<Rightarrow> 'a node list \<Rightarrow> 'a node" where
  "CardDescription as kids = El ''p'' as kids"

definition CardContent :: "'a attr list \<Rightarrow> 'a node list \<Rightarrow> 'a node" where
  "CardContent as kids = El ''div'' as kids"

definition Input :: "'a attr list \<Rightarrow> 'a node" where
  "Input as = El ''input'' as []"

definition Label :: "'a attr list \<Rightarrow> 'a node list \<Rightarrow> 'a node" where
  "Label as kids = El ''label'' as kids"

definition Switch :: "'a attr list \<Rightarrow> 'a node" where
  "Switch as = El ''button'' as [El ''span'' [] []]"

definition Table :: "'a attr list \<Rightarrow> 'a node list \<Rightarrow> 'a node" where
  "Table as kids = El ''div'' [] [El ''table'' as kids]"

definition TableHeader :: "'a attr list \<Rightarrow> 'a node list \<Rightarrow> 'a node" where
  "TableHeader as kids = El ''thead'' as kids"

definition TableBody :: "'a attr list \<Rightarrow> 'a node list \<Rightarrow> 'a node" where
  "TableBody as kids = El ''tbody'' as kids"

definition TableRow :: "'a attr list \<Rightarrow> 'a node list \<Rightarrow> 'a node" where
  "TableRow as kids = El ''tr'' as kids"

definition TableHead :: "'a attr list \<Rightarrow> 'a node list \<Rightarrow> 'a node" where
  "TableHead as kids = El ''th'' as kids"

definition TableCell :: "'a attr list \<Rightarrow> 'a node list \<Rightarrow> 'a node" where
  "TableCell as kids = El ''td'' as kids"

lemmas ui_containers = Card_def CardHeader_def CardTitle_def CardDescription_def CardContent_def
  Label_def Table_def TableHeader_def TableBody_def TableRow_def TableHead_def TableCell_def

lemma fires_Button:
  "fires (Button as kids) a \<longleftrightarrow> own_fires ''button'' as kids a \<or> any_fires kids a"
  by (simp add: Button_def fires_own)

lemma fires_Badge: "fires (Badge as kids) a \<longleftrightarrow> own_fires ''div'' as kids a \<or> any_fires kids a"
  by (simp add: Badge_def fires_own)

lemma fires_Input: "fires (Input as) a \<longleftrightarrow> own_fires ''input'' as [] a"
  by (simp add: Input_def fires_own any_fires_simps)

lemma fires_Switch: "fires (Switch as) a \<longleftrightarrow> own_fires ''button'' as [El ''span'' [] []] a"
  by (simp add: Switch_def fires_simps)

lemma fires_select: "fires (select_of as opts) a \<longleftrightarrow> own_fires ''select'' as opts a \<or> any_fires opts a"
  by (simp add: select_of_def fires_own)

lemma fires_option [simp]: "\<not> fires (option_of v l) a"
  by (simp add: option_of_def fires_simps)

lemma option_values_map [simp]:
  "option_values (option_of v l # ns) = v # option_values ns"
  "option_values (map (\<lambda>r. option_of r r) rs) = rs"
  by (induction rs) (simp_all add: option_of_def)

text \<open>Opens a view: which controls it offers.\<close>

lemmas ui_fires = fires_Button fires_Badge fires_Input fires_Switch fires_select ui_containers
  fires_simps any_fires_map_rows

subsection \<open>Lists from a query\<close>

text \<open>
  The body of a page's table: a line while loading, a line when the list is empty, and
  else the rows of the list \<open>d\<close> (\<open>data?.data\<close>, or with \<open>?? []\<close>).
\<close>

definition note_row :: "string \<Rightarrow> string \<Rightarrow> 'a node" where
  "note_row cols msg = TableRow [] [TableCell [Attr ''colSpan'' cols] [Txt msg]]"

definition list_rows :: "env \<Rightarrow> string \<Rightarrow> string \<Rightarrow> jsval \<Rightarrow> (json \<Rightarrow> 'a node) \<Rightarrow> 'a node list" where
  "list_rows e cols none d f =
     (if env_loading e then [note_row cols (tr e ''Loading...'')]
      else if has_no_elements d then [note_row cols (tr e none)]
      else map_rows d f)"

definition query_rows :: "env \<Rightarrow> jsval" where
  "query_rows e = opt_prop (env_data e) ''data''"

lemma fires_list_rows:
  "any_fires (list_rows e cols none d f) a \<longleftrightarrow>
     \<not> env_loading e \<and> (\<exists>x \<in> set (elements d). x \<noteq> JNull \<and> fires (f x) a)"
  by (auto simp: list_rows_def note_row_def ui_fires has_no_elements_def elements_def)

end
