(* ===== verification/App.thy ===== *)
theory App
  imports Auth_Store Ui
begin

text \<open>
  \<open>web/src/App.tsx\<close> and \<open>web/src/components/layout\<close>: the routes and their guard, the
  page frame, the sidebar and the header.

  How a route's pattern matches a path is the router library's: \<open>matches pattern path\<close> is a
  parameter. The library ranks a literal pattern above the catch-all, which is last in the
  list here as in the source, so the first match is the one it takes.
\<close>

subsection \<open>Page frame\<close>

definition PageLayout :: "string \<Rightarrow> string \<Rightarrow> 'a node list \<Rightarrow> 'a node list \<Rightarrow> 'a node" where
  "PageLayout title description actions children =
     box ([box ([box (El ''h1'' [] [Txt title] # show_if (description \<noteq> []) (para [Txt description]))] @
                show_if (actions \<noteq> []) (box actions))] @ children)"

lemma fires_PageLayout:
  "fires (PageLayout ti d acts kids) a \<longleftrightarrow> any_fires acts a \<or> any_fires kids a"
  by (cases acts) (auto simp: PageLayout_def fires_simps)

definition is_admin :: "jsval \<Rightarrow> bool" where
  "is_admin u \<longleftrightarrow> opt_prop u ''role'' = Some (JStr ''admin'')"

definition navItems :: "(string \<times> string) list" where
  "navItems =
     [(''/'', ''Dashboard''), (''/forward'', ''Port Forwarding''), (''/proxy'', ''Reverse Proxy''),
      (''/ddns'', ''DDNS''), (''/stun'', ''STUN Tunnel''), (''/wol'', ''Wake-on-LAN''),
      (''/cron'', ''Cron Jobs''), (''/acme'', ''Certificates''), (''/storage'', ''Storage''),
      (''/users'', ''Users''), (''/audit'', ''Audit Log''), (''/webhooks'', ''Webhooks''),
      (''/settings'', ''Settings'')]"

definition adminOnly :: "string list" where
  "adminOnly = [''/users'', ''/audit'', ''/webhooks'']"

definition nav_items_for :: "jsval \<Rightarrow> (string \<times> string) list" where
  "nav_items_for u = (if is_admin u then navItems else filter (\<lambda>i. fst i \<notin> set adminOnly) navItems)"

definition Sidebar :: "string \<Rightarrow> env \<Rightarrow> 'a node" where
  "Sidebar version e =
     El ''aside'' []
       [box [span [Txt ''NetBerth'']],
        El ''nav'' [] (map (\<lambda>(to, label). El ''a'' [Attr ''href'' to] [Txt (tr e label)]) (nav_items_for (env_user e))),
        box [box [Txt (''NetBerth v'' @ version)]]]"

definition other_lang :: "lang \<Rightarrow> lang" where
  "other_lang l = (if l = En then Zh else En)"

definition Header :: "env \<Rightarrow> 's \<Rightarrow> ('s, 'm) reaction node" where
  "Header e s =
     El ''header'' []
       [box [box [], span [Txt (tr e ''System Online'')]],
        box [Button [Attr ''variant'' ''ghost'', Attr ''size'' ''sm'',
                     OnClick (Done s [Switch_lang (other_lang (env_lang e))])]
               [Txt (if env_lang e = En then [CHR 0xE4, CHR 0xB8, CHR 0xAD, CHR 0xE6, CHR 0x96, CHR 0x87]
                     else ''EN'')],
             box [span (child (opt_prop (env_user e) ''username'')),
                  span (child (opt_prop (env_user e) ''role''))],
             Button [Attr ''variant'' ''ghost'', Attr ''size'' ''icon'',
                     OnClick (Done s [Logout, Navigate ''/login''])] []]]"

definition AppLayout :: "string \<Rightarrow> env \<Rightarrow> 's \<Rightarrow> ('s, 'm) reaction node \<Rightarrow> ('s, 'm) reaction node" where
  "AppLayout version e s content = box [Sidebar version e, box [Header e s, El ''main'' [] [content]]]"

text \<open>The frame adds three things to do to a page: switch the language, log out.\<close>

lemma fires_AppLayout:
  "fires (AppLayout v e s n) a \<longleftrightarrow>
     fires n a \<or> a = Done s [Switch_lang (other_lang (env_lang e))] \<or> a = Done s [Logout, Navigate ''/login'']"
  by (auto simp: AppLayout_def Sidebar_def Header_def ui_fires)

subsection \<open>Routes\<close>

datatype component =
    C_Login | C_Dashboard | C_Forward | C_Proxy | C_DDNS | C_STUN | C_WOL | C_Cron | C_ACME
  | C_Storage | C_Settings | C_Users | C_Audit | C_Webhooks

datatype element = Bare component | Protected component | Redirect string

datatype screen = Spinner | Goto string | Shows component | Blank

definition routes :: "(string \<times> element) list" where
  "routes =
     [(''/login'', Bare C_Login), (''/'', Protected C_Dashboard), (''/forward'', Protected C_Forward),
      (''/proxy'', Protected C_Proxy), (''/ddns'', Protected C_DDNS), (''/stun'', Protected C_STUN),
      (''/wol'', Protected C_WOL), (''/cron'', Protected C_Cron), (''/acme'', Protected C_ACME),
      (''/storage'', Protected C_Storage), (''/settings'', Protected C_Settings),
      (''/users'', Protected C_Users), (''/audit'', Protected C_Audit),
      (''/webhooks'', Protected C_Webhooks), (''*'', Redirect ''/'')]"

definition ProtectedRoute :: "auth_state \<Rightarrow> component \<Rightarrow> screen" where
  "ProtectedRoute au c =
     (if loading au then Spinner
      else if \<not> truthy (user au) then Goto ''/login''
      else Shows c)"

fun element_screen :: "auth_state \<Rightarrow> element \<Rightarrow> screen" where
  "element_screen au (Bare c) = Shows c"
| "element_screen au (Protected c) = ProtectedRoute au c"
| "element_screen au (Redirect p) = Goto p"

definition App :: "(string \<Rightarrow> string \<Rightarrow> bool) \<Rightarrow> auth_state \<Rightarrow> string \<Rightarrow> screen" where
  "App matches au path =
     (case find (\<lambda>(pat, _). matches pat path) routes of
        Some (_, el) \<Rightarrow> element_screen au el
      | None \<Rightarrow> Blank)"

text \<open>What is shown after at most \<open>n\<close> redirects.\<close>

fun settle :: "nat \<Rightarrow> (string \<Rightarrow> string \<Rightarrow> bool) \<Rightarrow> auth_state \<Rightarrow> string \<Rightarrow> screen" where
  "settle 0 matches au path = App matches au path"
| "settle (Suc n) matches au path =
     (case App matches au path of Goto p \<Rightarrow> settle n matches au p | scr \<Rightarrow> scr)"

text \<open>
  Documented behaviour of the router: a literal pattern matches its own path and not the
  path another literal pattern is, and the catch-all matches every path.
\<close>

definition router_law :: "(string \<Rightarrow> string \<Rightarrow> bool) \<Rightarrow> bool" where
  "router_law matches \<longleftrightarrow>
     (\<forall>p \<in> fst ` set routes. p \<noteq> ''*'' \<longrightarrow>
        (\<forall>q \<in> fst ` set routes. q \<noteq> ''*'' \<longrightarrow> matches q p = (q = p))) \<and>
     (\<forall>path. matches ''*'' path)"

text \<open>The route table's entry for a path.\<close>

definition entry :: "(string \<Rightarrow> string \<Rightarrow> bool) \<Rightarrow> string \<Rightarrow> element option" where
  "entry matches path = map_option snd (find (\<lambda>(pat, _). matches pat path) routes)"

lemma App_entry:
  "App matches au path = (case entry matches path of Some el \<Rightarrow> element_screen au el | None \<Rightarrow> Blank)"
  by (auto simp: App_def entry_def split: option.split)

lemma find_mem: "find P xs = Some x \<Longrightarrow> x \<in> set xs \<and> P x"
  by (induction xs) (auto split: if_splits)

lemma entry_range: "entry matches path = Some el \<Longrightarrow> el \<in> snd ` set routes"
  by (force simp: entry_def dest!: find_mem)

lemma entry_cases [consumes 1, case_names login protected redirect]:
  assumes "router_law matches"
  obtains "entry matches path = Some (Bare C_Login)"
  | c where "entry matches path = Some (Protected c)"
  | "entry matches path = Some (Redirect ''/'')"
proof -
  have star: "matches ''*'' path" using assms by (simp add: router_law_def)
  have "find (\<lambda>(pat, _). matches pat path) routes \<noteq> None"
    using star by (auto simp: find_None_iff routes_def)
  then obtain el where el: "entry matches path = Some el" by (auto simp: entry_def)
  with entry_range [OF el] that show ?thesis by (auto simp: routes_def)
qed

lemma entry_root: "router_law matches \<Longrightarrow> entry matches ''/'' = Some (Protected C_Dashboard)"
  by (simp add: entry_def router_law_def routes_def)

lemma entry_login: "router_law matches \<Longrightarrow> entry matches ''/login'' = Some (Bare C_Login)"
  by (simp add: entry_def router_law_def routes_def)

lemma settle_step: "App matches au path = Goto p \<Longrightarrow> settle (Suc n) matches au path = settle n matches au p"
  by simp

lemma settle_stop: "\<forall>p. App matches au path \<noteq> Goto p \<Longrightarrow> settle n matches au path = App matches au path"
  by (cases n) (auto split: screen.split)

subsection \<open>Properties of the routes\<close>

text \<open>The component a path stands for: its own, or the dashboard when it has no route.\<close>

definition component_at :: "(string \<Rightarrow> string \<Rightarrow> bool) \<Rightarrow> string \<Rightarrow> component" where
  "component_at matches path =
     (case entry matches path of Some (Bare c) \<Rightarrow> c | Some (Protected c) \<Rightarrow> c | _ \<Rightarrow> C_Dashboard)"

text \<open>
  C33. Every path settles on a screen after at most two redirects, and no page but the login
  page is ever shown without a signed-in user. The login page is at its own path; every
  other path shows the spinner while the user is being fetched, leads to the login page when
  there is none, and else shows the path's page, or the dashboard for a path without a page.
\<close>

theorem routes_settle:
  assumes "router_law matches"
  shows "settle 2 matches au path =
    (if entry matches path = Some (Bare C_Login) then Shows C_Login
     else if loading au then Spinner
     else if \<not> truthy (user au) then Shows C_Login
     else Shows (component_at matches path))"
proof -
  note root = entry_root [OF assms] and login = entry_login [OF assms]
  have two: "(2::nat) = Suc (Suc 0)" by simp
  from assms show ?thesis
    by (cases rule: entry_cases [where path = path])
      (simp_all add: two App_entry ProtectedRoute_def root login component_at_def)
qed

text \<open>Exact comparison of paths is a router that obeys the law.\<close>

definition exact :: "string \<Rightarrow> string \<Rightarrow> bool" where
  "exact pat path \<longleftrightarrow> pat = ''*'' \<or> pat = path"

lemma exact_law: "router_law exact"
  by (auto simp: router_law_def exact_def routes_def)

lemma routes_settle_witness:
  "settle 2 exact \<lparr>user = Some JNull, loading = False\<rparr> ''/no-such-page'' = Shows C_Login"
  using routes_settle [OF exact_law, of "\<lparr>user = Some JNull, loading = False\<rparr>" "''/no-such-page''"]
  by (simp add: entry_def routes_def exact_def)

fun is_protected :: "element \<Rightarrow> bool" where
  "is_protected (Protected c) = True"
| "is_protected _ = False"

text \<open>
  The navigation and the routes list the same pages: the links of an administrator's
  sidebar are the protected routes, and every other user's sidebar leaves out exactly the
  links of the user management, the audit log and the webhooks.
\<close>

theorem navigation_complete:
  "{p. \<exists>c. (p, Protected c) \<in> set routes} = fst ` set navItems \<and>
   distinct (map fst navItems) \<and>
   set (nav_items_for u) = (if is_admin u then set navItems
     else set navItems - {i. fst i = ''/users'' \<or> fst i = ''/audit'' \<or> fst i = ''/webhooks''})"
proof (intro conjI)
  have "{p. \<exists>c. (p, Protected c) \<in> set routes} = set (map fst (filter (is_protected \<circ> snd) routes))"
    by (force elim: is_protected.elims)
  also have "\<dots> = fst ` set navItems" by code_simp
  finally show "{p. \<exists>c. (p, Protected c) \<in> set routes} = fst ` set navItems" .
  show "distinct (map fst navItems)" by (simp add: navItems_def)
  show "set (nav_items_for u) = (if is_admin u then set navItems
     else set navItems - {i. fst i = ''/users'' \<or> fst i = ''/audit'' \<or> fst i = ''/webhooks''})"
    by (auto simp: nav_items_for_def adminOnly_def)
qed

text \<open>
  A finished logout: after the header's logout handler has run, wherever the user then
  goes the login page is shown (once the initial load is over), the tokens are gone from
  memory and from storage, and a reload of the page comes up signed out and not loading.
\<close>

theorem logout_ends_session:
  assumes "router_law matches" "\<not> loading au" "logout c au = (c', au')"
  shows "settle 2 matches au' path = Shows C_Login \<and>
    \<not> truthy (accessToken c') \<and> \<not> truthy (refreshToken c') \<and>
    useAuth (local_storage c') = \<lparr>user = Some JNull, loading = False\<rparr> \<and>
    \<not> truthy (accessToken (load_client (local_storage c'))) \<and>
    \<not> truthy (refreshToken (load_client (local_storage c')))"
proof -
  have au': "au' = au\<lparr>user := Some JNull\<rparr>" and c': "c' = clearTokens c"
    using assms(3) by (simp_all add: logout_def)
  have "settle 2 matches au' path = Shows C_Login"
    using assms(2) au' by (simp add: routes_settle [OF assms(1)])
  then show ?thesis
    by (simp add: c' clearTokens_def useAuth_def load_client_def ls.get_del item_val_def)
qed

lemma logout_ends_session_witness:
  "settle 2 exact (snd (logout logged_in \<lparr>user = Some (JObj []), loading = False\<rparr>)) ''/users'' = Shows C_Login"
  using logout_ends_session [OF exact_law, of "\<lparr>user = Some (JObj []), loading = False\<rparr>" logged_in]
  by (simp add: logout_def)

end
