(* ===== verification/Users.thy ===== *)
theory Users
  imports App
begin

text \<open>
  \<open>web/src/pages/Users.tsx\<close>: user management. The four mutations are the page's
  operations; \<open>users_call\<close> is the request each makes and \<open>users_done\<close> its
  \<open>onSuccess\<close> and \<open>onError\<close>.
\<close>

definition ROLES :: "string list" where
  "ROLES = [''admin'', ''operator'', ''viewer'']"

record user_form =
  uf_username :: string
  uf_email :: string
  uf_role :: string
  uf_password :: string

record users_state =
  us_form :: user_form
  us_msg :: string

datatype users_op =
    Create_user user_form
  | Update_user jsval "(string \<times> json) list"
  | Delete_user jsval
  | Reset_user jsval string

definition empty_user_form :: user_form where
  "empty_user_form = \<lparr>uf_username = [], uf_email = [], uf_role = ''viewer'', uf_password = []\<rparr>"

definition users_init :: users_state where
  "users_init = \<lparr>us_form = empty_user_form, us_msg = []\<rparr>"

definition user_form_json :: "user_form \<Rightarrow> json" where
  "user_form_json f =
     JObj [(''username'', JStr (uf_username f)), (''email'', JStr (uf_email f)),
       (''role'', JStr (uf_role f)), (''password'', JStr (uf_password f))]"

definition users_call :: "users_op \<Rightarrow> string \<times> request_init" where
  "users_call m =
     (case m of
        Create_user f \<Rightarrow> (''/users'', post_init (Some (user_form_json f)))
      | Update_user i patch \<Rightarrow> (''/users/'' @ js_string i, put_init (Some (JObj patch)))
      | Delete_user i \<Rightarrow> (''/users/'' @ js_string i, delete_init)
      | Reset_user i pw \<Rightarrow>
          (''/users/'' @ js_string i @ ''/reset-password'',
           post_init (Some (JObj [(''new_password'', JStr pw)]))))"

definition create_failed :: string where
  "create_failed = ''Create failed '' @ [CHR 0xE2, CHR 0x80, CHR 0x94] @ '' username may already exist''"

definition users_done :: "env \<Rightarrow> users_op \<Rightarrow> exn + json \<Rightarrow> users_state \<Rightarrow> (users_state, users_op) reaction" where
  "users_done e m res s =
     (case res of
        Inr _ \<Rightarrow>
          (case m of
             Create_user _ \<Rightarrow> Done (s\<lparr>us_form := empty_user_form, us_msg := []\<rparr>) [Invalidate ''users'']
           | _ \<Rightarrow> Done s [Invalidate ''users''])
      | Inl _ \<Rightarrow>
          (case m of
             Create_user _ \<Rightarrow> Done (s\<lparr>us_msg := tr e create_failed\<rparr>) []
           | _ \<Rightarrow> Done s []))"

text \<open>An empty answer to the prompt, like its cancellation, ends the handler.\<close>

definition handleReset :: "env \<Rightarrow> users_state \<Rightarrow> json \<Rightarrow> (users_state, users_op) reaction" where
  "handleReset e s u =
     Prompt (t (env_lang e) ''New password for {name} (min 8 characters):'' [(''name'', js_string (field u ''username''))])
       (\<lambda>answer. case answer of
            None \<Rightarrow> Done s []
          | Some pw \<Rightarrow>
              if pw = [] then Done s []
              else if js_length pw < 8 then Done s [Alert (tr e ''Password must be at least 8 characters'')]
              else Done s [Start (Reset_user (field u ''id'') pw)])"

definition handleDelete :: "env \<Rightarrow> users_state \<Rightarrow> json \<Rightarrow> (users_state, users_op) reaction" where
  "handleDelete e s u =
     Confirm (t (env_lang e) ''Delete user {name}?'' [(''name'', js_string (field u ''username''))])
       (\<lambda>yes. Done s (if yes then [Start (Delete_user (field u ''id''))] else []))"

definition set_form :: "users_state \<Rightarrow> user_form \<Rightarrow> (users_state, users_op) reaction" where
  "set_form s f = Done (s\<lparr>us_form := f\<rparr>) []"

definition is_self :: "env \<Rightarrow> json \<Rightarrow> bool" where
  "is_self e u \<longleftrightarrow> field u ''id'' = opt_prop (env_user e) ''id''"

definition user_row :: "env \<Rightarrow> users_state \<Rightarrow> json \<Rightarrow> (users_state, users_op) reaction node" where
  "user_row e s u =
     TableRow []
       [TableCell [] (child (field u ''username'') @
          show_if (is_self e u) (Badge [Attr ''variant'' ''secondary''] [Txt (tr e ''you'')])),
        TableCell [] (child (field u ''email'')),
        TableCell []
          [select_of [Value (js_string (field u ''role'')),
             OnChange (\<lambda>v. Done s [Start (Update_user (field u ''id'') [(''role'', JStr v)])])]
             (map (\<lambda>r. option_of r r) ROLES)],
        TableCell []
          [Switch [Checked (truthy (field u ''enabled'')), Disabled (is_self e u),
             OnCheckedChange (\<lambda>b. Done s [Start (Update_user (field u ''id'') [(''enabled'', JBool b)])])]],
        TableCell []
          [box ([Button [Attr ''variant'' ''ghost'', Attr ''size'' ''icon'', Attr ''title'' (tr e ''Reset password''),
                   OnClick (handleReset e s u)] []] @
                show_if (\<not> is_self e u)
                  (Button [Attr ''variant'' ''ghost'', Attr ''size'' ''icon'', Attr ''title'' (tr e ''Delete user''),
                     OnClick (handleDelete e s u)] []))]]"

definition user_form_card :: "env \<Rightarrow> users_state \<Rightarrow> (users_state, users_op) reaction node" where
  "user_form_card e s =
     (let f = us_form s in
      Card [] [CardContent []
        ([box
           [box [Label [] [Txt (tr e ''Username'')],
              Input [Value (uf_username f), OnChange (\<lambda>v. set_form s (f\<lparr>uf_username := v\<rparr>)),
                Attr ''placeholder'' ''username'']],
            box [Label [] [Txt (tr e ''Email'')],
              Input [Value (uf_email f), OnChange (\<lambda>v. set_form s (f\<lparr>uf_email := v\<rparr>)),
                Attr ''placeholder'' ''user@example.com'']],
            box [Label [] [Txt (tr e ''Role'')],
              select_of [Value (uf_role f), OnChange (\<lambda>v. set_form s (f\<lparr>uf_role := v\<rparr>))]
                (map (\<lambda>r. option_of r r) ROLES)],
            box [Label [] [Txt (tr e ''Initial Password'')],
              Input [Attr ''type'' ''password'', Value (uf_password f),
                OnChange (\<lambda>v. set_form s (f\<lparr>uf_password := v\<rparr>)),
                Attr ''placeholder'' (tr e ''min 8 chars'')]]]] @
         show_if (us_msg s \<noteq> []) (para [Txt (us_msg s)]) @
         [para [Txt (tr e ''New users must change their password on first login.'')]])])"

definition users_table :: "env \<Rightarrow> users_state \<Rightarrow> (users_state, users_op) reaction node" where
  "users_table e s =
     Card [] [CardContent [] [Table []
       [TableHeader [] [TableRow []
          [TableHead [] [Txt (tr e ''Username'')], TableHead [] [Txt (tr e ''Email'')],
           TableHead [] [Txt (tr e ''Role'')], TableHead [] [Txt (tr e ''Enabled'')],
           TableHead [] [Txt (tr e ''Actions'')]]],
        TableBody [] (list_rows e ''5'' ''No users yet'' (query_rows e) (user_row e s))]]]"

definition Users :: "env \<Rightarrow> users_state \<Rightarrow> (users_state, users_op) reaction node" where
  "Users e s =
     (if \<not> is_admin (env_user e) then
        PageLayout (tr e ''Users'') (tr e ''User management'') []
          [para [Txt (tr e ''You do not have permission to manage users.'')]]
      else
        PageLayout (tr e ''Users'') (tr e ''Create and manage user accounts and roles'')
          [Button [Attr ''size'' ''sm'', OnClick (Done s [Start (Create_user (us_form s))])] [Txt (tr e ''Add User'')]]
          [user_form_card e s, users_table e s])"

definition users_page :: "(users_state, users_op, json) page" where
  "users_page = \<lparr>page_view = Users, page_done = users_done\<rparr>"

subsection \<open>What the page offers\<close>

lemma user_row_controls:
  assumes "fires (user_row e s u) r"
  obtains (role) v where "v \<in> set ROLES" "r = Done s [Start (Update_user (field u ''id'') [(''role'', JStr v)])]"
  | (enabled) b where "\<not> is_self e u" "r = Done s [Start (Update_user (field u ''id'') [(''enabled'', JBool b)])]"
  | (reset) "r = handleReset e s u"
  | (delete) "\<not> is_self e u" "r = handleDelete e s u"
  using assms by (auto simp: user_row_def ui_fires)

lemma user_form_controls:
  assumes "fires (user_form_card e s) r"
  obtains f where "r = set_form s f" "uf_role f \<in> insert (uf_role (us_form s)) (set ROLES)"
  using assms by (auto simp: user_form_card_def Let_def ui_fires)

lemma Users_controls:
  assumes "fires (Users e s) r"
  obtains (create) "is_admin (env_user e)" "r = Done s [Start (Create_user (us_form s))]"
  | (edit) f where "is_admin (env_user e)" "r = set_form s f"
      "uf_role f \<in> insert (uf_role (us_form s)) (set ROLES)"
  | (row) u where "is_admin (env_user e)" "u \<in> set (elements (query_rows e))" "fires (user_row e s u) r"
proof (cases "is_admin (env_user e)")
  case False
  with assms show ?thesis by (simp add: Users_def fires_PageLayout fires_simps)
next
  case True
  with assms consider "r = Done s [Start (Create_user (us_form s))]" | "fires (user_form_card e s) r"
    | "fires (users_table e s) r"
    by (auto simp: Users_def fires_PageLayout any_fires_simps fires_Button own_fires_def)
  then show ?thesis
  proof cases
    case 2
    then show ?thesis using edit [OF True] by (rule user_form_controls)
  next
    case 3
    then show ?thesis using row [OF True] by (auto simp: users_table_def ui_fires fires_list_rows)
  qed (rule create [OF True])
qed

subsection \<open>The page's promise\<close>

text \<open>The operations an administrator's page may start.\<close>

definition users_okay :: "jsval \<Rightarrow> users_op effect \<Rightarrow> bool" where
  "users_okay me x =
     (case x of
        Start m \<Rightarrow> is_admin me \<and>
          (case m of
             Create_user f \<Rightarrow> uf_role f \<in> set ROLES
           | Update_user i patch \<Rightarrow>
               (\<exists>r \<in> set ROLES. patch = [(''role'', JStr r)]) \<or>
               (\<exists>b. patch = [(''enabled'', JBool b)]) \<and> i \<noteq> opt_prop me ''id''
           | Delete_user i \<Rightarrow> i \<noteq> opt_prop me ''id''
           | Reset_user i pw \<Rightarrow> 8 \<le> js_length pw)
      | Invalidate k \<Rightarrow> k = ''users''
      | Alert _ \<Rightarrow> True
      | _ \<Rightarrow> False)"

definition users_inv :: "users_state \<Rightarrow> bool" where
  "users_inv s \<longleftrightarrow> uf_role (us_form s) \<in> set ROLES"

lemma handleReset_ends:
  "ends_in (handleReset e s u) s' es \<Longrightarrow> s' = s \<and>
     (es = [] \<or> es = [Alert (tr e ''Password must be at least 8 characters'')] \<or>
      (\<exists>pw. 8 \<le> js_length pw \<and> es = [Start (Reset_user (field u ''id'') pw)]))"
  by (auto simp: handleReset_def split: option.splits if_splits)

lemma handleDelete_ends:
  "ends_in (handleDelete e s u) s' es \<Longrightarrow> s' = s \<and> (es = [] \<or> es = [Start (Delete_user (field u ''id''))])"
  by (auto simp: handleDelete_def split: if_splits)

lemma users_control_okay:
  assumes "fires (Users e s) r" "ends_in r s' es" "users_inv s"
  shows "users_inv s' \<and> (\<forall>x \<in> set es. users_okay (env_user e) x)"
  using assms(1)
proof (cases rule: Users_controls)
  case create
  with assms(2,3) show ?thesis by (auto simp: users_inv_def users_okay_def)
next
  case (edit f)
  with assms(2,3) show ?thesis by (auto simp: users_inv_def set_form_def)
next
  case (row u)
  from row(3) show ?thesis
  proof (cases rule: user_row_controls)
    case reset
    with assms(2,3) row(1) handleReset_ends [of e s u s' es] show ?thesis
      by (auto simp: users_okay_def)
  next
    case delete
    with assms(2,3) row(1) handleDelete_ends [of e s u s' es] show ?thesis
      by (auto simp: users_okay_def is_self_def)
  qed (use assms(2,3) row(1) in \<open>auto simp: users_okay_def is_self_def\<close>)
qed

lemma users_ended_okay:
  "ends_in (users_done e m res s) s' es \<Longrightarrow> users_inv s \<Longrightarrow>
     users_inv s' \<and> (\<forall>x \<in> set es. users_okay (env_user e) x)"
  by (auto simp: users_done_def users_inv_def users_okay_def empty_user_form_def ROLES_def
      split: sum.splits users_op.splits)

interpretation up: safe_page users_page users_inv users_okay
  by unfold_locales
    (auto simp: users_page_def dest: users_control_okay users_ended_okay)

subsection \<open>Properties of the user management\<close>

definition mount_users :: "env \<Rightarrow> (users_state, users_op) mounted" where
  "mount_users e = \<lparr>m_env = e, m_state = users_init, m_pending = []\<rparr>"

lemma users_init_inv: "users_inv users_init"
  by (simp add: users_inv_def users_init_def empty_user_form_def ROLES_def)

text \<open>
  C22. The user management never acts against the signed-in administrator's own account
  except for its role and password, and never acts for anyone else: whatever is clicked,
  typed and answered, whatever the server's lists and answers are, every mutation the page
  starts is started for an administrator; it deletes or disables only other accounts, sets a
  role to one of the three roles and a password to at least eight UTF-16 units.
\<close>

theorem users_mutations_guarded:
  assumes "page_run users_page (mount_users e) es y" "Start m \<in> set es"
  shows "is_admin (env_user e) \<and>
    (case m of
       Create_user f \<Rightarrow> uf_role f \<in> set ROLES
     | Update_user i patch \<Rightarrow>
         (\<exists>r \<in> set ROLES. patch = [(''role'', JStr r)]) \<or>
         (\<exists>b. patch = [(''enabled'', JBool b)]) \<and> i \<noteq> opt_prop (env_user e) ''id''
     | Delete_user i \<Rightarrow> i \<noteq> opt_prop (env_user e) ''id''
     | Reset_user i pw \<Rightarrow> 8 \<le> js_length pw)"
proof -
  have "users_okay (env_user e) (Start m)"
    using up.run_safe [OF assms(1)] assms(2) users_init_inv by (auto simp: mount_users_def)
  then show ?thesis by (simp add: users_okay_def)
qed

text \<open>An administrator's page with their own row and another's.\<close>

definition row_of :: "string \<Rightarrow> string \<Rightarrow> json" where
  "row_of i name = JObj [(''id'', JStr i), (''username'', JStr name), (''email'', JStr []),
     (''role'', JStr ''admin''), (''enabled'', JBool True)]"

definition admin_env :: env where
  "admin_env = \<lparr>env_lang = En, env_user = Some (row_of ''1'' ''root''),
     env_data = Some (JObj [(''data'', JArr [row_of ''1'' ''root'', row_of ''2'' ''bob''])]), env_loading = False\<rparr>"

lemma row_of_fields: "field (row_of i name) ''id'' = Some (JStr i)" "is_admin (Some (row_of i name))"
  by (simp_all add: field_def opt_prop_def row_of_def is_admin_def)

lemma delete_bob:
  "page_run users_page (mount_users admin_env) [Start (Delete_user (Some (JStr ''2'')))]
     ((mount_users admin_env)\<lparr>m_pending := [Delete_user (Some (JStr ''2''))]\<rparr>)"
proof -
  let ?u = "row_of ''2'' ''bob''"
  have "fires (user_row admin_env users_init ?u) (handleDelete admin_env users_init ?u)"
    by (auto simp: user_row_def ui_fires is_self_def row_of_fields admin_env_def opt_prop_def row_of_def field_def)
  then have "fires (Users admin_env users_init) (handleDelete admin_env users_init ?u)"
    by (simp add: Users_def fires_PageLayout any_fires_simps users_table_def ui_containers fires_own
        fires_list_rows row_of_fields admin_env_def query_rows_def opt_prop_def elements_def)
      (auto simp: row_of_def)
  moreover have "ends_in (handleDelete admin_env users_init ?u) users_init
      [Start (Delete_user (Some (JStr ''2'')))]"
    by (auto simp: handleDelete_def row_of_fields intro: exI [of _ True])
  ultimately have "page_step users_page (mount_users admin_env) [Start (Delete_user (Some (JStr ''2'')))]
     ((mount_users admin_env)\<lparr>m_pending := [Delete_user (Some (JStr ''2''))]\<rparr>)"
    using page_step.use_control [of users_page "mount_users admin_env"]
    by (fastforce simp: users_page_def mount_users_def started_def)
  then show ?thesis using run_more [OF run_none] by (metis append_Nil)
qed

lemma users_mutations_guarded_witness:
  "is_admin (env_user admin_env) \<and> Some (JStr ''2'') \<noteq> opt_prop (env_user admin_env) ''id''"
  using users_mutations_guarded [OF delete_bob, of "Delete_user (Some (JStr ''2''))"] by simp

text \<open>
  What the create form sends is what was typed: the request's body, parsed, is the form's
  four fields, for all texts, and it goes to the collection with POST.
\<close>

theorem create_user_body_roundtrip:
  "fst (users_call (Create_user f)) = ''/users'' \<and>
   init_method (snd (users_call (Create_user f))) = ''POST'' \<and>
   (\<exists>body. init_body (snd (users_call (Create_user f))) = Some body \<and>
      json_parse body = Some (user_form_json f))"
proof -
  have "json_parse (stringify (user_form_json f)) = Some (user_form_json f)"
    by (rule json_codec.dec_enc) (simp add: user_form_json_def)
  then show ?thesis
    by (simp add: users_call_def post_init_def body_text_def user_form_json_def)
qed

text \<open>
  A refused creation looks like a successful one: when the server answers the create
  request with JSON, whatever the status (for instance 409 for a name that is taken), the
  form is emptied, the message cleared and the list refetched; the message that the name may
  exist is for failures of the network only. (A 401 with a refresh token at hand is the one
  status treated apart.)
\<close>

theorem create_user_refusal_unseen:
  assumes "net w (api_request ''/users'' (snd (users_call (Create_user f)))
      (request_headers c (snd (users_call (Create_user f))))) = (w1, Response status body)"
    and "status \<noteq> 401 \<or> \<not> truthy (refreshToken c)" and "json_parse body = Some j"
  shows "users_done e (Create_user f)
      (fst (api net c w (fst (users_call (Create_user f))) (snd (users_call (Create_user f))))) s =
    Done (s\<lparr>us_form := empty_user_form, us_msg := []\<rparr>) [Invalidate ''users'']"
proof -
  have "fst (users_call (Create_user f)) = ''/users''" by (simp add: users_call_def)
  then have "fst (api net c w (fst (users_call (Create_user f))) (snd (users_call (Create_user f)))) = Inr j"
    using api_answered [of net w "''/users''" _ c w1 status body, OF assms(1,2)] assms(3)
    by (simp add: res_json_def)
  then show ?thesis by (simp add: users_done_def)
qed

definition conflict_body :: string where
  "conflict_body = stringify (JObj [(''success'', JBool False), (''error'', JStr ''username already exists'')])"

lemma create_user_refusal_unseen_witness:
  "users_done admin_env (Create_user empty_user_form)
      (fst (api (\<lambda>w q. (w, Response 409 conflict_body)) logged_in ()
         (fst (users_call (Create_user empty_user_form))) (snd (users_call (Create_user empty_user_form))))) users_init =
    Done users_init [Invalidate ''users'']"
proof -
  have "json_parse conflict_body = Some (JObj [(''success'', JBool False), (''error'', JStr ''username already exists'')])"
    unfolding conflict_body_def by (rule json_codec.dec_enc) simp
  then show ?thesis
    using create_user_refusal_unseen [of "\<lambda>w q. (w, Response 409 conflict_body)" "()" empty_user_form
        logged_in "()" 409 conflict_body _ admin_env users_init]
    by (simp add: users_init_def)
qed

end
