(* ===== verification/Audit_Page.thy ===== *)
theory Audit_Page
  imports App
begin

text \<open>
  \<open>web/src/pages/Audit.tsx\<close>: the audit log, a paginated and filtered query. The page has
  no operations of its own; what it shows is decided by its state through the query's URL.
\<close>

definition ACTIONS :: "string list" where
  "ACTIONS = [''created'', ''updated'', ''deleted'']"

definition RESOURCES :: "string list" where
  "RESOURCES =
     [''forward_rule'', ''proxy_rule'', ''ddns_config'', ''stun_tunnel'', ''wol_device'',
      ''cron_job'', ''acme_certificate'', ''storage_mount'', ''user'']"

record audit_state =
  au_page :: int
  au_action :: string
  au_resourceType :: string
  au_username :: string
  au_appliedUsername :: string

definition audit_init :: audit_state where
  "audit_init = \<lparr>au_page = 1, au_action = [], au_resourceType = [], au_username = [], au_appliedUsername = []\<rparr>"

text \<open>The path the query asks for.\<close>

definition audit_path :: "audit_state \<Rightarrow> string" where
  "audit_path s =
     ''/audit?page='' @ show_int (au_page s) @ ''&page_size=20&action='' @ encodeURIComponent (au_action s) @
     ''&resource_type='' @ encodeURIComponent (au_resourceType s) @
     ''&username='' @ encodeURIComponent (au_appliedUsername s)"

type_synonym audit_reaction = "(audit_state, unit) reaction"

definition totalPages :: "env \<Rightarrow> jsval" where
  "totalPages e = coalesce (opt_prop (env_data e) ''total_pages'') (Some (JNum 1))"

text \<open>\<open>page >= totalPages\<close>: a comparison with what is not a number is false.\<close>

definition at_least :: "int \<Rightarrow> jsval \<Rightarrow> bool" where
  "at_least n v = (case v of Some (JNum r) \<Rightarrow> r \<le> of_int n | _ \<Rightarrow> False)"

definition apply_filter :: "audit_state \<Rightarrow> audit_reaction" where
  "apply_filter s = Done (s\<lparr>au_appliedUsername := au_username s, au_page := 1\<rparr>) []"

definition audit_filters :: "env \<Rightarrow> audit_state \<Rightarrow> audit_reaction node" where
  "audit_filters e s =
     Card [] [CardContent [] [box
       [box [Label [] [Txt (tr e ''Action'')],
          select_of [Value (au_action s), OnChange (\<lambda>v. Done (s\<lparr>au_action := v, au_page := 1\<rparr>) [])]
            (option_of [] (tr e ''All'') # map (\<lambda>a. option_of a a) ACTIONS)],
        box [Label [] [Txt (tr e ''Resource'')],
          select_of [Value (au_resourceType s), OnChange (\<lambda>v. Done (s\<lparr>au_resourceType := v, au_page := 1\<rparr>) [])]
            (option_of [] (tr e ''All'') # map (\<lambda>r. option_of r r) RESOURCES)],
        box [Label [] [Txt (tr e ''Username'')],
          Input [Value (au_username s), OnChange (\<lambda>v. Done (s\<lparr>au_username := v\<rparr>) []),
            OnKeyDown (\<lambda>key. if key = ''Enter'' then apply_filter s else Done s []),
            Attr ''placeholder'' (tr e ''filter by user'')]],
        box [Button [Attr ''size'' ''sm'', OnClick (apply_filter s)] [Txt (tr e ''Apply'')]]]]]"

definition action_variant :: "jsval \<Rightarrow> string" where
  "action_variant a =
     (if a = Some (JStr ''deleted'') then ''destructive''
      else if a = Some (JStr ''updated'') then ''secondary'' else ''success'')"

definition audit_row :: "json \<Rightarrow> audit_reaction node" where
  "audit_row u =
     TableRow []
       [TableCell [] (child (field u ''created_at'')),
        TableCell [] (child (js_or (field u ''username'') (Some (JStr ''-'')))),
        TableCell [] [Badge [Attr ''variant'' (action_variant (field u ''action''))] (child (field u ''action''))],
        TableCell [] [Badge [Attr ''variant'' ''secondary''] (child (field u ''resource_type''))],
        TableCell [Attr ''title'' (js_string (field u ''resource_id''))]
          (child (js_or (field u ''resource_id'') (Some (JStr ''-'')))),
        TableCell [] (child (field u ''remote_addr''))]"

definition audit_table :: "env \<Rightarrow> audit_reaction node" where
  "audit_table e =
     Card [] [CardContent [] [Table []
       [TableHeader [] [TableRow []
          [TableHead [] [Txt (tr e ''Time'')], TableHead [] [Txt (tr e ''User'')],
           TableHead [] [Txt (tr e ''Action'')], TableHead [] [Txt (tr e ''Resource'')],
           TableHead [] [Txt (tr e ''Resource ID'')], TableHead [] [Txt (tr e ''Remote'')]]],
        TableBody [] (list_rows e ''6'' ''No audit events'' (query_rows e) audit_row)]]]"

definition audit_pager :: "env \<Rightarrow> audit_state \<Rightarrow> audit_reaction node" where
  "audit_pager e s =
     box
       [span [Txt (t (env_lang e) ''Page {page} of {total} ({count} events)''
          [(''page'', js_string (coalesce (opt_prop (env_data e) ''page'') (Some (JNum 1)))),
           (''total'', js_string (totalPages e)),
           (''count'', js_string (coalesce (opt_prop (env_data e) ''total'') (Some (JNum 0))))])],
        box
          [Button [Attr ''variant'' ''outline'', Attr ''size'' ''sm'', Disabled (au_page s \<le> 1),
             OnClick (Done (s\<lparr>au_page := max 1 (au_page s - 1)\<rparr>) [])] [Txt '' '', Txt (tr e ''Prev'')],
           Button [Attr ''variant'' ''outline'', Attr ''size'' ''sm'', Disabled (at_least (au_page s) (totalPages e)),
             OnClick (Done (s\<lparr>au_page := au_page s + 1\<rparr>) [])] [Txt (tr e ''Next''), Txt '' '']]]"

definition Audit :: "env \<Rightarrow> audit_state \<Rightarrow> audit_reaction node" where
  "Audit e s =
     (if \<not> is_admin (env_user e) then
        PageLayout (tr e ''Audit Log'') (tr e ''Security audit trail'') []
          [para [Txt (tr e ''You do not have permission to view audit logs.'')]]
      else
        PageLayout (tr e ''Audit Log'') (tr e ''Security audit trail of all mutations'') []
          [audit_filters e s, audit_table e, audit_pager e s])"

definition audit_page :: "(audit_state, unit, unit) page" where
  "audit_page = \<lparr>page_view = Audit, page_done = (\<lambda>e m res s. Done s [])\<rparr>"

lemma audit_row_quiet [simp]: "\<not> fires (audit_row u) a"
  by (simp add: audit_row_def ui_fires)

lemma audit_table_quiet [simp]: "\<not> fires (audit_table e) a"
  by (simp add: audit_table_def ui_fires fires_list_rows)

lemma Audit_controls:
  assumes "fires (Audit e s) r"
  obtains (action) v where "v \<in> insert [] (set ACTIONS)" "r = Done (s\<lparr>au_action := v, au_page := 1\<rparr>) []"
  | (resource) v where "v \<in> insert [] (set RESOURCES)" "r = Done (s\<lparr>au_resourceType := v, au_page := 1\<rparr>) []"
  | (username) v where "r = Done (s\<lparr>au_username := v\<rparr>) []"
  | (filter_by) "r = apply_filter s"
  | (other_key) "r = Done s []"
  | (prev) "1 < au_page s" "r = Done (s\<lparr>au_page := max 1 (au_page s - 1)\<rparr>) []"
  | (next_one) "\<not> at_least (au_page s) (totalPages e)" "r = Done (s\<lparr>au_page := au_page s + 1\<rparr>) []"
proof -
  have "is_admin (env_user e)" using assms by (auto simp: Audit_def fires_PageLayout fires_simps split: if_splits)
  with assms consider "fires (audit_filters e s) r" | "fires (audit_pager e s) r"
    by (auto simp: Audit_def fires_PageLayout any_fires_simps)
  then show ?thesis
  proof cases
    case 1
    then show ?thesis using action resource username filter_by other_key
      by (auto simp: audit_filters_def ui_fires split: if_splits)
  next
    case 2
    then show ?thesis using prev next_one by (auto simp: audit_pager_def ui_fires)
  qed
qed

subsection \<open>Properties of the audit log\<close>

definition audit_inv :: "audit_state \<Rightarrow> bool" where
  "audit_inv s \<longleftrightarrow> 1 \<le> au_page s \<and> au_action s \<in> insert [] (set ACTIONS) \<and>
     au_resourceType s \<in> insert [] (set RESOURCES)"

lemma audit_control_okay:
  assumes "fires (Audit e s) r" "ends_in r s' es" "audit_inv s"
  shows "audit_inv s' \<and> (\<forall>x \<in> set es. False)"
  using assms(1)
  by (cases rule: Audit_controls)
    (use assms(2,3) in \<open>auto simp: audit_inv_def apply_filter_def simp del: insert_iff\<close>)

interpretation ap: safe_page audit_page audit_inv "\<lambda>me x. False"
  by unfold_locales (auto simp: audit_page_def dest: audit_control_okay)

definition mount_audit :: "env \<Rightarrow> (audit_state, unit) mounted" where
  "mount_audit e = \<lparr>m_env = e, m_state = audit_init, m_pending = []\<rparr>"

lemma audit_init_inv: "audit_inv audit_init"
  by (simp add: audit_inv_def audit_init_def)

text \<open>
  Whatever is done on the audit page, it asks for a page numbered from 1 up, with filters
  among those offered, and it never changes anything: no control has an effect outside the
  page's own state.
\<close>

theorem audit_read_only:
  assumes "page_run audit_page (mount_audit e) es y"
  shows "es = [] \<and> 1 \<le> au_page (m_state y) \<and> au_action (m_state y) \<in> insert [] (set ACTIONS) \<and>
    au_resourceType (m_state y) \<in> insert [] (set RESOURCES)"
  using ap.run_safe [OF assms] audit_init_inv by (auto simp: mount_audit_def audit_inv_def)

text \<open>
  Paging never runs past the end, and a changed filter starts over: one step of the page
  raises the page number only by one and only below the number of pages last reported, and
  any step that changes what the query filters by sets it to 1.
\<close>

theorem audit_paging:
  assumes "page_step audit_page x es y"
  shows "(au_page (m_state x) < au_page (m_state y) \<longrightarrow>
       au_page (m_state y) = 1 \<or>
       (au_page (m_state y) = au_page (m_state x) + 1 \<and>
        \<not> at_least (au_page (m_state x)) (totalPages (m_env x)))) \<and>
    ((au_action (m_state y), au_resourceType (m_state y), au_appliedUsername (m_state y)) \<noteq>
     (au_action (m_state x), au_resourceType (m_state x), au_appliedUsername (m_state x)) \<longrightarrow>
       au_page (m_state y) = 1)"
  using assms
proof cases
  case (use_control r s)
  then have "fires (Audit (m_env x) (m_state x)) r" by (simp add: audit_page_def)
  then show ?thesis
    by (cases rule: Audit_controls) (use use_control in \<open>auto simp: apply_filter_def\<close>)
qed (auto simp: audit_page_def)

text \<open>An administrator on the first of three pages presses \<open>Next\<close>.\<close>

definition auditor :: env where
  "auditor = \<lparr>env_lang = En, env_user = Some (JObj [(''role'', JStr ''admin'')]),
     env_data = Some (JObj [(''data'', JArr []), (''total'', JNum 41), (''page'', JNum 1), (''total_pages'', JNum 3)]),
     env_loading = False\<rparr>"

definition on_page :: "int \<Rightarrow> (audit_state, unit) mounted" where
  "on_page n = (mount_audit auditor)\<lparr>m_state := audit_init\<lparr>au_page := n\<rparr>\<rparr>"

lemma audit_next: "page_step audit_page (on_page 1) [] (on_page 2)"
proof -
  have "fires (Audit auditor (audit_init\<lparr>au_page := 1\<rparr>)) (Done (audit_init\<lparr>au_page := 2\<rparr>) [])"
    by (simp add: Audit_def auditor_def is_admin_def opt_prop_def fires_PageLayout any_fires_simps
        audit_pager_def fires_own fires_Button own_fires_def is_disabled_def at_least_def
        totalPages_def coalesce_def)
  then show ?thesis
    using page_step.use_control [of audit_page "on_page 1" "Done (audit_init\<lparr>au_page := 2\<rparr>) []"
        "audit_init\<lparr>au_page := 2\<rparr>" "[]"]
    by (simp add: audit_page_def on_page_def mount_audit_def started_def)
qed

lemma on_page_1: "on_page 1 = mount_audit auditor"
  by (simp add: on_page_def mount_audit_def audit_init_def)

lemma audit_read_only_witness: "1 \<le> au_page (m_state (on_page 2))"
  using audit_read_only [of auditor "[] @ []" "on_page 2"] run_more [OF run_none audit_next] on_page_1
  by simp

lemma audit_paging_witness: "\<not> at_least 1 (totalPages auditor)"
  using audit_paging [OF audit_next] by (simp add: on_page_def mount_audit_def)

end
