(* ===== verification/Webhooks.thy ===== *)
theory Webhooks
  imports App
begin

text \<open>
  \<open>web/src/pages/Webhooks.tsx\<close>: the webhook endpoints, one form for creating and editing
  them. \<open>webhooks_call\<close> is the request a mutation makes; for \<open>Save\<close> it depends on the
  endpoint being edited when the mutation starts, which the operation carries.
\<close>

record webhook_form =
  wf_name :: string
  wf_url :: string
  wf_secret :: string
  wf_events :: string
  wf_enabled :: bool

definition emptyForm :: webhook_form where
  "emptyForm = \<lparr>wf_name = [], wf_url = [], wf_secret = [], wf_events = [], wf_enabled = True\<rparr>"

record webhooks_state =
  wh_form :: webhook_form
  wh_editingId :: jsval
  wh_notice :: "string option"
  wh_saving :: bool            \<comment> \<open>\<open>saveMutation.isPending\<close>\<close>

definition webhooks_init :: webhooks_state where
  "webhooks_init = \<lparr>wh_form = emptyForm, wh_editingId = Some JNull, wh_notice = None, wh_saving = False\<rparr>"

datatype webhooks_op = Save_webhook jsval json | Delete_webhook jsval | Test_webhook jsval

definition webhooks_call :: "webhooks_op \<Rightarrow> string \<times> request_init" where
  "webhooks_call m =
     (case m of
        Save_webhook i payload \<Rightarrow>
          if truthy i then (''/webhooks/'' @ js_string i, put_init (Some payload))
          else (''/webhooks'', post_init (Some payload))
      | Delete_webhook i \<Rightarrow> (''/webhooks/'' @ js_string i, delete_init)
      | Test_webhook i \<Rightarrow> (''/webhooks/'' @ js_string i @ ''/test'', post_init None))"

definition reset_webhooks :: "webhooks_state \<Rightarrow> webhooks_state" where
  "reset_webhooks s = s\<lparr>wh_form := emptyForm, wh_editingId := Some JNull, wh_notice := None\<rparr>"

text \<open>\<open>e.message\<close> of an error; the wording of the engine's own errors is a parameter.\<close>

definition error_message :: "(exn \<Rightarrow> string) \<Rightarrow> exn \<Rightarrow> string" where
  "error_message wording x = (case x of Thrown m \<Rightarrow> m | _ \<Rightarrow> wording x)"

definition failed_notice :: "(exn \<Rightarrow> string) \<Rightarrow> env \<Rightarrow> string \<Rightarrow> exn \<Rightarrow> string" where
  "failed_notice wording e key x = t (env_lang e) key [(''message'', error_message wording x)]"

definition webhooks_done ::
  "(exn \<Rightarrow> string) \<Rightarrow> env \<Rightarrow> webhooks_op \<Rightarrow> exn + json \<Rightarrow> webhooks_state \<Rightarrow>
     (webhooks_state, webhooks_op) reaction" where
  "webhooks_done wording e m res s =
     (case (m, res) of
        (Save_webhook _ _, Inr _) \<Rightarrow> Done (reset_webhooks (s\<lparr>wh_saving := False\<rparr>)) [Invalidate ''webhooks'']
      | (Save_webhook _ _, Inl x) \<Rightarrow>
          Done (s\<lparr>wh_saving := False, wh_notice := Some (failed_notice wording e ''Save failed: {message}'' x)\<rparr>) []
      | (Delete_webhook _, Inr _) \<Rightarrow> Done s [Invalidate ''webhooks'']
      | (Delete_webhook _, Inl x) \<Rightarrow>
          Done (s\<lparr>wh_notice := Some (failed_notice wording e ''Delete failed: {message}'' x)\<rparr>) []
      | (Test_webhook _, Inr _) \<Rightarrow> Done (s\<lparr>wh_notice := Some (tr e ''Test delivery succeeded'')\<rparr>) []
      | (Test_webhook _, Inl x) \<Rightarrow>
          Done (s\<lparr>wh_notice := Some (failed_notice wording e ''Test delivery failed: {message}'' x)\<rparr>) [])"

text \<open>The events field: \<open>split(',').map(trim).filter(Boolean)\<close>.\<close>

definition form_events :: "string \<Rightarrow> string list" where
  "form_events txt = comma_list txt"

definition webhook_payload :: "webhook_form \<Rightarrow> json" where
  "webhook_payload f =
     JObj [(''name'', JStr (wf_name f)), (''url'', JStr (wf_url f)), (''secret'', JStr (wf_secret f)),
       (''events'', JArr (map JStr (form_events (wf_events f)))), (''enabled'', JBool (wf_enabled f))]"

definition submit_webhook :: "webhooks_state \<Rightarrow> (webhooks_state, webhooks_op) reaction" where
  "submit_webhook s =
     Done (s\<lparr>wh_saving := True\<rparr>) [Start (Save_webhook (wh_editingId s) (webhook_payload (wh_form s)))]"

text \<open>
  The form fields of an endpoint. The source's type says that they are strings, a list of
  strings and a boolean; \<open>text_of\<close> reads a string field, and \<open>events.join(',')\<close> prints
  a null element as the empty text. (Without a list of events the row does not render, see
  \<open>events_cell\<close>, so its edit button cannot be pressed.)
\<close>

definition text_of :: "jsval \<Rightarrow> string" where
  "text_of v = (case v of Some (JStr s) \<Rightarrow> s | _ \<Rightarrow> [])"

definition event_texts :: "json \<Rightarrow> string list" where
  "event_texts w = map (\<lambda>x. if x = JNull then [] else to_str x) (elements (field w ''events''))"

definition startEdit :: "webhooks_state \<Rightarrow> json \<Rightarrow> (webhooks_state, webhooks_op) reaction" where
  "startEdit s w =
     Done (s\<lparr>wh_editingId := field w ''id'',
       wh_form := \<lparr>wf_name = text_of (field w ''name''), wf_url = text_of (field w ''url''), wf_secret = [],
         wf_events = js_join '','' (event_texts w), wf_enabled = truthy (field w ''enabled'')\<rparr>,
       wh_notice := None\<rparr>) []"

definition webhook_form_card :: "env \<Rightarrow> webhooks_state \<Rightarrow> (webhooks_state, webhooks_op) reaction node" where
  "webhook_form_card e s =
     (let f = wh_form s; put = (\<lambda>g. Done (s\<lparr>wh_form := g\<rparr>) []) in
      Card [] [CardContent [] [box
        [box [Label [] [Txt (tr e ''Name'')],
           Input [Value (wf_name f), OnChange (\<lambda>v. put (f\<lparr>wf_name := v\<rparr>)), Attr ''placeholder'' (tr e ''Ops webhook'')]],
         box [Label [] [Txt (tr e ''URL'')],
           Input [Value (wf_url f), OnChange (\<lambda>v. put (f\<lparr>wf_url := v\<rparr>)),
             Attr ''placeholder'' ''https://hooks.example.com/ingest'']],
         box [Label [] [Txt (tr e ''Secret (HMAC-SHA256)'')],
           Input [Attr ''type'' ''password'', Value (wf_secret f), OnChange (\<lambda>v. put (f\<lparr>wf_secret := v\<rparr>)),
             Attr ''placeholder'' (if truthy (wh_editingId s) then tr e ''Leave empty to keep'' else [])]],
         box [Label [] [Txt (tr e ''Events (comma-separated, empty = all)'')],
           Input [Value (wf_events f), OnChange (\<lambda>v. put (f\<lparr>wf_events := v\<rparr>)),
             Attr ''placeholder'' ''forward:created, proxy:deleted, cron:updated'']],
         box
           ([box [Switch [Checked (wf_enabled f), OnCheckedChange (\<lambda>b. put (f\<lparr>wf_enabled := b\<rparr>))],
               Label [] [Txt (tr e ''Enabled'')]],
             Button [OnClick (submit_webhook s), Attr ''size'' ''sm'', Disabled (wh_saving s)]
               [Txt (if truthy (wh_editingId s) then tr e ''Save Changes'' else tr e ''Save Webhook'')]] @
            show_if (truthy (wh_editingId s))
              (Button [OnClick (Done (reset_webhooks s) []), Attr ''size'' ''sm'', Attr ''variant'' ''ghost'']
                 [Txt (tr e ''Cancel'')]))]]])"

text \<open>\<open>w.events.length\<close> throws when the field is missing or null.\<close>

definition events_cell :: "env \<Rightarrow> jsval \<Rightarrow> 'a node" where
  "events_cell e v =
     (case v of
        None \<Rightarrow> Broken
      | Some JNull \<Rightarrow> Broken
      | Some (JStr []) \<Rightarrow> Badge [Attr ''variant'' ''secondary''] [Txt (tr e ''All'')]
      | Some (JArr []) \<Rightarrow> Badge [Attr ''variant'' ''secondary''] [Txt (tr e ''All'')]
      | Some (JArr xs) \<Rightarrow> Txt (js_join '', '' (map (\<lambda>x. if x = JNull then [] else to_str x) xs))
      | Some _ \<Rightarrow> Broken)"

definition webhook_row :: "env \<Rightarrow> webhooks_state \<Rightarrow> json \<Rightarrow> (webhooks_state, webhooks_op) reaction node" where
  "webhook_row e s w =
     TableRow []
       [TableCell [] (child (field w ''name'')),
        TableCell [] (child (field w ''url'')),
        TableCell [] [events_cell e (field w ''events'')],
        TableCell [] [if truthy (field w ''has_secret'') then Badge [Attr ''variant'' ''success''] [Txt (tr e ''Set'')]
           else span [Txt [CHR 0xE2, CHR 0x80, CHR 0x94]]],
        TableCell [] [if truthy (field w ''enabled'') then Badge [Attr ''variant'' ''success''] [Txt (tr e ''Active'')]
           else Badge [Attr ''variant'' ''secondary''] [Txt (tr e ''Paused'')]],
        TableCell [] [box
          [Button [Attr ''variant'' ''ghost'', Attr ''size'' ''icon'', OnClick (Done s [Start (Test_webhook (field w ''id''))]),
             Attr ''aria-label'' (tr e ''Test webhook'')] [],
           Button [Attr ''variant'' ''ghost'', Attr ''size'' ''icon'', OnClick (startEdit s w),
             Attr ''aria-label'' (tr e ''Edit webhook'')] [],
           Button [Attr ''variant'' ''ghost'', Attr ''size'' ''icon'', OnClick (Done s [Start (Delete_webhook (field w ''id''))]),
             Attr ''aria-label'' (tr e ''Delete webhook'')] []]]]"

definition webhook_list :: "env \<Rightarrow> jsval" where
  "webhook_list e = coalesce (query_rows e) (Some (JArr []))"

definition webhooks_table :: "env \<Rightarrow> webhooks_state \<Rightarrow> (webhooks_state, webhooks_op) reaction node" where
  "webhooks_table e s =
     Card [] [CardContent [] [Table []
       [TableHeader [] [TableRow []
          [TableHead [] [Txt (tr e ''Name'')], TableHead [] [Txt (tr e ''URL'')], TableHead [] [Txt (tr e ''Events'')],
           TableHead [] [Txt (tr e ''Secret'')], TableHead [] [Txt (tr e ''Status'')], TableHead [] []]],
        TableBody [] (list_rows e ''6'' ''No webhooks configured'' (webhook_list e) (webhook_row e s))]]]"

definition Webhooks :: "env \<Rightarrow> webhooks_state \<Rightarrow> (webhooks_state, webhooks_op) reaction node" where
  "Webhooks e s =
     PageLayout (tr e ''Webhooks'') (tr e ''Receive NetBerth events at an external URL'')
       [Button [Attr ''size'' ''sm'', OnClick (Done (reset_webhooks s) [])] [Txt '' '', Txt (tr e ''Add Webhook'')]]
       ((case wh_notice s of None \<Rightarrow> [] | Some msg \<Rightarrow> show_if (msg \<noteq> []) (box [Txt msg])) @
        [webhook_form_card e s, webhooks_table e s])"

definition webhooks_page :: "(exn \<Rightarrow> string) \<Rightarrow> (webhooks_state, webhooks_op, json) page" where
  "webhooks_page wording = \<lparr>page_view = Webhooks, page_done = webhooks_done wording\<rparr>"

subsection \<open>What the page offers\<close>

lemma events_cell_quiet [simp]: "\<not> fires (events_cell e v) a"
  by (auto simp: events_cell_def ui_fires split: option.split json.split list.split)

lemma webhook_row_controls:
  "fires (webhook_row e s w) r \<Longrightarrow>
     r = Done s [Start (Test_webhook (field w ''id''))] \<or> r = startEdit s w \<or>
     r = Done s [Start (Delete_webhook (field w ''id''))]"
  by (auto simp: webhook_row_def ui_fires split: if_splits)

lemma webhook_form_controls:
  "fires (webhook_form_card e s) r \<Longrightarrow>
     (\<exists>f. r = Done (s\<lparr>wh_form := f\<rparr>) []) \<or> (r = submit_webhook s \<and> \<not> wh_saving s) \<or>
     r = Done (reset_webhooks s) []"
  by (auto simp: webhook_form_card_def Let_def ui_fires)

lemma Webhooks_controls:
  assumes "fires (Webhooks e s) r"
  obtains (edit) f where "r = Done (s\<lparr>wh_form := f\<rparr>) []"
  | (submit) "r = submit_webhook s" "\<not> wh_saving s"
  | (reset) "r = Done (reset_webhooks s) []"
  | (row) w m where "r = Done s [Start m]" "m = Test_webhook (field w ''id'') \<or> m = Delete_webhook (field w ''id'')"
  | (start_edit) w where "r = startEdit s w" "w \<in> set (elements (webhook_list e))"
proof -
  from assms consider "r = Done (reset_webhooks s) []" | "fires (webhook_form_card e s) r"
    | "fires (webhooks_table e s) r"
    by (auto simp: Webhooks_def fires_PageLayout any_fires_simps fires_Button own_fires_def fires_own
        split: option.splits)
  then show ?thesis
  proof cases
    case 2
    then show ?thesis using webhook_form_controls [of e s r] edit submit reset by blast
  next
    case 3
    then obtain w where "w \<in> set (elements (webhook_list e))" "fires (webhook_row e s w) r"
      by (auto simp: webhooks_table_def ui_fires fires_list_rows)
    then show ?thesis using webhook_row_controls [of e s w r] row start_edit by blast
  qed (rule reset)
qed

subsection \<open>The page's promise\<close>

text \<open>What a save sends: the five fields, the events without blanks around them.\<close>

definition save_fields :: "json \<Rightarrow> bool" where
  "save_fields p \<longleftrightarrow>
     (\<exists>name url secret events enabled. clean_items events \<and>
        p = JObj [(''name'', JStr name), (''url'', JStr url), (''secret'', JStr secret),
          (''events'', JArr (map JStr events)), (''enabled'', JBool enabled)])"

definition webhooks_okay :: "jsval \<Rightarrow> webhooks_op effect \<Rightarrow> bool" where
  "webhooks_okay me x =
     (case x of
        Start (Save_webhook i payload) \<Rightarrow> save_fields payload
      | Start _ \<Rightarrow> True
      | Invalidate k \<Rightarrow> k = ''webhooks''
      | _ \<Rightarrow> False)"

lemma webhook_payload_fields: "save_fields (webhook_payload f)"
  using comma_list_clean by (auto simp: save_fields_def webhook_payload_def form_events_def)

interpretation wp: safe_page "webhooks_page wording" "\<lambda>s. True" webhooks_okay
proof
  fix e s r s' es
  assume "fires (page_view (webhooks_page wording) e s) r" "ends_in r s' es"
  then have "fires (Webhooks e s) r" by (simp add: webhooks_page_def)
  then show "True \<and> (\<forall>x \<in> set es. webhooks_okay (env_user e) x)"
    by (cases rule: Webhooks_controls)
      (use \<open>ends_in r s' es\<close> webhook_payload_fields in
        \<open>auto simp: webhooks_okay_def submit_webhook_def startEdit_def\<close>)
next
  fix e m res s s' es
  assume "ends_in (page_done (webhooks_page wording) e m res s) s' es"
  then show "True \<and> (\<forall>x \<in> set es. webhooks_okay (env_user e) x)"
    by (cases m; cases res) (auto simp: webhooks_page_def webhooks_done_def webhooks_okay_def)
qed

subsection \<open>Properties of the webhooks page\<close>

definition mount_webhooks :: "env \<Rightarrow> (webhooks_state, webhooks_op) mounted" where
  "mount_webhooks e = \<lparr>m_env = e, m_state = webhooks_init, m_pending = []\<rparr>"

definition is_save :: "webhooks_op \<Rightarrow> bool" where
  "is_save m \<longleftrightarrow> (case m of Save_webhook _ _ \<Rightarrow> True | _ \<Rightarrow> False)"

definition saves :: "webhooks_op list \<Rightarrow> webhooks_op list" where
  "saves ms = filter is_save ms"

lemma saves_simps [simp]:
  "saves [] = []" "saves (ms @ ns) = saves ms @ saves ns"
  "saves [Save_webhook i p] = [Save_webhook i p]" "saves [Delete_webhook i] = []"
  "saves [Test_webhook i] = []" "saves (remove1 (Delete_webhook i) ms) = saves ms"
  "saves (remove1 (Test_webhook i) ms) = saves ms"
  by (simp_all add: saves_def is_save_def filter_remove1 remove1_idem)

lemma saves_remove1: "Save_webhook i p \<in> set ms \<Longrightarrow> length (saves (remove1 (Save_webhook i p) ms)) = length (saves ms) - 1"
  by (simp add: saves_def is_save_def filter_remove1 length_remove1)

lemma one_save_step:
  assumes "page_step (webhooks_page wording) x es y"
    and "length (saves (m_pending x)) \<le> (if wh_saving (m_state x) then 1 else 0)"
  shows "length (saves (m_pending y)) \<le> (if wh_saving (m_state y) then 1 else 0)"
  using assms(1)
proof cases
  case (use_control r s)
  then have "fires (Webhooks (m_env x) (m_state x)) r" by (simp add: webhooks_page_def)
  then show ?thesis
    by (cases rule: Webhooks_controls)
      (use use_control assms(2) in \<open>auto simp: started_def submit_webhook_def reset_webhooks_def startEdit_def\<close>)
next
  case (op_ends m res s)
  show ?thesis
  proof (cases m)
    case (Save_webhook i p)
    have "length (saves (m_pending x)) \<le> 1" using assms(2) by (auto split: if_splits)
    with Save_webhook op_ends saves_remove1 [of i p "m_pending x"] show ?thesis
      by (cases res) (auto simp: webhooks_page_def webhooks_done_def started_def reset_webhooks_def)
  qed (use op_ends assms(2) in \<open>cases res; auto simp: webhooks_page_def webhooks_done_def started_def\<close>)+
qed (use assms(2) in auto)

text \<open>
  What the webhooks page saves: on every run from its mount, each save carries the five
  fields of the form with the event names cut at commas, trimmed and none empty, and at most
  one save is under way, during which the save button is disabled.
\<close>

theorem webhook_saves:
  assumes "page_run (webhooks_page wording) (mount_webhooks e) es y"
  shows "(\<forall>i p. Start (Save_webhook i p) \<in> set es \<longrightarrow> save_fields p) \<and>
    length (saves (m_pending y)) \<le> (if wh_saving (m_state y) then 1 else 0)"
proof
  show "\<forall>i p. Start (Save_webhook i p) \<in> set es \<longrightarrow> save_fields p"
    using wp.run_safe [OF assms] by (auto simp: webhooks_okay_def)
  show "length (saves (m_pending y)) \<le> (if wh_saving (m_state y) then 1 else 0)"
    using assms
  proof (induction "mount_webhooks e" es y rule: page_run.induct)
    case run_none
    then show ?case by (simp add: mount_webhooks_def webhooks_init_def)
  next
    case (run_more es y es' z)
    then show ?case using one_save_step by blast
  qed
qed

lemma webhook_saves_witness:
  "save_fields (webhook_payload emptyForm)"
proof -
  define e :: env where "e = \<lparr>env_lang = En, env_user = None, env_data = None, env_loading = False\<rparr>"
  let ?m = "Save_webhook (Some JNull) (webhook_payload emptyForm)"
  have "fires (webhook_form_card e webhooks_init) (submit_webhook webhooks_init)"
    by (simp add: webhook_form_card_def Let_def ui_fires webhooks_init_def)
  then have "fires (Webhooks e webhooks_init) (submit_webhook webhooks_init)"
    by (simp add: Webhooks_def fires_PageLayout any_fires_simps)
  then have "page_step (webhooks_page (\<lambda>_. [])) (mount_webhooks e) [Start ?m]
      ((mount_webhooks e)\<lparr>m_state := webhooks_init\<lparr>wh_saving := True\<rparr>, m_pending := [?m]\<rparr>)"
    using page_step.use_control [of "webhooks_page (\<lambda>_. [])" "mount_webhooks e" "submit_webhook webhooks_init"
        "webhooks_init\<lparr>wh_saving := True\<rparr>" "[Start ?m]"]
    by (simp add: webhooks_page_def mount_webhooks_def submit_webhook_def webhooks_init_def started_def)
  from webhook_saves [OF run_more [OF run_none this]] show ?thesis by auto
qed

end
