(* ===== verification/Rendering.thy ===== *)
theory Rendering
  imports Types Users Audit_Page Webhooks
begin

text \<open>
  The interfaces of \<open>types/index.ts\<close> against the pages that rely on them: data of the
  declared type, or an answer of the back end without data, never makes a page throw while
  it renders.
\<close>

fun has_broken :: "'a node \<Rightarrow> bool" where
  "has_broken (Txt s) = False"
| "has_broken (El tag as kids) = list_ex has_broken kids"
| "has_broken Broken = True"

definition sound :: "'a node list \<Rightarrow> bool" where
  "sound ns \<longleftrightarrow> \<not> list_ex has_broken ns"

lemma sound_simps [simp]:
  "sound []" "sound (n # ns) \<longleftrightarrow> \<not> has_broken n \<and> sound ns" "sound (ns @ ms) \<longleftrightarrow> sound ns \<and> sound ms"
  "sound (show_if b n) \<longleftrightarrow> (b \<longrightarrow> \<not> has_broken n)" "sound (map f xs) \<longleftrightarrow> (\<forall>x \<in> set xs. \<not> has_broken (f x))"
  by (auto simp: sound_def show_if_def list_ex_iff)

lemma has_broken_El [simp]: "has_broken (El tag as kids) \<longleftrightarrow> \<not> sound kids"
  by (simp add: sound_def)

declare has_broken.simps(2) [simp del]

lemma sound_option [simp]: "\<not> has_broken (option_of v l)"
  by (simp add: option_of_def)

lemmas ui_sound = Button_def Badge_def Input_def Switch_def select_of_def ui_containers

lemma broken_PageLayout [simp]: "has_broken (PageLayout ti d acts kids) \<longleftrightarrow> \<not> (sound acts \<and> sound kids)"
  by (auto simp: PageLayout_def)

text \<open>A child of a primitive type renders.\<close>

definition primitive :: "jsval \<Rightarrow> bool" where
  "primitive v \<longleftrightarrow> (case v of Some (JObj _) \<Rightarrow> False | Some (JArr _) \<Rightarrow> False | _ \<Rightarrow> True)"

lemma sound_child [simp]: "primitive v \<Longrightarrow> sound (child v)"
  by (cases v rule: child.cases) (auto simp: primitive_def)

lemma sound_list_rows:
  assumes "\<not> env_loading e \<Longrightarrow> d = None \<or> d = Some JNull \<or>
     (\<exists>xs. d = Some (JArr xs) \<and> (\<forall>x \<in> set xs. x \<noteq> JNull \<and> \<not> has_broken (f x)))"
  shows "sound (list_rows e cols none d f)"
  using assms by (auto simp: list_rows_def note_row_def map_rows_def ui_sound sound_def list_ex_iff)

subsection \<open>Reading typed objects\<close>

lemma field_of_object:
  assumes "conforms (TObject fs) u" "(k, True, ty) \<in> set fs"
  obtains x where "field u k = Some x" "conforms ty x"
  using assms by (fastforce simp: field_def opt_prop_def split: json.splits option.splits)

lemma conforms_not_null: "\<not> conforms (TObject fs) JNull"
  by simp

declare conforms.simps [simp del]

lemma primitive_field:
  assumes "conforms (TObject fs) u" "(k, True, ty) \<in> set fs" "ty = TString \<or> (\<exists>ls. ty = TLiteral ls)"
  shows "primitive (field u k)"
proof -
  obtain x where "field u k = Some x" "conforms ty x" using field_of_object [OF assms(1,2)] by blast
  with assms(3) show ?thesis by (auto simp: primitive_def conforms.simps split: json.splits)
qed

text \<open>What the pages get from a query: nothing yet, or an answer of the declared type.\<close>

definition answered :: "ty \<Rightarrow> env \<Rightarrow> bool" where
  "answered ty e \<longleftrightarrow> (case env_data e of None \<Rightarrow> True | Some j \<Rightarrow> conforms (APIResponse_ty ty) j)"

lemma answer_data:
  assumes "conforms (APIResponse_ty ty) j"
  shows "opt_prop (Some j) ''data'' = None \<or> (\<exists>x. opt_prop (Some j) ''data'' = Some x \<and> conforms ty x)"
proof -
  obtain kvs where kvs: "j = JObj kvs"
    using assms by (cases j) (simp_all add: APIResponse_ty_def conforms.simps)
  show ?thesis
  proof (cases "map_of kvs ''data''")
    case None
    with kvs show ?thesis by (simp add: opt_prop_def)
  next
    case (Some x)
    with assms kvs have "conforms ty x" by (simp add: APIResponse_ty_def conforms.simps)
    with Some kvs show ?thesis by (simp add: opt_prop_def)
  qed
qed

lemma query_rows_typed:
  assumes "answered (TArray ty) e"
  shows "query_rows e = None \<or> (\<exists>xs. query_rows e = Some (JArr xs) \<and> (\<forall>x \<in> set xs. conforms ty x))"
proof (cases "env_data e")
  case None
  then show ?thesis by (simp add: query_rows_def opt_prop_def)
next
  case (Some j)
  with assms have "conforms (APIResponse_ty (TArray ty)) j" by (simp add: answered_def)
  from answer_data [OF this] Some consider "query_rows e = None"
    | x where "query_rows e = Some x" "conforms (TArray ty) x"
    by (auto simp: query_rows_def)
  then show ?thesis using array_elements by cases fastforce+
qed

lemma sound_typed_rows:
  assumes "answered (TArray ty) e" "\<not> conforms ty JNull" "\<And>u. conforms ty u \<Longrightarrow> \<not> has_broken (f u)"
  shows "sound (list_rows e cols none (query_rows e) f)"
  using query_rows_typed [OF assms(1)] assms(2,3) by (intro sound_list_rows) blast

subsection \<open>The pages\<close>

lemma users_row_sound:
  assumes "conforms User_ty u"
  shows "\<not> has_broken (user_row e s u)"
proof -
  note u = assms [unfolded User_ty_def]
  have "primitive (field u ''username'')" "primitive (field u ''email'')"
    by (rule primitive_field [OF u], simp, simp)+
  then show ?thesis by (simp add: user_row_def ui_sound)
qed

text \<open>
  The user management renders whatever a well-typed back end sends: before the answer, for
  an answer without data (an error) and for any list of \<open>User\<close> objects, no expression of
  the page throws.
\<close>

theorem users_page_renders:
  assumes "answered (TArray User_ty) e"
  shows "\<not> has_broken (Users e s)"
proof -
  have "sound (list_rows e ''5'' ''No users yet'' (query_rows e) (user_row e s))"
    using assms users_row_sound by (intro sound_typed_rows) (auto simp: User_ty_def conforms_not_null)
  then show ?thesis
    by (simp add: Users_def user_form_card_def users_table_def Let_def ui_sound)
qed

text \<open>A typed answer with one user.\<close>

definition typed_user :: json where
  "typed_user = JObj [(''id'', JStr ''2''), (''username'', JStr ''bob''), (''email'', JStr []),
     (''role'', JStr ''viewer''), (''enabled'', JBool True), (''otp_enabled'', JBool False)]"

definition users_env :: env where
  "users_env = admin_env\<lparr>env_data := Some (JObj [(''success'', JBool True), (''data'', JArr [typed_user])])\<rparr>"

lemma users_page_renders_witness: "\<not> has_broken (Users users_env users_init)"
proof (rule users_page_renders)
  have "conforms User_ty typed_user"
    by (simp add: User_ty_def typed_user_def conforms.simps)
  then show "answered (TArray User_ty) users_env"
    by (simp add: answered_def users_env_def APIResponse_ty_def conforms.simps)
qed

lemma audit_row_sound:
  assumes "conforms AuditEvent_ty u"
  shows "\<not> has_broken (audit_row u)"
proof -
  note u = assms [unfolded AuditEvent_ty_def]
  have p: "primitive (field u ''created_at'')" "primitive (field u ''username'')" "primitive (field u ''action'')"
    "primitive (field u ''resource_type'')" "primitive (field u ''resource_id'')" "primitive (field u ''remote_addr'')"
    by (rule primitive_field [OF u], simp, simp)+
  moreover have "primitive (js_or a (Some (JStr x)))" if "primitive a" for a x
    using that by (simp add: js_or_def primitive_def)
  ultimately show ?thesis by (simp add: audit_row_def ui_sound)
qed

lemma paginated_data:
  assumes "conforms (PaginatedResponse_ty ty) j"
  shows "\<exists>x. opt_prop (Some j) ''data'' = Some x \<and> conforms (TArray ty) x"
proof -
  obtain x where "field j ''data'' = Some x" "conforms (TArray ty) x"
    by (rule field_of_object [OF assms [unfolded PaginatedResponse_ty_def], of "''data''" "TArray ty"]) simp_all
  then show ?thesis by (simp add: field_def)
qed

text \<open>
  The audit log renders whatever a well-typed back end sends: a page of audit events, an
  answer without data, or nothing yet.
\<close>

theorem audit_page_renders:
  assumes "case env_data e of None \<Rightarrow> True
    | Some j \<Rightarrow> conforms (PaginatedResponse_ty AuditEvent_ty) j \<or> conforms (APIResponse_ty (TArray AuditEvent_ty)) j"
  shows "\<not> has_broken (Audit e s)"
proof -
  have "query_rows e = None \<or>
      (\<exists>xs. query_rows e = Some (JArr xs) \<and> (\<forall>x \<in> set xs. conforms AuditEvent_ty x))"
  proof (cases "env_data e")
    case None
    then show ?thesis by (simp add: query_rows_def opt_prop_def)
  next
    case (Some j)
    with assms have "opt_prop (Some j) ''data'' = None \<or>
        (\<exists>x. opt_prop (Some j) ''data'' = Some x \<and> conforms (TArray AuditEvent_ty) x)"
      using answer_data [of "TArray AuditEvent_ty" j] paginated_data [of AuditEvent_ty j] by auto
    with Some array_elements show ?thesis unfolding query_rows_def by fastforce
  qed
  moreover have "\<not> conforms AuditEvent_ty JNull" by (simp add: AuditEvent_ty_def conforms_not_null)
  ultimately have "sound (list_rows e ''6'' ''No audit events'' (query_rows e) audit_row)"
    using audit_row_sound by (intro sound_list_rows) blast
  then show ?thesis
    by (simp add: Audit_def audit_filters_def audit_table_def audit_pager_def ui_sound)
qed

lemma webhook_row_sound:
  assumes "conforms WebhookEndpoint_ty u"
  shows "\<not> has_broken (webhook_row e s u)"
proof -
  note u = assms [unfolded WebhookEndpoint_ty_def]
  have "primitive (field u ''name'')" "primitive (field u ''url'')"
    by (rule primitive_field [OF u], simp, simp)+
  moreover obtain x where x: "field u ''events'' = Some x" "conforms (TArray TString) x"
    by (rule field_of_object [OF u, of "''events''" "TArray TString"]) simp_all
  moreover have "\<not> has_broken (events_cell e (field u ''events''))"
    using x by (auto simp: events_cell_def conforms.simps ui_sound split: json.splits list.split)
  ultimately show ?thesis by (simp add: webhook_row_def ui_sound)
qed

text \<open>
  The webhooks page renders whatever a well-typed back end sends; but one endpoint whose
  \<open>events\<close> is null, which the declared type excludes and the back end sends for an endpoint
  that was created without events, makes the whole page throw.
\<close>

theorem webhooks_page_renders:
  assumes "env_loading e = False" "query_rows e = Some (JArr xs)" "xs \<noteq> []"
    and "\<forall>x \<in> set xs. conforms WebhookEndpoint_ty x \<or> (x \<noteq> JNull \<and> field x ''events'' = Some JNull)"
  shows "has_broken (Webhooks e s) \<longleftrightarrow> (\<exists>x \<in> set xs. field x ''events'' = Some JNull)"
proof -
  have not_null: "\<not> conforms WebhookEndpoint_ty JNull" by (simp add: WebhookEndpoint_ty_def conforms_not_null)
  have row: "has_broken (webhook_row e s x) \<longleftrightarrow> field x ''events'' = Some JNull" if "x \<in> set xs" for x
  proof (cases "conforms WebhookEndpoint_ty x")
    case True
    obtain y where "field x ''events'' = Some y" "conforms (TArray TString) y"
      by (rule field_of_object [OF True [unfolded WebhookEndpoint_ty_def], of "''events''" "TArray TString"]) simp_all
    then have "field x ''events'' \<noteq> Some JNull" by (auto simp: conforms.simps)
    with webhook_row_sound [OF True] show ?thesis by simp
  next
    case False
    with assms(4) that have "field x ''events'' = Some JNull" by blast
    then show ?thesis by (simp add: webhook_row_def ui_sound events_cell_def)
  qed
  have "JNull \<notin> set xs" using assms(4) not_null by blast
  then have "sound (list_rows e ''6'' ''No webhooks configured'' (webhook_list e) (webhook_row e s)) \<longleftrightarrow>
      (\<forall>x \<in> set xs. \<not> has_broken (webhook_row e s x))"
    using assms(1-3)
    by (auto simp: list_rows_def webhook_list_def coalesce_def has_no_elements_def map_rows_def sound_def list_ex_iff)
  moreover have "\<not> has_broken (webhook_form_card e s)"
    by (simp add: webhook_form_card_def Let_def ui_sound)
  ultimately show ?thesis
    using row by (auto simp: Webhooks_def webhooks_table_def ui_sound split: option.split)
qed

text \<open>A typed audit page, and an endpoint as the back end lists it without events.\<close>

definition audit_answer :: json where
  "audit_answer = JObj [(''success'', JBool True),
     (''data'', JArr [JObj [(''id'', JNum 7), (''tenant_id'', JStr []), (''user_id'', JStr ''1''),
        (''username'', JStr ''root''), (''action'', JStr ''created''), (''resource_type'', JStr ''user''),
        (''resource_id'', JStr ''2''), (''changes'', JStr []), (''remote_addr'', JStr ''127.0.0.1''),
        (''created_at'', JStr ''2025-01-01T00:00:00Z'')]]),
     (''total'', JNum 1), (''page'', JNum 1), (''page_size'', JNum 20), (''total_pages'', JNum 1)]"

lemma audit_page_renders_witness: "\<not> has_broken (Audit (auditor\<lparr>env_data := Some audit_answer\<rparr>) audit_init)"
  by (rule audit_page_renders)
    (simp add: audit_answer_def PaginatedResponse_ty_def AuditEvent_ty_def conforms.simps)

definition no_events :: json where
  "no_events = JObj [(''id'', JStr ''w1''), (''name'', JStr ''ops''), (''events'', JNull)]"

definition webhooks_env :: env where
  "webhooks_env = admin_env\<lparr>env_data := Some (JObj [(''success'', JBool True), (''data'', JArr [no_events])])\<rparr>"

lemma webhooks_page_renders_witness: "has_broken (Webhooks webhooks_env webhooks_init)"
proof -
  have "field no_events ''events'' = Some JNull" "no_events \<noteq> JNull"
    by (simp_all add: no_events_def field_def opt_prop_def)
  then show ?thesis
    using webhooks_page_renders [of webhooks_env "[no_events]" webhooks_init]
    by (simp add: webhooks_env_def query_rows_def opt_prop_def admin_env_def)
qed

end
