(* ===== verification/Utils.thy ===== *)
theory Utils
  imports JSON
begin

text \<open>
  \<open>web/src/lib/utils.ts\<close>: sizes, durations and status colours as the dashboard shows
  them. \<open>formatBytes\<close> is modelled on the integers the back end's counters are, in exact
  arithmetic: \<open>log1024\<close> is \<open>Math.floor(Math.log(bytes) / Math.log(k))\<close>
  (\<open>log1024_floor\<close>) and \<open>toFixed(1)\<close> rounds half up.
\<close>

fun log1024 :: "nat \<Rightarrow> nat" where
  "log1024 b = (if b < 1024 then 0 else Suc (log1024 (b div 1024)))"

declare log1024.simps [simp del]

definition size_units :: "string list" where
  "size_units = [''B'', ''KB'', ''MB'', ''GB'', ''TB'']"

text \<open>\<open>x.toFixed(1)\<close> for \<open>x = b / d\<close>, in tenths: the nearest, the larger on a tie.\<close>

definition tenths :: "nat \<Rightarrow> nat \<Rightarrow> nat" where
  "tenths b d = (20 * b + d) div (2 * d)"

text \<open>\<open>parseFloat\<close> of a number with one decimal, printed: a final \<open>.0\<close> is dropped.\<close>

definition show_tenths :: "nat \<Rightarrow> string" where
  "show_tenths n =
     show_nat (n div 10) @ (if n mod 10 = 0 then [] else ''.'' @ show_nat (n mod 10))"

definition formatBytes :: "int \<Rightarrow> string" where
  "formatBytes bytes =
     (if bytes = 0 then ''0 B''
      else if bytes < 0 then ''NaN undefined''
      else let b = nat bytes; i = log1024 b
           in show_tenths (tenths b (1024 ^ i)) @ '' '' @
              (if i < length size_units then size_units ! i else ''undefined''))"

text \<open>JavaScript's \<open>%\<close>: the sign of the dividend.\<close>

definition js_rem :: "int \<Rightarrow> int \<Rightarrow> int" where
  "js_rem a b = sgn a * (\<bar>a\<bar> mod \<bar>b\<bar>)"

definition formatUptime :: "int \<Rightarrow> string" where
  "formatUptime seconds =
     (let d = seconds div 86400;
          h = js_rem seconds 86400 div 3600;
          m = js_rem seconds 3600 div 60
      in if d > 0 then show_int d @ ''d '' @ show_int h @ ''h''
         else if h > 0 then show_int h @ ''h '' @ show_int m @ ''m''
         else show_int m @ ''m'')"

definition statusColor :: "string \<Rightarrow> string" where
  "statusColor status =
     (if status = ''valid'' then ''text-emerald-400''
      else if status = ''expired'' \<or> status = ''error'' then ''text-red-400''
      else if status = ''pending'' then ''text-amber-400''
      else ''text-muted-foreground'')"

subsection \<open>The logarithm\<close>

lemma log1024_bounds: "0 < b \<Longrightarrow> 1024 ^ log1024 b \<le> b \<and> b < 1024 ^ Suc (log1024 b)"
proof (induction b rule: log1024.induct)
  case (1 b)
  show ?case
  proof (cases "b < 1024")
    case True
    with 1 show ?thesis by (subst (1 2) log1024.simps) simp
  next
    case False
    with 1 have "1024 ^ log1024 (b div 1024) \<le> b div 1024 \<and>
        b div 1024 < 1024 ^ Suc (log1024 (b div 1024))" by simp
    then have "1024 * 1024 ^ log1024 (b div 1024) \<le> b"
        "b < 1024 * 1024 ^ Suc (log1024 (b div 1024))" by linarith+
    with False show ?thesis by (subst (1 2) log1024.simps) simp
  qed
qed

lemma log1024_floor: "0 < b \<Longrightarrow> \<lfloor>ln (real b) / ln 1024\<rfloor> = int (log1024 b)"
  using log1024_bounds [of b] floor_log_nat_eq_if [of 1024 "log1024 b" b]
  by (simp add: log_def)

lemma log1024_less: "0 < b \<Longrightarrow> log1024 b < n \<longleftrightarrow> b < 1024 ^ n"
proof
  assume "0 < b" "log1024 b < n"
  then show "b < 1024 ^ n"
    using log1024_bounds [of b] power_increasing [of "Suc (log1024 b)" n "1024::nat"] by simp
next
  assume "0 < b" "b < 1024 ^ n"
  then have "1024 ^ log1024 b < (1024 ^ n :: nat)"
    using log1024_bounds [of b] by (meson le_less_trans)
  then show "log1024 b < n" by (rule power_less_imp_less_exp [rotated]) simp
qed

subsection \<open>Rounding to tenths\<close>

lemma tenths_error:
  assumes "0 < d"
  shows "\<bar>2 * int d * int (tenths b d) - 20 * int b\<bar> \<le> int d"
proof -
  let ?q = "tenths b d"
  have "20 * b + d = 2 * d * ?q + (20 * b + d) mod (2 * d)"
    unfolding tenths_def by (rule mult_div_mod_eq [symmetric])
  moreover have "(20 * b + d) mod (2 * d) < 2 * d" using assms by simp
  ultimately have "2 * d * ?q \<le> 20 * b + d" "20 * b + d < 2 * d * ?q + 2 * d" by linarith+
  then have "2 * int d * int ?q \<le> 20 * int b + int d"
      "20 * int b + int d < 2 * int d * int ?q + 2 * int d"
    by (metis (mono_tags, opaque_lifting) of_nat_add of_nat_le_iff of_nat_less_iff of_nat_mult of_nat_numeral)+
  then show ?thesis by linarith
qed

lemma tenths_range:
  assumes "d \<le> b" "b < 1024 * d"
  shows "10 \<le> tenths b d \<and> tenths b d \<le> 10240"
proof -
  have d: "0 < d" using assms by (cases d) auto
  have "20 * d \<le> 20 * b + d" using assms by simp
  then have "20 * d div (2 * d) \<le> tenths b d" unfolding tenths_def by (rule div_le_mono)
  moreover have "20 * b + d \<le> 20480 * d + d" using assms by simp
  then have "tenths b d \<le> (20480 * d + d) div (2 * d)" unfolding tenths_def by (rule div_le_mono)
  moreover have "(20480 * d + d) div (2 * d) = 10240"
    using d by (intro div_nat_eqI) simp_all
  ultimately show ?thesis using d by simp
qed

subsection \<open>What the dashboard shows\<close>

lemma div_int_less: "0 < k \<Longrightarrow> (x::int) < k * n \<Longrightarrow> x div k < n"
  by (metis linorder_not_le mult.commute mult_le_cancel_left_pos order.trans
      div_mult_mod_eq le_add_same_cancel1 pos_mod_sign)

lemma mixed_radix:
  "(s::int) = 86400 * d + r \<Longrightarrow> r = 3600 * h + q \<Longrightarrow> q = 60 * m + z \<Longrightarrow> 0 \<le> z \<Longrightarrow> z < 60 \<Longrightarrow>
     86400 * d + 3600 * h + 60 * m \<le> s \<and> s < 86400 * d + 3600 * h + 60 * m + 60"
  by linarith

lemma uptime_digits:
  fixes s :: int
  shows "86400 * (s div 86400) + 3600 * (s mod 86400 div 3600) + 60 * (s mod 3600 div 60) \<le> s \<and>
    s < 86400 * (s div 86400) + 3600 * (s mod 86400 div 3600) + 60 * (s mod 3600 div 60) + 60"
proof -
  have m: "s mod 3600 = s mod 86400 mod 3600" by (simp add: mod_mod_cancel)
  have "s = 86400 * (s div 86400) + s mod 86400" by simp
  moreover have "s mod 86400 = 3600 * (s mod 86400 div 3600) + s mod 3600" by (simp add: m)
  moreover have "s mod 3600 = 60 * (s mod 3600 div 60) + s mod 3600 mod 60" by simp
  moreover have "0 \<le> s mod 3600 mod 60" "s mod 3600 mod 60 < 60" by simp_all
  ultimately show ?thesis by (rule mixed_radix)
qed

text \<open>Below 1 PiB, \<open>formatBytes\<close> shows the count in the unit of its magnitude (the
  logarithm picks the unit with \<open>1024^i \<le> b < 1024^(i+1)\<close>) rounded to the nearest
  tenth; the number shown lies between 1 and 1024 (a value just under the next unit shows as
  1024 of the smaller one).\<close>

theorem formatBytes_magnitude:
  assumes "0 < b" "b < 1024 ^ 5"
  shows "\<exists>i n. i < 5 \<and> formatBytes (int b) = show_tenths n @ '' '' @ size_units ! i \<and>
    int i = \<lfloor>ln (real b) / ln 1024\<rfloor> \<and> 1024 ^ i \<le> b \<and> b < 1024 ^ Suc i \<and>
    \<bar>2 * 1024 ^ i * int n - 20 * int b\<bar> \<le> 1024 ^ i \<and> 10 \<le> n \<and> n \<le> 10240"
proof -
  let ?i = "log1024 b" and ?n = "tenths b (1024 ^ log1024 b)"
  have i: "?i < 5" using assms log1024_less by blast
  have b: "1024 ^ ?i \<le> b" "b < 1024 ^ Suc ?i" using log1024_bounds [OF assms(1)] by blast+
  have f: "formatBytes (int b) = show_tenths ?n @ '' '' @ size_units ! ?i"
    using assms(1) i by (simp add: formatBytes_def Let_def size_units_def)
  have e: "\<bar>2 * 1024 ^ ?i * int ?n - 20 * int b\<bar> \<le> 1024 ^ ?i"
    using tenths_error [of "1024 ^ ?i" b] by simp
  have n: "10 \<le> ?n \<and> ?n \<le> 10240" using b by (intro tenths_range) simp_all
  have l: "int ?i = \<lfloor>ln (real b) / ln 1024\<rfloor>" using log1024_floor [OF assms(1)] by (rule sym)
  show ?thesis
    by (intro exI [of _ ?i] exI [of _ ?n] conjI i f l b e n [THEN conjunct1] n [THEN conjunct2])
qed

theorem formatBytes_magnitude_witness:
  "formatBytes 1536 = ''1.5 KB'' \<and>
   (\<exists>i n. i < 5 \<and> formatBytes (int 1536) = show_tenths n @ '' '' @ size_units ! i \<and>
    int i = \<lfloor>ln (real 1536) / ln 1024\<rfloor> \<and> 1024 ^ i \<le> (1536::nat) \<and> (1536::nat) < 1024 ^ Suc i \<and>
    \<bar>2 * 1024 ^ i * int n - 20 * int 1536\<bar> \<le> 1024 ^ i \<and> 10 \<le> n \<and> n \<le> 10240)"
proof
  show "formatBytes 1536 = ''1.5 KB''"
    by (simp add: formatBytes_def Let_def log1024.simps tenths_def show_tenths_def
        size_units_def text_simps split del: if_split)
  show "\<exists>i n. i < 5 \<and> formatBytes (int 1536) = show_tenths n @ '' '' @ size_units ! i \<and>
    int i = \<lfloor>ln (real 1536) / ln 1024\<rfloor> \<and> 1024 ^ i \<le> (1536::nat) \<and> (1536::nat) < 1024 ^ Suc i \<and>
    \<bar>2 * 1024 ^ i * int n - 20 * int 1536\<bar> \<le> 1024 ^ i \<and> 10 \<le> n \<and> n \<le> 10240"
    by (rule formatBytes_magnitude [of 1536]) simp_all
qed

text \<open>From 1 PiB on there is no unit left in the table: the text always ends in the word
  \<open>undefined\<close>.\<close>

theorem formatBytes_no_unit:
  assumes "1024 ^ 5 \<le> b"
  shows "\<exists>p. formatBytes (int b) = p @ '' undefined''"
proof -
  have b: "0 < b" using assms by (cases b) auto
  then have "\<not> log1024 b < 5" using assms by (simp add: log1024_less)
  with b show ?thesis by (auto simp: formatBytes_def Let_def size_units_def)
qed

theorem formatBytes_no_unit_witness: "\<exists>p. formatBytes (int (1024 ^ 5)) = p @ '' undefined''"
  by (rule formatBytes_no_unit [OF order_refl])

text \<open>For a non-negative uptime the days, hours and minutes shown are the mixed-radix
  digits of the duration: hours stay below 24, minutes below 60, and together they account
  for the whole duration up to the seconds that are not shown; a day count hides the minutes.\<close>

theorem formatUptime_digits:
  assumes "0 \<le> s"
  shows "\<exists>d h m. 0 \<le> d \<and> 0 \<le> h \<and> h < 24 \<and> 0 \<le> m \<and> m < 60 \<and>
    86400 * d + 3600 * h + 60 * m \<le> s \<and> s < 86400 * d + 3600 * h + 60 * m + 60 \<and>
    formatUptime s =
      (if d > 0 then show_int d @ ''d '' @ show_int h @ ''h''
       else if h > 0 then show_int h @ ''h '' @ show_int m @ ''m''
       else show_int m @ ''m'')"
proof -
  let ?d = "s div 86400" and ?h = "s mod 86400 div 3600" and ?m = "s mod 3600 div 60"
  have "js_rem s k = s mod k" if "0 < k" for k
    using assms that by (cases "s = 0") (simp_all add: js_rem_def)
  then have f: "formatUptime s =
      (if ?d > 0 then show_int ?d @ ''d '' @ show_int ?h @ ''h''
       else if ?h > 0 then show_int ?h @ ''h '' @ show_int ?m @ ''m''
       else show_int ?m @ ''m'')"
    by (simp add: formatUptime_def Let_def)
  have r: "0 \<le> ?d" "0 \<le> ?h" "?h < 24" "0 \<le> ?m" "?m < 60"
    using assms by (simp_all add: pos_imp_zdiv_nonneg_iff div_int_less)
  have u: "86400 * ?d + 3600 * ?h + 60 * ?m \<le> s" "s < 86400 * ?d + 3600 * ?h + 60 * ?m + 60"
    using uptime_digits [of s] by blast+
  show ?thesis by (intro exI [of _ ?d] exI [of _ ?h] exI [of _ ?m] conjI r u f)
qed

theorem formatUptime_digits_witness:
  "formatUptime 93784 = ''1d 2h'' \<and>
   (\<exists>d h m. 0 \<le> d \<and> 0 \<le> h \<and> h < 24 \<and> 0 \<le> m \<and> m < 60 \<and>
    86400 * d + 3600 * h + 60 * m \<le> (93784::int) \<and> 93784 < 86400 * d + 3600 * h + 60 * m + 60 \<and>
    formatUptime 93784 =
      (if d > 0 then show_int d @ ''d '' @ show_int h @ ''h''
       else if h > 0 then show_int h @ ''h '' @ show_int m @ ''m''
       else show_int m @ ''m''))"
proof
  show "formatUptime 93784 = ''1d 2h''"
    by (simp add: formatUptime_def Let_def js_rem_def text_simps split del: if_split)
qed (rule formatUptime_digits [of 93784], simp)

end
