(* ===== verification/Login.thy ===== *)
theory Login
  imports App
begin

text \<open>
  \<open>web/src/pages/Login.tsx\<close>: the login form. \<open>handleSubmit\<close> is split at its \<open>await\<close>:
  it starts \<open>Sign_in\<close>, and what follows is what \<open>login_done\<close> does with the outcome of
  the auth store's \<open>login\<close>.
\<close>

record login_state =
  lg_username :: string
  lg_password :: string
  lg_showPw :: bool
  lg_error :: string
  lg_loading :: bool

datatype login_op = Sign_in string string

definition login_init :: login_state where
  "login_init = \<lparr>lg_username = [], lg_password = [], lg_showPw = False, lg_error = [], lg_loading = False\<rparr>"

definition handleSubmit :: "login_state \<Rightarrow> (login_state, login_op) reaction" where
  "handleSubmit s =
     Done (s\<lparr>lg_error := [], lg_loading := True\<rparr>) [Start (Sign_in (lg_username s) (lg_password s))]"

text \<open>After \<open>await login(...)\<close>: there is no \<open>try\<close>, so an error ends the handler there.\<close>

definition login_done :: "env \<Rightarrow> login_op \<Rightarrow> exn + bool \<Rightarrow> login_state \<Rightarrow> (login_state, login_op) reaction" where
  "login_done e m res s =
     (case res of
        Inl _ \<Rightarrow> Done s []
      | Inr True \<Rightarrow> Done (s\<lparr>lg_loading := False\<rparr>) [Navigate ''/'']
      | Inr False \<Rightarrow> Done (s\<lparr>lg_error := tr e ''Invalid credentials'', lg_loading := False\<rparr>) [])"

definition login_fields :: "env \<Rightarrow> login_state \<Rightarrow> (login_state, login_op) reaction node list" where
  "login_fields e s =
     [box [Label [Attr ''htmlFor'' ''username''] [Txt (tr e ''Username'')],
           Input [Attr ''id'' ''username'', Attr ''placeholder'' (tr e ''Enter username''),
             Value (lg_username s), OnChange (\<lambda>v. Done (s\<lparr>lg_username := v\<rparr>) [])]],
      box [Label [Attr ''htmlFor'' ''password''] [Txt (tr e ''Password'')],
           box [Input [Attr ''id'' ''password'',
                  Attr ''type'' (if lg_showPw s then ''text'' else ''password''),
                  Value (lg_password s), OnChange (\<lambda>v. Done (s\<lparr>lg_password := v\<rparr>) [])],
                El ''button'' [Attr ''type'' ''button'',
                  OnClick (Done (s\<lparr>lg_showPw := \<not> lg_showPw s\<rparr>) [])] []]]] @
     show_if (lg_error s \<noteq> []) (para [Txt (lg_error s)]) @
     [Button [Attr ''type'' ''submit'', Disabled (lg_loading s)]
        [Txt (if lg_loading s then tr e ''Signing in...'' else tr e ''Sign in'')]]"

definition Login :: "env \<Rightarrow> login_state \<Rightarrow> (login_state, login_op) reaction node" where
  "Login e s =
     box [Card []
       [CardHeader []
          [box [], CardTitle [] [Txt ''NetBerth''],
           CardDescription [] [Txt (tr e ''Sign in to your admin panel'')]],
        CardContent [] [El ''form'' [OnSubmit (handleSubmit s)] (login_fields e s)]]]"

definition login_page :: "(login_state, login_op, bool) page" where
  "login_page = \<lparr>page_view = Login, page_done = login_done\<rparr>"

lemma login_fields_fires:
  "any_fires (login_fields e s) r \<Longrightarrow> \<exists>s'. r = Done s' [] \<and> lg_loading s' = lg_loading s"
  by (auto simp: login_fields_def ui_fires)

lemma login_fields_blocked: "submit_blocked (login_fields e s) = lg_loading s"
  by (simp add: login_fields_def submit_blocked_def Input_def Button_def with_default_def
      Label_def show_if_def is_disabled_def)

text \<open>What the form offers: edits, and the submission unless one is under way.\<close>

lemma login_controls:
  assumes "fires (Login e s) r"
  obtains (edit) s' where "r = Done s' []" "lg_loading s' = lg_loading s"
  | (submit) "r = handleSubmit s" "\<not> lg_loading s"
  using assms login_fields_fires [of e s r]
  by (auto simp: Login_def ui_fires login_fields_blocked)

subsection \<open>Properties of the login page\<close>

definition mount_login :: "env \<Rightarrow> (login_state, login_op) mounted" where
  "mount_login e = \<lparr>m_env = e, m_state = login_init, m_pending = []\<rparr>"

lemma login_step_pending:
  assumes "page_step login_page x es y"
    and "length (m_pending x) \<le> (if lg_loading (m_state x) then 1 else 0)"
  shows "length (m_pending y) \<le> (if lg_loading (m_state y) then 1 else 0)"
  using assms
proof cases
  case (use_control r s)
  then have "fires (Login (m_env x) (m_state x)) r" by (simp add: login_page_def)
  then show ?thesis
    by (cases rule: login_controls) (use use_control assms(2) in \<open>auto simp: started_def handleSubmit_def\<close>)
next
  case (op_ends m res s)
  then have "length (m_pending x) = 1" using assms(2) by (cases "m_pending x") (auto split: if_splits)
  then have "m_pending x = [m]" using op_ends by (auto simp: length_Suc_conv)
  then show ?thesis
    using op_ends by (auto simp: login_page_def login_done_def started_def split: sum.splits bool.splits)
qed simp

text \<open>
  The login form never has two sign-ins under way: from the page as mounted, whatever
  the user does and however sign-ins end, at most one is pending, and only while the form
  says so and its submit button is disabled.
\<close>

theorem one_sign_in_at_a_time:
  assumes "page_run login_page (mount_login e) es y"
  shows "length (m_pending y) \<le> (if lg_loading (m_state y) then 1 else 0)"
  using assms
proof (induction "mount_login e" es y rule: page_run.induct)
  case run_none
  then show ?case by (simp add: mount_login_def login_init_def)
next
  case (run_more es y es' z)
  then show ?case using login_step_pending by blast
qed


text \<open>A sign-in that fails with the network down.\<close>

definition sign_in_sent :: "env \<Rightarrow> (login_state, login_op) mounted" where
  "sign_in_sent e = (mount_login e)
     \<lparr>m_state := login_init\<lparr>lg_loading := True\<rparr>, m_pending := [Sign_in [] []]\<rparr>"

definition sign_in_failed :: "env \<Rightarrow> (login_state, login_op) mounted" where
  "sign_in_failed e = (sign_in_sent e)\<lparr>m_pending := []\<rparr>"

lemma sign_in_runs:
  "page_run login_page (mount_login e) [Start (Sign_in [] [])] (sign_in_sent e)"
  "page_step login_page (sign_in_sent e) [] (sign_in_failed e)"
proof -
  have "fires (Login e login_init) (handleSubmit login_init)"
    by (simp add: Login_def ui_fires login_fields_blocked) (simp add: login_init_def)
  then have "page_step login_page (mount_login e) [Start (Sign_in [] [])] (sign_in_sent e)"
    using page_step.use_control [of login_page "mount_login e" "handleSubmit login_init"
        "login_init\<lparr>lg_loading := True\<rparr>" "[Start (Sign_in [] [])]"]
    by (simp add: login_page_def mount_login_def sign_in_sent_def handleSubmit_def login_init_def
        started_def)
  then show "page_run login_page (mount_login e) [Start (Sign_in [] [])] (sign_in_sent e)"
    using run_more [OF run_none] by (metis append_Nil)
  show "page_step login_page (sign_in_sent e) [] (sign_in_failed e)"
    using page_step.op_ends [of "Sign_in [] []" "sign_in_sent e" login_page "Inl NetworkError"
        "m_state (sign_in_sent e)" "[]"]
    by (simp add: sign_in_sent_def sign_in_failed_def login_page_def login_done_def started_def)
qed

definition signed_out :: env where
  "signed_out = \<lparr>env_lang = En, env_user = Some JNull, env_data = None, env_loading = False\<rparr>"

lemma one_sign_in_at_a_time_witness:
  "length (m_pending (sign_in_sent signed_out)) \<le> (if lg_loading (m_state (sign_in_sent signed_out)) then 1 else 0)"
  by (rule one_sign_in_at_a_time [OF sign_in_runs(1)])


end
