(* ===== verification/Settings.thy ===== *)
theory Settings
  imports App
begin

text \<open>
  \<open>web/src/pages/Settings.tsx\<close>: the password form and two-factor authentication. The four
  asynchronous handlers are split at their \<open>await\<close>: what comes after it is in
  \<open>settings_done\<close>, with the \<open>catch\<close> branches under \<open>Inl\<close>.
\<close>

record settings_state =
  st_old :: string
  st_new :: string
  st_confirm :: string
  st_passwordMsg :: string
  st_passwordOk :: bool
  st_otpSecret :: jsval
  st_otpQrUrl :: jsval
  st_otpCode :: string
  st_otpMsg :: string
  st_otpOk :: bool

datatype settings_op = Change_password string string | Disable_2fa | Setup_2fa | Enable_2fa string

definition settings_init :: settings_state where
  "settings_init =
     \<lparr>st_old = [], st_new = [], st_confirm = [], st_passwordMsg = [], st_passwordOk = False,
      st_otpSecret = Some (JStr []), st_otpQrUrl = Some (JStr []), st_otpCode = [], st_otpMsg = [], st_otpOk = False\<rparr>"

definition settings_call :: "settings_op \<Rightarrow> string \<times> request_init" where
  "settings_call m =
     (case m of
        Change_password old new \<Rightarrow>
          (''/auth/change-password'',
           post_init (Some (JObj [(''old_password'', JStr old), (''new_password'', JStr new)])))
      | Disable_2fa \<Rightarrow> (''/auth/2fa/disable'', post_init None)
      | Setup_2fa \<Rightarrow> (''/auth/2fa/setup'', get_init)
      | Enable_2fa digits \<Rightarrow> (''/auth/2fa/enable'', post_init (Some (JObj [(''code'', JStr digits)]))))"

definition password_msg :: "settings_state \<Rightarrow> string \<Rightarrow> bool \<Rightarrow> settings_state" where
  "password_msg s msg good = s\<lparr>st_passwordMsg := msg, st_passwordOk := good\<rparr>"

definition otp_msg :: "settings_state \<Rightarrow> string \<Rightarrow> bool \<Rightarrow> settings_state" where
  "otp_msg s msg good = s\<lparr>st_otpMsg := msg, st_otpOk := good\<rparr>"

definition changePassword :: "env \<Rightarrow> settings_state \<Rightarrow> (settings_state, settings_op) reaction" where
  "changePassword e s =
     (if st_new s \<noteq> st_confirm s then Done (password_msg s (tr e ''Passwords do not match'') False) []
      else if js_length (st_new s) < 8 then
        Done (password_msg s (tr e ''Password must be at least 8 characters'') False) []
      else Done s [Start (Change_password (st_old s) (st_new s))])"

text \<open>What \<open>Enable 2FA\<close> does with the answer; reading \<open>res.data\<close> may throw.\<close>

definition take_setup :: "env \<Rightarrow> json \<Rightarrow> settings_state \<Rightarrow> settings_state" where
  "take_setup e j s =
     (case get_prop (Some j) ''data'' of
        Inl _ \<Rightarrow> otp_msg s (tr e ''Setup failed'') False
      | Inr d \<Rightarrow>
          if truthy d
          then otp_msg (s\<lparr>st_otpSecret := opt_prop d ''secret'', st_otpQrUrl := opt_prop d ''qr_code''\<rparr>) [] False
          else s)"

definition settings_done ::
  "env \<Rightarrow> settings_op \<Rightarrow> exn + json \<Rightarrow> settings_state \<Rightarrow> (settings_state, settings_op) reaction" where
  "settings_done e m res s =
     (case (m, res) of
        (Change_password _ _, Inr _) \<Rightarrow>
          Done ((password_msg s (tr e ''Password changed successfully'') True)
            \<lparr>st_old := [], st_new := [], st_confirm := []\<rparr>) []
      | (Change_password _ _, Inl _) \<Rightarrow> Done (password_msg s (tr e ''Failed to change password'') False) []
      | (Disable_2fa, Inr _) \<Rightarrow> Done s [Fetch_user]
      | (Disable_2fa, Inl _) \<Rightarrow> Done s []
      | (Setup_2fa, Inr j) \<Rightarrow> Done (take_setup e j s) []
      | (Setup_2fa, Inl _) \<Rightarrow> Done (otp_msg s (tr e ''Setup failed'') False) []
      | (Enable_2fa _, Inr _) \<Rightarrow>
          Done ((otp_msg s (tr e ''2FA enabled!'') True)
            \<lparr>st_otpSecret := Some (JStr []), st_otpQrUrl := Some (JStr []), st_otpCode := []\<rparr>) [Fetch_user]
      | (Enable_2fa _, Inl _) \<Rightarrow> Done (otp_msg s (tr e ''Invalid code'') False) [])"

text \<open>The class that tells a good message from a bad one is kept.\<close>

definition message_line :: "string \<Rightarrow> bool \<Rightarrow> 'a node" where
  "message_line msg good =
     El ''p'' [Attr ''className'' (if good then ''text-emerald-400'' else ''text-destructive'')] [Txt msg]"

definition password_card :: "env \<Rightarrow> settings_state \<Rightarrow> (settings_state, settings_op) reaction node" where
  "password_card e s =
     Card []
       [CardHeader []
          [CardTitle [] [Txt '' '', Txt (tr e ''Change Password'')],
           CardDescription [] [Txt (tr e ''Update your account password. Minimum 8 characters.'')]],
        CardContent [] [box
          ([box [Label [] [Txt (tr e ''Current Password'')],
              Input [Attr ''type'' ''password'', Value (st_old s), OnChange (\<lambda>v. Done (s\<lparr>st_old := v\<rparr>) [])]],
            box [Label [] [Txt (tr e ''New Password'')],
              Input [Attr ''type'' ''password'', Value (st_new s), OnChange (\<lambda>v. Done (s\<lparr>st_new := v\<rparr>) [])]],
            box [Label [] [Txt (tr e ''Confirm Password'')],
              Input [Attr ''type'' ''password'', Value (st_confirm s), OnChange (\<lambda>v. Done (s\<lparr>st_confirm := v\<rparr>) [])]]] @
           show_if (st_passwordMsg s \<noteq> []) (message_line (st_passwordMsg s) (st_passwordOk s)) @
           [Button [OnClick (changePassword e s)] [Txt (tr e ''Update Password'')]])]]"

definition otp_enabled :: "env \<Rightarrow> bool" where
  "otp_enabled e \<longleftrightarrow> truthy (opt_prop (env_user e) ''otp_enabled'')"

definition otp_setup_panel :: "env \<Rightarrow> settings_state \<Rightarrow> (settings_state, settings_op) reaction node" where
  "otp_setup_panel e s =
     box
       ([para ([Txt (tr e ''Secret:''), Txt '' '', span (child (st_otpSecret s))])] @
        show_if (truthy (st_otpQrUrl s)) (para [Txt (tr e ''URL:''), Txt '' '', span (child (st_otpQrUrl s))]) @
        [para [Txt (tr e ''Scan with Google Authenticator or Authy, then enter the 6-digit code:'')],
         box [Input [Attr ''placeholder'' ''000000'', Attr ''maxLength'' ''6'', Value (st_otpCode s),
                OnChange (\<lambda>v. Done (s\<lparr>st_otpCode := v\<rparr>) [])],
              Button [Attr ''size'' ''sm'', OnClick (Done s [Start (Enable_2fa (st_otpCode s))])]
                [Txt (tr e ''Verify'')]]] @
        show_if (st_otpMsg s \<noteq> []) (message_line (st_otpMsg s) (st_otpOk s)))"

definition otp_card :: "env \<Rightarrow> settings_state \<Rightarrow> (settings_state, settings_op) reaction node" where
  "otp_card e s =
     Card []
       [CardHeader []
          [CardTitle [] [Txt '' '', Txt (tr e ''Two-Factor Authentication'')],
           CardDescription [] [Txt (tr e ''Add an extra layer of security to your account.'')]],
        CardContent [] [box
          ([box
             [para [Txt (tr e ''Status:''), Txt '' '',
                if otp_enabled e then Badge [Attr ''variant'' ''success''] [Txt (tr e ''Enabled'')]
                else Badge [Attr ''variant'' ''secondary''] [Txt (tr e ''Disabled'')]],
              if otp_enabled e then
                Button [Attr ''variant'' ''outline'', Attr ''size'' ''sm'', OnClick (Done s [Start Disable_2fa])]
                  [Txt (tr e ''Disable 2FA'')]
              else
                Button [Attr ''variant'' ''outline'', Attr ''size'' ''sm'', OnClick (Done s [Start Setup_2fa])]
                  [Txt (tr e ''Enable 2FA'')]]] @
           show_if (truthy (st_otpSecret s) \<and> \<not> otp_enabled e) (otp_setup_panel e s))]]"

definition about_card :: "string \<Rightarrow> env \<Rightarrow> 'a node" where
  "about_card version e =
     Card []
       [CardHeader [] [CardTitle [] [Txt '' '', Txt (tr e ''About NetBerth'')]],
        CardContent [] [box
          [para [Txt ''Version: '', span [Txt version]],
           para [Txt (tr e (''NetBerth is a security-first network service management platform. Port forwarding, reverse proxy, DDNS, STUN, WOL, cron, ACME, and storage '' @
             [CHR 0xE2, CHR 0x80, CHR 0x94] @ '' all in one.''))]]]]"

definition Settings :: "string \<Rightarrow> env \<Rightarrow> settings_state \<Rightarrow> (settings_state, settings_op) reaction node" where
  "Settings version e s =
     PageLayout (tr e ''Settings'') (tr e ''System configuration and user management'') []
       [box [password_card e s, otp_card e s, about_card version e]]"

definition settings_page :: "string \<Rightarrow> (settings_state, settings_op, json) page" where
  "settings_page version = \<lparr>page_view = Settings version, page_done = settings_done\<rparr>"

subsection \<open>What the page offers\<close>

lemma message_line_quiet [simp]: "\<not> fires (message_line m g) a"
  by (simp add: message_line_def fires_simps)

lemma about_card_quiet [simp]: "\<not> fires (about_card v e) a"
  by (simp add: about_card_def ui_fires)

lemma Settings_controls:
  assumes "fires (Settings version e s) r"
  obtains (edit) s' where "r = Done s' []"
  | (change) "r = changePassword e s"
  | (disable) "otp_enabled e" "r = Done s [Start Disable_2fa]"
  | (set_up) "\<not> otp_enabled e" "r = Done s [Start Setup_2fa]"
  | (enable) "\<not> otp_enabled e" "truthy (st_otpSecret s)" "r = Done s [Start (Enable_2fa (st_otpCode s))]"
proof -
  from assms consider "fires (password_card e s) r" | "fires (otp_card e s) r"
    by (auto simp: Settings_def fires_PageLayout fires_own any_fires_simps own_fires_def)
  then show ?thesis
  proof cases
    case 1
    then show ?thesis using edit change by (auto simp: password_card_def ui_fires)
  next
    case 2
    then consider "otp_enabled e" "r = Done s [Start Disable_2fa]"
      | "\<not> otp_enabled e" "r = Done s [Start Setup_2fa]"
      | "\<not> otp_enabled e" "truthy (st_otpSecret s)" "fires (otp_setup_panel e s) r"
      by (auto simp: otp_card_def ui_fires split: if_splits)
    then show ?thesis
    proof cases
      case 3
      then show ?thesis using edit enable by (auto simp: otp_setup_panel_def ui_fires)
    qed (use disable set_up in auto)
  qed
qed

subsection \<open>Lengths in the browser and in the back end\<close>

text \<open>
  Well-formed UTF-8 (as far as the lengths go): a lead byte is followed by its continuation
  bytes. The browser counts UTF-16 units, the back end (\<open>len(req.NewPassword)\<close> in
  \<open>auth_handler.go\<close>) bytes.
\<close>

definition continuation :: "char \<Rightarrow> bool" where
  "continuation c \<longleftrightarrow> 0x80 \<le> code c \<and> code c < 0xC0"

definition extra_bytes :: "char \<Rightarrow> nat" where
  "extra_bytes c = (if code c < 0x80 then 0 else if code c < 0xE0 then 1 else if code c < 0xF0 then 2 else 3)"

function utf8_ok :: "string \<Rightarrow> bool" where
  "utf8_ok [] = True"
| "utf8_ok (c # cs) =
     (\<not> continuation c \<and> extra_bytes c \<le> length cs \<and>
      list_all continuation (take (extra_bytes c) cs) \<and> utf8_ok (drop (extra_bytes c) cs))"
  by pat_completeness auto
termination
  by (relation "measure length") auto

lemma js_length_append: "js_length (s @ r) = js_length s + js_length r"
  by (simp add: js_length_def)

lemma js_length_continuation: "list_all continuation s \<Longrightarrow> js_length s = 0"
  by (induction s) (auto simp: js_length_def unit_weight_def continuation_def Let_def)

lemma unit_weight_bytes: "unit_weight c \<le> 1 + extra_bytes c"
  by (simp add: unit_weight_def extra_bytes_def Let_def)

lemma js_length_bytes: "utf8_ok s \<Longrightarrow> js_length s \<le> length s"
proof (induction s rule: utf8_ok.induct)
  case (2 c cs)
  let ?n = "extra_bytes c"
  have "js_length (c # cs) = unit_weight c + js_length (take ?n cs @ drop ?n cs)"
    by (simp add: js_length_def)
  also have "\<dots> = unit_weight c + js_length (drop ?n cs)"
    using 2 by (simp only: js_length_append) (simp add: js_length_continuation)
  also have "\<dots> \<le> 1 + ?n + (length cs - ?n)"
    using 2 unit_weight_bytes [of c] by (intro add_mono) auto
  finally show ?case using 2(2) by auto
qed (simp add: js_length_def)

subsection \<open>The page's promise\<close>

definition settings_okay :: "jsval \<Rightarrow> settings_op effect \<Rightarrow> bool" where
  "settings_okay me x =
     (case x of
        Start (Change_password old new) \<Rightarrow> 8 \<le> js_length new
      | Start Disable_2fa \<Rightarrow> truthy (opt_prop me ''otp_enabled'')
      | Start _ \<Rightarrow> \<not> truthy (opt_prop me ''otp_enabled'')
      | Fetch_user \<Rightarrow> True
      | _ \<Rightarrow> False)"

lemma changePassword_ends:
  assumes "ends_in (changePassword e s) s' es"
  obtains (refused) msg where "es = []" "s' = password_msg s msg False" "msg \<in> tr e ` {''Passwords do not match'', ''Password must be at least 8 characters''}"
  | (sent) "es = [Start (Change_password (st_old s) (st_new s))]" "s' = s"
      "st_new s = st_confirm s" "8 \<le> js_length (st_new s)"
  using assms by (auto simp: changePassword_def split: if_splits)

lemma settings_control_okay:
  assumes "fires (Settings v e s) r" "ends_in r s' es"
  shows "\<forall>x \<in> set es. settings_okay (env_user e) x"
  using assms(1)
proof (cases rule: Settings_controls)
  case change
  with assms(2) have "ends_in (changePassword e s) s' es" by simp
  then show ?thesis by (cases rule: changePassword_ends) (auto simp: settings_okay_def)
qed (use assms(2) in \<open>auto simp: settings_okay_def otp_enabled_def\<close>)

lemma settings_ended_okay:
  "ends_in (settings_done e m res s) s' es \<Longrightarrow> \<forall>x \<in> set es. settings_okay (env_user e) x"
  by (cases m; cases res) (auto simp: settings_done_def settings_okay_def)

interpretation sp: safe_page "settings_page v" "\<lambda>s. True" settings_okay
  by unfold_locales
    (use settings_control_okay settings_ended_okay in \<open>auto simp: settings_page_def\<close>)

subsection \<open>Properties of the settings\<close>

text \<open>
  C37. A password change leaves the browser only as typed and confirmed: a step of the page
  that starts one sends the old password and the new one of the form, the new one equals the
  confirmation and has at least eight UTF-16 units, and (as well-formed UTF-8) at least the
  eight bytes the back end asks for. Two-factor authentication is disabled only when it is
  enabled, set up and enabled only when it is not, and enabled only after a set-up.
\<close>

theorem settings_requests:
  assumes "page_step (settings_page v) x es y" "Start m \<in> set es"
  shows "case m of
      Change_password old new \<Rightarrow> old = st_old (m_state x) \<and> new = st_new (m_state x) \<and>
        new = st_confirm (m_state x) \<and> 8 \<le> js_length new \<and> (utf8_ok new \<longrightarrow> 8 \<le> length new)
    | Disable_2fa \<Rightarrow> otp_enabled (m_env x)
    | Setup_2fa \<Rightarrow> \<not> otp_enabled (m_env x)
    | Enable_2fa digits \<Rightarrow> \<not> otp_enabled (m_env x) \<and> truthy (st_otpSecret (m_state x)) \<and>
        digits = st_otpCode (m_state x)"
  using assms(1)
proof cases
  case (use_control r s)
  then have "fires (Settings v (m_env x) (m_state x)) r" by (simp add: settings_page_def)
  then show ?thesis
  proof (cases rule: Settings_controls)
    case change
    with use_control have "ends_in (changePassword (m_env x) (m_state x)) s es" by simp
    then show ?thesis
    proof (cases rule: changePassword_ends)
      case sent
      with assms(2) js_length_bytes [of "st_new (m_state x)"] show ?thesis by auto
    qed (use assms(2) in auto)
  qed (use use_control assms(2) in auto)
next
  case (op_ends m' res s)
  then have "\<nexists>m. Start m \<in> set es"
    by (cases m'; cases res) (auto simp: settings_page_def settings_done_def)
  with assms(2) show ?thesis by blast
qed (use assms(2) in auto)

text \<open>
  A refusal by the server reads as success: when the server answers the password change
  with JSON, whatever the status (400 for a wrong current password), the page says that the
  password was changed and empties the form; when it answers the verification of a 2FA code
  that way (400 for a wrong code), the page says that 2FA is enabled and drops the secret.
  The branches for failure are reached only when the network fails, the answer is not JSON,
  or the session ends.
\<close>

theorem settings_refusals_unseen:
  assumes "m = Change_password old new \<or> m = Enable_2fa digits"
    and "net w (api_request (fst (settings_call m)) (snd (settings_call m))
      (request_headers c (snd (settings_call m)))) = (w1, Response status body)"
    and "status \<noteq> 401 \<or> \<not> truthy (refreshToken c)" and "json_parse body = Some j"
  shows "settings_done e m (fst (api net c w (fst (settings_call m)) (snd (settings_call m)))) s =
    (case m of
       Change_password _ _ \<Rightarrow>
         Done (s\<lparr>st_passwordMsg := tr e ''Password changed successfully'', st_passwordOk := True,
           st_old := [], st_new := [], st_confirm := []\<rparr>) []
     | _ \<Rightarrow>
         Done (s\<lparr>st_otpMsg := tr e ''2FA enabled!'', st_otpOk := True, st_otpSecret := Some (JStr []),
           st_otpQrUrl := Some (JStr []), st_otpCode := []\<rparr>) [Fetch_user])"
proof -
  have "fst (api net c w (fst (settings_call m)) (snd (settings_call m))) = Inr j"
    using api_answered [of net w "fst (settings_call m)" "snd (settings_call m)" c w1 status body, OF assms(2,3)]
      assms(4)
    by (simp add: res_json_def)
  with assms(1) show ?thesis by (auto simp: settings_done_def password_msg_def otp_msg_def)
qed

definition wrong_password_body :: string where
  "wrong_password_body = stringify (JObj [(''success'', JBool False), (''error'', JStr ''current password is incorrect'')])"

definition owner_env :: env where
  "owner_env = \<lparr>env_lang = En, env_user = Some (JObj [(''role'', JStr ''admin'')]), env_data = None, env_loading = False\<rparr>"

lemma settings_refusals_unseen_witness:
  "settings_done owner_env (Change_password ''wrong'' ''12345678'')
      (fst (api (\<lambda>w q. (w, Response 400 wrong_password_body)) logged_in ()
         (fst (settings_call (Change_password ''wrong'' ''12345678'')))
         (snd (settings_call (Change_password ''wrong'' ''12345678''))))) settings_init =
    Done (settings_init\<lparr>st_passwordMsg := tr owner_env ''Password changed successfully'', st_passwordOk := True\<rparr>) []"
proof -
  have "json_parse wrong_password_body =
      Some (JObj [(''success'', JBool False), (''error'', JStr ''current password is incorrect'')])"
    unfolding wrong_password_body_def by (rule json_codec.dec_enc) simp
  then show ?thesis
    using settings_refusals_unseen [of "Change_password ''wrong'' ''12345678''" "''wrong''" "''12345678''" "[]"
        "\<lambda>w q. (w, Response 400 wrong_password_body)" "()" logged_in "()" 400 wrong_password_body _ owner_env settings_init]
    by (simp add: settings_init_def)
qed

definition typed :: "(settings_state, settings_op) mounted" where
  "typed = \<lparr>m_env = owner_env,
     m_state = settings_init\<lparr>st_old := ''initial'', st_new := ''correct horse'', st_confirm := ''correct horse''\<rparr>,
     m_pending = []\<rparr>"

lemma typed_submits:
  "page_step (settings_page v) typed [Start (Change_password ''initial'' ''correct horse'')]
     (typed\<lparr>m_pending := [Change_password ''initial'' ''correct horse'']\<rparr>)"
proof -
  let ?s = "m_state typed"
  have "js_length ''correct horse'' = 13" by code_simp
  then have "changePassword owner_env ?s = Done ?s [Start (Change_password ''initial'' ''correct horse'')]"
    by (simp add: changePassword_def typed_def)
  moreover have "fires (Settings v owner_env ?s) (changePassword owner_env ?s)"
    by (simp add: Settings_def fires_PageLayout password_card_def ui_fires)
  ultimately show ?thesis
    using page_step.use_control [of "settings_page v" typed "changePassword owner_env ?s" ?s
        "[Start (Change_password ''initial'' ''correct horse'')]"]
    by (simp add: settings_page_def typed_def started_def)
qed

lemma settings_requests_witness:
  "st_new (m_state typed) = st_confirm (m_state typed) \<and> 8 \<le> js_length (st_new (m_state typed))"
  using settings_requests [OF typed_submits, of "Change_password ''initial'' ''correct horse''"] by auto

end
