(* ===== verification/Crud.thy ===== *)
theory Crud
  imports Types App
begin

text \<open>
  What the eight module pages (forwarding, proxy, DDNS, STUN, Wake-on-LAN, cron, ACME,
  storage) have in common: a form held as one object, a list from a query, and mutations
  that create an entry from the form, delete one, toggle one, or act on one. Each page's
  own form, payload, list columns and controls are in its theory; here are their shared
  idioms and the contract (\<open>crud_page\<close>) the pages are checked against.

  The form is the JavaScript object of the source: \<open>{...form, k: v}\<close> is \<open>obj_set\<close>.
\<close>

type_synonym form = "(string \<times> json) list"

record crud_state =
  cr_form :: form

datatype crud_op =
    Create_item form
  | Delete_item jsval
  | Toggle_item json
  | Act_on jsval string         \<comment> \<open>\<open>wake\<close>, \<open>renew\<close>\<close>

type_synonym crud_reaction = "(crud_state, crud_op) reaction"

definition form_get :: "crud_state \<Rightarrow> string \<Rightarrow> jsval" where
  "form_get s k = map_of (cr_form s) k"

definition put_field :: "crud_state \<Rightarrow> string \<Rightarrow> json \<Rightarrow> crud_reaction" where
  "put_field s k v = Done (s\<lparr>cr_form := obj_set k v (cr_form s)\<rparr>) []"

subsection \<open>Mutations\<close>

text \<open>\<open>({ id, ...rest }) => put(`/x/${id}`, { ...rest, enabled: !rest.enabled })\<close>\<close>

definition toggled :: "json \<Rightarrow> form" where
  "toggled row =
     (let rest = (case row of JObj kvs \<Rightarrow> obj_omit ''id'' kvs | _ \<Rightarrow> [])
      in obj_set ''enabled'' (JBool (\<not> truthy (map_of rest ''enabled''))) rest)"

definition crud_call :: "string \<Rightarrow> (form \<Rightarrow> form) \<Rightarrow> crud_op \<Rightarrow> string \<times> request_init" where
  "crud_call base payload m =
     (case m of
        Create_item f \<Rightarrow> (base, post_init (Some (JObj (payload f))))
      | Delete_item i \<Rightarrow> (base @ ''/'' @ js_string i, delete_init)
      | Toggle_item row \<Rightarrow> (base @ ''/'' @ js_string (field row ''id''), put_init (Some (JObj (toggled row))))
      | Act_on i verb \<Rightarrow> (base @ ''/'' @ js_string i @ ''/'' @ verb, post_init None))"

text \<open>
  The mutations' \<open>onSuccess\<close>: a creation empties the form and refetches the list, a
  deletion or toggle refetches it, an action does nothing. No page has an \<open>onError\<close>.
\<close>

definition crud_done ::
  "string \<Rightarrow> form \<Rightarrow> env \<Rightarrow> crud_op \<Rightarrow> exn + json \<Rightarrow> crud_state \<Rightarrow> crud_reaction" where
  "crud_done key form0 e m res s =
     (case res of
        Inl _ \<Rightarrow> Done s []
      | Inr _ \<Rightarrow>
          (case m of
             Create_item _ \<Rightarrow> Done (s\<lparr>cr_form := form0\<rparr>) [Invalidate key]
           | Delete_item _ \<Rightarrow> Done s [Invalidate key]
           | Toggle_item _ \<Rightarrow> Done s [Invalidate key]
           | Act_on _ _ \<Rightarrow> Done s []))"

text \<open>\<open>form.domains.split(',').map(d => d.trim()).filter(Boolean)\<close>\<close>

definition split_field :: "form \<Rightarrow> string \<Rightarrow> json" where
  "split_field f k = JArr (map JStr (comma_list (js_string (map_of f k))))"

subsection \<open>Form fields\<close>

text \<open>
  A number input: the browser hands on a valid number, or the empty text, of which \<open>+\<close>
  makes 0.
\<close>

definition number_text :: "string \<Rightarrow> rat option" where
  "number_text s =
     (let neg = (s \<noteq> [] \<and> hd s = CHR ''-'');
          (ds, r) = take_digits (if neg then tl s else s)
      in if ds = [] \<and> \<not> starts_with ''.'' r then None
         else case parse_frac r of
                None \<Rightarrow> None
              | Some (f, r') \<Rightarrow>
                  (case parse_exp r' of
                     Some (x, []) \<Rightarrow> Some ((if neg then - 1 else 1) * (of_nat (digits_val ds) + f) * x)
                   | _ \<Rightarrow> None))"

definition num_input :: "string \<Rightarrow> json" where
  "num_input s = (case number_text s of None \<Rightarrow> JNum 0 | Some r \<Rightarrow> JNum r)"

definition labelled :: "string \<Rightarrow> 'a node \<Rightarrow> 'a node" where
  "labelled label n = box [Label [] [Txt label], n]"

definition text_field :: "crud_state \<Rightarrow> string \<Rightarrow> crud_reaction attr list \<Rightarrow> crud_reaction node" where
  "text_field s k as =
     Input ([Value (js_string (form_get s k)), OnChange (\<lambda>v. put_field s k (JStr v))] @ as)"

text \<open>\<open>value={form.k || ''}\<close> shows 0 as the empty text.\<close>

definition number_field :: "bool \<Rightarrow> crud_state \<Rightarrow> string \<Rightarrow> crud_reaction attr list \<Rightarrow> crud_reaction node" where
  "number_field blank_zero s k as =
     Input ([Attr ''type'' ''number'',
       Value (js_string (if blank_zero then js_or (form_get s k) (Some (JStr [])) else form_get s k)),
       OnChange (\<lambda>v. put_field s k (num_input v))] @ as)"

definition select_field :: "crud_state \<Rightarrow> string \<Rightarrow> (string \<times> string) list \<Rightarrow> crud_reaction node" where
  "select_field s k opts =
     select_of [Value (js_string (form_get s k)), OnChange (\<lambda>v. put_field s k (JStr v))]
       (map (\<lambda>(v, l). option_of v l) opts)"

definition switch_field :: "crud_state \<Rightarrow> string \<Rightarrow> string \<Rightarrow> crud_reaction node" where
  "switch_field s k label =
     box [Switch [Checked (truthy (form_get s k)), OnCheckedChange (\<lambda>b. put_field s k (JBool b))],
          Label [] [Txt label]]"

definition save_button :: "crud_state \<Rightarrow> string \<Rightarrow> crud_reaction node" where
  "save_button s label =
     Button [OnClick (Done s [Start (Create_item (cr_form s))]), Attr ''size'' ''sm''] [Txt label]"

definition delete_button :: "crud_state \<Rightarrow> json \<Rightarrow> crud_reaction node" where
  "delete_button s u =
     Button [Attr ''variant'' ''ghost'', Attr ''size'' ''icon'',
       OnClick (Done s [Start (Delete_item (field u ''id''))])] []"

definition head_cells :: "env \<Rightarrow> string list \<Rightarrow> 'a node" where
  "head_cells e labels =
     TableHeader [] [TableRow [] (map (\<lambda>l. TableHead [] (if l = [] then [] else [Txt (tr e l)])) labels)]"

definition list_card :: "env \<Rightarrow> string list \<Rightarrow> 'a node list \<Rightarrow> 'a node" where
  "list_card e labels rows = Card [] [CardContent [] [Table [] [head_cells e labels, TableBody [] rows]]]"

subsection \<open>Cells\<close>

text \<open>\<open>v.toUpperCase()\<close>, on ASCII text; there is no such method on anything but a string.\<close>

definition upper_char :: "char \<Rightarrow> char" where
  "upper_char c = (if 97 \<le> code c \<and> code c \<le> 122 then char_of (code c - 32) else c)"

definition upper_child :: "jsval \<Rightarrow> 'a node list" where
  "upper_child v = (case v of Some (JStr s) \<Rightarrow> [Txt (map upper_char s)] | _ \<Rightarrow> [Broken])"

definition on_off :: "env \<Rightarrow> jsval \<Rightarrow> string \<Rightarrow> string \<Rightarrow> 'a node" where
  "on_off e v yes no =
     (if truthy v then Badge [Attr ''variant'' ''success''] [Txt (tr e yes)]
      else Badge [Attr ''variant'' ''secondary''] [Txt (tr e no)])"

text \<open>\<open>v?.map(d => <Badge>{d}</Badge>)\<close>, and \<open>(v ?? []).map(...)\<close>\<close>

definition badges :: "jsval \<Rightarrow> 'a node list" where
  "badges v =
     (case v of
        None \<Rightarrow> []
      | Some JNull \<Rightarrow> []
      | Some (JArr xs) \<Rightarrow> map (\<lambda>d. Badge [Attr ''variant'' ''secondary''] (child (Some d))) xs
      | Some _ \<Rightarrow> [Broken])"

definition colon_pair :: "jsval \<Rightarrow> jsval \<Rightarrow> 'a node list" where
  "colon_pair a b = child a @ [Txt '':''] @ child b"

lemma crud_cells_quiet [simp]:
  "\<not> any_fires (upper_child v) a" "\<not> fires (on_off e v y n) a" "\<not> any_fires (badges v) a"
  "\<not> any_fires (colon_pair v w) a" "\<not> fires (head_cells e ls) a"
  by (auto simp: upper_child_def on_off_def badges_def colon_pair_def head_cells_def ui_fires
      split: option.split json.split)

lemma fires_list_card [simp]: "fires (list_card e ls rows) a \<longleftrightarrow> any_fires rows a"
  by (simp add: list_card_def ui_containers fires_own own_fires_def any_fires_simps)

subsection \<open>What the fields offer\<close>

lemma fires_labelled [simp]: "fires (labelled l n) a \<longleftrightarrow> fires n a"
  by (simp add: labelled_def ui_fires)

text \<open>Attributes without a handler.\<close>

definition plain_attrs :: "'a attr list \<Rightarrow> bool" where
  "plain_attrs as \<longleftrightarrow> list_all (\<lambda>a. case a of Attr _ _ \<Rightarrow> True | _ \<Rightarrow> False) as"

lemma plain_attrs_simps [simp]: "plain_attrs []" "plain_attrs (Attr k v # as) \<longleftrightarrow> plain_attrs as"
  by (simp_all add: plain_attrs_def)

lemma plain_no_handler:
  "plain_attrs as \<Longrightarrow> OnClick a \<notin> set as" "plain_attrs as \<Longrightarrow> OnSubmit a \<notin> set as"
  "plain_attrs as \<Longrightarrow> OnChange f \<notin> set as" "plain_attrs as \<Longrightarrow> OnKeyDown f \<notin> set as"
  "plain_attrs as \<Longrightarrow> OnCheckedChange g \<notin> set as" "plain_attrs as \<Longrightarrow> \<not> is_disabled as"
  by (induction as) (auto simp: plain_attrs_def is_disabled_def split: attr.splits)

lemma fires_text_field:
  "plain_attrs as \<Longrightarrow> fires (text_field s k as) a \<longleftrightarrow> (\<exists>v. a = put_field s k (JStr v))"
  by (auto simp: text_field_def fires_Input own_fires_def plain_no_handler is_disabled_def
      dest: plain_no_handler(6))

lemma fires_number_field:
  "plain_attrs as \<Longrightarrow> fires (number_field b s k as) a \<longleftrightarrow> (\<exists>v. a = put_field s k (num_input v))"
  by (auto simp: number_field_def fires_Input own_fires_def plain_no_handler is_disabled_def
      dest: plain_no_handler(6))

lemma option_values_opts: "option_values (map (\<lambda>(v, l). option_of v l) opts) = map fst opts"
  by (induction opts) auto

lemma fires_select_field:
  "fires (select_field s k opts) a \<longleftrightarrow> (\<exists>v \<in> fst ` set opts. a = put_field s k (JStr v))"
  by (auto simp: select_field_def fires_select own_fires_def option_values_opts is_disabled_def any_fires_simps)

lemma fires_switch_field:
  "fires (switch_field s k l) a \<longleftrightarrow> a = put_field s k (JBool (\<not> truthy (form_get s k)))"
  by (auto simp: switch_field_def ui_fires)

lemma fires_save_button: "fires (save_button s l) a \<longleftrightarrow> a = Done s [Start (Create_item (cr_form s))]"
  by (auto simp: save_button_def ui_fires)

lemma fires_delete_button: "fires (delete_button s u) a \<longleftrightarrow> a = Done s [Start (Delete_item (field u ''id''))]"
  by (auto simp: delete_button_def ui_fires)

lemmas crud_fires = fires_number_field fires_text_field fires_select_field fires_switch_field
  fires_save_button fires_delete_button

lemma elements_coalesce [simp]: "elements (coalesce d (Some (JArr []))) = elements d"
  by (auto simp: elements_def coalesce_def split: option.split json.split)

subsection \<open>Typed forms\<close>

text \<open>A form with exactly the given fields, in order, each of its type.\<close>

definition form_ok :: "(string \<times> ty) list \<Rightarrow> form \<Rightarrow> bool" where
  "form_ok fs f \<longleftrightarrow> list_all2 (\<lambda>(k, v) (k', ty). k = k' \<and> conforms ty v) f fs"

lemma form_ok_keys: "form_ok fs f \<Longrightarrow> map fst f = map fst fs"
  unfolding form_ok_def by (induction rule: list_all2_induct) auto

lemma form_ok_put:
  "form_ok fs f \<Longrightarrow> distinct (map fst fs) \<Longrightarrow> (k, ty) \<in> set fs \<Longrightarrow> conforms ty v \<Longrightarrow> form_ok fs (obj_set k v f)"
  unfolding form_ok_def
proof (induction rule: list_all2_induct)
  case (Cons x f y fs)
  obtain kx vx ky ty' where xy: "x = (kx, vx)" "y = (ky, ty')" by (cases x; cases y)
  show ?case
  proof (cases "kx = k")
    case True
    with Cons xy have "ty = ty'" by force
    with True Cons xy show ?thesis by auto
  next
    case False
    with Cons xy show ?thesis by auto
  qed
qed simp

lemma form_ok_get:
  "form_ok fs f \<Longrightarrow> map_of fs k = Some ty \<Longrightarrow> \<exists>v. map_of f k = Some v \<and> conforms ty v"
  unfolding form_ok_def by (induction rule: list_all2_induct) (auto split: if_splits)

lemma form_ok_get_none: "form_ok fs f \<Longrightarrow> map_of fs k = None \<Longrightarrow> map_of f k = None"
  unfolding form_ok_def by (induction rule: list_all2_induct) (auto split: if_splits)

lemma form_ok_set: "form_ok fs f \<Longrightarrow> conforms ty v \<Longrightarrow> form_ok (obj_set k ty fs) (obj_set k v f)"
  unfolding form_ok_def by (induction rule: list_all2_induct) auto

lemma form_ok_spread:
  "form_ok ts vs \<Longrightarrow> form_ok fs f \<Longrightarrow> form_ok (obj_spread fs ts) (obj_spread f vs)"
proof (induction ts arbitrary: vs fs f)
  case Nil
  then show ?case by (simp add: form_ok_def obj_spread_def)
next
  case (Cons t ts)
  then obtain v vs' where v: "vs = v # vs'" "fst v = fst t" "conforms (snd t) (snd v)" "form_ok ts vs'"
    by (cases vs) (auto simp: form_ok_def)
  then have "form_ok (obj_set (fst t) (snd t) fs) (obj_set (fst v) (snd v) f)"
    using form_ok_set [OF Cons.prems(2) v(3)] by simp
  from Cons.IH [OF v(4) this] v(1) show ?case by (simp add: obj_spread_def split_beta)
qed

text \<open>An object has the type \<open>Partial<T>\<close> when each field that the interface names has its type.\<close>

definition fits :: "(string \<times> ty) list \<Rightarrow> ty \<Rightarrow> bool" where
  "fits fs iface \<longleftrightarrow>
     (case iface of
        TObject is \<Rightarrow> list_all (\<lambda>(k, _, ty). map_of fs k = None \<or> map_of fs k = Some ty) is
      | _ \<Rightarrow> False)"

lemma form_ok_partial:
  assumes "form_ok fs f" "fits fs iface"
  shows "conforms (partial_ty iface) (JObj f)"
proof -
  obtain "is" where i: "iface = TObject is" using assms(2) by (cases iface) (auto simp: fits_def)
  have "conforms ty v" if "(k, req, ty) \<in> set is" "map_of f k = Some v" for k req ty v
  proof (cases "map_of fs k")
    case None
    with form_ok_get_none [OF assms(1)] that show ?thesis by simp
  next
    case (Some ty')
    with that assms(2) i have "ty' = ty" by (fastforce simp: fits_def list_all_iff)
    with form_ok_get [OF assms(1) Some] that show ?thesis by auto
  qed
  then show ?thesis by (auto simp: i split: option.split)
qed

subsection \<open>The contract of a module page\<close>

text \<open>An operation that creates what the form holds or concerns an entry of the list; the page's actions
  on an entry are \<open>vs\<close>.\<close>

definition op_ok :: "string list \<Rightarrow> json list \<Rightarrow> form \<Rightarrow> crud_op \<Rightarrow> bool" where
  "op_ok vs rows f m \<longleftrightarrow>
     (case m of
        Create_item g \<Rightarrow> g = f
      | Delete_item i \<Rightarrow> (\<exists>u \<in> set rows. i = field u ''id'')
      | Toggle_item u \<Rightarrow> u \<in> set rows
      | Act_on i verb \<Rightarrow> verb \<in> set vs \<and> (\<exists>u \<in> set rows. i = field u ''id''))"

definition edits :: "(string \<times> ty) list \<Rightarrow> crud_state \<Rightarrow> crud_reaction \<Rightarrow> bool" where
  "edits fs s r \<longleftrightarrow> (\<exists>k ty v. (k, ty) \<in> set fs \<and> conforms ty v \<and> r = put_field s k v)"

definition crud_controls ::
  "string list \<Rightarrow> (string \<times> ty) list \<Rightarrow> form \<Rightarrow> json list \<Rightarrow> crud_state \<Rightarrow> crud_reaction \<Rightarrow> bool" where
  "crud_controls vs fs form0 rows s r \<longleftrightarrow>
     edits fs s r \<or> r = Done (s\<lparr>cr_form := form0\<rparr>) [] \<or> r = Done s [] \<or>
     (\<exists>m. r = Done s [Start m] \<and> op_ok vs rows (cr_form s) m)"

lemma edits_intro: "(k, ty) \<in> set fs \<Longrightarrow> conforms ty v \<Longrightarrow> edits fs s (put_field s k v)"
  by (auto simp: edits_def)

lemma num_input_number: "conforms TNumber (num_input v)"
  by (simp add: num_input_def split: option.split)

lemma text_edits:
  "fires (text_field s k as) r \<Longrightarrow> plain_attrs as \<Longrightarrow> (k, TString) \<in> set fs \<Longrightarrow> edits fs s r"
  by (auto simp: fires_text_field intro: edits_intro)

lemma number_edits:
  "fires (number_field b s k as) r \<Longrightarrow> plain_attrs as \<Longrightarrow> (k, TNumber) \<in> set fs \<Longrightarrow> edits fs s r"
  using num_input_number by (auto simp: fires_number_field intro: edits_intro)

lemma select_edits:
  "fires (select_field s k opts) r \<Longrightarrow> (k, TLiteral (map fst opts)) \<in> set fs \<Longrightarrow> edits fs s r"
  by (force simp: fires_select_field intro!: edits_intro)

lemma select_string_edits:
  "fires (select_field s k opts) r \<Longrightarrow> (k, TString) \<in> set fs \<Longrightarrow> edits fs s r"
  by (auto simp: fires_select_field intro!: edits_intro)

lemma switch_edits:
  "fires (switch_field s k l) r \<Longrightarrow> (k, TBoolean) \<in> set fs \<Longrightarrow> edits fs s r"
  by (auto simp: fires_switch_field intro: edits_intro)

lemmas field_edits = text_edits number_edits select_edits select_string_edits switch_edits

lemma edits_controls: "edits fs s r \<Longrightarrow> crud_controls vs fs form0 rows s r"
  by (simp add: crud_controls_def)

lemma save_controls: "fires (save_button s l) r \<Longrightarrow> crud_controls vs fs form0 rows s r"
  by (auto simp: crud_controls_def fires_save_button op_ok_def)

lemma delete_controls:
  "fires (delete_button s u) r \<Longrightarrow> u \<in> set rows \<Longrightarrow> crud_controls vs fs form0 rows s r"
  by (auto simp: crud_controls_def fires_delete_button op_ok_def)

lemma idle_controls: "crud_controls vs fs form0 rows s (Done s [])"
  by (simp add: crud_controls_def)

lemma reset_controls: "crud_controls vs fs form0 rows s (Done (s\<lparr>cr_form := form0\<rparr>) [])"
  by (simp add: crud_controls_def)

lemma act_controls:
  "u \<in> set rows \<Longrightarrow> verb \<in> set vs \<Longrightarrow>
     crud_controls vs fs form0 rows s (Done s [Start (Act_on (field u ''id'') verb)])"
  "u \<in> set rows \<Longrightarrow> crud_controls vs fs form0 rows s (Done s [Start (Toggle_item u)])"
  by (auto simp: crud_controls_def op_ok_def)

lemmas field_controls = text_edits [THEN edits_controls] number_edits [THEN edits_controls]
  select_edits [THEN edits_controls] select_string_edits [THEN edits_controls] switch_edits [THEN edits_controls]

text \<open>Opens a form card down to its fields.\<close>

lemmas form_open = ui_containers fires_own own_fires_def any_fires_simps fires_labelled

definition crud_page_of ::
  "(env \<Rightarrow> crud_state \<Rightarrow> crud_reaction node) \<Rightarrow> string \<Rightarrow> form \<Rightarrow> (crud_state, crud_op, json) page" where
  "crud_page_of view key form0 = \<lparr>page_view = view, page_done = crud_done key form0\<rparr>"

definition mount_crud :: "form \<Rightarrow> env \<Rightarrow> (crud_state, crud_op) mounted" where
  "mount_crud form0 e = \<lparr>m_env = e, m_state = \<lparr>cr_form = form0\<rparr>, m_pending = []\<rparr>"

definition creates_ok :: "(string \<times> ty) list \<Rightarrow> jsval \<Rightarrow> crud_op effect \<Rightarrow> bool" where
  "creates_ok fs me x \<longleftrightarrow> (\<forall>f. x = Start (Create_item f) \<longrightarrow> form_ok fs f)"

locale crud_page =
  fixes view :: "env \<Rightarrow> crud_state \<Rightarrow> crud_reaction node"
    and key :: string
    and form0 :: form
    and fields :: "(string \<times> ty) list"
    and payload :: "form \<Rightarrow> form"
    and iface :: ty
    and verbs :: "string list"
  assumes controls: "fires (view e s) r \<Longrightarrow> form_ok fields (cr_form s) \<Longrightarrow>
      crud_controls verbs fields form0 (elements (query_rows e)) s r"
    and form0_ok: "form_ok fields form0"
    and distinct_fields: "distinct (map fst fields)"
    and payload_ok: "form_ok fields f \<Longrightarrow> conforms (partial_ty iface) (JObj (payload f))"
begin

lemma control_kept:
  assumes "fires (view e s) r" "ends_in r s' es" "form_ok fields (cr_form s)"
  shows "form_ok fields (cr_form s') \<and> (\<forall>x \<in> set es. creates_ok fields (env_user e) x)"
  using controls [OF assms(1,3)] assms(2,3) form0_ok form_ok_put [OF _ distinct_fields]
  by (auto simp: crud_controls_def edits_def put_field_def creates_ok_def op_ok_def)

lemma done_kept:
  assumes "ends_in (crud_done key form0 e m res s) s' es" "form_ok fields (cr_form s)"
  shows "form_ok fields (cr_form s') \<and> (\<forall>x \<in> set es. creates_ok fields (env_user e) x)"
  using assms form0_ok
  by (auto simp: crud_done_def creates_ok_def split: sum.splits crud_op.splits)

lemma step_targets:
  assumes "page_step (crud_page_of view key form0) x es y" "Start m \<in> set es"
    and "form_ok fields (cr_form (m_state x))"
  shows "op_ok verbs (elements (query_rows (m_env x))) (cr_form (m_state x)) m"
  using assms(1)
proof cases
  case (use_control r s)
  then have "crud_controls verbs fields form0 (elements (query_rows (m_env x))) (m_state x) r"
    using assms(3) by (intro controls) (simp_all add: crud_page_of_def)
  with use_control assms(2) show ?thesis by (auto simp: crud_controls_def edits_def put_field_def)
next
  case (op_ends m' res s)
  with assms(2) show ?thesis
    by (auto simp: crud_page_of_def crud_done_def split: sum.splits crud_op.splits)
qed (use assms(2) in auto)

end

sublocale crud_page \<subseteq> pg: safe_page "crud_page_of view key form0" "\<lambda>s. form_ok fields (cr_form s)" "creates_ok fields"
  by unfold_locales (auto simp: crud_page_of_def dest: control_kept done_kept)

context crud_page begin

text \<open>What every run of the page creates.\<close>

lemma created:
  assumes "page_run (crud_page_of view key form0) (mount_crud form0 e) es y" "Start (Create_item f) \<in> set es"
  shows "form_ok fields f \<and> conforms (partial_ty iface) (JObj (payload f))"
proof -
  have "\<forall>x \<in> set es. creates_ok fields (env_user e) x"
    using pg.run_safe [OF assms(1)] form0_ok by (simp add: mount_crud_def)
  with assms(2) have "form_ok fields f" by (auto simp: creates_ok_def)
  with payload_ok show ?thesis by blast
qed

end

end
