(* ===== verification/Forward.thy ===== *)
theory Forward
  imports Crud
begin

text \<open>
  \<open>web/src/pages/Forward.tsx\<close>: port forwarding rules. The page's \<open>editing\<close> state is only
  ever set to null and never read, its page number never changes; both are left out.
\<close>

definition forward_form0 :: form where
  "forward_form0 =
     [(''name'', JStr []), (''protocol'', JStr ''tcp''), (''listen_addr'', JStr []), (''listen_port'', JNum 0),
      (''target_addr'', JStr []), (''target_port'', JNum 0), (''enable_ipv6'', JBool True), (''enabled'', JBool False)]"

text \<open>The type of the form's state.\<close>

definition forward_fields :: "(string \<times> ty) list" where
  "forward_fields =
     [(''name'', TString), (''protocol'', TLiteral [''tcp'', ''udp'', ''both'']), (''listen_addr'', TString),
      (''listen_port'', TNumber), (''target_addr'', TString), (''target_port'', TNumber),
      (''enable_ipv6'', TBoolean), (''enabled'', TBoolean)]"

definition forward_query :: string where
  "forward_query = ''/forward-rules?page=1&page_size=20''"

definition forward_call :: "crud_op \<Rightarrow> string \<times> request_init" where
  "forward_call = crud_call ''/forward-rules'' (\<lambda>f. f)"

definition forward_row :: "env \<Rightarrow> crud_state \<Rightarrow> json \<Rightarrow> crud_reaction node" where
  "forward_row e s rule =
     TableRow []
       [TableCell [] (child (field rule ''name'')),
        TableCell [] [Badge [Attr ''variant'' ''secondary''] (upper_child (field rule ''protocol''))],
        TableCell [] (colon_pair (field rule ''listen_addr'') (field rule ''listen_port'')),
        TableCell [] (colon_pair (field rule ''target_addr'') (field rule ''target_port'')),
        TableCell [] [on_off e (field rule ''enable_ipv6'') ''On'' ''Off''],
        TableCell [] [Switch [Checked (truthy (field rule ''enabled'')),
          OnCheckedChange (\<lambda>_. Done s [Start (Toggle_item rule)])]],
        TableCell [] [box [delete_button s rule]]]"

definition forward_form_card :: "env \<Rightarrow> crud_state \<Rightarrow> crud_reaction node" where
  "forward_form_card e s =
     Card [] [CardContent []
       [box [labelled (tr e ''Name'') (text_field s ''name'' [Attr ''placeholder'' (tr e ''Rule name'')]),
             labelled (tr e ''Protocol'')
               (select_field s ''protocol'' [(''tcp'', ''TCP''), (''udp'', ''UDP''), (''both'', ''TCP+UDP'')]),
             labelled (tr e ''Listen Addr'') (text_field s ''listen_addr'' [Attr ''placeholder'' ''0.0.0.0'']),
             labelled (tr e ''Listen Port'') (number_field True s ''listen_port'' [Attr ''placeholder'' ''8080'']),
             labelled (tr e ''Target Addr'') (text_field s ''target_addr'' [Attr ''placeholder'' ''192.168.1.100'']),
             labelled (tr e ''Target Port'') (number_field True s ''target_port'' [Attr ''placeholder'' ''80''])],
        box [switch_field s ''enable_ipv6'' (tr e ''IPv6''), switch_field s ''enabled'' (tr e ''Enabled''),
             save_button s (tr e ''Save Rule'')]]]"

definition Forward :: "env \<Rightarrow> crud_state \<Rightarrow> crud_reaction node" where
  "Forward e s =
     PageLayout (tr e ''Port Forwarding'') (tr e ''TCP/UDP port forwarding rules for IPv4 and IPv6'')
       [Button [OnClick (Done (s\<lparr>cr_form := forward_form0\<rparr>) []), Attr ''size'' ''sm''] [Txt '' '', Txt (tr e ''Add Rule'')]]
       [forward_form_card e s,
        list_card e [''Name'', ''Protocol'', ''Listen'', ''Target'', ''IPv6'', ''Status'', ''Actions'']
          (list_rows e ''7'' ''No rules yet'' (query_rows e) (forward_row e s))]"

lemma forward_form_controls:
  assumes "fires (forward_form_card e s) r"
  shows "crud_controls [] forward_fields forward_form0 rows s r"
  using assms unfolding forward_form_card_def
  by (simp add: form_open)
    (elim disjE; (erule save_controls | (erule field_controls; simp add: forward_fields_def)))

lemma forward_row_controls:
  assumes "fires (forward_row e s u) r" "u \<in> set rows"
  shows "crud_controls [] forward_fields forward_form0 rows s r"
  using assms
  by (auto simp: forward_row_def form_open fires_Badge fires_Switch dest: delete_controls intro: act_controls)

lemma Forward_controls:
  assumes "fires (Forward e s) r" "form_ok forward_fields (cr_form s)"
  shows "crud_controls [] forward_fields forward_form0 (elements (query_rows e)) s r"
  using assms
  by (auto simp: Forward_def fires_PageLayout any_fires_simps fires_Button own_fires_def fires_list_rows
      intro: reset_controls forward_form_controls forward_row_controls)

interpretation fw: crud_page Forward "''forward-rules''" forward_form0 forward_fields "\<lambda>f. f" ForwardRule_ty
    "[]"
proof (unfold_locales, goal_cases)
  case (1 e s r)
  then show ?case by (rule Forward_controls)
next
  case (4 f)
  then show ?case by (rule form_ok_partial) (simp add: fits_def forward_fields_def ForwardRule_ty_def)
qed (simp_all add: forward_form0_def forward_fields_def form_ok_def)

end
