(* ===== verification/Proxy.thy ===== *)
theory Proxy
  imports Crud
begin

text \<open>
  \<open>web/src/pages/Proxy.tsx\<close>: reverse proxy rules. The form's domains are one text, cut into
  a list when the rule is created. The page number never changes and is left out.
\<close>

definition proxy_form0 :: form where
  "proxy_form0 =
     [(''name'', JStr []), (''domains'', JStr []), (''target_url'', JStr []), (''tls_enabled'', JBool False),
      (''force_https'', JBool False), (''websocket'', JBool False), (''enabled'', JBool False)]"

text \<open>The type of the form's state.\<close>

definition proxy_fields :: "(string \<times> ty) list" where
  "proxy_fields =
     [(''name'', TString), (''domains'', TString), (''target_url'', TString), (''tls_enabled'', TBoolean),
      (''force_https'', TBoolean), (''websocket'', TBoolean), (''enabled'', TBoolean)]"

definition proxy_query :: string where
  "proxy_query = ''/proxy-rules?page=1&page_size=20''"

definition proxy_payload :: "form \<Rightarrow> form" where
  "proxy_payload f =
     obj_spread f
       [(''domains'', split_field f ''domains''), (''ip_whitelist'', JArr []), (''ip_blacklist'', JArr []),
        (''ua_whitelist'', JArr []), (''ua_blacklist'', JArr [])]"

definition proxy_call :: "crud_op \<Rightarrow> string \<times> request_init" where
  "proxy_call = crud_call ''/proxy-rules'' proxy_payload"

definition proxy_row :: "env \<Rightarrow> crud_state \<Rightarrow> json \<Rightarrow> crud_reaction node" where
  "proxy_row e s u =
     TableRow []
       [TableCell [] (child (field u ''name'')),
        TableCell [] [box (badges (field u ''domains''))],
        TableCell [] (child (field u ''target_url'')),
        TableCell [] [on_off e (field u ''tls_enabled'') ''On'' ''Off''],
        TableCell [] [on_off e (field u ''websocket'') ''On'' ''Off''],
        TableCell [] [Switch [Checked (truthy (field u ''enabled'')),
          OnCheckedChange (\<lambda>_. Done s [Start (Toggle_item u)])]],
        TableCell [] [delete_button s u]]"

definition proxy_form_card :: "env \<Rightarrow> crud_state \<Rightarrow> crud_reaction node" where
  "proxy_form_card e s =
     Card [] [CardContent []
       [box [labelled (tr e ''Name'') (text_field s ''name'' [Attr ''placeholder'' (tr e ''Proxy name'')]),
             labelled (tr e ''Domains'') (text_field s ''domains'' [Attr ''placeholder'' ''example.com, *.example.com'']),
             labelled (tr e ''Target URL'') (text_field s ''target_url'' [Attr ''placeholder'' ''http://localhost:3000''])],
        box [switch_field s ''tls_enabled'' (tr e ''TLS''), switch_field s ''force_https'' (tr e ''Force HTTPS''),
             switch_field s ''websocket'' (tr e ''WebSocket''), switch_field s ''enabled'' (tr e ''Enabled''),
             save_button s (tr e ''Save Proxy'')]]]"

definition Proxy :: "env \<Rightarrow> crud_state \<Rightarrow> crud_reaction node" where
  "Proxy e s =
     PageLayout (tr e ''Reverse Proxy'') (tr e ''HTTP/HTTPS reverse proxy with URL rewrite and access control'')
       [Button [OnClick (Done s []), Attr ''size'' ''sm''] [Txt '' '', Txt (tr e ''Add Proxy'')]]
       [proxy_form_card e s,
        list_card e [''Name'', ''Domains'', ''Target'', ''TLS'', ''WS'', ''Status'', ''Actions'']
          (list_rows e ''7'' ''No proxies yet'' (query_rows e) (proxy_row e s))]"

lemma proxy_form_controls:
  assumes "fires (proxy_form_card e s) r"
  shows "crud_controls [] proxy_fields proxy_form0 rows s r"
  using assms unfolding proxy_form_card_def Let_def
  by (simp add: form_open)
    (elim disjE; (erule save_controls | (erule field_controls; simp add: proxy_fields_def)))

lemma proxy_row_controls:
  assumes "fires (proxy_row e s u) r" "u \<in> set rows"
  shows "crud_controls [] proxy_fields proxy_form0 rows s r"
  using assms
  by (auto simp: proxy_row_def form_open fires_Badge fires_Switch fires_Button split: if_splits
      dest: delete_controls intro: act_controls)

lemma Proxy_controls:
  assumes "fires (Proxy e s) r" "form_ok proxy_fields (cr_form s)"
  shows "crud_controls [] proxy_fields proxy_form0 (elements (query_rows e)) s r"
  using assms
  by (auto simp: Proxy_def fires_PageLayout any_fires_simps fires_Button own_fires_def fires_list_rows
      intro: idle_controls proxy_form_controls proxy_row_controls)

interpretation px: crud_page Proxy "''proxy-rules''" proxy_form0 proxy_fields proxy_payload ProxyRule_ty
    "[]"
proof (unfold_locales, goal_cases)
  case (1 e s r)
  then show ?case by (rule Proxy_controls)
next
  case (4 f)
  then have "form_ok (obj_spread proxy_fields [(''domains'', TArray TString), (''ip_whitelist'', TArray TString),
      (''ip_blacklist'', TArray TString), (''ua_whitelist'', TArray TString), (''ua_blacklist'', TArray TString)])
      (proxy_payload f)"
    unfolding proxy_payload_def by (rule form_ok_spread [rotated]) (simp add: form_ok_def split_field_def)
  then show ?case
    by (rule form_ok_partial) (simp add: fits_def obj_spread_def proxy_fields_def ProxyRule_ty_def)
qed (simp_all add: proxy_form0_def proxy_fields_def form_ok_def)

end
