(* ===== verification/DDNS.thy ===== *)
theory DDNS
  imports Crud
begin

text \<open>
  \<open>web/src/pages/DDNS.tsx\<close>: dynamic DNS configurations. The list's switch has no handler.
\<close>

definition ddns_form0 :: form where
  "ddns_form0 =
     [(''name'', JStr []), (''provider'', JStr ''cloudflare''), (''domain'', JStr []), (''sub_domain'', JStr ''@''),
      (''record_type'', JStr ''A''), (''interval'', JNum 300), (''enabled'', JBool False)]"

text \<open>The type of the form's state.\<close>

definition ddns_fields :: "(string \<times> ty) list" where
  "ddns_fields =
     [(''name'', TString), (''provider'', TString), (''domain'', TString), (''sub_domain'', TString),
      (''record_type'', TString), (''interval'', TNumber), (''enabled'', TBoolean)]"

definition ddns_query :: string where
  "ddns_query = ''/ddns''"

definition DDNS_PROVIDERS :: "string list" where
  "DDNS_PROVIDERS =
     [''aliyun'', ''tencent'', ''cloudflare'', ''dnspod'', ''godaddy'', ''huawei'', ''noip'', ''dynv6'', ''he'', ''duckdns'']"

definition ddns_payload :: "form \<Rightarrow> form" where
  "ddns_payload f =
     obj_spread f
       [(''credentials'', JObj []), (''get_ip_url'', JStr []), (''get_ip_type'', JStr ''url''), (''ttl'', JNum 600)]"

definition ddns_call :: "crud_op \<Rightarrow> string \<times> request_init" where
  "ddns_call = crud_call ''/ddns'' ddns_payload"

definition ddns_row :: "env \<Rightarrow> crud_state \<Rightarrow> json \<Rightarrow> crud_reaction node" where
  "ddns_row e s u =
     TableRow []
       [TableCell [] (child (field u ''name'')),
        TableCell [] [Badge [Attr ''variant'' ''secondary''] (child (field u ''provider''))],
        TableCell [] (child (field u ''sub_domain'') @ [Txt ''.''] @ child (field u ''domain'')),
        TableCell [] [Badge [Attr ''variant'' ''outline''] (child (field u ''record_type''))],
        TableCell [] (child (field u ''interval'') @ [Txt ''s'']),
        TableCell [] [Switch [Checked (truthy (field u ''enabled''))]],
        TableCell [] [delete_button s u]]"

definition ddns_form_card :: "env \<Rightarrow> crud_state \<Rightarrow> crud_reaction node" where
  "ddns_form_card e s =
     Card [] [CardContent []
       [box [labelled (tr e ''Name'') (text_field s ''name'' [Attr ''placeholder'' (tr e ''Config name'')]),
             labelled (tr e ''Provider'') (select_field s ''provider'' (map (\<lambda>p. (p, p)) DDNS_PROVIDERS)),
             labelled (tr e ''Domain'') (text_field s ''domain'' [Attr ''placeholder'' ''example.com'']),
             labelled (tr e ''Subdomain'') (text_field s ''sub_domain'' [Attr ''placeholder'' ''@'']),
             labelled (tr e ''Type'')
               (select_field s ''record_type'' [(''A'', tr e ''A (IPv4)''), (''AAAA'', tr e ''AAAA (IPv6)'')])],
        box [labelled (tr e ''Interval (s)'') (number_field False s ''interval'' []),
             switch_field s ''enabled'' (tr e ''Enabled''), save_button s (tr e ''Save Config'')]]]"

definition DDNS :: "env \<Rightarrow> crud_state \<Rightarrow> crud_reaction node" where
  "DDNS e s =
     PageLayout (tr e ''Dynamic DNS'') (tr e ''Auto-update DNS records for dynamic IP addresses'')
       [Button [Attr ''size'' ''sm''] [Txt '' '', Txt (tr e ''Add DDNS'')]]
       [ddns_form_card e s,
        list_card e [''Name'', ''Provider'', ''Domain'', ''Type'', ''Interval'', ''Status'', ''Actions'']
          (list_rows e ''7'' ''No DDNS configs'' (coalesce (query_rows e) (Some (JArr []))) (ddns_row e s))]"

lemma ddns_form_controls:
  assumes "fires (ddns_form_card e s) r"
  shows "crud_controls [] ddns_fields ddns_form0 rows s r"
  using assms unfolding ddns_form_card_def Let_def
  by (simp add: form_open)
    (elim disjE; (erule save_controls | (erule field_controls; simp add: ddns_fields_def)))

lemma ddns_row_controls:
  assumes "fires (ddns_row e s u) r" "u \<in> set rows"
  shows "crud_controls [] ddns_fields ddns_form0 rows s r"
  using assms
  by (auto simp: ddns_row_def form_open fires_Badge fires_Switch fires_Button split: if_splits
      dest: delete_controls intro: act_controls)

lemma DDNS_controls:
  assumes "fires (DDNS e s) r" "form_ok ddns_fields (cr_form s)"
  shows "crud_controls [] ddns_fields ddns_form0 (elements (query_rows e)) s r"
  using assms
  by (auto simp: DDNS_def fires_PageLayout any_fires_simps fires_Button own_fires_def fires_list_rows
      intro: idle_controls ddns_form_controls ddns_row_controls)

interpretation dd: crud_page DDNS "''ddns''" ddns_form0 ddns_fields ddns_payload DDNSConfig_ty "[]"
proof (unfold_locales, goal_cases)
  case (1 e s r)
  then show ?case by (rule DDNS_controls)
next
  case (4 f)
  then have "form_ok (obj_spread ddns_fields [(''credentials'', TRecord TString), (''get_ip_url'', TString),
      (''get_ip_type'', TString), (''ttl'', TNumber)]) (ddns_payload f)"
    unfolding ddns_payload_def by (rule form_ok_spread [rotated]) (simp add: form_ok_def)
  then show ?case
    by (rule form_ok_partial) (simp add: fits_def obj_spread_def ddns_fields_def DDNSConfig_ty_def)
qed (simp_all add: ddns_form0_def ddns_fields_def form_ok_def)

end
