(* ===== verification/STUN.thy ===== *)
theory STUN
  imports Crud
begin

text \<open>
  \<open>web/src/pages/STUN.tsx\<close>: STUN tunnels.
\<close>

definition stun_form0 :: form where
  "stun_form0 =
     [(''name'', JStr []), (''protocol'', JStr ''tcp''), (''local_port'', JNum 0), (''remote_port'', JNum 0),
      (''stun_server'', JStr ''stun.l.google.com:19302''), (''target_addr'', JStr []), (''target_port'', JNum 0),
      (''enabled'', JBool False)]"

text \<open>The type of the form's state.\<close>

definition stun_fields :: "(string \<times> ty) list" where
  "stun_fields =
     [(''name'', TString), (''protocol'', TString), (''local_port'', TNumber), (''remote_port'', TNumber),
      (''stun_server'', TString), (''target_addr'', TString), (''target_port'', TNumber), (''enabled'', TBoolean)]"

definition stun_query :: string where
  "stun_query = ''/stun''"

definition stun_call :: "crud_op \<Rightarrow> string \<times> request_init" where
  "stun_call = crud_call ''/stun'' (\<lambda>f. f)"

definition stun_row :: "env \<Rightarrow> crud_state \<Rightarrow> json \<Rightarrow> crud_reaction node" where
  "stun_row e s u =
     TableRow []
       [TableCell [] (child (field u ''name'')),
        TableCell [] [Badge [Attr ''variant'' ''secondary''] (upper_child (field u ''protocol''))],
        TableCell [] (child (field u ''stun_server'')),
        TableCell [] (colon_pair (field u ''local_port'') (field u ''remote_port'')),
        TableCell [] (colon_pair (field u ''target_addr'') (field u ''target_port'')),
        TableCell [] [on_off e (field u ''enabled'') ''Active'' ''Off''],
        TableCell [] [delete_button s u]]"

definition stun_form_card :: "env \<Rightarrow> crud_state \<Rightarrow> crud_reaction node" where
  "stun_form_card e s =
     Card [] [CardContent []
       [box [labelled (tr e ''Name'') (text_field s ''name'' [Attr ''placeholder'' (tr e ''Tunnel name'')]),
             labelled (tr e ''Protocol'') (select_field s ''protocol'' [(''tcp'', ''TCP''), (''udp'', ''UDP'')]),
             labelled (tr e ''STUN Server'') (text_field s ''stun_server'' []),
             box [labelled (tr e ''Local Port'') (number_field True s ''local_port'' []),
                  labelled (tr e ''Remote Port'') (number_field True s ''remote_port'' [])]],
        box [labelled (tr e ''Target Addr'') (text_field s ''target_addr'' [Attr ''placeholder'' ''192.168.1.100'']),
             labelled (tr e ''Target Port'') (number_field True s ''target_port'' []),
             box [switch_field s ''enabled'' (tr e ''Enabled''), save_button s (tr e ''Save'')]]]]"

definition STUN :: "env \<Rightarrow> crud_state \<Rightarrow> crud_reaction node" where
  "STUN e s =
     PageLayout (tr e ''STUN Tunnel'') (tr e ''NAT traversal tunnels for accessing services behind NAT'')
       [Button [Attr ''size'' ''sm''] [Txt '' '', Txt (tr e ''Add Tunnel'')]]
       [stun_form_card e s,
        list_card e [''Name'', ''Protocol'', ''STUN Server'', ''Local:Remote'', ''Target'', ''Status'', []]
          (list_rows e ''7'' ''No tunnels'' (coalesce (query_rows e) (Some (JArr []))) (stun_row e s))]"

lemma stun_form_controls:
  assumes "fires (stun_form_card e s) r"
  shows "crud_controls [] stun_fields stun_form0 rows s r"
  using assms unfolding stun_form_card_def Let_def
  by (simp add: form_open)
    (elim disjE; (erule save_controls | (erule field_controls; simp add: stun_fields_def)))

lemma stun_row_controls:
  assumes "fires (stun_row e s u) r" "u \<in> set rows"
  shows "crud_controls [] stun_fields stun_form0 rows s r"
  using assms
  by (auto simp: stun_row_def form_open fires_Badge fires_Switch fires_Button split: if_splits
      dest: delete_controls intro: act_controls)

lemma STUN_controls:
  assumes "fires (STUN e s) r" "form_ok stun_fields (cr_form s)"
  shows "crud_controls [] stun_fields stun_form0 (elements (query_rows e)) s r"
  using assms
  by (auto simp: STUN_def fires_PageLayout any_fires_simps fires_Button own_fires_def fires_list_rows
      intro: idle_controls stun_form_controls stun_row_controls)

interpretation sn: crud_page STUN "''stun''" stun_form0 stun_fields "(\<lambda>f. f)" STUNTunnel_ty "[]"
proof (unfold_locales, goal_cases)
  case (1 e s r)
  then show ?case by (rule STUN_controls)
next
  case (4 f)
  then show ?case by (rule form_ok_partial) (simp add: fits_def stun_fields_def STUNTunnel_ty_def)
qed (simp_all add: stun_form0_def stun_fields_def form_ok_def)

end
