(* ===== verification/WOL.thy ===== *)
theory WOL
  imports Crud
begin

text \<open>
  \<open>web/src/pages/WOL.tsx\<close>: Wake-on-LAN devices.
\<close>

definition wol_form0 :: form where
  "wol_form0 =
     [(''name'', JStr []), (''mac'', JStr []), (''broadcast'', JStr ''255.255.255.255''), (''port'', JNum 9)]"

text \<open>The type of the form's state.\<close>

definition wol_fields :: "(string \<times> ty) list" where
  "wol_fields =
     [(''name'', TString), (''mac'', TString), (''broadcast'', TString), (''port'', TNumber)]"

definition wol_query :: string where
  "wol_query = ''/wol''"

definition wol_call :: "crud_op \<Rightarrow> string \<times> request_init" where
  "wol_call = crud_call ''/wol'' (\<lambda>f. f)"

definition wol_row :: "env \<Rightarrow> crud_state \<Rightarrow> json \<Rightarrow> crud_reaction node" where
  "wol_row e s u =
     TableRow []
       [TableCell [] (child (field u ''name'')),
        TableCell [] (child (field u ''mac'')),
        TableCell [] (child (field u ''broadcast'')),
        TableCell [] (child (field u ''port'')),
        TableCell [] [box
          [Button [Attr ''variant'' ''outline'', Attr ''size'' ''icon'',
             OnClick (Done s [Start (Act_on (field u ''id'') ''wake'')]), Attr ''title'' (tr e ''Wake'')] [],
           delete_button s u]]]"

definition wol_form_card :: "env \<Rightarrow> crud_state \<Rightarrow> crud_reaction node" where
  "wol_form_card e s =
     Card [] [CardContent []
       [box [labelled (tr e ''Name'') (text_field s ''name'' [Attr ''placeholder'' (tr e ''Device name'')]),
             labelled (tr e ''MAC Address'') (text_field s ''mac'' [Attr ''placeholder'' ''AA:BB:CC:DD:EE:FF'']),
             labelled (tr e ''Broadcast'') (text_field s ''broadcast'' []),
             labelled (tr e ''Port'') (number_field False s ''port'' [])],
        box [save_button s (tr e ''Save Device'')]]]"

definition WOL :: "env \<Rightarrow> crud_state \<Rightarrow> crud_reaction node" where
  "WOL e s =
     PageLayout (tr e ''Wake-on-LAN'') (tr e ''Remotely wake devices on your network via magic packet'')
       [Button [Attr ''size'' ''sm''] [Txt '' '', Txt (tr e ''Add Device'')]]
       [wol_form_card e s,
        list_card e [''Name'', ''MAC'', ''Broadcast'', ''Port'', ''Actions'']
          (list_rows e ''5'' ''No devices'' (coalesce (query_rows e) (Some (JArr []))) (wol_row e s))]"

lemma wol_form_controls:
  assumes "fires (wol_form_card e s) r"
  shows "crud_controls [''wake''] wol_fields wol_form0 rows s r"
  using assms unfolding wol_form_card_def Let_def
  by (simp add: form_open)
    (elim disjE; (erule save_controls | (erule field_controls; simp add: wol_fields_def)))

lemma wol_row_controls:
  assumes "fires (wol_row e s u) r" "u \<in> set rows"
  shows "crud_controls [''wake''] wol_fields wol_form0 rows s r"
  using assms
  by (auto simp: wol_row_def form_open fires_Badge fires_Switch fires_Button split: if_splits
      dest: delete_controls intro: act_controls)

lemma WOL_controls:
  assumes "fires (WOL e s) r" "form_ok wol_fields (cr_form s)"
  shows "crud_controls [''wake''] wol_fields wol_form0 (elements (query_rows e)) s r"
  using assms
  by (auto simp: WOL_def fires_PageLayout any_fires_simps fires_Button own_fires_def fires_list_rows
      intro: idle_controls wol_form_controls wol_row_controls)

interpretation wl: crud_page WOL "''wol''" wol_form0 wol_fields "(\<lambda>f. f)" WOLDevice_ty
    "[''wake'']"
proof (unfold_locales, goal_cases)
  case (1 e s r)
  then show ?case by (rule WOL_controls)
next
  case (4 f)
  then show ?case by (rule form_ok_partial) (simp add: fits_def wol_fields_def WOLDevice_ty_def)
qed (simp_all add: wol_form0_def wol_fields_def form_ok_def)

end
