(* ===== verification/Cron.thy ===== *)
theory Cron
  imports Crud
begin

text \<open>
  \<open>web/src/pages/Cron.tsx\<close>: scheduled jobs. \<open>show_time\<close> is the browser's
  \<open>new Date(v).toLocaleString()\<close>, a parameter.
\<close>

definition cron_form0 :: form where
  "cron_form0 =
     [(''name'', JStr []), (''schedule'', JStr ''*/5 * * * *''), (''type'', JStr ''command''), (''command'', JStr []),
      (''enabled'', JBool True)]"

text \<open>The type of the form's state.\<close>

definition cron_fields :: "(string \<times> ty) list" where
  "cron_fields =
     [(''name'', TString), (''schedule'', TString), (''type'', TString), (''command'', TString),
      (''enabled'', TBoolean)]"

definition cron_query :: string where
  "cron_query = ''/cron''"

definition cron_call :: "crud_op \<Rightarrow> string \<times> request_init" where
  "cron_call = crud_call ''/cron'' (\<lambda>f. f)"

definition cron_row :: "(jsval \<Rightarrow> string) \<Rightarrow> env \<Rightarrow> crud_state \<Rightarrow> json \<Rightarrow> crud_reaction node" where
  "cron_row show_time e s u =
     TableRow []
       [TableCell [] (child (field u ''name'')),
        TableCell [] (child (field u ''schedule'')),
        TableCell [] [Badge [Attr ''variant'' ''secondary'']
          [Txt (if field u ''type'' = Some (JStr ''command'') then tr e ''Shell'' else tr e ''Toggle'')]],
        TableCell [] (child (js_or (field u ''command'') (Some (JStr [CHR 0xE2, CHR 0x80, CHR 0x94])))),
        TableCell [] [Txt (if truthy (field u ''last_run'') then show_time (field u ''last_run'') else tr e ''Never'')],
        TableCell [] [on_off e (field u ''enabled'') ''Active'' ''Paused''],
        TableCell [] [delete_button s u]]"

definition cron_form_card :: "env \<Rightarrow> crud_state \<Rightarrow> crud_reaction node" where
  "cron_form_card e s =
     (let shell = (form_get s ''type'' = Some (JStr ''command'')) in
      Card [] [CardContent []
       [box [labelled (tr e ''Name'') (text_field s ''name'' [Attr ''placeholder'' (tr e ''Job name'')]),
             labelled (tr e ''Cron Expression'') (text_field s ''schedule'' [Attr ''placeholder'' ''*/5 * * * *'']),
             labelled (tr e ''Type'')
               (select_field s ''type'' [(''command'', tr e ''Shell Command''), (''module_toggle'', tr e ''Module Toggle'')]),
             labelled (if shell then tr e ''Command'' else tr e ''Module'')
               (text_field s ''command'' [Attr ''placeholder'' (if shell then ''curl http://...'' else [])])],
        box [switch_field s ''enabled'' (tr e ''Enabled''), save_button s (tr e ''Save Job'')]]])"

definition Cron :: "(jsval \<Rightarrow> string) \<Rightarrow> env \<Rightarrow> crud_state \<Rightarrow> crud_reaction node" where
  "Cron show_time e s =
     PageLayout (tr e ''Cron Jobs'') (tr e ''Schedule commands and module operations'')
       [Button [Attr ''size'' ''sm''] [Txt '' '', Txt (tr e ''Add Job'')]]
       [cron_form_card e s,
        list_card e [''Name'', ''Schedule'', ''Type'', ''Command'', ''Last Run'', ''Status'', []]
          (list_rows e ''7'' ''No jobs'' (coalesce (query_rows e) (Some (JArr []))) (cron_row show_time e s))]"

lemma cron_form_controls:
  assumes "fires (cron_form_card e s) r"
  shows "crud_controls [] cron_fields cron_form0 rows s r"
  using assms unfolding cron_form_card_def Let_def
  by (simp add: form_open)
    (elim disjE; (erule save_controls | (erule field_controls; simp add: cron_fields_def)))

lemma cron_row_controls:
  assumes "fires (cron_row show_time e s u) r" "u \<in> set rows"
  shows "crud_controls [] cron_fields cron_form0 rows s r"
  using assms
  by (auto simp: cron_row_def form_open fires_Badge fires_Switch fires_Button split: if_splits
      dest: delete_controls intro: act_controls)

lemma Cron_controls:
  assumes "fires (Cron show_time e s) r" "form_ok cron_fields (cr_form s)"
  shows "crud_controls [] cron_fields cron_form0 (elements (query_rows e)) s r"
  using assms
  by (auto simp: Cron_def fires_PageLayout any_fires_simps fires_Button own_fires_def fires_list_rows
      intro: idle_controls cron_form_controls cron_row_controls)

interpretation cj: crud_page "Cron show_time" "''cron''" cron_form0 cron_fields "(\<lambda>f. f)" CronJob_ty
    "[]"
proof (unfold_locales, goal_cases)
  case (1 e s r)
  then show ?case by (rule Cron_controls)
next
  case (4 f)
  then show ?case by (rule form_ok_partial) (simp add: fits_def cron_fields_def CronJob_ty_def)
qed (simp_all add: cron_form0_def cron_fields_def form_ok_def)

end
