(* ===== verification/ACME.thy ===== *)
theory ACME
  imports Crud Utils
begin

text \<open>
  \<open>web/src/pages/ACME.tsx\<close>: certificates. The form's domains are one text, cut into a list
  when the certificate is requested. \<open>show_date\<close> is the browser's
  \<open>new Date(v).toLocaleDateString()\<close>, a parameter.
\<close>

definition acme_form0 :: form where
  "acme_form0 =
     [(''name'', JStr []), (''domains'', JStr []), (''provider'', JStr ''letsencrypt''),
      (''dns_provider'', JStr ''cloudflare''), (''email'', JStr []), (''auto_renew'', JBool True)]"

text \<open>The type of the form's state.\<close>

definition acme_fields :: "(string \<times> ty) list" where
  "acme_fields =
     [(''name'', TString), (''domains'', TString), (''provider'', TString), (''dns_provider'', TString),
      (''email'', TString), (''auto_renew'', TBoolean)]"

definition acme_query :: string where
  "acme_query = ''/acme''"

definition acme_payload :: "form \<Rightarrow> form" where
  "acme_payload f =
     obj_spread f [(''domains'', split_field f ''domains''), (''dns_config'', JObj []), (''renew_days'', JNum 30)]"

text \<open>The colour class of a status is kept: \<open>statusColor(c.status)\<close>.\<close>

definition status_class :: "jsval \<Rightarrow> string" where
  "status_class v = statusColor (case v of Some (JStr x) \<Rightarrow> x | _ \<Rightarrow> [])"

definition acme_call :: "crud_op \<Rightarrow> string \<times> request_init" where
  "acme_call = crud_call ''/acme'' acme_payload"

definition acme_row :: "(jsval \<Rightarrow> string) \<Rightarrow> env \<Rightarrow> crud_state \<Rightarrow> json \<Rightarrow> crud_reaction node" where
  "acme_row show_date e s u =
     TableRow []
       [TableCell [] (child (field u ''name'')),
        TableCell [] [box (badges (field u ''domains''))],
        TableCell [] [Badge [Attr ''variant'' ''outline''] (child (field u ''provider''))],
        TableCell [] [Txt (if truthy (field u ''expires_at'') then show_date (field u ''expires_at'')
          else [CHR 0xE2, CHR 0x80, CHR 0x94])],
        TableCell [] [Badge [Attr ''className'' (status_class (field u ''status''))] (child (field u ''status''))],
        TableCell [] [box
          (show_if (field u ''status'' = Some (JStr ''valid''))
             (Button [Attr ''variant'' ''outline'', Attr ''size'' ''icon'',
                OnClick (Done s [Start (Act_on (field u ''id'') ''renew'')]), Attr ''title'' (tr e ''Renew'')] []) @
           [delete_button s u])]]"

definition acme_form_card :: "env \<Rightarrow> crud_state \<Rightarrow> crud_reaction node" where
  "acme_form_card e s =
     Card [] [CardContent []
       [box [labelled (tr e ''Name'') (text_field s ''name'' [Attr ''placeholder'' (tr e ''Cert name'')]),
             labelled (tr e ''Domains (comma-separated)'')
               (text_field s ''domains'' [Attr ''placeholder'' ''example.com, *.example.com'']),
             labelled (tr e ''Email'') (text_field s ''email'' [Attr ''placeholder'' ''admin@example.com''])],
        box [labelled (tr e ''Provider'')
               (select_field s ''provider'' [(''letsencrypt'', ''Let'' @ [CHR 0x27] @ ''s Encrypt''), (''zerossl'', ''ZeroSSL'')]),
             labelled (tr e ''DNS Provider'')
               (select_field s ''dns_provider''
                  [(''cloudflare'', ''Cloudflare''), (''aliyun'', ''Aliyun''), (''dnspod'', ''DNSPod'')]),
             box [switch_field s ''auto_renew'' (tr e ''Auto Renew''), save_button s (tr e ''Issue Certificate'')]]]]"

definition ACME :: "(jsval \<Rightarrow> string) \<Rightarrow> env \<Rightarrow> crud_state \<Rightarrow> crud_reaction node" where
  "ACME show_date e s =
     PageLayout (tr e ''SSL Certificates'') (tr e ''Automatic SSL/TLS certificate management via ACME'')
       [Button [Attr ''size'' ''sm''] [Txt '' '', Txt (tr e ''Request Certificate'')]]
       [acme_form_card e s,
        list_card e [''Name'', ''Domains'', ''Provider'', ''Expires'', ''Status'', ''Actions'']
          (list_rows e ''6'' ''No certificates'' (coalesce (query_rows e) (Some (JArr []))) (acme_row show_date e s))]"

lemma acme_form_controls:
  assumes "fires (acme_form_card e s) r"
  shows "crud_controls [''renew''] acme_fields acme_form0 rows s r"
  using assms unfolding acme_form_card_def Let_def
  by (simp add: form_open)
    (elim disjE; (erule save_controls | (erule field_controls; simp add: acme_fields_def)))

lemma acme_row_controls:
  assumes "fires (acme_row show_date e s u) r" "u \<in> set rows"
  shows "crud_controls [''renew''] acme_fields acme_form0 rows s r"
  using assms
  by (auto simp: acme_row_def form_open fires_Badge fires_Switch fires_Button split: if_splits
      dest: delete_controls intro: act_controls)

lemma ACME_controls:
  assumes "fires (ACME show_date e s) r" "form_ok acme_fields (cr_form s)"
  shows "crud_controls [''renew''] acme_fields acme_form0 (elements (query_rows e)) s r"
  using assms
  by (auto simp: ACME_def fires_PageLayout any_fires_simps fires_Button own_fires_def fires_list_rows
      intro: idle_controls acme_form_controls acme_row_controls)

interpretation ac: crud_page "ACME show_date" "''acme''" acme_form0 acme_fields acme_payload ACMECertificate_ty
    "[''renew'']"
proof (unfold_locales, goal_cases)
  case (1 e s r)
  then show ?case by (rule ACME_controls)
next
  case (4 f)
  then have "form_ok (obj_spread acme_fields [(''domains'', TArray TString), (''dns_config'', TRecord TString),
      (''renew_days'', TNumber)]) (acme_payload f)"
    unfolding acme_payload_def by (rule form_ok_spread [rotated]) (simp add: form_ok_def split_field_def)
  then show ?case
    by (rule form_ok_partial) (simp add: fits_def obj_spread_def acme_fields_def ACMECertificate_ty_def)
qed (simp_all add: acme_form0_def acme_fields_def form_ok_def)

end
