(* ===== verification/Storage.thy ===== *)
theory Storage
  imports Crud
begin

text \<open>
  \<open>web/src/pages/Storage.tsx\<close>: storage mounts. The services of the form are a list that the
  badges toggle entries of.
\<close>

definition storage_form0 :: form where
  "storage_form0 =
     [(''name'', JStr []), (''type'', JStr ''local''), (''source'', JStr []), (''services'', JArr [JStr ''filebrowser'']),
      (''ftp_port'', JNum 2121), (''enabled'', JBool False), (''username'', JStr []), (''password'', JStr [])]"

text \<open>The type of the form's state.\<close>

definition storage_fields :: "(string \<times> ty) list" where
  "storage_fields =
     [(''name'', TString), (''type'', TString), (''source'', TString), (''services'', TArray TString),
      (''ftp_port'', TNumber), (''enabled'', TBoolean), (''username'', TString), (''password'', TString)]"

definition storage_query :: string where
  "storage_query = ''/storage''"

definition SERVICES :: "string list" where
  "SERVICES = [''filebrowser'', ''webdav'', ''ftp'']"

definition services_of :: "crud_state \<Rightarrow> json list" where
  "services_of s = elements (form_get s ''services'')"

definition toggleService :: "crud_state \<Rightarrow> string \<Rightarrow> crud_reaction" where
  "toggleService s svc =
     (let current = services_of s;
          next = (if JStr svc \<in> set current then filter (\<lambda>x. x \<noteq> JStr svc) current else current @ [JStr svc])
      in put_field s ''services'' (JArr next))"

definition service_badges :: "crud_state \<Rightarrow> crud_reaction node list" where
  "service_badges s =
     map (\<lambda>svc. Badge [Attr ''variant'' (if JStr svc \<in> set (services_of s) then ''default'' else ''outline''),
        OnClick (toggleService s svc)] [Txt svc]) SERVICES"

definition storage_call :: "crud_op \<Rightarrow> string \<times> request_init" where
  "storage_call = crud_call ''/storage'' (\<lambda>f. f)"

definition storage_row :: "env \<Rightarrow> crud_state \<Rightarrow> json \<Rightarrow> crud_reaction node" where
  "storage_row e s u =
     TableRow []
       [TableCell [] (child (field u ''name'')),
        TableCell [] [Badge [Attr ''variant'' ''outline''] (child (field u ''type''))],
        TableCell [] (child (field u ''source'')),
        TableCell [] [box (badges (field u ''services''))],
        TableCell [] [on_off e (field u ''enabled'') ''Mounted'' ''Off''],
        TableCell [] [delete_button s u]]"

definition storage_form_card :: "env \<Rightarrow> crud_state \<Rightarrow> crud_reaction node" where
  "storage_form_card e s =
     (let is_local = (form_get s ''type'' = Some (JStr ''local'')) in
      Card [] [CardContent []
        ([box [labelled (tr e ''Name'') (text_field s ''name'' [Attr ''placeholder'' (tr e ''Mount name'')]),
               labelled (tr e ''Type'')
                 (select_field s ''type'' [(''local'', tr e ''Local Path''), (''webdav'', ''WebDAV''),
                    (''aliyundrive'', tr e ''AliyunDrive'')]),
               labelled (tr e ''Source'')
                 (text_field s ''source'' [Attr ''placeholder'' (if is_local then ''/mnt/data'' else ''https://...'')])]] @
         show_if (\<not> is_local)
           (box [labelled (tr e ''Username'') (text_field s ''username'' []),
                 labelled (tr e ''Password'') (text_field s ''password'' [Attr ''type'' ''password''])]) @
         [box [box (Label [] [Txt (tr e ''Services:'')] #
                 service_badges s),
               labelled (tr e ''FTP Port'') (number_field False s ''ftp_port'' []),
               switch_field s ''enabled'' (tr e ''Enabled''), save_button s (tr e ''Save Mount'')]])])"

definition Storage :: "env \<Rightarrow> crud_state \<Rightarrow> crud_reaction node" where
  "Storage e s =
     PageLayout (tr e ''Network Storage'') (tr e ''Mount local or remote storage and serve via FileBrowser, WebDAV, FTP'')
       [Button [Attr ''size'' ''sm''] [Txt '' '', Txt (tr e ''Add Mount'')]]
       [storage_form_card e s,
        list_card e [''Name'', ''Type'', ''Source'', ''Services'', ''Status'', []]
          (list_rows e ''6'' ''No mounts'' (coalesce (query_rows e) (Some (JArr []))) (storage_row e s))]"

lemma toggle_edits:
  assumes "form_ok storage_fields (cr_form s)"
  shows "edits storage_fields s (toggleService s svc)"
proof -
  have "map_of storage_fields ''services'' = Some (TArray TString)" by (simp add: storage_fields_def)
  from form_ok_get [OF assms this] obtain v where "form_get s ''services'' = Some v" "conforms (TArray TString) v"
    by (auto simp: form_get_def)
  then obtain xs where "form_get s ''services'' = Some (JArr xs)" "\<forall>x \<in> set xs. conforms TString x"
    using array_elements by blast
  then show ?thesis
    by (auto simp: toggleService_def services_of_def elements_def Let_def storage_fields_def intro!: edits_intro)
qed

lemma service_badges_fire: "any_fires (service_badges s) r \<Longrightarrow> \<exists>svc \<in> set SERVICES. r = toggleService s svc"
  by (auto simp: service_badges_def ui_fires)

lemma storage_form_controls:
  assumes "fires (storage_form_card e s) r" "form_ok storage_fields (cr_form s)"
  shows "crud_controls [] storage_fields storage_form0 rows s r"
proof -
  have t: "crud_controls [] storage_fields storage_form0 rows s r" if "any_fires (service_badges s) r"
    using service_badges_fire [OF that] toggle_edits [OF assms(2)] edits_controls by blast
  show ?thesis
    using assms(1) unfolding storage_form_card_def Let_def
    by (simp add: form_open)
      (elim disjE conjE; (erule t | erule save_controls | (erule field_controls; simp add: storage_fields_def)))
qed

lemma storage_row_controls:
  assumes "fires (storage_row e s u) r" "u \<in> set rows"
  shows "crud_controls [] storage_fields storage_form0 rows s r"
  using assms
  by (auto simp: storage_row_def form_open fires_Badge fires_Switch fires_Button split: if_splits
      dest: delete_controls intro: act_controls)

lemma Storage_controls:
  assumes "fires (Storage e s) r" "form_ok storage_fields (cr_form s)"
  shows "crud_controls [] storage_fields storage_form0 (elements (query_rows e)) s r"
  using assms
  by (auto simp: Storage_def fires_PageLayout any_fires_simps fires_Button own_fires_def fires_list_rows
      intro: idle_controls storage_form_controls storage_row_controls)

interpretation sg: crud_page Storage "''storage''" storage_form0 storage_fields "(\<lambda>f. f)" StorageMount_ty
    "[]"
proof (unfold_locales, goal_cases)
  case (1 e s r)
  then show ?case by (rule Storage_controls)
next
  case (4 f)
  then show ?case by (rule form_ok_partial) (simp add: fits_def storage_fields_def StorageMount_ty_def)
qed (simp_all add: storage_form0_def storage_fields_def form_ok_def)

end
