(* ===== verification/Crud_Pages.thy ===== *)
theory Crud_Pages
  imports Forward Proxy DDNS STUN WOL Cron ACME Storage
begin

text \<open>
  The eight module pages together: what each contributes to the shared structure, and the
  properties that hold of all of them because each is an instance of \<open>crud_page\<close>.
  \<open>show\<close> stands for the browser's printing of times and dates.
\<close>

datatype module =
  M_forward | M_proxy | M_ddns | M_stun | M_wol | M_cron | M_acme | M_storage

fun module_view :: "(jsval \<Rightarrow> string) \<Rightarrow> module \<Rightarrow> env \<Rightarrow> crud_state \<Rightarrow> crud_reaction node" where
  "module_view show M_forward = Forward"
| "module_view show M_proxy = Proxy"
| "module_view show M_ddns = DDNS"
| "module_view show M_stun = STUN"
| "module_view show M_wol = WOL"
| "module_view show M_cron = Cron show"
| "module_view show M_acme = ACME show"
| "module_view show M_storage = Storage"

fun module_key :: "module \<Rightarrow> string" where
  "module_key M_forward = ''forward-rules''"
| "module_key M_proxy = ''proxy-rules''"
| "module_key M_ddns = ''ddns''"
| "module_key M_stun = ''stun''"
| "module_key M_wol = ''wol''"
| "module_key M_cron = ''cron''"
| "module_key M_acme = ''acme''"
| "module_key M_storage = ''storage''"

fun module_form0 :: "module \<Rightarrow> form" where
  "module_form0 M_forward = forward_form0"
| "module_form0 M_proxy = proxy_form0"
| "module_form0 M_ddns = ddns_form0"
| "module_form0 M_stun = stun_form0"
| "module_form0 M_wol = wol_form0"
| "module_form0 M_cron = cron_form0"
| "module_form0 M_acme = acme_form0"
| "module_form0 M_storage = storage_form0"

fun module_fields :: "module \<Rightarrow> (string \<times> ty) list" where
  "module_fields M_forward = forward_fields"
| "module_fields M_proxy = proxy_fields"
| "module_fields M_ddns = ddns_fields"
| "module_fields M_stun = stun_fields"
| "module_fields M_wol = wol_fields"
| "module_fields M_cron = cron_fields"
| "module_fields M_acme = acme_fields"
| "module_fields M_storage = storage_fields"

fun module_payload :: "module \<Rightarrow> form \<Rightarrow> form" where
  "module_payload M_proxy = proxy_payload"
| "module_payload M_ddns = ddns_payload"
| "module_payload M_acme = acme_payload"
| "module_payload _ = (\<lambda>f. f)"

fun module_iface :: "module \<Rightarrow> ty" where
  "module_iface M_forward = ForwardRule_ty"
| "module_iface M_proxy = ProxyRule_ty"
| "module_iface M_ddns = DDNSConfig_ty"
| "module_iface M_stun = STUNTunnel_ty"
| "module_iface M_wol = WOLDevice_ty"
| "module_iface M_cron = CronJob_ty"
| "module_iface M_acme = ACMECertificate_ty"
| "module_iface M_storage = StorageMount_ty"

text \<open>The actions of a page on one entry, besides deleting and toggling it.\<close>

fun module_verbs :: "module \<Rightarrow> string list" where
  "module_verbs M_wol = [''wake'']"
| "module_verbs M_acme = [''renew'']"
| "module_verbs _ = []"

fun module_call :: "module \<Rightarrow> crud_op \<Rightarrow> string \<times> request_init" where
  "module_call M_forward = forward_call"
| "module_call M_proxy = proxy_call"
| "module_call M_ddns = ddns_call"
| "module_call M_stun = stun_call"
| "module_call M_wol = wol_call"
| "module_call M_cron = cron_call"
| "module_call M_acme = acme_call"
| "module_call M_storage = storage_call"

text \<open>The address of a module's list, without the slash.\<close>

fun module_base :: "module \<Rightarrow> string" where
  "module_base M_forward = ''forward-rules''"
| "module_base M_proxy = ''proxy-rules''"
| "module_base M_ddns = ''ddns''"
| "module_base M_stun = ''stun''"
| "module_base M_wol = ''wol''"
| "module_base M_cron = ''cron''"
| "module_base M_acme = ''acme''"
| "module_base M_storage = ''storage''"

lemma module_call_base: "module_call md = crud_call (CHR ''/'' # module_base md) (module_payload md)"
  by (cases md) (simp_all add: forward_call_def proxy_call_def ddns_call_def stun_call_def wol_call_def
      cron_call_def acme_call_def storage_call_def fun_eq_iff)

definition module_page :: "(jsval \<Rightarrow> string) \<Rightarrow> module \<Rightarrow> (crud_state, crud_op, json) page" where
  "module_page show md = crud_page_of (module_view show md) (module_key md) (module_form0 md)"

text \<open>Each module satisfies the contract, so its lemmas hold for all of them.\<close>

lemma module_contract:
  "crud_page (module_view show md) (module_form0 md) (module_fields md) (module_payload md) (module_iface md)
     (module_verbs md)"
  by (cases md)
    (simp_all add: fw.crud_page_axioms px.crud_page_axioms dd.crud_page_axioms sn.crud_page_axioms
      wl.crud_page_axioms cj.crud_page_axioms ac.crud_page_axioms sg.crud_page_axioms)

interpretation md: crud_page "module_view show m" "module_key m" "module_form0 m" "module_fields m"
    "module_payload m" "module_iface m" "module_verbs m"
  by (rule module_contract)

subsection \<open>Properties of the module pages\<close>

text \<open>
  What the eight module pages create is typed: on every run from the mount, whatever is
  typed, chosen and toggled, a creation carries exactly the fields of the page's form, each of
  the form's type, and what is sent has the type \<open>Partial\<close> of the module's interface in
  \<open>types/index.ts\<close>.
\<close>

theorem module_creates_typed:
  assumes "page_run (module_page show m) (mount_crud (module_form0 m) e) es y"
    and "Start (Create_item f) \<in> set es"
  shows "form_ok (module_fields m) f \<and> conforms (partial_ty (module_iface m)) (JObj (module_payload m f))"
  using md.created [OF assms(1) [unfolded module_page_def] assms(2)] .

lemma module_step_targets:
  assumes "page_run (module_page show m) (mount_crud (module_form0 m) e) es x"
    and "page_step (module_page show m) x es' y" "Start op \<in> set es'"
  shows "op_ok (module_verbs m) (elements (query_rows (m_env x))) (cr_form (m_state x)) op"
proof -
  have "form_ok (module_fields m) (cr_form (m_state x))"
    using md.pg.run_safe [OF assms(1) [unfolded module_page_def]] md.form0_ok by (simp add: mount_crud_def)
  then show ?thesis
    by (rule md.step_targets [OF assms(2) [unfolded module_page_def] assms(3)])
qed

text \<open>
  A module page acts only on what it shows: after any run, a step that starts an
  operation creates what the form holds at that moment, or concerns an entry of the list as it
  was last fetched.
\<close>

theorem module_targets_listed:
  assumes "page_run (module_page show m) (mount_crud (module_form0 m) e) es x"
    and "page_step (module_page show m) x es' y" "Start op \<in> set es'"
  shows "op_ok (module_verbs m) (elements (query_rows (m_env x))) (cr_form (m_state x)) op"
  using assms by (rule module_step_targets)

text \<open>
  The toggle of the forwarding and proxy lists sends back what it was given: the PUT goes
  to the entry's own id and its body has every field of the entry with its value, less the
  id, and with \<open>enabled\<close> turned around; toggling the result again gives the entry back.
\<close>

theorem toggle_request:
  assumes "distinct (map fst kvs)" "map_of kvs ''enabled'' = Some (JBool b)" "map_of kvs ''id'' = Some i"
  shows "fst (forward_call (Toggle_item (JObj kvs))) = ''/forward-rules/'' @ to_str i \<and>
    fst (proxy_call (Toggle_item (JObj kvs))) = ''/proxy-rules/'' @ to_str i \<and>
    init_body (snd (forward_call (Toggle_item (JObj kvs)))) = Some (stringify (JObj (toggled (JObj kvs)))) \<and>
    map_of (toggled (JObj kvs)) = (map_of kvs)(''id'' := None, ''enabled'' := Some (JBool (\<not> b))) \<and>
    map_of (toggled (JObj ((''id'', i) # toggled (JObj kvs)))) = (map_of kvs)(''id'' := None)"
proof (intro conjI)
  have "map_of (toggled (JObj kvs)) = (map_of kvs)(''id'' := None, ''enabled'' := Some (JBool (\<not> b)))"
    using assms(2) by (simp add: toggled_def Let_def)
  then show "map_of (toggled (JObj kvs)) = (map_of kvs)(''id'' := None, ''enabled'' := Some (JBool (\<not> b)))" .
  then show "map_of (toggled (JObj ((''id'', i) # toggled (JObj kvs)))) = (map_of kvs)(''id'' := None)"
    using assms(2) by (auto simp: toggled_def [of "JObj (_ # _)"] Let_def fun_eq_iff)
  show "fst (forward_call (Toggle_item (JObj kvs))) = ''/forward-rules/'' @ to_str i"
    "fst (proxy_call (Toggle_item (JObj kvs))) = ''/proxy-rules/'' @ to_str i"
    "init_body (snd (forward_call (Toggle_item (JObj kvs)))) = Some (stringify (JObj (toggled (JObj kvs))))"
    using assms(3)
    by (simp_all add: forward_call_def proxy_call_def crud_call_def put_init_def body_text_def field_def
        opt_prop_def js_string_def)
qed

text \<open>
  The domains of a proxy rule or a certificate request: the list sent is the text cut at
  commas, trimmed, without empty items; a text that joins such a list with commas is sent as
  that list, and the other fields of the form are sent as they are.
\<close>

theorem domains_roundtrip:
  assumes "clean_items ds" "map_of f ''domains'' = Some (JStr (js_join '','' ds))"
  shows "map_of (proxy_payload f) ''domains'' = Some (JArr (map JStr ds)) \<and>
    map_of (acme_payload f) ''domains'' = Some (JArr (map JStr ds)) \<and>
    map_of (proxy_payload f) ''name'' = map_of f ''name'' \<and> map_of (acme_payload f) ''email'' = map_of f ''email''"
  using assms
  by (simp add: proxy_payload_def acme_payload_def map_of_obj_spread split_field_def js_string_def comma_list_join)

text \<open>
  A service badge of the storage form turns its own service on or off and no other, keeps
  the services without repetition, and pressed twice restores the set.
\<close>

theorem storage_service_toggle:
  assumes "services_of s = map JStr xs" "distinct xs"
  shows "\<exists>ys s'. toggleService s svc = Done s' [] \<and> services_of s' = map JStr ys \<and> distinct ys \<and>
    set ys = (if svc \<in> set xs then set xs - {svc} else insert svc (set xs)) \<and>
    (\<exists>zs s''. toggleService s' svc = Done s'' [] \<and> services_of s'' = map JStr zs \<and> distinct zs \<and> set zs = set xs)"
proof -
  have one: "\<exists>ys s'. toggleService s svc = Done s' [] \<and> services_of s' = map JStr ys \<and> distinct ys \<and>
      set ys = (if svc \<in> set xs then set xs - {svc} else insert svc (set xs))"
    if "services_of s = map JStr xs" "distinct xs" for s xs
  proof -
    define ys where "ys = (if svc \<in> set xs then filter (\<lambda>x. x \<noteq> svc) xs else xs @ [svc])"
    have "(if JStr svc \<in> set (services_of s) then filter (\<lambda>x. x \<noteq> JStr svc) (services_of s)
        else services_of s @ [JStr svc]) = map JStr ys"
      using that by (auto simp: ys_def filter_map comp_def)
    then have "toggleService s svc = put_field s ''services'' (JArr (map JStr ys))"
      by (simp add: toggleService_def Let_def)
    moreover have "distinct ys" "set ys = (if svc \<in> set xs then set xs - {svc} else insert svc (set xs))"
      using that by (auto simp: ys_def)
    ultimately show ?thesis
      by (intro exI [of _ ys]) (simp add: put_field_def services_of_def form_get_def elements_def)
  qed
  from one [OF assms] obtain ys s' where y: "toggleService s svc = Done s' []" "services_of s' = map JStr ys"
    "distinct ys" "set ys = (if svc \<in> set xs then set xs - {svc} else insert svc (set xs))" by blast
  from one [OF y(2,3)] obtain zs s'' where z: "toggleService s' svc = Done s'' []" "services_of s'' = map JStr zs"
    "distinct zs" "set zs = (if svc \<in> set ys then set ys - {svc} else insert svc (set ys))" by blast
  have "set zs = set xs" using y(4) z(4) by (auto split: if_splits)
  with y z show ?thesis by blast
qed

subsection \<open>Witnesses\<close>

definition module_env :: env where
  "module_env = \<lparr>env_lang = En, env_user = Some JNull, env_data = Some (JObj [(''data'', JArr
     [JObj [(''id'', JStr ''d1''), (''name'', JStr ''nas''), (''mac'', JStr ''AA:BB:CC:DD:EE:FF''),
        (''broadcast'', JStr ''255.255.255.255''), (''port'', JNum 9)]])]), env_loading = False\<rparr>"

lemma wol_save:
  "page_step (module_page show M_wol) (mount_crud wol_form0 module_env) [Start (Create_item wol_form0)]
     ((mount_crud wol_form0 module_env)\<lparr>m_pending := [Create_item wol_form0]\<rparr>)"
proof -
  have "fires (WOL module_env \<lparr>cr_form = wol_form0\<rparr>) (Done \<lparr>cr_form = wol_form0\<rparr> [Start (Create_item wol_form0)])"
    by (simp add: WOL_def fires_PageLayout any_fires_simps wol_form_card_def form_open fires_save_button)
  then show ?thesis
    using page_step.use_control [of "module_page show M_wol" "mount_crud wol_form0 module_env"
        "Done \<lparr>cr_form = wol_form0\<rparr> [Start (Create_item wol_form0)]" "\<lparr>cr_form = wol_form0\<rparr>"
        "[Start (Create_item wol_form0)]"]
    by (simp add: module_page_def crud_page_of_def mount_crud_def started_def)
qed

lemma module_creates_typed_witness:
  "conforms (partial_ty WOLDevice_ty) (JObj wol_form0)"
  using module_creates_typed [of "\<lambda>_. []" M_wol module_env "[] @ [Start (Create_item wol_form0)]"
      "(mount_crud wol_form0 module_env)\<lparr>m_pending := [Create_item wol_form0]\<rparr>" wol_form0]
    run_more [OF run_none wol_save]
  by simp

lemma wol_wake:
  "page_step (module_page show M_wol) (mount_crud wol_form0 module_env) [Start (Act_on (Some (JStr ''d1'')) ''wake'')]
     ((mount_crud wol_form0 module_env)\<lparr>m_pending := [Act_on (Some (JStr ''d1'')) ''wake'']\<rparr>)"
proof -
  let ?s = "\<lparr>cr_form = wol_form0\<rparr>" and ?r = "Done \<lparr>cr_form = wol_form0\<rparr> [Start (Act_on (Some (JStr ''d1'')) ''wake'')]"
  have "fires (WOL module_env ?s) ?r"
    by (simp add: WOL_def fires_PageLayout any_fires_simps fires_list_rows)
      (simp add: module_env_def query_rows_def opt_prop_def elements_def coalesce_def wol_row_def form_open
        fires_Button field_def is_disabled_def)
  then show ?thesis
    using page_step.use_control [of "module_page show M_wol" "mount_crud wol_form0 module_env" ?r ?s
        "[Start (Act_on (Some (JStr ''d1'')) ''wake'')]"]
    by (simp add: module_page_def crud_page_of_def mount_crud_def started_def)
qed

lemma module_targets_listed_witness:
  "\<exists>u \<in> set (elements (query_rows module_env)). field u ''id'' = Some (JStr ''d1'')"
proof -
  have "page_run (module_page (\<lambda>_. []) M_wol) (mount_crud (module_form0 M_wol) module_env) []
      (mount_crud wol_form0 module_env)"
    by (simp add: run_none)
  from module_targets_listed [OF this wol_wake, of "Act_on (Some (JStr ''d1'')) ''wake''"] show ?thesis
    by (auto simp: mount_crud_def op_ok_def)
qed

lemma toggle_request_witness:
  "map_of (toggled (JObj [(''id'', JStr ''r1''), (''enabled'', JBool True)])) ''enabled'' = Some (JBool False)"
  using toggle_request [of "[(''id'', JStr ''r1''), (''enabled'', JBool True)]" True "JStr ''r1''"] by simp

lemma domains_roundtrip_witness:
  "map_of (proxy_payload [(''domains'', JStr ''a.example,b.example'')]) ''domains'' =
     Some (JArr [JStr ''a.example'', JStr ''b.example''])"
proof -
  have "clean_items [''a.example'', ''b.example'']" by code_simp
  then show ?thesis
    using domains_roundtrip [of "[''a.example'', ''b.example'']" "[(''domains'', JStr ''a.example,b.example'')]"]
    by simp
qed

lemma storage_service_toggle_witness:
  "\<exists>s'. toggleService \<lparr>cr_form = storage_form0\<rparr> ''ftp'' = Done s' [] \<and>
     (\<exists>ys. services_of s' = map JStr ys \<and> set ys = {''filebrowser'', ''ftp''})"
proof -
  have "services_of \<lparr>cr_form = storage_form0\<rparr> = map JStr [''filebrowser'']"
    by (simp add: services_of_def form_get_def storage_form0_def elements_def)
  from storage_service_toggle [OF this, of "''ftp''"] show ?thesis by auto
qed

end
