(* ===== verification/Router.thy ===== *)
theory Router
  imports Crud_Pages Users Webhooks Settings Audit_Page Auth_Store
begin

text \<open>
  The routing table of the back end (\<open>internal/api/router/router.go\<close>) and the requests of the
  front end against it. The router's matching (chi) is a parameter with its documented law for
  paths without empty segments: a pattern's text segments match themselves, \<open>{id}\<close> matches
  any one segment.
\<close>

subsection \<open>The routing table\<close>

datatype access = Public | Signed_in | Admin_only

text \<open>\<open>registerCRUD(r, path, h)\<close>\<close>

definition registerCRUD :: "string \<Rightarrow> (string \<times> string) list" where
  "registerCRUD path =
     [(''GET'', path), (''POST'', path), (''PUT'', path @ ''/{id}''), (''DELETE'', path @ ''/{id}'')]"

definition public_routes :: "(string \<times> string) list" where
  "public_routes =
     [(''GET'', ''/system/status''), (''GET'', ''/system/metrics''), (''POST'', ''/auth/login''),
      (''GET'', ''/docs''), (''POST'', ''/auth/refresh''), (''GET'', ''/ws'')]"

definition user_routes :: "(string \<times> string) list" where
  "user_routes =
     [(''GET'', ''/auth/2fa/setup''), (''POST'', ''/auth/2fa/enable''), (''POST'', ''/auth/2fa/disable''),
      (''GET'', ''/license/status''), (''POST'', ''/license/activate''),
      (''GET'', ''/auth/me''), (''POST'', ''/auth/change-password''), (''POST'', ''/auth/logout''),
      (''GET'', ''/system/dashboard''), (''GET'', ''/system/backup''), (''POST'', ''/system/restore'')] @
     registerCRUD ''/forward-rules'' @ registerCRUD ''/proxy-rules'' @ registerCRUD ''/ddns'' @
     registerCRUD ''/stun'' @ registerCRUD ''/wol'' @ [(''POST'', ''/wol/{id}/wake'')] @
     registerCRUD ''/cron'' @ registerCRUD ''/acme'' @ registerCRUD ''/storage''"

definition admin_routes :: "(string \<times> string) list" where
  "admin_routes =
     [(''GET'', ''/audit''), (''GET'', ''/users''), (''POST'', ''/users''), (''PUT'', ''/users/{id}''),
      (''DELETE'', ''/users/{id}''), (''POST'', ''/users/{id}/reset-password''),
      (''GET'', ''/webhooks''), (''POST'', ''/webhooks''), (''PUT'', ''/webhooks/{id}''),
      (''DELETE'', ''/webhooks/{id}''), (''POST'', ''/webhooks/{id}/test'')]"

definition api_routes :: "(access \<times> string \<times> string) list" where
  "api_routes =
     map (\<lambda>(m, p). (Public, m, ''/api/v1'' @ p)) public_routes @
     map (\<lambda>(m, p). (Signed_in, m, ''/api/v1'' @ p)) user_routes @
     map (\<lambda>(m, p). (Admin_only, m, ''/api/v1'' @ p)) admin_routes"

subsection \<open>Matching\<close>

type_synonym matcher = "string \<Rightarrow> string \<Rightarrow> bool"    \<comment> \<open>pattern, path\<close>

definition seg_fits :: "string \<Rightarrow> string \<Rightarrow> bool" where
  "seg_fits p s \<longleftrightarrow> p = s \<or> p = ''{id}''"

definition fits_path :: "string list \<Rightarrow> string list \<Rightarrow> bool" where
  "fits_path ps ss \<longleftrightarrow> list_all2 seg_fits ps ss"

text \<open>The law: paths are given by their segments, none of them empty and none with a slash.\<close>

definition segments_ok :: "string list \<Rightarrow> bool" where
  "segments_ok ss \<longleftrightarrow> list_all (\<lambda>s. s \<noteq> [] \<and> CHR ''/'' \<notin> set s) ss"

definition path_of :: "string list \<Rightarrow> string" where
  "path_of ss = concat (map (\<lambda>s. CHR ''/'' # s) ss)"

definition chi_law :: "matcher \<Rightarrow> bool" where
  "chi_law matches \<longleftrightarrow>
     (\<forall>ps ss. segments_ok ps \<longrightarrow> segments_ok ss \<longrightarrow> matches (path_of ps) (path_of ss) = fits_path ps ss)"

text \<open>A request of \<open>api\<close>, routed by its method and its path without the query.\<close>

definition url_path :: "string \<Rightarrow> string" where
  "url_path u = takeWhile (\<lambda>c. c \<noteq> CHR ''?'') u"

definition routed :: "matcher \<Rightarrow> access \<Rightarrow> string \<times> request_init \<Rightarrow> bool" where
  "routed matches acc call \<longleftrightarrow>
     (\<exists>(a, m, p) \<in> set api_routes.
        a = acc \<and> m = init_method (snd call) \<and> matches p (url_path (API_BASE @ fst call)))"

text \<open>An id as the back end issues them: some text that is one segment of a URL path.\<close>

definition path_id :: "jsval \<Rightarrow> bool" where
  "path_id i \<longleftrightarrow> (case i of Some (JStr s) \<Rightarrow> s \<noteq> [] \<and> CHR ''/'' \<notin> set s \<and> CHR ''?'' \<notin> set s | _ \<Rightarrow> False)"

subsection \<open>The table by segments\<close>

definition api_segs :: "(access \<times> string \<times> string list) list" where
  "api_segs = map (\<lambda>(a, m, p). (a, m, drop 3 (js_split ''/'' p))) api_routes"

lemma api_segs_eq:
  "api_segs =
     [(Public, ''GET'', [''system'', ''status'']), (Public, ''GET'', [''system'', ''metrics'']),
      (Public, ''POST'', [''auth'', ''login'']), (Public, ''GET'', [''docs'']),
      (Public, ''POST'', [''auth'', ''refresh'']), (Public, ''GET'', [''ws'']),
      (Signed_in, ''GET'', [''auth'', ''2fa'', ''setup'']),
      (Signed_in, ''POST'', [''auth'', ''2fa'', ''enable'']),
      (Signed_in, ''POST'', [''auth'', ''2fa'', ''disable'']),
      (Signed_in, ''GET'', [''license'', ''status'']),
      (Signed_in, ''POST'', [''license'', ''activate'']), (Signed_in, ''GET'', [''auth'', ''me'']),
      (Signed_in, ''POST'', [''auth'', ''change-password'']),
      (Signed_in, ''POST'', [''auth'', ''logout'']), (Signed_in, ''GET'', [''system'', ''dashboard'']),
      (Signed_in, ''GET'', [''system'', ''backup'']), (Signed_in, ''POST'', [''system'', ''restore'']),
      (Signed_in, ''GET'', [''forward-rules'']), (Signed_in, ''POST'', [''forward-rules'']),
      (Signed_in, ''PUT'', [''forward-rules'', ''{id}'']),
      (Signed_in, ''DELETE'', [''forward-rules'', ''{id}'']), (Signed_in, ''GET'', [''proxy-rules'']),
      (Signed_in, ''POST'', [''proxy-rules'']), (Signed_in, ''PUT'', [''proxy-rules'', ''{id}'']),
      (Signed_in, ''DELETE'', [''proxy-rules'', ''{id}'']), (Signed_in, ''GET'', [''ddns'']),
      (Signed_in, ''POST'', [''ddns'']), (Signed_in, ''PUT'', [''ddns'', ''{id}'']),
      (Signed_in, ''DELETE'', [''ddns'', ''{id}'']), (Signed_in, ''GET'', [''stun'']),
      (Signed_in, ''POST'', [''stun'']), (Signed_in, ''PUT'', [''stun'', ''{id}'']),
      (Signed_in, ''DELETE'', [''stun'', ''{id}'']), (Signed_in, ''GET'', [''wol'']),
      (Signed_in, ''POST'', [''wol'']), (Signed_in, ''PUT'', [''wol'', ''{id}'']),
      (Signed_in, ''DELETE'', [''wol'', ''{id}'']),
      (Signed_in, ''POST'', [''wol'', ''{id}'', ''wake'']), (Signed_in, ''GET'', [''cron'']),
      (Signed_in, ''POST'', [''cron'']), (Signed_in, ''PUT'', [''cron'', ''{id}'']),
      (Signed_in, ''DELETE'', [''cron'', ''{id}'']), (Signed_in, ''GET'', [''acme'']),
      (Signed_in, ''POST'', [''acme'']), (Signed_in, ''PUT'', [''acme'', ''{id}'']),
      (Signed_in, ''DELETE'', [''acme'', ''{id}'']), (Signed_in, ''GET'', [''storage'']),
      (Signed_in, ''POST'', [''storage'']), (Signed_in, ''PUT'', [''storage'', ''{id}'']),
      (Signed_in, ''DELETE'', [''storage'', ''{id}'']), (Admin_only, ''GET'', [''audit'']),
      (Admin_only, ''GET'', [''users'']), (Admin_only, ''POST'', [''users'']),
      (Admin_only, ''PUT'', [''users'', ''{id}'']), (Admin_only, ''DELETE'', [''users'', ''{id}'']),
      (Admin_only, ''POST'', [''users'', ''{id}'', ''reset-password'']),
      (Admin_only, ''GET'', [''webhooks'']), (Admin_only, ''POST'', [''webhooks'']),
      (Admin_only, ''PUT'', [''webhooks'', ''{id}'']),
      (Admin_only, ''DELETE'', [''webhooks'', ''{id}'']),
      (Admin_only, ''POST'', [''webhooks'', ''{id}'', ''test''])]"
  by code_simp

lemma api_routes_segs:
  "set api_routes = (\<lambda>(a, m, ps). (a, m, path_of (''api'' # ''v1'' # ps))) ` set api_segs"
proof -
  have "api_routes = map (\<lambda>(a, m, ps). (a, m, path_of (''api'' # ''v1'' # ps))) api_segs" by code_simp
  then have "set api_routes = set (map (\<lambda>(a, m, ps). (a, m, path_of (''api'' # ''v1'' # ps))) api_segs)" by simp
  then show ?thesis by simp
qed

text \<open>\<open>hits acc m ss\<close>: some route of access \<open>acc\<close> and method \<open>m\<close> fits \<open>/api/v1\<close> and the segments \<open>ss\<close>.\<close>

definition hits :: "access \<Rightarrow> string \<Rightarrow> string list \<Rightarrow> bool" where
  "hits acc m ss \<longleftrightarrow> list_ex (\<lambda>(a, m', ps). a = acc \<and> m' = m \<and> fits_path ps ss) api_segs"

lemma api_segs_ok: "(a, m, ps) \<in> set api_segs \<Longrightarrow> segments_ok (''api'' # ''v1'' # ps)"
proof -
  have "list_all (\<lambda>(_, _, ps). segments_ok (''api'' # ''v1'' # ps)) api_segs" by code_simp
  then show "(a, m, ps) \<in> set api_segs \<Longrightarrow> segments_ok (''api'' # ''v1'' # ps)" by (auto simp: list_all_iff)
qed

lemma routed_hits:
  assumes "chi_law matches" "segments_ok ss" "url_path (fst call) = path_of ss"
  shows "routed matches acc call \<longleftrightarrow> hits acc (init_method (snd call)) ss"
proof -
  let ?p = "''api'' # ''v1'' # ss"
  have "url_path (API_BASE @ fst call) = path_of ?p"
    using assms(3) by (simp add: url_path_def API_BASE_def path_of_def)
  moreover have "matches (path_of (''api'' # ''v1'' # ps)) (path_of ?p) = fits_path ps ss"
    if "(a, m, ps) \<in> set api_segs" for a m ps
  proof -
    have "segments_ok ?p" using assms(2) by (simp add: segments_ok_def)
    with assms(1) api_segs_ok [OF that]
    have "matches (path_of (''api'' # ''v1'' # ps)) (path_of ?p) = fits_path (''api'' # ''v1'' # ps) ?p"
      unfolding chi_law_def by blast
    then show ?thesis by (simp add: fits_path_def seg_fits_def)
  qed
  ultimately show ?thesis
    by (auto simp: routed_def hits_def api_routes_segs list_ex_iff intro: rev_bexI)
qed

subsection \<open>The requests of the pages\<close>


definition plain_seg :: "string \<Rightarrow> bool" where
  "plain_seg s \<longleftrightarrow> s \<noteq> [] \<and> CHR ''/'' \<notin> set s \<and> CHR ''?'' \<notin> set s"

lemma path_id_obtains:
  assumes "path_id i"
  obtains s where "i = Some (JStr s)" "plain_seg s"
  using assms by (auto simp: path_id_def plain_seg_def split: option.splits json.splits)

lemma segments_ok_plain: "list_all plain_seg ss \<Longrightarrow> segments_ok ss"
  by (auto simp: segments_ok_def plain_seg_def list_all_iff)

text \<open>The path of a URL made of segments and a query.\<close>

lemma url_path_segs:
  assumes "list_all plain_seg ss" "q = [] \<or> hd q = CHR ''?''"
  shows "url_path (path_of ss @ q) = path_of ss"
proof -
  have "\<forall>c \<in> set (path_of ss). c \<noteq> CHR ''?''" using assms(1) by (auto simp: path_of_def plain_seg_def list_all_iff)
  moreover have "takeWhile (\<lambda>c. c \<noteq> CHR ''?'') q = []" using assms(2) by (cases q) auto
  ultimately show ?thesis by (simp add: url_path_def takeWhile_append2)
qed

lemma hits_intro: "(acc, m, ps) \<in> set api_segs \<Longrightarrow> fits_path ps ss \<Longrightarrow> hits acc m ss"
  by (auto simp: hits_def list_ex_iff)

lemma fits_path_simps [simp]:
  "fits_path [] []" "fits_path (p # ps) (x # xs) \<longleftrightarrow> seg_fits p x \<and> fits_path ps xs"
  "seg_fits p p" "seg_fits ''{id}'' x"
  by (auto simp: fits_path_def seg_fits_def)

text \<open>A request to the path of some segments.\<close>

lemma routed_segs:
  assumes "chi_law matches" "list_all plain_seg ss" "fst call = path_of ss @ q" "q = [] \<or> hd q = CHR ''?''"
  shows "routed matches acc call \<longleftrightarrow> hits acc (init_method (snd call)) ss"
  using assms by (intro routed_hits) (simp_all add: segments_ok_plain url_path_segs)

lemma routed_intro:
  assumes "chi_law matches" "(acc, m, ps) \<in> set api_segs"
    and "fits_path ps ss" "list_all plain_seg ss" "fst call = path_of ss @ q" "q = [] \<or> hd q = CHR ''?''"
    and "init_method (snd call) = m"
  shows "routed matches acc call"
  using assms by (simp add: routed_segs hits_intro)

lemmas routed_plain = routed_intro [where q = "[]", simplified]



lemma renew_missing: "\<not> hits acc ''POST'' [''acme'', s, ''renew'']"
proof -
  have "list_all (\<lambda>(_, m, ps). \<not> (m = ''POST'' \<and> length ps = 3 \<and> seg_fits (ps ! 0) ''acme'' \<and>
      seg_fits (ps ! 2) ''renew'')) api_segs" by code_simp
  then have no: "\<not> (length ps = 3 \<and> seg_fits (ps ! 0) ''acme'' \<and> seg_fits (ps ! 2) ''renew'')"
    if "(acc, ''POST'', ps) \<in> set api_segs" for ps
    using that by (fastforce simp: list_all_iff)
  have "length ps = 3 \<and> seg_fits (ps ! 0) ''acme'' \<and> seg_fits (ps ! 2) ''renew''"
    if "fits_path ps [''acme'', s, ''renew'']" for ps
    using that by (auto simp: fits_path_def list_all2_Cons2)
  with no show ?thesis by (auto simp: hits_def list_ex_iff)
qed

lemma renew_hits: "\<not> hits acc ''POST'' [module_base M_acme, s, ''renew'']"
  by (simp add: renew_missing)

lemma plain_literals [simp]:
  "plain_seg ''wake''" "plain_seg ''renew''" "plain_seg ''users''" "plain_seg ''reset-password''" "plain_seg ''webhooks''"
  "plain_seg ''test''" "plain_seg ''auth''" "plain_seg ''2fa''" "plain_seg ''change-password''" "plain_seg ''setup''"
  "plain_seg ''enable''" "plain_seg ''disable''" "plain_seg ''audit''" "plain_seg ''forward-rules''" "plain_seg ''proxy-rules''"
  by (simp_all add: plain_seg_def)

lemma js_string_id [simp]: "js_string (Some (JStr s)) = s"
  by (simp add: js_string_def)

lemma init_methods [simp]:
  "init_method get_init = ''GET''" "init_method (post_init b) = ''POST''" "init_method (put_init b) = ''PUT''"
  "init_method delete_init = ''DELETE''"
  by (simp_all add: get_init_def post_init_def put_init_def delete_init_def)


text \<open>The administrator's pages and the settings page.\<close>

lemma console_table:
  "(Admin_only, ''POST'', [''users'']) \<in> set api_segs"
  "(Admin_only, ''PUT'', [''users'', ''{id}'']) \<in> set api_segs"
  "(Admin_only, ''DELETE'', [''users'', ''{id}'']) \<in> set api_segs"
  "(Admin_only, ''POST'', [''users'', ''{id}'', ''reset-password'']) \<in> set api_segs"
  "(Admin_only, ''POST'', [''webhooks'']) \<in> set api_segs"
  "(Admin_only, ''PUT'', [''webhooks'', ''{id}'']) \<in> set api_segs"
  "(Admin_only, ''DELETE'', [''webhooks'', ''{id}'']) \<in> set api_segs"
  "(Admin_only, ''POST'', [''webhooks'', ''{id}'', ''test'']) \<in> set api_segs"
  "(Admin_only, ''GET'', [''audit'']) \<in> set api_segs"
  "(Signed_in, ''POST'', [''auth'', ''change-password'']) \<in> set api_segs"
  "(Signed_in, ''POST'', [''auth'', ''2fa'', ''disable'']) \<in> set api_segs"
  "(Signed_in, ''GET'', [''auth'', ''2fa'', ''setup'']) \<in> set api_segs"
  "(Signed_in, ''POST'', [''auth'', ''2fa'', ''enable'']) \<in> set api_segs"
  by code_simp+

lemma users_routed:
  assumes "chi_law matches"
  shows "routed matches Admin_only (users_call (Create_user f))"
    and "path_id i \<Longrightarrow> routed matches Admin_only (users_call (Update_user i p))"
    and "path_id i \<Longrightarrow> routed matches Admin_only (users_call (Delete_user i))"
    and "path_id i \<Longrightarrow> routed matches Admin_only (users_call (Reset_user i pw))"
proof -
  show "routed matches Admin_only (users_call (Create_user f))"
    by (intro routed_plain [OF assms console_table(1), where ss = "[''users'']"])
      (simp_all add: users_call_def path_of_def)
  assume "path_id i"
  then obtain s where s: "i = Some (JStr s)" "plain_seg s" by (rule path_id_obtains)
  show "routed matches Admin_only (users_call (Update_user i p))"
    using s by (intro routed_plain [OF assms console_table(2), where ss = "[''users'', s]"])
      (simp_all add: users_call_def path_of_def)
  show "routed matches Admin_only (users_call (Delete_user i))"
    using s by (intro routed_plain [OF assms console_table(3), where ss = "[''users'', s]"])
      (simp_all add: users_call_def path_of_def)
  show "routed matches Admin_only (users_call (Reset_user i pw))"
    using s by (intro routed_plain [OF assms console_table(4), where ss = "[''users'', s, ''reset-password'']"])
      (simp_all add: users_call_def path_of_def)
qed

lemma save_routed:
  assumes "chi_law matches" "path_id i \<or> \<not> truthy i"
  shows "routed matches Admin_only (webhooks_call (Save_webhook i w))"
proof (cases "truthy i")
  case True
  with assms(2) obtain s where "i = Some (JStr s)" "plain_seg s" by (auto elim: path_id_obtains)
  with True show ?thesis
    by (intro routed_plain [OF assms(1) console_table(6), where ss = "[''webhooks'', s]"])
      (simp_all add: webhooks_call_def path_of_def)
next
  case False
  then show ?thesis
    by (intro routed_plain [OF assms(1) console_table(5), where ss = "[''webhooks'']"])
      (simp_all add: webhooks_call_def path_of_def)
qed

lemma webhook_id_routed:
  assumes "chi_law matches" "path_id i"
  shows "routed matches Admin_only (webhooks_call (Delete_webhook i))"
    and "routed matches Admin_only (webhooks_call (Test_webhook i))"
proof -
  obtain s where s: "i = Some (JStr s)" "plain_seg s" using assms(2) by (rule path_id_obtains)
  show "routed matches Admin_only (webhooks_call (Delete_webhook i))"
    using s by (intro routed_plain [OF assms(1) console_table(7), where ss = "[''webhooks'', s]"])
      (simp_all add: webhooks_call_def path_of_def)
  show "routed matches Admin_only (webhooks_call (Test_webhook i))"
    using s by (intro routed_plain [OF assms(1) console_table(8), where ss = "[''webhooks'', s, ''test'']"])
      (simp_all add: webhooks_call_def path_of_def)
qed

lemma audit_routed: "chi_law matches \<Longrightarrow> routed matches Admin_only (audit_path s, get_init)"
  by (rule routed_intro [OF _ console_table(9), where ss = "[''audit'']" and q = "drop 6 (audit_path s)"])
    (simp_all add: audit_path_def path_of_def)

lemma settings_routed: "chi_law matches \<Longrightarrow> routed matches Signed_in (settings_call op)"
proof (cases op)
  case (Change_password old new)
  then show "chi_law matches \<Longrightarrow> ?thesis"
    by (elim routed_plain [OF _ console_table(10), where ss = "[''auth'', ''change-password'']"])
      (simp_all add: settings_call_def path_of_def)
next
  case Disable_2fa
  then show "chi_law matches \<Longrightarrow> ?thesis"
    by (elim routed_plain [OF _ console_table(11), where ss = "[''auth'', ''2fa'', ''disable'']"])
      (simp_all add: settings_call_def path_of_def)
next
  case Setup_2fa
  then show "chi_law matches \<Longrightarrow> ?thesis"
    by (elim routed_plain [OF _ console_table(12), where ss = "[''auth'', ''2fa'', ''setup'']"])
      (simp_all add: settings_call_def path_of_def)
next
  case (Enable_2fa digits)
  then show "chi_law matches \<Longrightarrow> ?thesis"
    by (elim routed_plain [OF _ console_table(13), where ss = "[''auth'', ''2fa'', ''enable'']"])
      (simp_all add: settings_call_def path_of_def)
qed


text \<open>
  The administrator's pages ask only for routes of the router's administrator group, and
  the settings page only for routes open to every signed-in user.
\<close>

theorem console_requests_routed:
  assumes "chi_law matches"
  shows "(\<forall>f. routed matches Admin_only (users_call (Create_user f))) \<and>
    (\<forall>i. path_id i \<longrightarrow> (\<forall>p pw. routed matches Admin_only (users_call (Update_user i p)) \<and>
      routed matches Admin_only (users_call (Delete_user i)) \<and> routed matches Admin_only (users_call (Reset_user i pw)))) \<and>
    (\<forall>i w. path_id i \<or> \<not> truthy i \<longrightarrow> routed matches Admin_only (webhooks_call (Save_webhook i w))) \<and>
    (\<forall>i. path_id i \<longrightarrow> routed matches Admin_only (webhooks_call (Delete_webhook i)) \<and>
      routed matches Admin_only (webhooks_call (Test_webhook i))) \<and>
    (\<forall>s. routed matches Admin_only (audit_path s, get_init)) \<and>
    (\<forall>op. routed matches Signed_in (settings_call op))"
  using assms by (simp add: users_routed save_routed webhook_id_routed audit_routed settings_routed)

subsection \<open>Instances\<close>

text \<open>A matcher with the law: segment by segment.\<close>

definition segment_matcher :: matcher where
  "segment_matcher p u = fits_path (tl (js_split ''/'' p)) (tl (js_split ''/'' u))"

lemma split_path_of:
  assumes "segments_ok ss"
  shows "tl (js_split ''/'' (path_of ss)) = ss"
proof -
  have "path_of ss = js_join ''/'' ([] # ss)"
  proof (induction ss)
    case (Cons s ss)
    then show ?case by (cases ss) (simp_all add: path_of_def)
  qed (simp add: path_of_def)
  moreover have "\<forall>x \<in> set ([] # ss). CHR ''/'' \<notin> set x"
    using assms by (auto simp: segments_ok_def list_all_iff)
  ultimately show ?thesis using js_split_join_char [of "[] # ss" "CHR ''/''"] by simp
qed

lemma segment_matcher_law: "chi_law segment_matcher"
  by (simp add: chi_law_def segment_matcher_def split_path_of)


lemma console_requests_routed_witness:
  "routed segment_matcher Admin_only (users_call (Delete_user (Some (JStr ''u7''))))"
proof -
  have "path_id (Some (JStr ''u7''))" by code_simp
  then show ?thesis using console_requests_routed [OF segment_matcher_law] by blast
qed

end
