(* ===== verification/Go_Lib.thy ===== *)
theory Go_Lib
  imports Api
begin

text \<open>
  What the back end uses of Go's standard library: decoding a JSON body into a struct with
  string fields (\<open>encoding/json\<close>, behind \<open>http.MaxBytesReader\<close>), header lookup, and the
  response helpers of \<open>pkg/utils/response.go\<close>. Bodies are UTF-8; the encoder's text is a
  parameter, of which the client relies on nothing but that it parses back.
\<close>

subsection \<open>Decoding a body\<close>

definition ascii_upper :: "char \<Rightarrow> char" where
  "ascii_upper c = (if 97 \<le> code c \<and> code c \<le> 122 then char_of (code c - 32) else c)"

text \<open>
  Case folding of member names: besides the letters of ASCII themselves, the long s
  (\<open>C5 BF\<close>) folds to S and the Kelvin sign (\<open>E2 84 AA\<close>) to K.
\<close>

fun go_fold :: "string \<Rightarrow> string" where
  "go_fold (a # b # c # r) =
     (if [a, b, c] = [CHR 0xE2, CHR 0x84, CHR 0xAA] then CHR ''K'' # go_fold r
      else if [a, b] = [CHR 0xC5, CHR 0xBF] then CHR ''S'' # go_fold (c # r)
      else ascii_upper a # go_fold (b # c # r))"
| "go_fold [a, b] = (if [a, b] = [CHR 0xC5, CHR 0xBF] then ''S'' else [ascii_upper a, ascii_upper b])"
| "go_fold [a] = [ascii_upper a]"
| "go_fold [] = []"

text \<open>
  The value a string field is left with after the members of an object: the last one wins,
  null leaves it as it was, any other type is an error.
\<close>

fun string_member :: "string \<Rightarrow> (string \<times> json) list \<Rightarrow> string \<Rightarrow> string option" where
  "string_member name [] v = Some v"
| "string_member name ((k, j) # r) v =
     (if go_fold k = go_fold name
      then (case j of JStr s \<Rightarrow> string_member name r s | JNull \<Rightarrow> string_member name r v | _ \<Rightarrow> None)
      else string_member name r v)"

text \<open>
  \<open>json.NewDecoder(body).Decode(&req)\<close> for a struct of string fields: the members of the
  first value of the body, which may be an object or null; what follows it is not looked at.
  \<open>longer\<close> says that the body went on after the bytes given here: a literal at the very end is
  then incomplete.
\<close>

definition decode_object :: "bool \<Rightarrow> string \<Rightarrow> (string \<times> json) list option" where
  "decode_object longer body =
     (case skip_ws body of
        [] \<Rightarrow> None
      | c # cs \<Rightarrow>
          if c = CHR ''{'' then
            (if starts_with ''}'' (skip_ws cs) then Some []
             else map_option fst (parse_members (2 * length body + 2) cs))
          else if starts_with ''null'' (c # cs) \<and> (longer \<longrightarrow> 4 < length (c # cs)) then Some []
          else None)"

definition maxAuthBodyBytes :: nat where
  "maxAuthBodyBytes = 8 * 1024"

text \<open>A body behind \<open>http.MaxBytesReader(w, body, n)\<close>; the router's limit, the auth handlers' limit.\<close>

definition decode_upto :: "nat \<Rightarrow> string \<Rightarrow> (string \<times> json) list option" where
  "decode_upto n body = decode_object (n < length body) (take n body)"

definition maxJSONBodyBytes :: nat where
  "maxJSONBodyBytes = 64 * 1024"

definition decode_limited :: "string \<Rightarrow> (string \<times> json) list option" where
  "decode_limited body = decode_upto maxAuthBodyBytes body"

definition decode_one :: "string \<Rightarrow> (string \<times> json) list option \<Rightarrow> string option" where
  "decode_one name members = (case members of None \<Rightarrow> None | Some kvs \<Rightarrow> string_member name kvs [])"

definition decode_two :: "string \<Rightarrow> string \<Rightarrow> (string \<times> json) list option \<Rightarrow> (string \<times> string) option" where
  "decode_two a b members =
     (case (decode_one a members, decode_one b members) of
        (Some x, Some y) \<Rightarrow> Some (x, y)
      | _ \<Rightarrow> None)"

subsection \<open>Headers\<close>

text \<open>\<open>r.Header.Get(name)\<close>: the first field of that name, in any case, without outer blanks.\<close>

definition trim_field :: "string \<Rightarrow> string" where
  "trim_field s =
     (let blank = (\<lambda>c. c = CHR '' '' \<or> code c = 9) in rev (dropWhile blank (rev (dropWhile blank s))))"

definition header_get :: "string \<Rightarrow> (string \<times> string) list \<Rightarrow> string" where
  "header_get name hs =
     (case find (\<lambda>(k, _). map ascii_upper k = map ascii_upper name) hs of
        Some (_, v) \<Rightarrow> trim_field v
      | None \<Rightarrow> [])"

text \<open>\<open>strings.SplitN(s, sep, 2)\<close> for a one-character separator.\<close>

definition split_two :: "char \<Rightarrow> string \<Rightarrow> string list" where
  "split_two c s = (if c \<in> set s then [takeWhile (\<lambda>x. x \<noteq> c) s, tl (dropWhile (\<lambda>x. x \<noteq> c) s)] else [s])"

subsection \<open>Responses\<close>

text \<open>\<open>utils.JSON\<close>, \<open>utils.Success\<close>, \<open>utils.Error\<close>, \<open>utils.Message\<close>, over the encoder's text.\<close>

type_synonym encoder = "json \<Rightarrow> string"

definition go_json :: "encoder \<Rightarrow> int \<Rightarrow> json \<Rightarrow> net_result" where
  "go_json enc status data = Response status (enc data)"

definition go_success :: "encoder \<Rightarrow> json \<Rightarrow> net_result" where
  "go_success enc data = go_json enc 200 (JObj [(''success'', JBool True), (''data'', data)])"

definition go_error :: "encoder \<Rightarrow> int \<Rightarrow> string \<Rightarrow> net_result" where
  "go_error enc status msg = go_json enc status (JObj [(''success'', JBool False), (''error'', JStr msg)])"

definition go_message :: "encoder \<Rightarrow> string \<Rightarrow> net_result" where
  "go_message enc msg = go_json enc 200 (JObj [(''success'', JBool True), (''message'', JStr msg)])"

text \<open>The zero \<open>time.Time\<close> as \<open>encoding/json\<close> writes it.\<close>

definition zero_time :: string where
  "zero_time = ''0001-01-01T00:00:00Z''"

text \<open>\<open>http.Error(w, text, status)\<close>\<close>

definition http_error :: "string \<Rightarrow> int \<Rightarrow> net_result" where
  "http_error txt status = Response status (txt @ [char_of (10::nat)])"

text \<open>The law of the encoder: what it writes parses back.\<close>

definition encodes :: "encoder \<Rightarrow> bool" where
  "encodes enc \<longleftrightarrow> (\<forall>j. plain_json j \<longrightarrow> json_parse (enc j) = Some j)"

lemma json_parse_line:
  assumes "plain_json j"
  shows "json_parse (stringify j @ [char_of (10::nat)]) = Some j"
proof -
  let ?nl = "[char_of (10::nat)] :: string"
  have "num_end ?nl" "skip_ws ?nl = []" by code_simp+
  moreover from this(1) assms
  have "parse_value (2 * length (stringify j @ ?nl) + 2) (stringify j @ ?nl) = Some (j, ?nl)"
    by (intro parse_value_stringify) simp_all
  ultimately show ?thesis unfolding json_parse_def by (simp del: parse_value.simps)
qed

lemma stringify_encodes: "encodes (\<lambda>j. stringify j @ [char_of (10::nat)])"
  by (simp add: encodes_def json_parse_line)

subsection \<open>What the client sends decodes\<close>

lemma decode_stringify:
  assumes "\<forall>kv \<in> set kvs. plain_json (snd kv)" "kvs \<noteq> []"
  shows "decode_object longer (stringify (JObj kvs)) = Some kvs"
proof -
  let ?j = "js_join '','' (map (\<lambda>(k, v). quote_str k @ '':'' @ stringify v) kvs)"
  have "parse_members (2 * length (stringify (JObj kvs)) + 2) (?j @ ''}'') = Some (kvs, [])"
    using assms parse_members_join [of kvs "2 * length (stringify (JObj kvs)) + 2" "[]"]
      parse_value_stringify by auto
  moreover have "value_start (quote_str k @ r)" for k r
    by (simp add: value_start_def quote_str_def code_char_of)
  then have "value_start ?j" using assms(2) by (cases kvs) (auto intro: value_start_join)
  ultimately show ?thesis
    using starts_elem [of ?j "''}''"] by (simp add: decode_object_def skip_ws_id)
qed

end
