(* ===== verification/Digits.thy ===== *)
theory Digits
  imports Prelude
begin

text \<open>Numbers by their digits in a base: base-32 texts and dotted or hexadecimal addresses are read so.\<close>

text \<open>The \<open>k\<close> lowest digits of \<open>n\<close> in base \<open>b\<close>, the highest first, and back.\<close>

fun digits_of :: "nat \<Rightarrow> nat \<Rightarrow> nat \<Rightarrow> nat list" where
  "digits_of b 0 n = []"
| "digits_of b (Suc k) n = digits_of b k (n div b) @ [n mod b]"

definition of_digits :: "nat \<Rightarrow> nat list \<Rightarrow> nat" where
  "of_digits b ds = foldl (\<lambda>n d. n * b + d) 0 ds"

lemma digits_of_length [simp]: "length (digits_of b k n) = k"
  by (induction k arbitrary: n) simp_all

lemma digits_of_less: "0 < b \<Longrightarrow> \<forall>d \<in> set (digits_of b k n). d < b"
  by (induction k arbitrary: n) auto

lemma of_digits_snoc [simp]: "of_digits b (ds @ [d]) = of_digits b ds * b + d"
  by (simp add: of_digits_def)

lemma of_digits_of:
  assumes "n < b ^ k"
  shows "of_digits b (digits_of b k n) = n"
  using assms
proof (induction k arbitrary: n)
  case 0
  then show ?case by (simp add: of_digits_def)
next
  case (Suc k)
  then have "n div b < b ^ k" by (simp add: less_mult_imp_div_less mult.commute)
  with Suc.IH show ?case by simp
qed

lemma digits_of_digits:
  assumes "\<forall>d \<in> set ds. d < b"
  shows "digits_of b (length ds) (of_digits b ds) = ds"
  using assms
proof (induction ds rule: rev_induct)
  case (snoc d ds)
  then have "d < b" by simp
  then have "(of_digits b ds * b + d) div b = of_digits b ds" by simp
  with snoc show ?case by simp
qed simp

lemma of_digits_less:
  assumes "\<forall>d \<in> set ds. d < b"
  shows "of_digits b ds < b ^ length ds"
  using assms
proof (induction ds rule: rev_induct)
  case (snoc d ds)
  then have "of_digits b ds + 1 \<le> b ^ length ds" "d < b" by auto
  then have "(of_digits b ds + 1) * b \<le> b ^ length ds * b" by (intro mult_right_mono) auto
  with \<open>d < b\<close> show ?case by (simp add: mult.commute)
qed (simp add: of_digits_def)

end
