(* ===== verification/Sha1.thy ===== *)
theory Sha1
  imports Prelude "HOL-Library.Word"
begin

text \<open>
  SHA-1 and HMAC as \<open>crypto/sha1\<close> and \<open>crypto/hmac\<close> compute them (FIPS 180, RFC 2104), on bytes of
  type \<open>8 word\<close> and words of type \<open>32 word\<close>. The first published test vector is proved by evaluation.
\<close>

unbundle bit_operations_syntax

type_synonym byte = "8 word"

text \<open>\<open>PutUint64\<close>, \<open>PutUint32\<close> and \<open>Uint32\<close> in big-endian order.\<close>

definition be_bytes :: "64 word \<Rightarrow> byte list" where
  "be_bytes w = map (\<lambda>i. ucast (drop_bit (8 * i) w)) [7, 6, 5, 4, 3, 2, 1, 0]"

definition word_bytes :: "32 word \<Rightarrow> byte list" where
  "word_bytes w = map (\<lambda>i. ucast (drop_bit (8 * i) w)) [3, 2, 1, 0]"

definition be_word :: "byte list \<Rightarrow> 32 word" where
  "be_word bs = foldl (\<lambda>w b. push_bit 8 w OR ucast b) 0 bs"

fun pieces :: "nat \<Rightarrow> nat \<Rightarrow> 'a list \<Rightarrow> 'a list list" where
  "pieces k 0 xs = []"
| "pieces k (Suc n) xs = take k xs # pieces k n (drop k xs)"

subsection \<open>SHA-1\<close>

definition rotate_left :: "nat \<Rightarrow> 32 word \<Rightarrow> 32 word" where
  "rotate_left n w = push_bit n w OR drop_bit (32 - n) w"

text \<open>For evaluation in the kernel, on integers.\<close>

lemma rotate_left_code [code]: "rotate_left n w = word_of_int (push_bit n (uint w) OR drop_bit (32 - n) (uint w))"
  by (rule bit_word_eqI) (auto simp: rotate_left_def bit_simps dest: bit_imp_le_length)

definition sha1_padded :: "byte list \<Rightarrow> byte list" where
  "sha1_padded m =
     m @ 0x80 # replicate ((119 - length m mod 64) mod 64) 0 @ be_bytes (word_of_nat (8 * length m))"

text \<open>Five words of state, and the sixteen words of the schedule that are still to come.\<close>

type_synonym sha1_state = "32 word \<times> 32 word \<times> 32 word \<times> 32 word \<times> 32 word"

definition sha1_init :: sha1_state where
  "sha1_init = (0x67452301, 0xEFCDAB89, 0x98BADCFE, 0x10325476, 0xC3D2E1F0)"

definition sha1_mix :: "nat \<Rightarrow> 32 word \<Rightarrow> 32 word \<Rightarrow> 32 word \<Rightarrow> 32 word" where
  "sha1_mix i b c d =
     (if i < 20 then ((b AND c) OR (NOT b AND d)) + 0x5A827999
      else if i < 40 then (b XOR c XOR d) + 0x6ED9EBA1
      else if i < 60 then ((b AND c) OR (b AND d) OR (c AND d)) + 0x8F1BBCDC
      else (b XOR c XOR d) + 0xCA62C1D6)"

fun sha1_round :: "nat \<Rightarrow> sha1_state \<times> 32 word list \<Rightarrow> sha1_state \<times> 32 word list" where
  "sha1_round i ((a, b, c, d, e), ws) =
     (let x = rotate_left 5 a + sha1_mix i b c d + e + ws ! 0;
          w = rotate_left 1 (ws ! 13 XOR ws ! 8 XOR ws ! 2 XOR ws ! 0)
      in ((x, a, rotate_left 30 b, c, d), tl ws @ [w]))"

fun sha1_block :: "sha1_state \<Rightarrow> byte list \<Rightarrow> sha1_state" where
  "sha1_block (a, b, c, d, e) block =
     (case fst (fold sha1_round [0..<80] ((a, b, c, d, e), map be_word (pieces 4 16 block))) of
        (a', b', c', d', e') \<Rightarrow> (a + a', b + b', c + c', d + d', e + e'))"

definition sha1 :: "byte list \<Rightarrow> byte list" where
  "sha1 m =
     (let p = sha1_padded m
      in case foldl sha1_block sha1_init (pieces 64 (length p div 64) p) of
        (a, b, c, d, e) \<Rightarrow> concat (map word_bytes [a, b, c, d, e]))"

subsection \<open>HMAC\<close>

definition hmac_key :: "byte list \<Rightarrow> byte list" where
  "hmac_key key = (let k = (if 64 < length key then sha1 key else key) in k @ replicate (64 - length k) 0)"

definition hmac_sha1 :: "byte list \<Rightarrow> byte list \<Rightarrow> byte list" where
  "hmac_sha1 key m =
     (let k = hmac_key key
      in sha1 (map (\<lambda>b. b XOR 0x5c) k @ sha1 (map (\<lambda>b. b XOR 0x36) k @ m)))"

lemma sha1_length: "length (sha1 m) = 20"
  by (simp add: sha1_def Let_def word_bytes_def split: prod.split)

lemma hmac_sha1_length: "length (hmac_sha1 key m) = 20"
  by (simp add: hmac_sha1_def sha1_length Let_def)

text \<open>What is hashed is a whole number of blocks.\<close>

lemma sha1_padded_blocks: "64 dvd length (sha1_padded m)"
proof -
  have l: "length (sha1_padded m) = length m + (9 + (119 - length m mod 64) mod 64)"
    by (simp add: sha1_padded_def be_bytes_def)
  have "(n + (9 + (119 - n mod 64) mod 64)) mod 64 = 0" for n :: nat
  proof (cases "n mod 64 \<le> 55")
    case True
    then have "119 - n mod 64 = 64 + (55 - n mod 64)" by simp
    then have "(119 - n mod 64) mod 64 = 55 - n mod 64" using True by (simp only: mod_add_self1) simp
    moreover obtain q r where "n = 64 * q + r" "n mod 64 = r" using mult_div_mod_eq [of 64 n] by metis
    ultimately have "n + (9 + (119 - n mod 64) mod 64) = 64 * (q + 1)" using True by simp
    then show ?thesis by (simp only: mod_mult_self1_is_0)
  next
    case False
    have "n mod 64 < 64" by simp
    then have "(119 - n mod 64) mod 64 = 119 - n mod 64" using False by (intro mod_less) linarith
    moreover obtain q r where "n = 64 * q + r" "n mod 64 = r" using mult_div_mod_eq [of 64 n] by metis
    ultimately have "n + (9 + (119 - n mod 64) mod 64) = 64 * (q + 2)" using \<open>n mod 64 < 64\<close> by simp
    then show ?thesis by (simp only: mod_mult_self1_is_0)
  qed
  then show ?thesis by (simp only: l dvd_eq_mod_eq_0)
qed

lemma sha1_abc: "sha1 [0x61, 0x62, 0x63] =
  [0xa9, 0x99, 0x3e, 0x36, 0x47, 0x06, 0x81, 0x6a, 0xba, 0x3e, 0x25, 0x71, 0x78, 0x50, 0xc2, 0x6c, 0x9c, 0xd0, 0xd8, 0x9d]"
  by code_simp

end
