(* ===== verification/Otp.thy ===== *)
theory Otp
  imports Go_Lib Digits Sha1 "HOL-Library.Signed_Division"
begin

text \<open>
  One-time codes (\<open>internal/auth/auth.go\<close>): secrets in base 32 as \<open>encoding/base32\<close> writes and reads
  them without padding, and the codes of RFC 6238. The
  arithmetic of \<open>totpCode\<close> is kept at 32 bits.
\<close>

unbundle bit_operations_syntax

subsection \<open>Base 32\<close>

definition base32_digit :: "nat \<Rightarrow> char" where
  "base32_digit d = ''ABCDEFGHIJKLMNOPQRSTUVWXYZ234567'' ! d"

definition base32_value :: "char \<Rightarrow> nat option" where
  "base32_value c =
     (if 65 \<le> code c \<and> code c \<le> 90 then Some (code c - 65)
      else if 50 \<le> code c \<and> code c \<le> 55 then Some (code c - 24)
      else None)"

text \<open>Five bytes are eight digits; the last group is filled up with zero bits.\<close>

function base32_encode :: "byte list \<Rightarrow> string" where
  "base32_encode bs =
     (let n = length bs; group = take 5 bs;
          m = (if 5 \<le> n then 8 else if n = 4 then 7 else if n = 3 then 5 else if n = 2 then 4 else if n = 1 then 2 else 0);
          v = of_digits 256 (map unat group) * 2 ^ (5 * m - 8 * length group)
      in if n = 0 then [] else map base32_digit (digits_of 32 m v) @ base32_encode (drop 5 bs))"
  by pat_completeness auto
termination
  by (relation "measure length") auto

declare base32_encode.simps [simp del]

text \<open>A last group of one, three or six digits gives no byte.\<close>

definition base32_group :: "nat list \<Rightarrow> byte list" where
  "base32_group ds =
     (let j = length ds; k = (if j = 8 then 5 else if j = 7 then 4 else if j = 5 then 3 else if j = 4 then 2 else if j = 2 then 1 else 0)
      in map of_nat (digits_of 256 k (of_digits 32 ds div 2 ^ (5 * j - 8 * k))))"

function base32_groups :: "nat list \<Rightarrow> byte list" where
  "base32_groups ds = (if ds = [] then [] else base32_group (take 8 ds) @ base32_groups (drop 8 ds))"
  by pat_completeness auto
termination
  by (relation "measure length") auto

declare base32_groups.simps [simp del]

fun all_values :: "string \<Rightarrow> nat list option" where
  "all_values [] = Some []"
| "all_values (c # r) =
     (case (base32_value c, all_values r) of (Some d, Some ds) \<Rightarrow> Some (d # ds) | _ \<Rightarrow> None)"

text \<open>\<open>DecodeString\<close>, which skips line ends.\<close>

definition base32_decode :: "string \<Rightarrow> byte list option" where
  "base32_decode s = map_option base32_groups (all_values (filter (\<lambda>c. code c \<noteq> 10 \<and> code c \<noteq> 13) s))"

lemma base32_digit_value: "d < 32 \<Longrightarrow> base32_value (base32_digit d) = Some d"
proof -
  have "\<forall>d \<in> set [0..<32]. base32_value (base32_digit d) = Some d" by code_simp
  then show "d < 32 \<Longrightarrow> ?thesis" by simp
qed

lemma base32_digit_plain:
  assumes "d < 32"
  shows "code (base32_digit d) \<noteq> 10 \<and> code (base32_digit d) \<noteq> 13 \<and> ascii_upper (base32_digit d) = base32_digit d \<and>
    code (base32_digit d) < 128"
proof -
  let ?ok = "\<lambda>c. code c \<noteq> 10 \<and> code c \<noteq> 13 \<and> ascii_upper c = c \<and> code c < 128"
  have "\<forall>d \<in> set [0..<32]. ?ok (base32_digit d)" by code_simp
  with assms show ?thesis by simp
qed

lemma all_values_digits: "\<forall>d \<in> set ds. d < 32 \<Longrightarrow> all_values (map base32_digit ds) = Some ds"
  by (induction ds) (simp_all add: base32_digit_value)

text \<open>The digits an encoding consists of.\<close>

function encoded_digits :: "byte list \<Rightarrow> nat list" where
  "encoded_digits bs =
     (let n = length bs; group = take 5 bs;
          m = (if 5 \<le> n then 8 else if n = 4 then 7 else if n = 3 then 5 else if n = 2 then 4 else if n = 1 then 2 else 0);
          v = of_digits 256 (map unat group) * 2 ^ (5 * m - 8 * length group)
      in if n = 0 then [] else digits_of 32 m v @ encoded_digits (drop 5 bs))"
  by pat_completeness auto
termination
  by (relation "measure length") auto

declare encoded_digits.simps [simp del]

lemma base32_encode_digits: "base32_encode bs = map base32_digit (encoded_digits bs)"
proof (induction bs rule: base32_encode.induct)
  case (1 bs)
  then show ?case
    by (subst base32_encode.simps, subst encoded_digits.simps) (simp add: Let_def)
qed

lemma encoded_digits_less: "\<forall>d \<in> set (encoded_digits bs). d < 32"
proof (induction bs rule: encoded_digits.induct)
  case (1 bs)
  show ?case
  proof (cases "bs = []")
    case True
    then show ?thesis by (simp add: encoded_digits.simps)
  next
    case False
    then have "\<forall>d \<in> set (encoded_digits (drop 5 bs)). d < 32" using 1 by simp
    with False digits_of_less [of 32] show ?thesis
      by (subst encoded_digits.simps) (auto simp: Let_def)
  qed
qed

lemma group_back:
  assumes "length g = n" "j = (if 5 \<le> n then 8 else if n = 4 then 7 else if n = 3 then 5 else if n = 2 then 4 else 2)"
    and "1 \<le> n" "n \<le> 5"
  shows "base32_group (digits_of 32 j (of_digits 256 (map unat g) * 2 ^ (5 * j - 8 * n))) = g"
proof -
  let ?v = "of_digits 256 (map unat g)"
  have b: "\<forall>d \<in> set (map unat g). d < 256"
    by (auto simp: unsigned_less [where ?'b = 8, simplified])
  have n: "n = 1 \<or> n = 2 \<or> n = 3 \<or> n = 4 \<or> n = 5" using assms(3,4) by linarith
  have k: "(if j = 8 then 5 else if j = 7 then 4 else if j = 5 then 3 else if j = 4 then 2 else if j = 2 then 1 else 0) = n"
    using n assms(2) by auto
  have "?v < 256 ^ n" using of_digits_less [OF b] assms(1) by simp
  then have "?v * 2 ^ (5 * j - 8 * n) < 256 ^ n * 2 ^ (5 * j - 8 * n)" by simp
  also have "(256::nat) ^ n * 2 ^ (5 * j - 8 * n) = 32 ^ j" using n assms(2) by auto
  finally have "of_digits 32 (digits_of 32 j (?v * 2 ^ (5 * j - 8 * n))) = ?v * 2 ^ (5 * j - 8 * n)"
    by (rule of_digits_of)
  moreover have "digits_of 256 n ?v = map unat g" using digits_of_digits [OF b] assms(1) by simp
  ultimately show ?thesis
    by (simp add: base32_group_def Let_def k comp_def)
qed

lemma base32_groups_back: "base32_groups (encoded_digits bs) = bs"
proof (induction bs rule: encoded_digits.induct)
  case (1 bs)
  show ?case
  proof (cases "bs = []")
    case True
    then show ?thesis by (simp add: encoded_digits.simps base32_groups.simps)
  next
    case False
    let ?n = "min 5 (length bs)"
    let ?j = "if 5 \<le> ?n then 8 else if ?n = 4 then 7 else if ?n = 3 then 5 else if ?n = 2 then 4 else (2::nat)"
    let ?g = "digits_of 32 ?j (of_digits 256 (map unat (take 5 bs)) * 2 ^ (5 * ?j - 8 * ?n))"
    have n: "1 \<le> ?n" "?n \<le> 5" using False by (cases bs; simp)+
    have e: "encoded_digits bs = ?g @ encoded_digits (drop 5 bs)"
      using False n by (subst encoded_digits.simps) (auto simp: Let_def min_def)
    have whole: "base32_group ?g = take 5 bs" by (rule group_back [OF _ refl n]) simp
    have "take 8 (encoded_digits bs) = ?g \<and> drop 8 (encoded_digits bs) = encoded_digits (drop 5 bs)"
    proof (cases "5 \<le> length bs")
      case False
      then have "encoded_digits (drop 5 bs) = []" by (simp add: encoded_digits.simps)
      then show ?thesis by (simp add: e)
    qed (simp add: e)
    moreover have "encoded_digits bs \<noteq> []"
    proof
      assume "encoded_digits bs = []"
      with e have "length ?g = 0" by simp
      then show False by (simp split: if_splits)
    qed
    ultimately have "base32_groups (encoded_digits bs) = take 5 bs @ base32_groups (encoded_digits (drop 5 bs))"
      using whole by (subst base32_groups.simps) simp
    with 1 False show ?thesis by simp
  qed
qed

lemma base32_roundtrip: "base32_decode (base32_encode bs) = Some bs"
proof -
  have "filter (\<lambda>c. code c \<noteq> 10 \<and> code c \<noteq> 13) (base32_encode bs) = base32_encode bs"
    using encoded_digits_less [of bs] base32_digit_plain
    by (intro filter_True) (auto simp: base32_encode_digits)
  then show ?thesis
    by (simp add: base32_decode_def base32_encode_digits all_values_digits encoded_digits_less base32_groups_back)
qed

lemma base32_upper: "map ascii_upper (base32_encode bs) = base32_encode bs"
  using encoded_digits_less [of bs] base32_digit_plain by (auto simp: base32_encode_digits)

subsection \<open>Codes\<close>

text \<open>\<open>%06d\<close> of a number that is not negative.\<close>

definition six_digits :: "nat \<Rightarrow> string" where
  "six_digits n = (let s = show_nat n in replicate (6 - length s) CHR ''0'' @ s)"

text \<open>The 31 bits of RFC 4226; \<open>None\<close> when an index is out of range, where Go panics.\<close>

definition truncated :: "byte list \<Rightarrow> (32 word) option" where
  "truncated mac =
     (let offset = unat (last mac AND 0x0f)
      in if mac = [] \<or> length mac \<le> offset + 3 then None
         else Some (push_bit 24 (ucast (mac ! offset AND 0x7f)) OR push_bit 16 (ucast (mac ! (offset + 1))) OR
           push_bit 8 (ucast (mac ! (offset + 2))) OR ucast (mac ! (offset + 3))))"

definition totpCode :: "byte list \<Rightarrow> int \<Rightarrow> string option" where
  "totpCode key counter =
     map_option (\<lambda>w. six_digits (nat (sint w smod 1000000))) (truncated (hmac_sha1 key (be_bytes (word_of_int counter))))"

definition GenerateOTPSecret :: "byte list option \<Rightarrow> string option" where
  "GenerateOTPSecret random = map_option base32_encode random"

text \<open>\<open>ValidateTOTP\<close> at the Unix time \<open>now\<close>: the codes of this half minute and its neighbours.\<close>

definition ValidateTOTP :: "nat \<Rightarrow> string \<Rightarrow> string \<Rightarrow> bool" where
  "ValidateTOTP now secret given =
     (case base32_decode (map ascii_upper secret) of
        None \<Rightarrow> False
      | Some key \<Rightarrow>
          key \<noteq> [] \<and> list_ex (\<lambda>offset. totpCode key (int (now div 30) + offset) = Some given) [-1, 0, 1])"

lemma low_bits: "unat (x AND 0x0f :: byte) < 16"
proof -
  have "x AND 0x0f = take_bit 4 x" by (simp add: take_bit_eq_mask mask_eq_exp_minus_1)
  then have "unat (x AND 0x0f) = take_bit 4 (unat x)" by (simp only: unsigned_take_bit_eq)
  also have "\<dots> < 2 ^ 4" by (rule take_bit_nat_less_exp)
  finally show ?thesis by simp
qed

lemma truncated_some:
  assumes "length mac = 20"
  obtains w where "truncated mac = Some w" "0 \<le> sint w"
proof -
  let ?o = "unat (last mac AND 0x0f)"
  let ?w = "push_bit 24 (ucast (mac ! ?o AND 0x7f)) OR push_bit 16 (ucast (mac ! (?o + 1))) OR
    push_bit 8 (ucast (mac ! (?o + 2))) OR ucast (mac ! (?o + 3)) :: 32 word"
  have "mac \<noteq> []" "\<not> length mac \<le> ?o + 3" using assms low_bits [of "last mac"] by auto
  then have "truncated mac = Some ?w" by (simp add: truncated_def Let_def)
  moreover have "\<not> bit ?w 31" by (auto simp: bit_simps dest: bit_imp_le_length)
  then have "0 \<le> sint ?w" using bit_last_iff [of ?w] by simp
  ultimately show ?thesis using that by blast
qed

lemma show_nat_short: "n < 10 ^ k \<Longrightarrow> 0 < k \<Longrightarrow> length (show_nat n) \<le> k"
proof (induction n arbitrary: k rule: show_nat.induct)
  case (1 n)
  show ?case
  proof (cases "n < 10")
    case True
    with 1(3) show ?thesis by (subst show_nat.simps) simp
  next
    case False
    then obtain j where k: "k = Suc j" "0 < j" using 1(2) by (cases k; cases "k - 1") auto
    then have "n div 10 < 10 ^ j" using 1(2) by (simp add: less_mult_imp_div_less mult.commute)
    with 1(1) False k show ?thesis by (subst show_nat.simps) simp
  qed
qed

lemma six_digits_six:
  assumes "n < 1000000"
  shows "length (six_digits n) = 6 \<and> list_all is_digit (six_digits n) \<and> digits_val (six_digits n) = n"
proof -
  have l: "length (show_nat n) \<le> 6" using show_nat_short [of n 6] assms by simp
  have z: "digits_val (replicate m CHR ''0'' @ s) = digits_val s" for m s
    by (induction m) (simp_all add: digits_val_def)
  have "is_digit CHR ''0''" by code_simp
  with l show ?thesis
    using show_nat_digits [of n] by (auto simp: six_digits_def Let_def z digits_val_show list_all_iff)
qed

lemma totp_code:
  obtains w where "truncated (hmac_sha1 key (be_bytes (word_of_int counter))) = Some w" "0 \<le> sint w"
    "totpCode key counter = Some (six_digits (nat (sint w) mod 1000000))"
proof -
  have "length (hmac_sha1 key (be_bytes (word_of_int counter))) = 20" by (rule hmac_sha1_length)
  from truncated_some [OF this] obtain w
    where w: "truncated (hmac_sha1 key (be_bytes (word_of_int counter))) = Some w" "0 \<le> sint w" by blast
  have "nat (sint w smod 1000000) = nat (sint w) mod 1000000"
    using w(2) by (cases "sint w = 0") (simp_all add: signed_modulo_int_def nat_mod_distrib)
  with w that show ?thesis by (simp add: totpCode_def)
qed

lemma six_digit_code:
  obtains digits where "totpCode key counter = Some digits" "length digits = 6"
  using totp_code [of key counter] six_digits_six by (metis mod_less_divisor zero_less_numeral)

text \<open>
  C17. A one-time code is always six digits. The index taken from the last byte of the MAC never
  runs out of it, the 32-bit number read there is not negative, and the code is its remainder by a
  million, filled up with zeros: as many characters as the settings' input takes.
\<close>

theorem totp_six_digits:
  "\<exists>w digits. truncated (hmac_sha1 key (be_bytes (word_of_int counter))) = Some w \<and> 0 \<le> sint w \<and>
    totpCode key counter = Some digits \<and> length digits = 6 \<and> list_all is_digit digits \<and>
    digits_val digits = nat (sint w) mod 1000000"
proof -
  from totp_code [of key counter] obtain w where w: "truncated (hmac_sha1 key (be_bytes (word_of_int counter))) = Some w" "0 \<le> sint w"
    "totpCode key counter = Some (six_digits (nat (sint w) mod 1000000))" .
  with six_digits_six [of "nat (sint w) mod 1000000"] show ?thesis by auto
qed

text \<open>Clocks at most half a minute apart agree on a code.\<close>

lemma code_accepted:
  assumes "key \<noteq> []" "now \<le> t + 30" "t \<le> now + 30"
    and "totpCode key (int (t div 30)) = Some given"
  shows "ValidateTOTP now (base32_encode key) given"
proof -
  have "t div 30 \<le> now div 30 + 1" using div_le_mono [OF assms(3), of 30] by simp
  moreover have "now div 30 \<le> t div 30 + 1" using div_le_mono [OF assms(2), of 30] by simp
  ultimately have "int (t div 30) = int (now div 30) + -1 \<or> int (t div 30) = int (now div 30) + 0 \<or>
    int (t div 30) = int (now div 30) + 1" by linarith
  with assms(1,4) show ?thesis
    by (auto simp: ValidateTOTP_def base32_upper base32_roundtrip)
qed

end
