(* ===== verification/Auth_Server.thy ===== *)
theory Auth_Server
  imports Otp
begin

text \<open>
  The back end's sessions: \<open>internal/auth/auth.go\<close> (token pairs) and the handlers of
  \<open>internal/api/handler/auth_handler.go\<close> that issue, rotate and revoke them, and those of the
  two-factor codes. JSON Web Tokens, argon2, SHA-256 and the random ids and bytes are
  parameters (\<open>auth_lib\<close>). The database answers every
  query; statements whose errors the code ignores leave the table as it was when a key is taken.
\<close>

subsection \<open>State\<close>

record claims =
  cl_id :: string
  cl_uid :: string
  cl_uname :: string
  cl_role :: string
  cl_iat :: nat
  cl_exp :: nat

record user_rec =
  ur_id :: string
  ur_username :: string
  ur_email :: string
  ur_role :: string
  ur_hash :: string
  ur_otp :: bool
  ur_secret :: string     \<comment> \<open>\<open>otp_secret\<close>\<close>
  ur_enabled :: bool
  ur_changed :: bool      \<comment> \<open>\<open>password_changed\<close>\<close>

record token_rec =
  tk_id :: string
  tk_user :: string
  tk_hash :: string
  tk_revoked :: bool

record auth_db =
  db_users :: "user_rec list"
  db_tokens :: "token_rec list"
  db_now :: nat           \<comment> \<open>\<open>time.Now()\<close>, in seconds\<close>
  db_drawn :: nat         \<comment> \<open>how many random ids were drawn\<close>

record auth_lib =
  al_sign :: "claims \<Rightarrow> string option"
  al_parse :: "nat \<Rightarrow> string \<Rightarrow> claims option"
  al_hash :: "string \<Rightarrow> string"
  al_draw :: "nat \<Rightarrow> string"
  al_verify :: "string \<Rightarrow> string \<Rightarrow> bool"
  al_pwhash :: "nat \<Rightarrow> string \<Rightarrow> string option"     \<comment> \<open>salt number, password\<close>
  al_bytes :: "nat \<Rightarrow> byte list option"          \<comment> \<open>20 random bytes\<close>
  al_access :: nat
  al_refresh :: nat
  al_enc :: encoder

record token_pair =
  tp_access :: string
  tp_refresh :: string
  tp_expires :: nat

subsection \<open>Tokens\<close>

definition new_claims :: "auth_lib \<Rightarrow> auth_db \<Rightarrow> user_rec \<Rightarrow> nat \<Rightarrow> nat \<Rightarrow> claims" where
  "new_claims lib db u k ttl =
     \<lparr>cl_id = al_draw lib (db_drawn db + k), cl_uid = ur_id u, cl_uname = ur_username u, cl_role = ur_role u,
      cl_iat = db_now db, cl_exp = db_now db + ttl\<rparr>"

definition GenerateTokens :: "auth_lib \<Rightarrow> auth_db \<Rightarrow> user_rec \<Rightarrow> token_pair option \<times> auth_db" where
  "GenerateTokens lib db u =
     (case al_sign lib (new_claims lib db u 0 (al_access lib)) of
        None \<Rightarrow> (None, db\<lparr>db_drawn := db_drawn db + 1\<rparr>)
      | Some a \<Rightarrow>
          (case al_sign lib (new_claims lib db u 1 (al_refresh lib)) of
             None \<Rightarrow> (None, db\<lparr>db_drawn := db_drawn db + 2\<rparr>)
           | Some r \<Rightarrow>
               (Some \<lparr>tp_access = a, tp_refresh = r, tp_expires = al_access lib\<rparr>,
                db\<lparr>db_drawn := db_drawn db + 2\<rparr>)))"

definition ValidateToken :: "auth_lib \<Rightarrow> auth_db \<Rightarrow> string \<Rightarrow> claims option" where
  "ValidateToken lib db tok = al_parse lib (db_now db) tok"

definition storeRefreshToken :: "auth_lib \<Rightarrow> auth_db \<Rightarrow> claims \<Rightarrow> string \<Rightarrow> auth_db" where
  "storeRefreshToken lib db c raw =
     (if cl_id c = [] \<or> (\<exists>r \<in> set (db_tokens db). tk_id r = cl_id c \<or> tk_hash r = al_hash lib raw) then db
      else db\<lparr>db_tokens := db_tokens db @
             [\<lparr>tk_id = cl_id c, tk_user = cl_uid c, tk_hash = al_hash lib raw, tk_revoked = False\<rparr>]\<rparr>)"

definition refreshTokenRevoked :: "auth_db \<Rightarrow> string \<Rightarrow> bool" where
  "refreshTokenRevoked db i =
     (case find (\<lambda>r. tk_id r = i) (db_tokens db) of None \<Rightarrow> True | Some r \<Rightarrow> tk_revoked r)"

definition revoke_where :: "(token_rec \<Rightarrow> bool) \<Rightarrow> auth_db \<Rightarrow> auth_db" where
  "revoke_where P db = db\<lparr>db_tokens := map (\<lambda>r. if P r then r\<lparr>tk_revoked := True\<rparr> else r) (db_tokens db)\<rparr>"

definition revokeRefreshToken :: "auth_db \<Rightarrow> string \<Rightarrow> auth_db" where
  "revokeRefreshToken db i = revoke_where (\<lambda>r. tk_id r = i) db"

definition revokeAllUserRefreshTokens :: "auth_db \<Rightarrow> string \<Rightarrow> auth_db" where
  "revokeAllUserRefreshTokens db u = revoke_where (\<lambda>r. tk_user r = u) db"

subsection \<open>Handlers\<close>

definition tokens_json :: "token_pair \<Rightarrow> json" where
  "tokens_json tp =
     JObj [(''access_token'', JStr (tp_access tp)), (''refresh_token'', JStr (tp_refresh tp)),
       (''expires_in'', JNum (of_nat (tp_expires tp)))]"

definition sanitizeUser :: "user_rec \<Rightarrow> json" where
  "sanitizeUser u =
     JObj [(''email'', JStr (ur_email u)), (''enabled'', JBool (ur_enabled u)), (''id'', JStr (ur_id u)),
       (''otp_enabled'', JBool (ur_otp u)), (''role'', JStr (ur_role u)), (''username'', JStr (ur_username u))]"

text \<open>
  A body that does not decode: 413 when the decoder ran into the size limit, else 400. Which of
  the two is \<open>too_large\<close>'s to say; it can only say so of a body over the limit.
\<close>

definition bad_body :: "auth_lib \<Rightarrow> (string \<Rightarrow> bool) \<Rightarrow> string \<Rightarrow> net_result" where
  "bad_body lib too_large body =
     (if maxAuthBodyBytes < length body \<and> too_large body then go_error (al_enc lib) 413 ''request body too large''
      else go_error (al_enc lib) 400 ''invalid request body'')"

text \<open>Issuing a pair: what \<open>Login\<close> and \<open>RefreshToken\<close> do after \<open>GenerateTokens\<close>.\<close>

definition store_pair :: "auth_lib \<Rightarrow> auth_db \<Rightarrow> token_pair \<Rightarrow> auth_db" where
  "store_pair lib db tp =
     (case ValidateToken lib db (tp_refresh tp) of
        Some nc \<Rightarrow> storeRefreshToken lib db nc (tp_refresh tp)
      | None \<Rightarrow> db)"

definition maxPasswordBytes :: nat where "maxPasswordBytes = 128"
definition maxUsernameBytes :: nat where "maxUsernameBytes = 64"

definition Login_handler ::
  "auth_lib \<Rightarrow> (string \<Rightarrow> bool) \<Rightarrow> auth_db \<Rightarrow> string \<Rightarrow> auth_db \<times> net_result" where
  "Login_handler lib too_large db body =
     (let err = go_error (al_enc lib) in
      case decode_two ''username'' ''password'' (decode_limited body) of
        Some (name, pw) \<Rightarrow>
          if name = [] \<or> pw = [] then (db, err 400 ''username and password required'')
          else if maxPasswordBytes < length pw then (db, err 400 ''password too long'')
          else if maxUsernameBytes < length name then (db, err 400 ''username too long'')
          else (case find (\<lambda>u. ur_username u = name) (db_users db) of
                  None \<Rightarrow> (db, err 401 ''invalid credentials'')
                | Some u \<Rightarrow>
                    if \<not> al_verify lib pw (ur_hash u) then (db, err 401 ''invalid credentials'')
                    else if \<not> ur_enabled u then (db, err 401 ''invalid credentials'')
                    else (case GenerateTokens lib db u of
                            (None, db1) \<Rightarrow> (db1, err 500 ''internal error'')
                          | (Some tp, db1) \<Rightarrow>
                              (store_pair lib db1 tp,
                               go_success (al_enc lib)
                                 (JObj [(''tokens'', tokens_json tp), (''user'', sanitizeUser u)]))))
      | None \<Rightarrow> (db, bad_body lib too_large body))"

definition RefreshToken ::
  "auth_lib \<Rightarrow> (string \<Rightarrow> bool) \<Rightarrow> auth_db \<Rightarrow> string \<Rightarrow> auth_db \<times> net_result" where
  "RefreshToken lib too_large db body =
     (let err = go_error (al_enc lib) in
      case decode_one ''refresh_token'' (decode_limited body) of
        Some tok \<Rightarrow>
          (case ValidateToken lib db tok of
             None \<Rightarrow> (db, err 401 ''invalid refresh token'')
           | Some c \<Rightarrow>
               if refreshTokenRevoked db (cl_id c) then (db, err 401 ''invalid refresh token'')
               else (case find (\<lambda>u. ur_id u = cl_uid c) (db_users db) of
                       None \<Rightarrow> (db, err 401 ''user not found'')
                     | Some u \<Rightarrow>
                         (case GenerateTokens lib db u of
                            (None, db1) \<Rightarrow> (db1, err 500 ''internal error'')
                          | (Some tp, db1) \<Rightarrow>
                              (store_pair lib (revokeRefreshToken db1 (cl_id c)) tp,
                               go_success (al_enc lib) (tokens_json tp)))))
      | None \<Rightarrow> (db, bad_body lib too_large body))"

text \<open>\<open>Logout\<close>, whose body has the router's limit only.\<close>

definition Logout_handler :: "auth_lib \<Rightarrow> auth_db \<Rightarrow> string \<Rightarrow> auth_db \<times> net_result" where
  "Logout_handler lib db body =
     (case decode_one ''refresh_token'' (decode_upto maxJSONBodyBytes body) of
        Some tok \<Rightarrow>
          if tok = [] then (db, go_error (al_enc lib) 400 ''refresh_token required'')
          else ((case ValidateToken lib db tok of Some c \<Rightarrow> revokeRefreshToken db (cl_id c) | None \<Rightarrow> db),
                go_message (al_enc lib) ''logged out'')
      | None \<Rightarrow> (db, go_error (al_enc lib) 400 ''refresh_token required''))"

text \<open>\<open>Me\<close> does not read the column \<open>enabled\<close>, so the account is reported with Go's zero value.\<close>

definition Me_handler :: "auth_lib \<Rightarrow> auth_db \<Rightarrow> claims \<Rightarrow> auth_db \<times> net_result" where
  "Me_handler lib db c =
     (db, case find (\<lambda>u. ur_id u = cl_uid c) (db_users db) of
            None \<Rightarrow> go_error (al_enc lib) 404 ''user not found''
          | Some u \<Rightarrow> go_success (al_enc lib) (sanitizeUser (u\<lparr>ur_enabled := False\<rparr>)))"

definition ChangePassword_handler ::
  "auth_lib \<Rightarrow> (string \<Rightarrow> bool) \<Rightarrow> auth_db \<Rightarrow> claims \<Rightarrow> string \<Rightarrow> auth_db \<times> net_result" where
  "ChangePassword_handler lib too_large db c body =
     (let err = go_error (al_enc lib) in
      case decode_two ''old_password'' ''new_password'' (decode_limited body) of
        Some (old, new) \<Rightarrow>
          if length new < 8 then (db, err 400 ''password must be at least 8 characters'')
          else if maxPasswordBytes < length new \<or> maxPasswordBytes < length old then
            (db, err 400 ''password too long'')
          else (case find (\<lambda>u. ur_id u = cl_uid c) (db_users db) of
                  None \<Rightarrow> (db, err 500 ''internal error'')
                | Some u \<Rightarrow>
                    if \<not> al_verify lib old (ur_hash u) then (db, err 400 ''current password is incorrect'')
                    else (case al_pwhash lib (db_drawn db) new of
                            None \<Rightarrow> (db, err 500 ''internal error'')
                          | Some h \<Rightarrow>
                              (revokeAllUserRefreshTokens
                                 (db\<lparr>db_drawn := db_drawn db + 1,
                                     db_users := map (\<lambda>v. if ur_id v = cl_uid c
                                       then v\<lparr>ur_hash := h, ur_changed := True\<rparr> else v) (db_users db)\<rparr>)
                                 (cl_uid c),
                               go_message (al_enc lib) ''password changed successfully'')))
      | None \<Rightarrow> (db, bad_body lib too_large body))"

subsection \<open>Two-factor codes\<close>

definition row_of :: "auth_db \<Rightarrow> claims \<Rightarrow> user_rec option" where
  "row_of db c = find (\<lambda>u. ur_id u = cl_uid c) (db_users db)"

definition update_row :: "(user_rec \<Rightarrow> user_rec) \<Rightarrow> claims \<Rightarrow> auth_db \<Rightarrow> auth_db" where
  "update_row f c db = db\<lparr>db_users := map (\<lambda>v. if ur_id v = cl_uid c then f v else v) (db_users db)\<rparr>"

definition otp_url :: "string \<Rightarrow> string \<Rightarrow> string" where
  "otp_url name secret = ''otpauth://totp/NetBerth:'' @ name @ ''?secret='' @ secret @ ''&issuer=NetBerth''"

definition Setup2FA_handler :: "auth_lib \<Rightarrow> auth_db \<Rightarrow> claims \<Rightarrow> auth_db \<times> net_result" where
  "Setup2FA_handler lib db c =
     (let db1 = db\<lparr>db_drawn := db_drawn db + 1\<rparr> in
      case GenerateOTPSecret (al_bytes lib (db_drawn db)) of
        None \<Rightarrow> (db1, go_error (al_enc lib) 500 ''generate failed'')
      | Some secret \<Rightarrow>
          let name = (case row_of db c of Some u \<Rightarrow> ur_username u | None \<Rightarrow> [])
          in (update_row (\<lambda>v. v\<lparr>ur_secret := secret\<rparr>) c db1,
              go_success (al_enc lib) (JObj [(''secret'', JStr secret), (''qr_code'', JStr (otp_url name secret))])))"

definition Enable2FA_handler :: "auth_lib \<Rightarrow> auth_db \<Rightarrow> claims \<Rightarrow> string \<Rightarrow> auth_db \<times> net_result" where
  "Enable2FA_handler lib db c body =
     (case decode_one ''code'' (decode_upto maxJSONBodyBytes body) of
        None \<Rightarrow> (db, go_error (al_enc lib) 400 ''invalid body'')
      | Some given \<Rightarrow>
          let secret = (case row_of db c of Some u \<Rightarrow> ur_secret u | None \<Rightarrow> [])
          in if secret = [] then
               (db, go_error (al_enc lib) 400
                  (''no OTP setup found '' @ [CHR 0xE2, CHR 0x80, CHR 0x94] @ '' call /auth/2fa/setup first''))
             else if \<not> ValidateTOTP (db_now db) secret given then
               (db, go_error (al_enc lib) 400 ''invalid OTP code'')
             else (update_row (\<lambda>v. v\<lparr>ur_otp := True\<rparr>) c db, go_message (al_enc lib) ''2FA enabled''))"

definition Disable2FA_handler :: "auth_lib \<Rightarrow> auth_db \<Rightarrow> claims \<Rightarrow> auth_db \<times> net_result" where
  "Disable2FA_handler lib db c =
     (update_row (\<lambda>v. v\<lparr>ur_otp := False, ur_secret := []\<rparr>) c db, go_message (al_enc lib) ''2FA disabled'')"

end
