(* ===== verification/Sessions.thy ===== *)
theory Sessions
  imports Auth_Server
begin

text \<open>
  The life of a refresh token on the server: issued at most once, used at most once. The
  handlers' effects on the token table, runs of them, and the two directions of the contract:
  a token that was used is never accepted again, a token just issued is accepted.
\<close>

subsection \<open>The token table\<close>

definition token_row :: "auth_db \<Rightarrow> string \<Rightarrow> token_rec option" where
  "token_row db i = find (\<lambda>r. tk_id r = i) (db_tokens db)"

lemma refreshTokenRevoked_row:
  "refreshTokenRevoked db i = (case token_row db i of None \<Rightarrow> True | Some r \<Rightarrow> tk_revoked r)"
  by (simp add: refreshTokenRevoked_def token_row_def)

lemma find_map_same: "(\<And>x. P (f x) = P x) \<Longrightarrow> find P (map f xs) = map_option f (find P xs)"
  by (induction xs) auto

lemma find_append: "find P (xs @ ys) = (case find P xs of None \<Rightarrow> find P ys | Some x \<Rightarrow> Some x)"
  by (induction xs) auto

lemma find_SomeD: "find P xs = Some x \<Longrightarrow> x \<in> set xs \<and> P x"
  by (auto simp: find_Some_iff)

lemma token_row_SomeD: "token_row db i = Some r \<Longrightarrow> r \<in> set (db_tokens db) \<and> tk_id r = i"
  by (auto simp: token_row_def find_Some_iff)

lemma token_row_None: "token_row db i = None \<longleftrightarrow> (\<forall>r \<in> set (db_tokens db). tk_id r \<noteq> i)"
  by (auto simp: token_row_def find_None_iff)

lemma token_row_revoke:
  "token_row (revoke_where P db) i = map_option (\<lambda>r. if P r then r\<lparr>tk_revoked := True\<rparr> else r) (token_row db i)"
  by (simp add: token_row_def revoke_where_def find_map_same)

lemma token_row_append:
  "token_row (db\<lparr>db_tokens := db_tokens db @ [r]\<rparr>) i =
     (case token_row db i of None \<Rightarrow> if tk_id r = i then Some r else None | Some x \<Rightarrow> Some x)"
  by (simp add: token_row_def find_append split: option.split)

lemma token_row_store:
  assumes "token_row db i = Some r"
  shows "token_row (storeRefreshToken lib db c raw) i = Some r"
  using assms by (simp add: storeRefreshToken_def token_row_append)

text \<open>A token is spent when its row is there and revoked.\<close>

definition spent :: "auth_db \<Rightarrow> string \<Rightarrow> bool" where
  "spent db i \<longleftrightarrow> (\<exists>r. token_row db i = Some r \<and> tk_revoked r)"

lemma spent_revoked: "spent db i \<Longrightarrow> refreshTokenRevoked db i"
  by (auto simp: spent_def refreshTokenRevoked_row)

lemma spent_revoke [intro]: "spent db i \<Longrightarrow> spent (revoke_where P db) i"
  by (force simp: spent_def token_row_revoke)

lemma spent_store [intro]: "spent db i \<Longrightarrow> spent (storeRefreshToken lib db c raw) i"
  by (auto simp: spent_def token_row_store)

lemma spent_pair [intro]: "spent db i \<Longrightarrow> spent (store_pair lib db tp) i"
  by (auto simp: store_pair_def split: option.split)

lemma spent_updates [simp]:
  "spent (db\<lparr>db_now := n\<rparr>) i = spent db i" "spent (db\<lparr>db_users := us\<rparr>) i = spent db i"
  "spent (db\<lparr>db_drawn := k\<rparr>) i = spent db i"
  by (simp_all add: spent_def token_row_def)

lemma GenerateTokens_tokens: "GenerateTokens lib db u = (tp, db') \<Longrightarrow> db_tokens db' = db_tokens db"
  by (auto simp: GenerateTokens_def split: option.splits)

lemma spent_generated: "GenerateTokens lib db u = (tp, db') \<Longrightarrow> spent db i \<Longrightarrow> spent db' i"
  by (simp add: spent_def token_row_def GenerateTokens_tokens)

lemma spent_used:
  assumes "\<not> refreshTokenRevoked db i"
  shows "spent (revokeRefreshToken db i) i"
proof -
  obtain r where "token_row db i = Some r" using assms by (auto simp: refreshTokenRevoked_row split: option.splits)
  moreover from this have "tk_id r = i" by (simp add: token_row_SomeD)
  ultimately show ?thesis by (simp add: spent_def revokeRefreshToken_def token_row_revoke)
qed

subsection \<open>Runs of the server\<close>

text \<open>
  What happens to the token table: the handlers' calls, in any order, the passage of time, and
  any change to the users by the other handlers.
\<close>

datatype auth_event =
    E_login string
  | E_refresh string
  | E_logout string
  | E_password claims string
  | E_setup claims
  | E_enable claims string
  | E_disable claims
  | E_time nat
  | E_users "user_rec list"

fun auth_step :: "auth_lib \<Rightarrow> (string \<Rightarrow> bool) \<Rightarrow> auth_event \<Rightarrow> auth_db \<Rightarrow> auth_db" where
  "auth_step lib big (E_login b) db = fst (Login_handler lib big db b)"
| "auth_step lib big (E_refresh b) db = fst (RefreshToken lib big db b)"
| "auth_step lib big (E_logout b) db = fst (Logout_handler lib db b)"
| "auth_step lib big (E_password c b) db = fst (ChangePassword_handler lib big db c b)"
| "auth_step lib big (E_setup c) db = fst (Setup2FA_handler lib db c)"
| "auth_step lib big (E_enable c b) db = fst (Enable2FA_handler lib db c b)"
| "auth_step lib big (E_disable c) db = fst (Disable2FA_handler lib db c)"
| "auth_step lib big (E_time n) db = db\<lparr>db_now := db_now db + n\<rparr>"
| "auth_step lib big (E_users us) db = db\<lparr>db_users := us\<rparr>"

definition auth_run :: "auth_lib \<Rightarrow> (string \<Rightarrow> bool) \<Rightarrow> auth_event list \<Rightarrow> auth_db \<Rightarrow> auth_db" where
  "auth_run lib big evs db = fold (auth_step lib big) evs db"

lemma spent_login: "spent db i \<Longrightarrow> spent (fst (Login_handler lib big db b)) i"
  by (auto simp: Login_handler_def Let_def dest: spent_generated split: option.split prod.split)

lemma spent_refresh: "spent db i \<Longrightarrow> spent (fst (RefreshToken lib big db b)) i"
  by (auto simp: RefreshToken_def Let_def revokeRefreshToken_def dest: spent_generated
      split: option.split prod.split)

lemma spent_logout: "spent db i \<Longrightarrow> spent (fst (Logout_handler lib db b)) i"
  by (auto simp: Logout_handler_def revokeRefreshToken_def split: option.split)

lemma spent_password: "spent db i \<Longrightarrow> spent (fst (ChangePassword_handler lib big db c b)) i"
  by (auto simp: ChangePassword_handler_def Let_def revokeAllUserRefreshTokens_def
      split: option.split prod.split)

lemma spent_otp:
  assumes "spent db i"
  shows "spent (fst (Setup2FA_handler lib db c)) i" "spent (fst (Enable2FA_handler lib db c b)) i"
    "spent (fst (Disable2FA_handler lib db c)) i"
  using assms
  by (auto simp: Setup2FA_handler_def Enable2FA_handler_def Disable2FA_handler_def update_row_def Let_def split: option.split)

lemma spent_step: "spent db i \<Longrightarrow> spent (auth_step lib big e db) i"
  by (cases e) (simp_all add: spent_login spent_refresh spent_logout spent_password spent_otp)

lemma spent_run: "spent db i \<Longrightarrow> spent (auth_run lib big evs db) i"
  unfolding auth_run_def by (induction evs arbitrary: db) (simp_all add: spent_step)

subsection \<open>Used once\<close>

text \<open>The token a body carries.\<close>

definition body_token :: "string \<Rightarrow> string \<Rightarrow> bool" where
  "body_token body tok \<longleftrightarrow> decode_one ''refresh_token'' (decode_limited body) = Some tok"

text \<open>The claims of a token do not depend on when it is read.\<close>

definition claims_fixed :: "auth_lib \<Rightarrow> bool" where
  "claims_fixed lib \<longleftrightarrow>
     (\<forall>t n n' c c'. al_parse lib n t = Some c \<longrightarrow> al_parse lib n' t = Some c' \<longrightarrow> c' = c)"

lemma refresh_unfold:
  assumes "body_token body tok"
  shows "RefreshToken lib big db body =
     (case ValidateToken lib db tok of
        None \<Rightarrow> (db, go_error (al_enc lib) 401 ''invalid refresh token'')
      | Some c \<Rightarrow>
          if refreshTokenRevoked db (cl_id c) then (db, go_error (al_enc lib) 401 ''invalid refresh token'')
          else (case find (\<lambda>u. ur_id u = cl_uid c) (db_users db) of
                  None \<Rightarrow> (db, go_error (al_enc lib) 401 ''user not found'')
                | Some u \<Rightarrow>
                    (case GenerateTokens lib db u of
                       (None, db1) \<Rightarrow> (db1, go_error (al_enc lib) 500 ''internal error'')
                     | (Some tp, db1) \<Rightarrow>
                         (store_pair lib (revokeRefreshToken db1 (cl_id c)) tp,
                          go_success (al_enc lib) (tokens_json tp)))))"
  using assms by (simp add: RefreshToken_def body_token_def Let_def)

lemma refresh_accepted:
  assumes "body_token body tok" "RefreshToken lib big db body = (db', Response 200 txt)"
  obtains c u tp db1 where "ValidateToken lib db tok = Some c" "\<not> refreshTokenRevoked db (cl_id c)"
    "find (\<lambda>u. ur_id u = cl_uid c) (db_users db) = Some u" "GenerateTokens lib db u = (Some tp, db1)"
    "db' = store_pair lib (revokeRefreshToken db1 (cl_id c)) tp" "txt = al_enc lib (JObj [(''success'', JBool True), (''data'', tokens_json tp)])"
  using assms(2) unfolding refresh_unfold [OF assms(1)]
  by (auto simp: go_error_def go_success_def go_json_def split: option.splits if_splits prod.splits)

lemma refresh_spends:
  assumes "body_token body tok" "RefreshToken lib big db body = (db', Response 200 txt)"
    and "ValidateToken lib db tok = Some c"
  shows "spent db' (cl_id c)"
proof -
  from assms(1,2) show ?thesis
  proof (rule refresh_accepted)
    fix c' u tp db1
    assume v: "ValidateToken lib db tok = Some c'" and n: "\<not> refreshTokenRevoked db (cl_id c')"
      and g: "GenerateTokens lib db u = (Some tp, db1)"
      and d: "db' = store_pair lib (revokeRefreshToken db1 (cl_id c')) tp"
    have "\<not> refreshTokenRevoked db1 (cl_id c')"
      using n GenerateTokens_tokens [OF g] by (simp add: refreshTokenRevoked_def)
    then have "spent db' (cl_id c')" by (auto simp: d intro: spent_used)
    with v assms(3) show ?thesis by simp
  qed
qed

text \<open>
  C2. A refresh token is good for one refresh: once the server has answered a refresh with new
  tokens, every later request with the same token is answered 401 and changes nothing, whatever
  sign-ins, refreshes, sign-outs, password changes, two-factor requests and user management happened
  in between.
\<close>

theorem refresh_single_use:
  assumes "claims_fixed lib" "body_token body tok" "RefreshToken lib big db body = (db1, Response 200 txt)"
    and "body_token body' tok"
  shows "RefreshToken lib big (auth_run lib big evs db1) body' =
    (auth_run lib big evs db1, go_error (al_enc lib) 401 ''invalid refresh token'')"
proof -
  obtain c where c: "ValidateToken lib db tok = Some c" using assms(2,3) by (rule refresh_accepted)
  then have "spent (auth_run lib big evs db1) (cl_id c)"
    by (intro spent_run refresh_spends [OF assms(2,3)])
  moreover have "c' = c" if "ValidateToken lib (auth_run lib big evs db1) tok = Some c'" for c'
    using assms(1) c that unfolding claims_fixed_def ValidateToken_def by blast
  ultimately show ?thesis
    by (auto simp: refresh_unfold [OF assms(4)] dest: spent_revoked split: option.split)
qed

subsection \<open>Issued and accepted\<close>

text \<open>
  The laws of the tokens: every claim can be signed, and what was signed reads back as itself
  until it expires. \<open>fresh_issue\<close>: the next random id, and the hash of a token with it, are new.
\<close>

definition jwt_law :: "auth_lib \<Rightarrow> bool" where
  "jwt_law lib \<longleftrightarrow>
     (\<forall>c. \<exists>tok. al_sign lib c = Some tok \<and> (\<forall>n. al_parse lib n tok = (if n < cl_exp c then Some c else None)))"

definition fresh_issue :: "auth_lib \<Rightarrow> auth_db \<Rightarrow> bool" where
  "fresh_issue lib db \<longleftrightarrow>
     al_draw lib (db_drawn db + 1) \<noteq> [] \<and>
     (\<forall>r \<in> set (db_tokens db). tk_id r \<noteq> al_draw lib (db_drawn db + 1) \<and>
        (\<forall>u tok. al_sign lib (new_claims lib db u 1 (al_refresh lib)) = Some tok \<longrightarrow> tk_hash r \<noteq> al_hash lib tok))"

lemma generated:
  assumes "jwt_law lib"
  obtains tp where "GenerateTokens lib db u = (Some tp, db\<lparr>db_drawn := db_drawn db + 2\<rparr>)"
    "al_sign lib (new_claims lib db u 1 (al_refresh lib)) = Some (tp_refresh tp)"
    "\<forall>n. al_parse lib n (tp_refresh tp) =
       (if n < db_now db + al_refresh lib then Some (new_claims lib db u 1 (al_refresh lib)) else None)"
proof -
  obtain a where a: "al_sign lib (new_claims lib db u 0 (al_access lib)) = Some a"
    using assms unfolding jwt_law_def by blast
  obtain r where r: "al_sign lib (new_claims lib db u 1 (al_refresh lib)) = Some r"
    "\<forall>n. al_parse lib n r = (if n < cl_exp (new_claims lib db u 1 (al_refresh lib))
       then Some (new_claims lib db u 1 (al_refresh lib)) else None)"
    using assms unfolding jwt_law_def by blast
  with a show ?thesis
    by (intro that [of "\<lparr>tp_access = a, tp_refresh = r, tp_expires = al_access lib\<rparr>"])
      (simp_all add: GenerateTokens_def new_claims_def)
qed

text \<open>After a pair is stored, its refresh token has an unrevoked row.\<close>

lemma stored_pair:
  assumes "jwt_law lib" "0 < al_refresh lib" "fresh_issue lib db"
    and "GenerateTokens lib db u = (Some tp, db1)" "db_tokens db2 = db_tokens db1" "db_now db2 = db_now db"
  shows "\<not> refreshTokenRevoked (store_pair lib db2 tp) (al_draw lib (db_drawn db + 1))"
proof -
  let ?c = "new_claims lib db u 1 (al_refresh lib)"
  obtain tp' where g: "GenerateTokens lib db u = (Some tp', db\<lparr>db_drawn := db_drawn db + 2\<rparr>)"
    "al_sign lib ?c = Some (tp_refresh tp')"
    "\<forall>n. al_parse lib n (tp_refresh tp') = (if n < db_now db + al_refresh lib then Some ?c else None)"
    using assms(1) by (rule generated)
  have tp: "tp' = tp" "db_tokens db1 = db_tokens db" using g(1) assms(4) by auto
  have c: "cl_id ?c = al_draw lib (db_drawn db + 1)" by (simp add: new_claims_def)
  have "ValidateToken lib db2 (tp_refresh tp) = Some ?c"
    using g(3) tp assms(2,6) by (simp add: ValidateToken_def)
  then have sp: "store_pair lib db2 tp = storeRefreshToken lib db2 ?c (tp_refresh tp)"
    by (simp add: store_pair_def)
  have new: "\<forall>r \<in> set (db_tokens db2). tk_id r \<noteq> cl_id ?c \<and> tk_hash r \<noteq> al_hash lib (tp_refresh tp)"
    and ne: "cl_id ?c \<noteq> []"
    using assms(3,5) g(2) tp c unfolding fresh_issue_def by auto
  have none: "token_row db2 (cl_id ?c) = None" using new by (simp add: token_row_None)
  let ?row = "\<lparr>tk_id = cl_id ?c, tk_user = cl_uid ?c, tk_hash = al_hash lib (tp_refresh tp), tk_revoked = False\<rparr>"
  have "store_pair lib db2 tp = db2\<lparr>db_tokens := db_tokens db2 @ [?row]\<rparr>"
    using new ne by (auto simp: sp storeRefreshToken_def)
  with none c show ?thesis by (simp add: refreshTokenRevoked_row token_row_append)
qed

lemma refresh_accepts:
  assumes "jwt_law lib" "body_token body tok" "ValidateToken lib db tok = Some c"
    and "\<not> refreshTokenRevoked db (cl_id c)" "find (\<lambda>u. ur_id u = cl_uid c) (db_users db) = Some u"
  obtains tp where "snd (RefreshToken lib big db body) = go_success (al_enc lib) (tokens_json tp)"
    "GenerateTokens lib db u = (Some tp, db\<lparr>db_drawn := db_drawn db + 2\<rparr>)"
proof -
  obtain tp where "GenerateTokens lib db u = (Some tp, db\<lparr>db_drawn := db_drawn db + 2\<rparr>)"
    using assms(1) by (rule generated)
  then show ?thesis using assms(3-5) by (intro that [of tp]) (simp_all add: refresh_unfold [OF assms(2)])
qed

lemma login_accepted:
  assumes "Login_handler lib big db body = (db1, Response 200 txt)"
  obtains u tp db0 where "u \<in> set (db_users db)" "ur_enabled u" "GenerateTokens lib db u = (Some tp, db0)"
    "db1 = store_pair lib db0 tp"
    "txt = al_enc lib (JObj [(''success'', JBool True),
       (''data'', JObj [(''tokens'', tokens_json tp), (''user'', sanitizeUser u)])])"
  using assms
  by (auto simp: Login_handler_def Let_def go_error_def go_success_def go_json_def bad_body_def
      dest: find_SomeD intro: that split: option.splits if_splits prod.splits)

text \<open>
  The refresh token of a sign-in is accepted: the server answers a sign-in with a pair whose
  refresh token it then exchanges for a new pair, at any moment before the token expires while
  the account exists, provided that the token's random id and hash were new. The account is
  looked up by its id alone: that it was disabled in between makes no difference.
\<close>

theorem login_then_refresh:
  assumes "jwt_law lib" "0 < al_refresh lib" "fresh_issue lib db" "Login_handler lib big db body = (db1, Response 200 txt)"
  shows "\<exists>u tp. u \<in> set (db_users db) \<and>
    txt = al_enc lib (JObj [(''success'', JBool True),
      (''data'', JObj [(''tokens'', tokens_json tp), (''user'', sanitizeUser u)])]) \<and>
    (\<forall>db2 body2. db_tokens db2 = db_tokens db1 \<and> (\<exists>v \<in> set (db_users db2). ur_id v = ur_id u) \<and>
       db_now db2 < db_now db + al_refresh lib \<and> body_token body2 (tp_refresh tp) \<longrightarrow>
       (\<exists>tp2. snd (RefreshToken lib big db2 body2) = go_success (al_enc lib) (tokens_json tp2)))"
  using assms(4)
proof (rule login_accepted)
  fix u tp db0
  assume u: "u \<in> set (db_users db)" and g: "GenerateTokens lib db u = (Some tp, db0)"
    and db1: "db1 = store_pair lib db0 tp"
    and reply: "txt = al_enc lib (JObj [(''success'', JBool True),
      (''data'', JObj [(''tokens'', tokens_json tp), (''user'', sanitizeUser u)])])"
  obtain tp' where g': "GenerateTokens lib db u = (Some tp', db\<lparr>db_drawn := db_drawn db + 2\<rparr>)"
    "\<forall>n. al_parse lib n (tp_refresh tp') =
       (if n < db_now db + al_refresh lib then Some (new_claims lib db u 1 (al_refresh lib)) else None)"
    using assms(1) by (rule generated)
  have live: "\<not> refreshTokenRevoked db1 (al_draw lib (db_drawn db + 1))"
    using stored_pair [OF assms(1-3) g, of db0] g g'(1) db1 by auto
  have "\<exists>tp2. snd (RefreshToken lib big db2 body2) = go_success (al_enc lib) (tokens_json tp2)"
    if h: "db_tokens db2 = db_tokens db1" "v \<in> set (db_users db2)" "ur_id v = ur_id u"
      "db_now db2 < db_now db + al_refresh lib" "body_token body2 (tp_refresh tp)" for db2 body2 v
  proof -
    have val: "ValidateToken lib db2 (tp_refresh tp) = Some (new_claims lib db u 1 (al_refresh lib))"
      using g g' h(4) by (simp add: ValidateToken_def)
    have "\<not> refreshTokenRevoked db2 (cl_id (new_claims lib db u 1 (al_refresh lib)))"
      using live h(1) by (simp add: refreshTokenRevoked_def new_claims_def)
    moreover obtain w where "find (\<lambda>u'. ur_id u' = cl_uid (new_claims lib db u 1 (al_refresh lib))) (db_users db2) = Some w"
      using h(2,3) by (cases "find (\<lambda>u'. ur_id u' = ur_id u) (db_users db2)") (auto simp: find_None_iff new_claims_def)
    ultimately show ?thesis using refresh_accepts [OF assms(1) h(5) val] by blast
  qed
  with u reply show ?thesis by blast
qed

subsection \<open>A library with the laws\<close>

text \<open>
  For the examples: tokens that spell out their claims, ids by number, and passwords stored as
  they are.
\<close>

definition sample_sign :: "claims \<Rightarrow> string" where
  "sample_sign c =
     stringify (JArr (map JStr [cl_id c, cl_uid c, cl_uname c, cl_role c, show_nat (cl_iat c), show_nat (cl_exp c)]))"

definition sample_parse :: "nat \<Rightarrow> string \<Rightarrow> claims option" where
  "sample_parse n tok =
     (case json_parse tok of
        Some (JArr [JStr i, JStr u, JStr m, JStr r, JStr a, JStr e]) \<Rightarrow>
          if n < digits_val e
          then Some \<lparr>cl_id = i, cl_uid = u, cl_uname = m, cl_role = r, cl_iat = digits_val a, cl_exp = digits_val e\<rparr>
          else None
      | _ \<Rightarrow> None)"

definition sample_lib :: auth_lib where
  "sample_lib =
     \<lparr>al_sign = (\<lambda>c. Some (sample_sign c)), al_parse = sample_parse, al_hash = (\<lambda>x. x),
      al_draw = (\<lambda>n. CHR ''j'' # show_nat n), al_verify = (\<lambda>pw h. pw = h), al_pwhash = (\<lambda>n pw. Some pw),
      al_bytes = (\<lambda>n. Some (replicate 20 (of_nat n))),
      al_access = 9, al_refresh = 99, al_enc = (\<lambda>j. stringify j @ [char_of (10::nat)])\<rparr>"

lemma sample_parse_sign: "sample_parse n (sample_sign c) = (if n < cl_exp c then Some c else None)"
  by (simp add: sample_parse_def sample_sign_def json_parse_stringify digits_val_show del: stringify.simps)

lemma sample_jwt: "jwt_law sample_lib"
  by (simp add: jwt_law_def sample_lib_def sample_parse_sign)

lemma sample_fixed: "claims_fixed sample_lib"
  by (auto simp: claims_fixed_def sample_lib_def sample_parse_def split: option.splits json.splits list.splits if_splits)

definition admin_rec :: user_rec where
  "admin_rec = \<lparr>ur_id = ''u1'', ur_username = ''admin'', ur_email = ''a@x'', ur_role = ''admin'',
     ur_hash = ''secret-pw'', ur_otp = False, ur_secret = [], ur_enabled = True, ur_changed = True\<rparr>"

definition sample_claims :: claims where
  "sample_claims = \<lparr>cl_id = ''j1'', cl_uid = ''u1'', cl_uname = ''admin'', cl_role = ''admin'', cl_iat = 0, cl_exp = 99\<rparr>"

definition sample_db :: auth_db where
  "sample_db = \<lparr>db_users = [admin_rec],
     db_tokens = [\<lparr>tk_id = ''j1'', tk_user = ''u1'', tk_hash = sample_sign sample_claims, tk_revoked = False\<rparr>],
     db_now = 0, db_drawn = 2\<rparr>"

lemma sample_lib_simps [simp]:
  "al_sign sample_lib c = Some (sample_sign c)" "al_parse sample_lib = sample_parse" "al_hash sample_lib tok = tok"
  "al_draw sample_lib n = CHR ''j'' # show_nat n" "al_verify sample_lib pw h = (pw = h)"
  "al_bytes sample_lib n = Some (replicate 20 (of_nat n))"
  "al_access sample_lib = 9" "al_refresh sample_lib = 99"
  "al_enc sample_lib = (\<lambda>j. stringify j @ [char_of (10::nat)])"
  by (simp_all add: sample_lib_def)

lemma sample_db_simps [simp]:
  "db_users sample_db = [admin_rec]" "db_now sample_db = 0" "db_drawn sample_db = 2"
  "db_tokens sample_db = [\<lparr>tk_id = ''j1'', tk_user = ''u1'', tk_hash = sample_sign sample_claims, tk_revoked = False\<rparr>]"
  by (simp_all add: sample_db_def)

definition refresh_body :: "string \<Rightarrow> string" where
  "refresh_body tok = stringify (JObj [(''refresh_token'', JStr tok)])"

lemma body_token_refresh:
  assumes "length (refresh_body tok) \<le> maxAuthBodyBytes"
  shows "body_token (refresh_body tok) tok"
proof -
  have "decode_limited (refresh_body tok) = Some [(''refresh_token'', JStr tok)]"
    using assms decode_stringify [of "[(''refresh_token'', JStr tok)]" False]
    by (simp add: decode_limited_def decode_upto_def refresh_body_def del: stringify.simps)
  then show ?thesis by (simp add: body_token_def decode_one_def)
qed

lemma sample_body: "body_token (refresh_body (sample_sign sample_claims)) (sample_sign sample_claims)"
proof (rule body_token_refresh)
  have "length (refresh_body (sample_sign sample_claims)) \<le> 150" by code_simp
  then show "length (refresh_body (sample_sign sample_claims)) \<le> maxAuthBodyBytes"
    by (simp add: maxAuthBodyBytes_def)
qed

lemma refresh_single_use_witness:
  "let tok = sample_sign sample_claims; big = (\<lambda>_. False); body = refresh_body tok;
       db1 = fst (RefreshToken sample_lib big sample_db body)
   in snd (RefreshToken sample_lib big (auth_run sample_lib big [E_time 5, E_refresh body] db1) body) =
     go_error (al_enc sample_lib) 401 ''invalid refresh token''"
proof -
  let ?tok = "sample_sign sample_claims" and ?big = "\<lambda>_ :: string. False"
  let ?body = "refresh_body ?tok"
  have v: "ValidateToken sample_lib sample_db ?tok = Some sample_claims"
    by (simp add: ValidateToken_def sample_lib_def sample_parse_sign) (simp add: sample_db_def sample_claims_def)
  have "\<not> refreshTokenRevoked sample_db (cl_id sample_claims)"
    "find (\<lambda>u. ur_id u = cl_uid sample_claims) (db_users sample_db) = Some admin_rec"
    by (simp_all add: refreshTokenRevoked_def sample_db_def sample_claims_def admin_rec_def)
  then obtain tp where "snd (RefreshToken sample_lib ?big sample_db ?body) = go_success (al_enc sample_lib) (tokens_json tp)"
    using refresh_accepts [OF sample_jwt sample_body v] by metis
  then obtain reply where "RefreshToken sample_lib ?big sample_db ?body =
      (fst (RefreshToken sample_lib ?big sample_db ?body), Response 200 reply)"
    by (cases "RefreshToken sample_lib ?big sample_db ?body") (simp add: go_success_def go_json_def)
  from refresh_single_use [OF sample_fixed sample_body this sample_body, of "[E_time 5, E_refresh ?body]"]
  show ?thesis by (simp add: Let_def)
qed

lemma login_accepts:
  assumes "decode_two ''username'' ''password'' (decode_limited body) = Some (name, pw)"
    and "name \<noteq> []" "pw \<noteq> []" "length pw \<le> maxPasswordBytes" "length name \<le> maxUsernameBytes"
    and "find (\<lambda>u. ur_username u = name) (db_users db) = Some u" "al_verify lib pw (ur_hash u)" "ur_enabled u"
    and "GenerateTokens lib db u = (Some tp, db1)"
  shows "Login_handler lib big db body = (store_pair lib db1 tp,
    go_success (al_enc lib) (JObj [(''tokens'', tokens_json tp), (''user'', sanitizeUser u)]))"
  using assms by (simp add: Login_handler_def Let_def)

definition login_request_body :: "string \<Rightarrow> string \<Rightarrow> string" where
  "login_request_body name pw = stringify (JObj [(''username'', JStr name), (''password'', JStr pw)])"

lemma decode_login_body:
  assumes "length (login_request_body name pw) \<le> maxAuthBodyBytes"
  shows "decode_two ''username'' ''password'' (decode_limited (login_request_body name pw)) = Some (name, pw)"
proof -
  have f: "go_fold ''username'' \<noteq> go_fold ''password''" by code_simp
  have "decode_limited (login_request_body name pw) = Some [(''username'', JStr name), (''password'', JStr pw)]"
    using assms decode_stringify [of "[(''username'', JStr name), (''password'', JStr pw)]" False]
    by (simp add: decode_limited_def decode_upto_def login_request_body_def del: stringify.simps)
  with f show ?thesis by (simp add: decode_two_def decode_one_def del: go_fold.simps)
qed

definition sample_pair :: token_pair where
  "sample_pair =
     \<lparr>tp_access = sample_sign (new_claims sample_lib sample_db admin_rec 0 9),
      tp_refresh = sample_sign (new_claims sample_lib sample_db admin_rec 1 99), tp_expires = 9\<rparr>"

lemma sample_generates:
  "GenerateTokens sample_lib sample_db admin_rec = (Some sample_pair, sample_db\<lparr>db_drawn := 4\<rparr>)"
  by (simp add: GenerateTokens_def sample_pair_def)

lemma sample_fresh: "fresh_issue sample_lib sample_db"
proof -
  have d: "show_nat 3 \<noteq> ''1''" by code_simp
  have "sample_sign (new_claims sample_lib sample_db u 1 99) \<noteq> sample_sign sample_claims" for u
  proof
    assume "sample_sign (new_claims sample_lib sample_db u 1 99) = sample_sign sample_claims"
    then have "new_claims sample_lib sample_db u 1 99 = sample_claims"
      using sample_parse_sign [of 0 "new_claims sample_lib sample_db u 1 99"] sample_parse_sign [of 0 sample_claims]
      by (simp add: new_claims_def sample_claims_def)
    with d show False by (simp add: new_claims_def sample_claims_def)
  qed
  from this [symmetric] d show ?thesis by (simp add: fresh_issue_def)
qed

lemma sample_login:
  "Login_handler sample_lib big sample_db (login_request_body ''admin'' ''secret-pw'') =
     (store_pair sample_lib (sample_db\<lparr>db_drawn := 4\<rparr>) sample_pair,
      go_success (al_enc sample_lib) (JObj [(''tokens'', tokens_json sample_pair), (''user'', sanitizeUser admin_rec)]))"
proof (rule login_accepts [OF decode_login_body _ _ _ _ _ _ _ sample_generates])
  have "length (login_request_body ''admin'' ''secret-pw'') \<le> 100" by code_simp
  then show "length (login_request_body ''admin'' ''secret-pw'') \<le> maxAuthBodyBytes"
    by (simp add: maxAuthBodyBytes_def)
qed (simp_all add: maxPasswordBytes_def maxUsernameBytes_def admin_rec_def)

lemma login_then_refresh_witness:
  "let big = (\<lambda>_. False); db1 = fst (Login_handler sample_lib big sample_db (login_request_body ''admin'' ''secret-pw''))
   in \<exists>tp2. snd (RefreshToken sample_lib big (db1\<lparr>db_users := [admin_rec\<lparr>ur_enabled := False\<rparr>]\<rparr>)
       (refresh_body (tp_refresh sample_pair))) = go_success (al_enc sample_lib) (tokens_json tp2)"
proof -
  let ?big = "\<lambda>_ :: string. False" and ?b = "login_request_body ''admin'' ''secret-pw''"
  let ?db1 = "fst (Login_handler sample_lib ?big sample_db ?b)"
  let ?enc = "al_enc sample_lib"
  let ?reply = "\<lambda>tp. JObj [(''success'', JBool True),
      (''data'', JObj [(''tokens'', tokens_json tp), (''user'', sanitizeUser admin_rec)])]"
  have "Login_handler sample_lib ?big sample_db ?b = (?db1, Response 200 (?enc (?reply sample_pair)))"
    by (simp add: sample_login go_success_def go_json_def)
  from login_then_refresh [OF sample_jwt _ sample_fresh this]
  obtain tp where tp: "?enc (?reply sample_pair) = ?enc (?reply tp)"
    "\<forall>db2 body2. db_tokens db2 = db_tokens ?db1 \<and> (\<exists>v \<in> set (db_users db2). ur_id v = ur_id admin_rec) \<and>
       db_now db2 < 99 \<and> body_token body2 (tp_refresh tp) \<longrightarrow>
       (\<exists>tp2. snd (RefreshToken sample_lib ?big db2 body2) = go_success ?enc (tokens_json tp2))"
    by auto
  have "plain_json (?reply tp)" for tp by (simp add: tokens_json_def sanitizeUser_def)
  then have "?reply sample_pair = ?reply tp"
    using tp(1) json_parse_line [of "?reply sample_pair"] json_parse_line [of "?reply tp"] by simp
  then have r: "tp_refresh tp = tp_refresh sample_pair" by (simp add: tokens_json_def)
  have "length (refresh_body (tp_refresh sample_pair)) \<le> 150" by code_simp
  then have "body_token (refresh_body (tp_refresh sample_pair)) (tp_refresh tp)"
    using r body_token_refresh [of "tp_refresh sample_pair"] by (simp add: maxAuthBodyBytes_def)
  moreover have "db_now ?db1 = 0"
    by (simp add: sample_login store_pair_def storeRefreshToken_def split: option.split)
  ultimately show ?thesis
    using tp(2) [rule_format, of "?db1\<lparr>db_users := [admin_rec\<lparr>ur_enabled := False\<rparr>]\<rparr>"] by (simp add: Let_def)
qed

end
