(* ===== verification/Back_End.thy ===== *)
theory Back_End
  imports Router Sessions
begin

text \<open>
  The back end as the front end's network: the routing table with the middleware of its groups
  (\<open>internal/api/middleware/auth.go\<close>, \<open>force_password.go\<close>) around the session handlers. The
  handlers of the resources and of the other public routes are a parameter (\<open>rest\<close>); the rate
  limiter, the sign-in lock-out, the audit trail and the response headers let requests through
  unchanged here.
\<close>

subsection \<open>Middleware\<close>

text \<open>A constant JSON text of one error, as the middleware spells it.\<close>

definition error_text :: "string \<Rightarrow> string" where
  "error_text msg = stringify (JObj [(''error'', JStr msg)])"

text \<open>\<open>AuthMiddleware\<close>: the refusal, or the claims it puts into the context.\<close>

definition AuthMiddleware :: "auth_lib \<Rightarrow> auth_db \<Rightarrow> (string \<times> string) list \<Rightarrow> net_result + claims" where
  "AuthMiddleware lib db hs =
     (let header = header_get ''Authorization'' hs; parts = split_two (CHR '' '') header in
      if header = [] then Inl (http_error (error_text ''missing authorization header'') 401)
      else if length parts \<noteq> 2 \<or> go_fold (parts ! 0) \<noteq> go_fold ''bearer'' then
        Inl (http_error (error_text ''invalid authorization format'') 401)
      else (case ValidateToken lib db (parts ! 1) of
              None \<Rightarrow> Inl (http_error (error_text ''invalid or expired token'') 401)
            | Some c \<Rightarrow> Inr c))"

definition RequireRole :: "string list \<Rightarrow> claims \<Rightarrow> net_result option" where
  "RequireRole roles c =
     (if cl_role c \<in> set roles then None
      else Some (http_error (error_text ''insufficient permissions'') 403))"

definition exempt_prefixes :: "string list" where
  "exempt_prefixes =
     [''/api/v1/auth/login'', ''/api/v1/auth/change-password'', ''/api/v1/auth/2fa/'', ''/api/v1/auth/me'',
      ''/api/v1/system/status'']"

definition forced_change_text :: string where
  "forced_change_text =
     stringify (JObj [(''error'', JStr ''password change required''), (''redirect'', JStr ''/settings'')])"

definition ForcePasswordChange :: "auth_db \<Rightarrow> claims \<Rightarrow> string \<Rightarrow> net_result option" where
  "ForcePasswordChange db c path =
     (if \<exists>p \<in> set exempt_prefixes. starts_with p path then None
      else if \<exists>u \<in> set (db_users db). ur_id u = cl_uid c \<and> ur_changed u then None
      else Some (Response 403 forced_change_text))"

subsection \<open>Routing\<close>

type_synonym route_handler = "string \<Rightarrow> string \<Rightarrow> claims option \<Rightarrow> auth_db \<Rightarrow> request \<Rightarrow> auth_db \<times> net_result"

definition dispatch :: "matcher \<Rightarrow> string \<Rightarrow> string \<Rightarrow> (access \<times> string \<times> string) option" where
  "dispatch matches m path = find (\<lambda>(_, m', p). m' = m \<and> matches p path) api_routes"

definition request_body :: "request \<Rightarrow> string" where
  "request_body q = (case req_body q of None \<Rightarrow> [] | Some b \<Rightarrow> b)"

definition public_handler ::
  "auth_lib \<Rightarrow> (string \<Rightarrow> bool) \<Rightarrow> route_handler \<Rightarrow> string \<Rightarrow> string \<Rightarrow> auth_db \<Rightarrow> request \<Rightarrow> auth_db \<times> net_result" where
  "public_handler lib big rest m p db q =
     (if p = ''/api/v1/auth/login'' then Login_handler lib big db (request_body q)
      else if p = ''/api/v1/auth/refresh'' then RefreshToken lib big db (request_body q)
      else rest m p None db q)"

definition session_handler ::
  "auth_lib \<Rightarrow> (string \<Rightarrow> bool) \<Rightarrow> route_handler \<Rightarrow> string \<Rightarrow> string \<Rightarrow> claims \<Rightarrow> auth_db \<Rightarrow> request \<Rightarrow> auth_db \<times> net_result" where
  "session_handler lib big rest m p c db q =
     (if p = ''/api/v1/auth/me'' then Me_handler lib db c
      else if p = ''/api/v1/auth/change-password'' then ChangePassword_handler lib big db c (request_body q)
      else if p = ''/api/v1/auth/2fa/setup'' then Setup2FA_handler lib db c
      else if p = ''/api/v1/auth/2fa/enable'' then Enable2FA_handler lib db c (request_body q)
      else if p = ''/api/v1/auth/2fa/disable'' then Disable2FA_handler lib db c
      else if p = ''/api/v1/auth/logout'' then Logout_handler lib db (request_body q)
      else rest m p (Some c) db q)"

text \<open>The groups: public; signed in; administrators.\<close>

definition back_end ::
  "auth_lib \<Rightarrow> (string \<Rightarrow> bool) \<Rightarrow> matcher \<Rightarrow> route_handler \<Rightarrow> auth_db network" where
  "back_end lib big matches rest db q =
     (let path = url_path (req_path q) in
      case dispatch matches (req_method q) path of
        None \<Rightarrow>
          (db, if \<exists>(_, m, p) \<in> set api_routes. matches p path then Response 405 []
               else http_error ''404 page not found'' 404)
      | Some (Public, m, p) \<Rightarrow> public_handler lib big rest m p db q
      | Some (a, m, p) \<Rightarrow>
          (case AuthMiddleware lib db (req_headers q) of
             Inl r \<Rightarrow> (db, r)
           | Inr c \<Rightarrow>
               (case ForcePasswordChange db c path of
                  Some r \<Rightarrow> (db, r)
                | None \<Rightarrow>
                    (case if a = Admin_only then RequireRole [''admin''] c else None of
                       Some r \<Rightarrow> (db, r)
                     | None \<Rightarrow> session_handler lib big rest m p c db q))))"

subsection \<open>What the client's requests meet\<close>

text \<open>A token as a header can carry it.\<close>

definition header_token :: "string \<Rightarrow> bool" where
  "header_token tok \<longleftrightarrow> tok \<noteq> [] \<and> last tok \<noteq> CHR '' '' \<and> code (last tok) \<noteq> 9"

lemma trim_bearer: "header_token tok \<Longrightarrow> trim_field (''Bearer '' @ tok) = ''Bearer '' @ tok"
proof -
  assume h: "header_token tok"
  then obtain x z where tok: "tok = x @ [z]" "z \<noteq> CHR '' ''" "code z \<noteq> 9"
    by (cases tok rule: rev_cases) (auto simp: header_token_def)
  have "code CHR ''B'' \<noteq> 9" by code_simp
  with tok show ?thesis by (simp add: trim_field_def Let_def)
qed

lemma bearer_accepted:
  assumes "header_token tok" "header_get ''Authorization'' hs = trim_field (''Bearer '' @ tok)"
  shows "AuthMiddleware lib db hs =
    (case ValidateToken lib db tok of
       None \<Rightarrow> Inl (http_error (error_text ''invalid or expired token'') 401)
     | Some c \<Rightarrow> Inr c)"
proof -
  have "go_fold ''Bearer'' = go_fold ''bearer''" by code_simp
  then show ?thesis
    using assms(2) trim_bearer [OF assms(1)] by (simp add: AuthMiddleware_def Let_def split_two_def)
qed

lemma client_header:
  assumes "init_headers opts = []" "accessToken c = Some (JStr tok)" "tok \<noteq> []"
  shows "header_get ''Authorization'' (request_headers c opts) = trim_field (''Bearer '' @ tok)"
proof -
  have ne: "map ascii_upper ''Content-Type'' \<noteq> map ascii_upper ''Authorization''" by code_simp
  have "request_headers c opts = [(''Content-Type'', ''application/json''), (''Authorization'', ''Bearer '' @ tok)]"
    using assms by (simp add: request_headers_def json_headers_def obj_spread_def bearer_def js_string_def Let_def)
  then show ?thesis using ne unfolding header_get_def by (simp del: list.map)
qed

text \<open>
  C34. An account that still has its initial password is led to the settings: any call of \<open>api\<close>
  with a valid token to a route behind the sign-in, except the few that the back end exempts,
  resolves to the back end's 403 body, after one request, with the message shown and the browser
  sent to \<open>/settings\<close>; tokens and back end are as before.
\<close>

theorem first_login_redirects:
  assumes "init_headers opts = []" "accessToken c = Some (JStr tok)" "header_token tok"
    and "ValidateToken lib db tok = Some cl" "\<not> (\<exists>u \<in> set (db_users db). ur_id u = cl_uid cl \<and> ur_changed u)"
    and "dispatch matches (init_method opts) (url_path (API_BASE @ path)) = Some (a, m, p)" "a \<noteq> Public"
    and "\<not> (\<exists>x \<in> set exempt_prefixes. starts_with x (url_path (API_BASE @ path)))"
  shows "api (back_end lib big matches rest) c db path opts =
    (Inr (JObj [(''error'', JStr ''password change required''), (''redirect'', JStr ''/settings'')]),
     set_href (alert c password_alert) ''/settings'', db)"
proof -
  have auth: "AuthMiddleware lib db (request_headers c opts) = Inr cl"
    using bearer_accepted [OF assms(3) client_header [OF assms(1,2)]] assms(3,4) by (simp add: header_token_def)
  have "ForcePasswordChange db cl (url_path (API_BASE @ path)) = Some (Response 403 forced_change_text)"
    using assms(5,8) by (auto simp: ForcePasswordChange_def)
  then have "back_end lib big matches rest db (api_request path opts (request_headers c opts)) =
      (db, Response 403 forced_change_text)"
    using assms(6,7) auth by (cases a) (simp_all add: back_end_def api_request_def Let_def)
  moreover have "isPasswordChangeRequired forced_change_text"
    "res_json forced_change_text = Inr (JObj [(''error'', JStr ''password change required''), (''redirect'', JStr ''/settings'')])"
    by code_simp+
  ultimately show ?thesis by (simp add: api_def intercept_403_def Let_def)
qed

end
