(* ===== verification/Users_Server.thy ===== *)
theory Users_Server
  imports Back_End
begin

text \<open>
  The user management of the back end (\<open>internal/api/handler/users_handler.go\<close>) on the users of
  the session model, behind the router's administrator group. Tenants and the listing with its
  timestamps are left out.
\<close>

subsection \<open>Requests\<close>

text \<open>A member of type \<open>*bool\<close>: null sets the pointer to nil.\<close>

fun bool_member :: "string \<Rightarrow> (string \<times> json) list \<Rightarrow> bool option \<Rightarrow> bool option option" where
  "bool_member name [] v = Some v"
| "bool_member name ((k, j) # r) v =
     (if go_fold k = go_fold name
      then (case j of JBool b \<Rightarrow> bool_member name r (Some b) | JNull \<Rightarrow> bool_member name r None | _ \<Rightarrow> None)
      else bool_member name r v)"

definition decode_bool :: "string \<Rightarrow> (string \<times> json) list option \<Rightarrow> bool option option" where
  "decode_bool name members = (case members of None \<Rightarrow> None | Some kvs \<Rightarrow> bool_member name kvs None)"

record create_request =
  cu_username :: string
  cu_email :: string
  cu_role :: string
  cu_password :: string

definition decode_create :: "(string \<times> json) list option \<Rightarrow> create_request option" where
  "decode_create m =
     (case (decode_two ''username'' ''email'' m, decode_two ''role'' ''password'' m) of
        (Some (n, e), Some (r, p)) \<Rightarrow> Some \<lparr>cu_username = n, cu_email = e, cu_role = r, cu_password = p\<rparr>
      | _ \<Rightarrow> None)"

definition decode_update :: "(string \<times> json) list option \<Rightarrow> (string \<times> string \<times> bool option) option" where
  "decode_update m =
     (case (decode_two ''email'' ''role'' m, decode_bool ''enabled'' m) of
        (Some (e, r), Some b) \<Rightarrow> Some (e, r, b)
      | _ \<Rightarrow> None)"

definition validRole :: "string \<Rightarrow> bool" where
  "validRole role \<longleftrightarrow> role = ''admin'' \<or> role = ''operator'' \<or> role = ''viewer''"

definition valid_email :: "string \<Rightarrow> bool" where
  "valid_email e \<longleftrightarrow>
     e = [] \<or>
     (length e \<le> 254 \<and> CHR ''@'' \<in> set e \<and> CHR ''.'' \<in> set e \<and>
      (let parts = js_split ''@'' e in length parts = 2 \<and> parts ! 0 \<noteq> [] \<and> parts ! 1 \<noteq> []) \<and>
      \<not> js_includes e ''..'')"

subsection \<open>Handlers\<close>

definition enabled_admins :: "auth_db \<Rightarrow> user_rec list" where
  "enabled_admins db = filter (\<lambda>u. ur_role u = ''admin'' \<and> ur_enabled u) (db_users db)"

definition isLastEnabledAdmin :: "auth_db \<Rightarrow> bool" where
  "isLastEnabledAdmin db \<longleftrightarrow> length (enabled_admins db) \<le> 1"

text \<open>\<open>model.User\<close> as JSON, with no times set and no tenant.\<close>

definition user_json :: "user_rec \<Rightarrow> json" where
  "user_json u =
     JObj ([(''id'', JStr (ur_id u)), (''tenant_id'', JStr []), (''username'', JStr (ur_username u))] @
       (if ur_email u = [] then [] else [(''email'', JStr (ur_email u))]) @
       [(''role'', JStr (ur_role u)), (''enabled'', JBool (ur_enabled u)), (''otp_enabled'', JBool (ur_otp u)),
        (''created_at'', JStr zero_time), (''updated_at'', JStr zero_time)])"

definition go_created :: "encoder \<Rightarrow> json \<Rightarrow> net_result" where
  "go_created enc data = go_json enc 201 (JObj [(''success'', JBool True), (''data'', data)])"

definition users_Create ::
  "auth_lib \<Rightarrow> (string \<Rightarrow> bool) \<Rightarrow> auth_db \<Rightarrow> claims \<Rightarrow> string \<Rightarrow> auth_db \<times> net_result" where
  "users_Create lib big db c body =
     (let err = go_error (al_enc lib) in
      case decode_create (decode_limited body) of
        None \<Rightarrow> (db, bad_body lib big body)
      | Some req \<Rightarrow>
          let name = go_trim (cu_username req) in
          if name = [] then (db, err 400 ''username required'')
          else if \<not> validRole (cu_role req) then (db, err 400 ''role must be admin, operator or viewer'')
          else if length (cu_password req) < 8 then (db, err 400 ''password must be at least 8 characters'')
          else if maxPasswordBytes < length (cu_password req) then (db, err 400 ''password too long'')
          else if maxUsernameBytes < length name then (db, err 400 ''username too long'')
          else if \<not> valid_email (cu_email req) then (db, err 400 ''invalid email'')
          else (case al_pwhash lib (db_drawn db) (cu_password req) of
                  None \<Rightarrow> (db, err 500 ''hash failed'')
                | Some h \<Rightarrow>
                    if \<not> (\<exists>u \<in> set (db_users db). ur_id u = cl_uid c) then (db\<lparr>db_drawn := db_drawn db + 1\<rparr>, err 500 ''tenant lookup failed'')
                    else (let i = al_draw lib (db_drawn db + 1);
                              u = \<lparr>ur_id = i, ur_username = name, ur_email = cu_email req, ur_role = cu_role req,
                                   ur_hash = h, ur_otp = False, ur_secret = [], ur_enabled = True, ur_changed = False\<rparr>;
                              db1 = db\<lparr>db_drawn := db_drawn db + 2\<rparr>
                          in if \<exists>v \<in> set (db_users db). ur_username v = name \<or> ur_id v = i
                             then (db1, err 409 ''username already exists'')
                             else (db1\<lparr>db_users := db_users db @ [u]\<rparr>, go_created (al_enc lib) (user_json u)))))"

definition users_Update ::
  "auth_lib \<Rightarrow> (string \<Rightarrow> bool) \<Rightarrow> auth_db \<Rightarrow> claims \<Rightarrow> string \<Rightarrow> string \<Rightarrow> auth_db \<times> net_result" where
  "users_Update lib big db c i body =
     (let err = go_error (al_enc lib) in
      case decode_update (decode_limited body) of
        None \<Rightarrow> (db, bad_body lib big body)
      | Some (email, role, enabled) \<Rightarrow>
          if role \<noteq> [] \<and> \<not> validRole role then (db, err 400 ''role must be admin, operator or viewer'')
          else if \<not> valid_email email then (db, err 400 ''invalid email'')
          else (case find (\<lambda>u. ur_id u = i) (db_users db) of
                  None \<Rightarrow> (db, err 404 ''user not found'')
                | Some u \<Rightarrow>
                    (let newRole = (if role \<noteq> [] then role else ur_role u);
                         newEmail = (if email \<noteq> [] then email else ur_email u);
                         newEnabled = (case enabled of None \<Rightarrow> ur_enabled u | Some b \<Rightarrow> b)
                     in if cl_uid c = i \<and> \<not> newEnabled then (db, err 400 ''cannot disable your own account'')
                        else if (newRole \<noteq> ''admin'' \<or> \<not> newEnabled) \<and> ur_role u = ''admin'' \<and> ur_enabled u \<and>
                          isLastEnabledAdmin db
                        then (db, err 400 ''cannot demote or disable the last admin'')
                        else (db\<lparr>db_users := map (\<lambda>v. if ur_id v = i
                                then v\<lparr>ur_email := newEmail, ur_role := newRole, ur_enabled := newEnabled\<rparr> else v)
                                (db_users db)\<rparr>,
                              go_message (al_enc lib) ''updated''))))"

definition users_Delete :: "auth_lib \<Rightarrow> auth_db \<Rightarrow> claims \<Rightarrow> string \<Rightarrow> auth_db \<times> net_result" where
  "users_Delete lib db c i =
     (let err = go_error (al_enc lib) in
      if cl_uid c = i then (db, err 400 ''cannot delete your own account'')
      else (case find (\<lambda>u. ur_id u = i) (db_users db) of
              None \<Rightarrow> (db, err 404 ''user not found'')
            | Some u \<Rightarrow>
                if ur_role u = ''admin'' \<and> ur_enabled u \<and> isLastEnabledAdmin db
                then (db, err 400 ''cannot delete the last admin'')
                else (db\<lparr>db_users := filter (\<lambda>v. ur_id v \<noteq> i) (db_users db)\<rparr>, go_message (al_enc lib) ''deleted'')))"

definition users_ResetPassword ::
  "auth_lib \<Rightarrow> (string \<Rightarrow> bool) \<Rightarrow> auth_db \<Rightarrow> string \<Rightarrow> string \<Rightarrow> auth_db \<times> net_result" where
  "users_ResetPassword lib big db i body =
     (let err = go_error (al_enc lib) in
      case decode_one ''new_password'' (decode_limited body) of
        None \<Rightarrow> (db, bad_body lib big body)
      | Some pw \<Rightarrow>
          if length pw < 8 then (db, err 400 ''password must be at least 8 characters'')
          else if maxPasswordBytes < length pw then (db, err 400 ''password too long'')
          else if \<not> (\<exists>u \<in> set (db_users db). ur_id u = i) then (db, err 404 ''user not found'')
          else (case al_pwhash lib (db_drawn db) pw of
                  None \<Rightarrow> (db, err 500 ''hash failed'')
                | Some h \<Rightarrow>
                    (db\<lparr>db_drawn := db_drawn db + 1,
                        db_users := map (\<lambda>v. if ur_id v = i then v\<lparr>ur_hash := h, ur_changed := False\<rparr> else v)
                          (db_users db)\<rparr>,
                     go_message (al_enc lib) ''password reset'')))"

text \<open>The routes: \<open>r.PathValue("id")\<close> is the segment at the pattern's parameter.\<close>

definition path_value :: "string \<Rightarrow> string \<Rightarrow> string" where
  "path_value pat path =
     (case find (\<lambda>(p, _). p = ''{id}'') (zip (js_split ''/'' pat) (js_split ''/'' path)) of
        Some (_, x) \<Rightarrow> x
      | None \<Rightarrow> [])"

definition users_routes :: "auth_lib \<Rightarrow> (string \<Rightarrow> bool) \<Rightarrow> route_handler \<Rightarrow> route_handler" where
  "users_routes lib big rest m p caller db q =
     (case caller of
        None \<Rightarrow> rest m p caller db q
      | Some c \<Rightarrow>
          let i = path_value p (url_path (req_path q)); body = request_body q in
          if m = ''POST'' \<and> p = ''/api/v1/users'' then users_Create lib big db c body
          else if m = ''PUT'' \<and> p = ''/api/v1/users/{id}'' then users_Update lib big db c i body
          else if m = ''DELETE'' \<and> p = ''/api/v1/users/{id}'' then users_Delete lib db c i
          else if m = ''POST'' \<and> p = ''/api/v1/users/{id}/reset-password'' then users_ResetPassword lib big db i body
          else rest m p caller db q)"

subsection \<open>The last administrator\<close>

datatype users_request =
    Q_create string
  | Q_update string string
  | Q_delete string
  | Q_reset string string

fun users_serve ::
  "auth_lib \<Rightarrow> (string \<Rightarrow> bool) \<Rightarrow> claims \<times> users_request \<Rightarrow> auth_db \<Rightarrow> auth_db" where
  "users_serve lib big (c, Q_create b) db = fst (users_Create lib big db c b)"
| "users_serve lib big (c, Q_update i b) db = fst (users_Update lib big db c i b)"
| "users_serve lib big (c, Q_delete i) db = fst (users_Delete lib db c i)"
| "users_serve lib big (c, Q_reset i b) db = fst (users_ResetPassword lib big db i b)"

definition has_admin :: "auth_db \<Rightarrow> bool" where
  "has_admin db \<longleftrightarrow> enabled_admins db \<noteq> []"

definition ids_distinct :: "auth_db \<Rightarrow> bool" where
  "ids_distinct db \<longleftrightarrow> distinct (map ur_id (db_users db))"

text \<open>
  The tables' keys: accounts keep their ids under every request, a new one gets an id no other
  has.
\<close>

lemma map_ids: "(\<And>u. ur_id (f u) = ur_id u) \<Longrightarrow> map ur_id (map f us) = map ur_id us"
  by (induction us) auto

lemma serve_distinct: "ids_distinct db \<Longrightarrow> ids_distinct (users_serve lib big (c, q) db)"
proof (cases q)
  case (Q_create b)
  then show "ids_distinct db \<Longrightarrow> ?thesis"
    by (auto simp: users_Create_def Let_def ids_distinct_def split: option.split)
next
  case (Q_update i b)
  then show "ids_distinct db \<Longrightarrow> ?thesis"
    by (auto simp: users_Update_def Let_def ids_distinct_def map_ids simp del: map_map split: option.split)
next
  case (Q_delete i)
  then show "ids_distinct db \<Longrightarrow> ?thesis"
    by (auto simp: users_Delete_def Let_def ids_distinct_def distinct_map_filter split: option.split)
next
  case (Q_reset i b)
  then show "ids_distinct db \<Longrightarrow> ?thesis"
    by (auto simp: users_ResetPassword_def Let_def ids_distinct_def map_ids simp del: map_map split: option.split)
qed

lemma has_admin_iff: "has_admin db \<longleftrightarrow> (\<exists>v \<in> set (db_users db). ur_role v = ''admin'' \<and> ur_enabled v)"
  by (auto simp: has_admin_def enabled_admins_def filter_empty_conv)

text \<open>When there are two enabled administrators, one of them has another id.\<close>

lemma other_admin:
  assumes "ids_distinct db" "\<not> isLastEnabledAdmin db"
  shows "\<exists>v \<in> set (db_users db). ur_role v = ''admin'' \<and> ur_enabled v \<and> ur_id v \<noteq> i"
proof -
  let ?as = "enabled_admins db"
  have d: "distinct (map ur_id ?as)"
    using assms(1) by (simp add: ids_distinct_def enabled_admins_def distinct_map_filter)
  obtain x y r where as: "?as = x # y # r"
    using assms(2) by (cases ?as rule: remdups_adj.cases) (auto simp: isLastEnabledAdmin_def)
  then have "x \<in> set ?as" "y \<in> set ?as" "ur_id x \<noteq> ur_id y" using d by auto
  then have "\<exists>v \<in> set ?as. ur_id v \<noteq> i" by metis
  then show ?thesis by (auto simp: enabled_admins_def)
qed

lemma find_id: "find (\<lambda>u. ur_id u = i) us = Some u \<Longrightarrow> u \<in> set us \<and> ur_id u = i"
  by (auto dest: find_SomeD)

text \<open>What the handlers do to the table.\<close>

definition updated :: "string \<Rightarrow> string \<Rightarrow> string \<Rightarrow> bool \<Rightarrow> user_rec \<Rightarrow> user_rec" where
  "updated i e r n v = (if ur_id v = i then v\<lparr>ur_email := e, ur_role := r, ur_enabled := n\<rparr> else v)"

lemma update_cases:
  obtains (same) "fst (users_Update lib big db c i b) = db"
  | (changed) u e r n where "find (\<lambda>u. ur_id u = i) (db_users db) = Some u"
      "fst (users_Update lib big db c i b) = db\<lparr>db_users := map (updated i e r n) (db_users db)\<rparr>"
      "cl_uid c = i \<longrightarrow> n" "\<not> ((r \<noteq> ''admin'' \<or> \<not> n) \<and> ur_role u = ''admin'' \<and> ur_enabled u \<and> isLastEnabledAdmin db)"
proof (cases "decode_update (decode_limited b)")
  case None
  then show ?thesis by (intro same) (simp add: users_Update_def)
next
  case (Some t)
  obtain e r n where t: "t = (e, r, n)" by (cases t)
  show ?thesis
  proof (cases "find (\<lambda>u. ur_id u = i) (db_users db)")
    case None
    with Some t show ?thesis by (intro same) (simp add: users_Update_def Let_def)
  next
    case u: (Some u)
    define r' e' n' where new: "r' = (if r \<noteq> [] then r else ur_role u)" "e' = (if e \<noteq> [] then e else ur_email u)"
      "n' = (case n of None \<Rightarrow> ur_enabled u | Some b \<Rightarrow> b)"
    let ?err = "\<lambda>msg. (db, go_error (al_enc lib) 400 msg)"
    have "users_Update lib big db c i b =
       (if r \<noteq> [] \<and> \<not> validRole r then ?err ''role must be admin, operator or viewer''
        else if \<not> valid_email e then ?err ''invalid email''
        else if cl_uid c = i \<and> \<not> n' then ?err ''cannot disable your own account''
        else if (r' \<noteq> ''admin'' \<or> \<not> n') \<and> ur_role u = ''admin'' \<and> ur_enabled u \<and> isLastEnabledAdmin db
        then ?err ''cannot demote or disable the last admin''
        else (db\<lparr>db_users := map (updated i e' r' n') (db_users db)\<rparr>, go_message (al_enc lib) ''updated''))"
      unfolding users_Update_def Some t u Let_def option.case prod.case new updated_def [abs_def] by (rule refl)
    then show ?thesis
      by (cases "cl_uid c = i \<and> \<not> n'"; cases "(r' \<noteq> ''admin'' \<or> \<not> n') \<and> ur_role u = ''admin'' \<and> ur_enabled u \<and> isLastEnabledAdmin db")
        (use u in \<open>auto intro: same changed split: if_splits\<close>)
  qed
qed

lemma delete_cases:
  obtains (same) "fst (users_Delete lib db c i) = db"
  | (changed) u where "find (\<lambda>u. ur_id u = i) (db_users db) = Some u" "cl_uid c \<noteq> i"
      "fst (users_Delete lib db c i) = db\<lparr>db_users := filter (\<lambda>v. ur_id v \<noteq> i) (db_users db)\<rparr>"
      "\<not> (ur_role u = ''admin'' \<and> ur_enabled u \<and> isLastEnabledAdmin db)"
proof (cases "find (\<lambda>u. ur_id u = i) (db_users db)")
  case None
  then show ?thesis by (intro same) (simp add: users_Delete_def Let_def)
next
  case (Some u)
  show ?thesis
  proof (cases "cl_uid c = i \<or> (ur_role u = ''admin'' \<and> ur_enabled u \<and> isLastEnabledAdmin db)")
    case True
    with Some show ?thesis by (intro same) (auto simp: users_Delete_def Let_def)
  next
    case False
    with Some show ?thesis by (intro changed [of u]) (auto simp: users_Delete_def Let_def)
  qed
qed

text \<open>A creation either refuses and keeps the table, or adds one account with a new id.\<close>

definition create_outcome :: "auth_lib \<Rightarrow> auth_db \<Rightarrow> claims \<Rightarrow> create_request \<Rightarrow> auth_db \<times> net_result \<Rightarrow> bool" where
  "create_outcome lib db c req r \<longleftrightarrow>
     (db_users (fst r) = db_users db \<and> db_now (fst r) = db_now db \<and> (\<exists>st b. snd r = Response st b \<and> st \<noteq> 201)) \<or>
     (\<exists>u n. ur_role u = cu_role req \<and> ur_id u = al_draw lib (db_drawn db + 1) \<and>
        (\<forall>v \<in> set (db_users db). ur_id v \<noteq> ur_id u) \<and> (\<exists>v \<in> set (db_users db). ur_id v = cl_uid c) \<and>
        r = (db\<lparr>db_drawn := n, db_users := db_users db @ [u]\<rparr>, go_created (al_enc lib) (user_json u)))"

lemma outcome_if:
  "(P \<Longrightarrow> create_outcome lib db c req a) \<Longrightarrow> (\<not> P \<Longrightarrow> create_outcome lib db c req b) \<Longrightarrow>
   create_outcome lib db c req (if P then a else b)"
  by simp

lemma outcome_refused:
  assumes "st \<noteq> 201"
  shows "create_outcome lib db c req (db, go_error enc st msg)"
    "create_outcome lib db c req (db\<lparr>db_drawn := n\<rparr>, go_error enc st msg)"
  using assms by (simp_all add: create_outcome_def go_error_def go_json_def)

lemma create_outcomes:
  assumes "decode_create (decode_limited body) = Some req"
  shows "create_outcome lib db c req (users_Create lib big db c body)"
proof (cases "al_pwhash lib (db_drawn db) (cu_password req)")
  case None
  show ?thesis
    unfolding users_Create_def Let_def assms option.case None
    by (intro outcome_if) (simp_all add: outcome_refused)
next
  case (Some h)
  show ?thesis
    unfolding users_Create_def Let_def assms option.case Some
  proof (intro outcome_if)
    assume "\<not> \<not> (\<exists>u \<in> set (db_users db). ur_id u = cl_uid c)"
      "\<not> (\<exists>v \<in> set (db_users db). ur_username v = go_trim (cu_username req) \<or> ur_id v = al_draw lib (db_drawn db + 1))"
    then show "create_outcome lib db c req
      (db\<lparr>db_drawn := db_drawn db + 2, db_users := db_users db @
          [\<lparr>ur_id = al_draw lib (db_drawn db + 1), ur_username = go_trim (cu_username req), ur_email = cu_email req,
            ur_role = cu_role req, ur_hash = h, ur_otp = False, ur_secret = [], ur_enabled = True, ur_changed = False\<rparr>]\<rparr>,
       go_created (al_enc lib) (user_json
          \<lparr>ur_id = al_draw lib (db_drawn db + 1), ur_username = go_trim (cu_username req), ur_email = cu_email req,
            ur_role = cu_role req, ur_hash = h, ur_otp = False, ur_secret = [], ur_enabled = True, ur_changed = False\<rparr>))"
      unfolding create_outcome_def
      by (intro disjI2 exI [of _ "\<lparr>ur_id = al_draw lib (db_drawn db + 1), ur_username = go_trim (cu_username req),
            ur_email = cu_email req, ur_role = cu_role req, ur_hash = h, ur_otp = False, ur_secret = [], ur_enabled = True,
            ur_changed = False\<rparr>"] exI [of _ "db_drawn db + 2"]) auto
  qed (simp_all add: outcome_refused)
qed

lemma create_keeps: "u \<in> set (db_users db) \<Longrightarrow> u \<in> set (db_users (fst (users_Create lib big db c b)))"
  by (auto simp: users_Create_def Let_def split: option.split)

lemma reset_keeps:
  assumes "u \<in> set (db_users db)"
  shows "\<exists>v \<in> set (db_users (fst (users_ResetPassword lib big db i b))).
    ur_id v = ur_id u \<and> ur_role v = ur_role u \<and> ur_enabled v = ur_enabled u"
proof -
  have "\<exists>v \<in> set (map (\<lambda>v. if ur_id v = i then v\<lparr>ur_hash := h, ur_changed := False\<rparr> else v) (db_users db)).
      ur_id v = ur_id u \<and> ur_role v = ur_role u \<and> ur_enabled v = ur_enabled u" for h
    unfolding set_map using assms by (rule rev_image_eqI [THEN bexI [rotated]]) (rule refl, simp)
  then show ?thesis using assms
    by (auto simp: users_ResetPassword_def Let_def simp del: set_map list.set_map split: option.split)
qed

lemma same_account: "ids_distinct db \<Longrightarrow> u \<in> set (db_users db) \<Longrightarrow> v \<in> set (db_users db) \<Longrightarrow> ur_id u = ur_id v \<Longrightarrow> u = v"
  by (auto simp: ids_distinct_def distinct_map dest: inj_onD)

lemma update_admin:
  assumes "has_admin db" "ids_distinct db"
  shows "has_admin (fst (users_Update lib big db c i b))"
proof (cases rule: update_cases [of lib big db c i b])
  case (changed u e r n)
  obtain v where v: "v \<in> set (db_users db)" "ur_role v = ''admin''" "ur_enabled v"
    using assms(1) by (auto simp: has_admin_iff)
  have "\<exists>w \<in> set (db_users db). ur_role (updated i e r n w) = ''admin'' \<and> ur_enabled (updated i e r n w)"
  proof (cases "ur_id v = i \<and> (r \<noteq> ''admin'' \<or> \<not> n)")
    case True
    then have "u = v" using same_account [OF assms(2)] find_id [OF changed(1)] v(1) by simp
    with changed(4) True v have "\<not> isLastEnabledAdmin db" by blast
    from other_admin [OF assms(2) this, of i] show ?thesis by (auto simp: updated_def)
  next
    case False
    with v show ?thesis by (intro bexI [OF _ v(1)]) (auto simp: updated_def)
  qed
  with changed(2) show ?thesis by (simp add: has_admin_iff)
qed (use assms in simp)

lemma delete_admin:
  assumes "has_admin db" "ids_distinct db"
  shows "has_admin (fst (users_Delete lib db c i))"
proof (cases rule: delete_cases [of lib db c i])
  case (changed u)
  obtain v where v: "v \<in> set (db_users db)" "ur_role v = ''admin''" "ur_enabled v"
    using assms(1) by (auto simp: has_admin_iff)
  have "\<exists>w \<in> set (db_users db). ur_id w \<noteq> i \<and> ur_role w = ''admin'' \<and> ur_enabled w"
  proof (cases "ur_id v = i")
    case True
    then have "u = v" using same_account [OF assms(2)] find_id [OF changed(1)] v(1) by simp
    with changed(4) v have "\<not> isLastEnabledAdmin db" by blast
    from other_admin [OF assms(2) this, of i] show ?thesis by blast
  qed (use v in blast)
  with changed(3) show ?thesis by (auto simp: has_admin_iff)
qed (use assms in simp)

lemma serve_admin:
  assumes "has_admin db" "ids_distinct db"
  shows "has_admin (users_serve lib big (c, q) db)"
proof -
  obtain v where v: "v \<in> set (db_users db)" "ur_role v = ''admin''" "ur_enabled v"
    using assms(1) by (auto simp: has_admin_iff)
  show ?thesis
  proof (cases q)
    case (Q_create b)
    with v create_keeps [OF v(1)] show ?thesis by (auto simp: has_admin_iff)
  next
    case (Q_reset i b)
    with v reset_keeps [OF v(1), of lib big i b] show ?thesis by (auto simp: has_admin_iff)
  qed (simp_all add: update_admin delete_admin assms)
qed

text \<open>An account's own requests leave it there and enabled.\<close>

definition account_live :: "auth_db \<Rightarrow> string \<Rightarrow> bool" where
  "account_live db i \<longleftrightarrow> (\<exists>u \<in> set (db_users db). ur_id u = i \<and> ur_enabled u)"

lemma serve_own:
  assumes "account_live db (cl_uid c)"
  shows "account_live (users_serve lib big (c, q) db) (cl_uid c)"
proof -
  obtain u where u: "u \<in> set (db_users db)" "ur_id u = cl_uid c" "ur_enabled u"
    using assms by (auto simp: account_live_def)
  show ?thesis
  proof (cases q)
    case (Q_create b)
    with u create_keeps [OF u(1)] show ?thesis by (auto simp: account_live_def)
  next
    case (Q_reset i b)
    with u reset_keeps [OF u(1), of lib big i b] show ?thesis by (auto simp: account_live_def)
  next
    case (Q_delete i)
    with u show ?thesis by (cases rule: delete_cases [of lib db c i]) (auto simp: account_live_def)
  next
    case (Q_update i b)
    show ?thesis
    proof (cases rule: update_cases [of lib big db c i b])
      case same
      with u Q_update show ?thesis by (auto simp: account_live_def)
    next
      case (changed v e r n)
      have "ur_id (updated i e r n u) = cl_uid c" "ur_enabled (updated i e r n u)"
        using u changed(3) by (auto simp: updated_def)
      with u(1) changed(2) Q_update show ?thesis by (auto simp: account_live_def)
    qed
  qed
qed

text \<open>
  C3. The user management never locks itself out: whatever requests are served, in whatever
  order and from whatever accounts, an enabled administrator remains, ids stay unique, and an
  account whose own requests they were is still there and enabled.
\<close>

theorem last_admin_kept:
  assumes "has_admin db" "ids_distinct db"
  shows "has_admin (fold (users_serve lib big) reqs db) \<and> ids_distinct (fold (users_serve lib big) reqs db) \<and>
    (\<forall>i. account_live db i \<and> (\<forall>(c, q) \<in> set reqs. cl_uid c = i) \<longrightarrow>
      account_live (fold (users_serve lib big) reqs db) i)"
  using assms
proof (induction reqs arbitrary: db)
  case (Cons cq reqs)
  obtain c q where cq: "cq = (c, q)" by (cases cq)
  have "has_admin (users_serve lib big cq db)" "ids_distinct (users_serve lib big cq db)"
    using Cons.prems by (simp_all add: cq serve_admin serve_distinct)
  from Cons.IH [OF this] show ?case using serve_own [of db c lib big q] by (auto simp: cq)
qed simp

lemma last_admin_kept_witness:
  "has_admin (fold (users_serve sample_lib (\<lambda>_. False))
     [(sample_claims, Q_delete ''u1''), (sample_claims\<lparr>cl_uid := ''u9''\<rparr>, Q_delete ''u1''),
      (sample_claims, Q_update ''u1'' (stringify (JObj [(''role'', JStr ''viewer'')])))] sample_db)"
proof -
  have "has_admin sample_db" "ids_distinct sample_db" by code_simp+
  from last_admin_kept [OF this] show ?thesis by blast
qed

end
