(* ===== verification/K6.thy ===== *)
theory K6
  imports Api
begin

text \<open>
  What the load scripts under \<open>qa/\<close> use of k6: requests that never throw (a failed request
  answers with status 0 and no body), \<open>json()\<close>, which throws on what is not JSON, \<open>check\<close>,
  which records named outcomes, and WebSocket sessions. Sleeping changes nothing here. The
  server is the same kind of network the front end has.
\<close>

subsection \<open>Requests\<close>

record k6_response =
  k6_status :: int
  k6_body :: "string option"

record 'w k6 =
  k6_server :: 'w
  k6_sent :: "request list"
  k6_checks :: "(string \<times> bool) list"
  k6_rates :: "bool list"          \<comment> \<open>\<open>wsOkRate.add\<close>\<close>

definition k6_start :: "'w \<Rightarrow> 'w k6" where
  "k6_start w = \<lparr>k6_server = w, k6_sent = [], k6_checks = [], k6_rates = []\<rparr>"

type_synonym headers = "(string \<times> string) list"

definition k6_request ::
  "'w network \<Rightarrow> string \<Rightarrow> string \<Rightarrow> string option \<Rightarrow> headers \<Rightarrow> 'w k6 \<Rightarrow> k6_response \<times> 'w k6" where
  "k6_request net m url body hs s =
     (let q = \<lparr>req_method = m, req_path = url, req_headers = hs, req_body = body\<rparr>;
          (w, res) = net (k6_server s) q
      in ((case res of
             Rejected \<Rightarrow> \<lparr>k6_status = 0, k6_body = None\<rparr>
           | Response status b \<Rightarrow> \<lparr>k6_status = status, k6_body = Some b\<rparr>),
          s\<lparr>k6_server := w, k6_sent := k6_sent s @ [q]\<rparr>))"

text \<open>
  \<open>http.get\<close>, \<open>http.post\<close>, \<open>http.del\<close>. The scripts write \<open>BASE\<close> before each path; the network
  sees the path.
\<close>

definition http_get :: "'w network \<Rightarrow> string \<Rightarrow> headers \<Rightarrow> 'w k6 \<Rightarrow> k6_response \<times> 'w k6" where
  "http_get net url hs s = k6_request net ''GET'' url None hs s"

definition http_post :: "'w network \<Rightarrow> string \<Rightarrow> json \<Rightarrow> headers \<Rightarrow> 'w k6 \<Rightarrow> k6_response \<times> 'w k6" where
  "http_post net url j hs s = k6_request net ''POST'' url (Some (stringify j)) hs s"

definition http_del :: "'w network \<Rightarrow> string \<Rightarrow> headers \<Rightarrow> 'w k6 \<Rightarrow> k6_response \<times> 'w k6" where
  "http_del net url hs s = k6_request net ''DELETE'' url None hs s"

definition k6_json :: "k6_response \<Rightarrow> exn + json" where
  "k6_json r = (case k6_body r of None \<Rightarrow> Inl SyntaxError | Some b \<Rightarrow> res_json b)"

definition check :: "string \<Rightarrow> bool \<Rightarrow> 'w k6 \<Rightarrow> 'w k6" where
  "check name ok s = s\<lparr>k6_checks := k6_checks s @ [(name, ok)]\<rparr>"

text \<open>\<open>v?.k1?.k2\<close>\<close>

fun opt_path :: "jsval \<Rightarrow> string list \<Rightarrow> jsval" where
  "opt_path v [] = v"
| "opt_path v (k # ks) = (if v = None \<or> v = Some JNull then None else opt_path (opt_prop v k) ks)"

subsection \<open>WebSocket sessions\<close>

text \<open>What the server and the network do to an open session, in order; a time-out closes it.\<close>

datatype ws_event = Ws_open | Ws_message string | Ws_error | Ws_timeout

record ws_state =
  ws_open :: bool
  ws_got :: bool
  ws_closed :: bool

definition ws_start :: ws_state where
  "ws_start = \<lparr>ws_open = False, ws_got = False, ws_closed = False\<rparr>"

text \<open>\<open>ws.connect\<close> returns when the session is closed; later events are not delivered.\<close>

definition ws_connect :: "(ws_event \<Rightarrow> ws_state \<Rightarrow> ws_state) \<Rightarrow> ws_event list \<Rightarrow> ws_state" where
  "ws_connect on evs = fold (\<lambda>e s. if ws_closed s then s else on e s) evs ws_start"

text \<open>\<open>BASE.replace(/^http/, 'ws')\<close>\<close>

definition ws_base :: "string \<Rightarrow> string" where
  "ws_base base = (if starts_with ''http'' base then ''ws'' @ drop 4 base else base)"

end
