(* ===== verification/Load.thy ===== *)
theory Load
  imports K6
begin

text \<open>
  The load script \<open>qa/load/load.js\<close>: its scenarios and the functions they run. \<open>vu\<close> and
  \<open>iter\<close> are k6's \<open>__VU\<close> and \<open>__ITER\<close>.
\<close>

subsection \<open>Scenarios\<close>

record scenario =
  sc_name :: string
  sc_executor :: string
  sc_vus :: nat
  sc_seconds :: nat
  sc_start :: nat
  sc_exec :: string

definition load_scenarios :: "bool \<Rightarrow> scenario list" where
  "load_scenarios soak =
     (let main = (if soak then 120 else 30); short = (if soak then 60 else 12) in
      [\<lparr>sc_name = ''public_api'', sc_executor = ''constant-vus'', sc_vus = 50, sc_seconds = main, sc_start = 0, sc_exec = ''publicAPI''\<rparr>,
       \<lparr>sc_name = ''authed_api'', sc_executor = ''constant-vus'', sc_vus = 20, sc_seconds = main, sc_start = 5, sc_exec = ''authedAPI''\<rparr>,
       \<lparr>sc_name = ''login_stress'', sc_executor = ''constant-vus'', sc_vus = 10, sc_seconds = short, sc_start = 5, sc_exec = ''loginStress''\<rparr>,
       \<lparr>sc_name = ''user_churn'', sc_executor = ''constant-vus'', sc_vus = 3, sc_seconds = short, sc_start = 8, sc_exec = ''userChurn''\<rparr>,
       \<lparr>sc_name = ''websocket'', sc_executor = ''constant-vus'', sc_vus = 5, sc_seconds = (if soak then 60 else 15), sc_start = 10, sc_exec = ''wsTest''\<rparr>])"

definition load_thresholds :: "(string \<times> string) list" where
  "load_thresholds =
     [(''http_req_failed'', ''rate<0.01''), (''http_req_duration{scenario:public_api}'', ''p(95)<500''),
      (''http_req_duration{scenario:authed_api}'', ''p(95)<1000''),
      (''http_req_duration{scenario:login_stress}'', ''p(95)<2000'')]"

subsection \<open>Signing in\<close>

definition content_json :: headers where
  "content_json = [(''Content-Type'', ''application/json'')]"

definition credentials :: "string \<Rightarrow> string \<Rightarrow> json" where
  "credentials name pw = JObj [(''username'', JStr name), (''password'', JStr pw)]"

definition pass_required :: "string \<Rightarrow> exn + unit" where
  "pass_required pw =
     (if pw = [] then Inl (Thrown ''PASS is required: run with --env PASS=...'') else Inr ())"

definition login_failed :: "k6_response \<Rightarrow> exn" where
  "login_failed r =
     Thrown (''login failed: '' @ show_int (k6_status r) @ '' '' @
       (case k6_body r of None \<Rightarrow> ''null'' | Some b \<Rightarrow> b))"

text \<open>\<open>setup\<close>: the access token every virtual user gets.\<close>

definition load_setup :: "'w network \<Rightarrow> string \<Rightarrow> string \<Rightarrow> 'w k6 \<Rightarrow> (exn + jsval) \<times> 'w k6" where
  "load_setup net name pw s =
     (let (r, s1) = http_post net ''/api/v1/auth/login'' (credentials name pw) content_json s in
      case k6_json r of
        Inl e \<Rightarrow> (Inl e, s1)
      | Inr body \<Rightarrow>
          (let tok = opt_path (Some body) [''data'', ''tokens'', ''access_token''] in
           if truthy tok then (Inr tok, s1) else (Inl (login_failed r), s1)))"

definition authorized :: "jsval \<Rightarrow> headers" where
  "authorized tok = [(''Authorization'', bearer tok)]"

subsection \<open>What the virtual users do\<close>

definition publicAPI :: "'w network \<Rightarrow> 'w k6 \<Rightarrow> 'w k6" where
  "publicAPI net s =
     (let (r1, s1) = http_get net ''/api/v1/system/status'' [] s;
          s2 = check ''public status 200'' (k6_status r1 = 200) s1;
          (r2, s3) = http_get net ''/api/v1/system/metrics'' [] s2
      in check ''public metrics 200'' (k6_status r2 = 200) s3)"

definition authed_paths :: "string list" where
  "authed_paths = [''/api/v1/system/dashboard'', ''/api/v1/forward-rules'', ''/api/v1/users'', ''/api/v1/audit'']"

definition authedAPI :: "'w network \<Rightarrow> jsval \<Rightarrow> 'w k6 \<Rightarrow> 'w k6" where
  "authedAPI net tok s =
     fold (\<lambda>p s. let (r, s') = http_get net p (authorized tok) s
                 in check (''GET '' @ p @ '' 200'') (k6_status r = 200) s') authed_paths s"

definition loginStress :: "'w network \<Rightarrow> string \<Rightarrow> string \<Rightarrow> 'w k6 \<Rightarrow> 'w k6" where
  "loginStress net name pw s =
     (let (r, s1) = http_post net ''/api/v1/auth/login'' (credentials name pw) content_json s
      in check ''login 200'' (k6_status r = 200) s1)"

definition churn_name :: "nat \<Rightarrow> nat \<Rightarrow> string" where
  "churn_name vu iter = ''k6u'' @ show_nat vu @ ''-'' @ show_nat iter"

definition churn_user :: "nat \<Rightarrow> nat \<Rightarrow> json" where
  "churn_user vu iter =
     JObj [(''username'', JStr (churn_name vu iter)),
       (''email'', JStr (churn_name vu iter @ ''@example.com'')),
       (''role'', JStr ''viewer''), (''password'', JStr ''K6Pass123!'')]"

text \<open>\<open>userChurn\<close>; \<open>c.json().data.id\<close> may throw.\<close>

definition userChurn :: "'w network \<Rightarrow> jsval \<Rightarrow> nat \<Rightarrow> nat \<Rightarrow> 'w k6 \<Rightarrow> (exn + unit) \<times> 'w k6" where
  "userChurn net tok vu iter s =
     (let (c, s1) = http_post net ''/api/v1/users'' (churn_user vu iter) (authorized tok) s;
          s2 = check ''churn create 201'' (k6_status c = 201) s1
      in if k6_status c = 201 then
           (case k6_json c of
              Inl e \<Rightarrow> (Inl e, s2)
            | Inr j \<Rightarrow>
                (case get_path (Some j) [''data'', ''id''] of
                   Inl e \<Rightarrow> (Inl e, s2)
                 | Inr i \<Rightarrow>
                     (let (d, s3) = http_del net (''/api/v1/users/'' @ js_string i) (authorized tok) s2
                      in (Inr (), check ''churn delete 200'' (k6_status d = 200) s3))))
         else (Inr (), s2))"

text \<open>\<open>wsTest\<close>: the first message closes the session.\<close>

definition load_on_event :: "ws_event \<Rightarrow> ws_state \<Rightarrow> ws_state" where
  "load_on_event e s =
     (case e of
        Ws_message d \<Rightarrow> s\<lparr>ws_got := d \<noteq> [], ws_closed := True\<rparr>
      | Ws_timeout \<Rightarrow> s\<lparr>ws_closed := True\<rparr>
      | _ \<Rightarrow> s)"

definition load_wsTest :: "ws_event list \<Rightarrow> 'w k6 \<Rightarrow> 'w k6" where
  "load_wsTest evs s = check ''ws status message received'' (ws_got (ws_connect load_on_event evs)) s"

end
