(* ===== verification/Soak.thy ===== *)
theory Soak
  imports Load
begin

text \<open>
  The soak script \<open>qa/soak/soak.js\<close>: the plan of its stages and the functions of its three
  scenarios. \<open>secs\<close> is the number of seconds asked for (\<open>SOAK_SECONDS\<close>).
\<close>

subsection \<open>Stages\<close>

text \<open>The stages of the mixed scenario: seconds and the number of virtual users aimed at.\<close>

definition soak_stages :: "int \<Rightarrow> (int \<times> nat) list" where
  "soak_stages secs = [(60, 80), (max 60 (secs - 150), 80), (60, 200), (30, 0)]"

text \<open>The scenarios: how many virtual users for how long, from which second, running what.\<close>

datatype load_shape = Ramping "(int \<times> nat) list" | Constant nat int

definition soak_scenarios :: "int \<Rightarrow> (string \<times> load_shape \<times> int \<times> string) list" where
  "soak_scenarios secs =
     [(''mixed'', Ramping (soak_stages secs), 0, ''mixed''),
      (''websocket'', Constant 8 secs, 30, ''wsTest''),
      (''refresh_rotation'', Constant 3 secs, 30, ''refreshTest'')]"

definition soak_thresholds :: "(string \<times> string) list" where
  "soak_thresholds =
     [(''http_req_failed'', ''rate<0.001''), (''http_req_duration{scenario:mixed}'', ''p(95)<800''),
      (''ws_ok_rate'', ''rate>0.95'')]"

subsection \<open>Signing in\<close>

definition soak_setup :: "'w network \<Rightarrow> string \<Rightarrow> string \<Rightarrow> 'w k6 \<Rightarrow> (exn + jsval \<times> jsval) \<times> 'w k6" where
  "soak_setup net name pw s =
     (let (r, s1) = http_post net ''/api/v1/auth/login'' (credentials name pw) content_json s in
      case k6_json r of
        Inl e \<Rightarrow> (Inl e, s1)
      | Inr body \<Rightarrow>
          if truthy (opt_path (Some body) [''data'', ''tokens'', ''access_token''])
          then (Inr (opt_path (Some body) [''data'', ''tokens'', ''access_token''],
                     opt_path (Some body) [''data'', ''tokens'', ''refresh_token'']), s1)
          else (Inl (login_failed r), s1))"

definition authHeaders :: "jsval \<Rightarrow> headers" where
  "authHeaders token = obj_spread content_json [(''Authorization'', bearer token)]"

subsection \<open>The mixed scenario\<close>

definition soak_rule :: "nat \<Rightarrow> nat \<Rightarrow> json" where
  "soak_rule vu iter =
     JObj [(''name'', JStr (''soak-rule-'' @ show_nat vu @ ''-'' @ show_nat iter)), (''protocol'', JStr ''tcp''),
       (''listen_addr'', JStr ''127.0.0.1''), (''listen_port'', JNum (of_nat (23000 + (vu * 40 + iter) mod 1000))),
       (''target_addr'', JStr ''127.0.0.1''), (''target_port'', JNum 1), (''enabled'', JBool False)]"

definition soak_reads :: "string list" where
  "soak_reads = [''/api/v1/system/dashboard'', ''/api/v1/forward-rules'', ''/api/v1/users'', ''/api/v1/audit'']"

text \<open>The rare mutation: a rule is created, and deleted when the answer carries an id.\<close>

definition rule_churn :: "'w network \<Rightarrow> jsval \<Rightarrow> nat \<Rightarrow> nat \<Rightarrow> 'w k6 \<Rightarrow> (exn + unit) \<times> 'w k6" where
  "rule_churn net access vu iter s =
     (let (created, s1) = http_post net ''/api/v1/forward-rules'' (soak_rule vu iter) (authHeaders access) s;
          made = (k6_status created = 201 \<or> k6_status created = 200);
          s2 = check ''rule create 201'' made s1
      in if made then
           (case k6_json created of
              Inl e \<Rightarrow> (Inl e, s2)
            | Inr j \<Rightarrow>
                let i = opt_path (Some j) [''data'', ''id''] in
                if truthy i then
                  (let (del, s3) = http_del net (''/api/v1/forward-rules/'' @ js_string i) (authHeaders access) s2
                   in (Inr (), check ''rule delete 200'' (k6_status del = 200) s3))
                else (Inr (), s2))
         else (Inr (), s2))"

definition mixed :: "'w network \<Rightarrow> jsval \<Rightarrow> nat \<Rightarrow> nat \<Rightarrow> 'w k6 \<Rightarrow> (exn + unit) \<times> 'w k6" where
  "mixed net access vu iter s =
     (let (r1, s1) = http_get net ''/api/v1/system/status'' [] s;
          s2 = check ''status 200'' (k6_status r1 = 200) s1;
          (r2, s3) = http_get net ''/api/v1/system/metrics'' [] s2;
          s4 = check ''metrics 200'' (k6_status r2 = 200) s3;
          p = soak_reads ! (iter mod length soak_reads);
          (r3, s5) = http_get net p (authHeaders access) s4;
          s6 = check (''authed '' @ p @ '' 200'') (k6_status r3 = 200) s5
      in if iter mod 200 = 0 then rule_churn net access vu iter s6 else (Inr (), s6))"

subsection \<open>Refresh rotation\<close>

text \<open>Each iteration signs in afresh and uses the refresh token of that sign-in once.\<close>

definition refreshTest :: "'w network \<Rightarrow> string \<Rightarrow> string \<Rightarrow> 'w k6 \<Rightarrow> (exn + unit) \<times> 'w k6" where
  "refreshTest net name pw s =
     (let (r, s1) = http_post net ''/api/v1/auth/login'' (credentials name pw) content_json s;
          s2 = check ''rotation login 200'' (k6_status r = 200) s1
      in case k6_json r of
           Inl e \<Rightarrow> (Inl e, s2)
         | Inr j \<Rightarrow>
             let refresh = opt_path (Some j) [''data'', ''tokens'', ''refresh_token''] in
             case refresh of
               Some tok \<Rightarrow>
                 if truthy refresh then
                   (let (rr, s3) = http_post net ''/api/v1/auth/refresh'' (JObj [(''refresh_token'', tok)]) content_json s2
                    in (Inr (), check ''refresh rotation 200'' (k6_status rr = 200) s3))
                 else (Inr (), s2)
             | None \<Rightarrow> (Inr (), s2))"

subsection \<open>WebSocket\<close>

definition soak_on_event :: "ws_event \<Rightarrow> ws_state \<Rightarrow> ws_state" where
  "soak_on_event e s =
     (case e of
        Ws_open \<Rightarrow> s\<lparr>ws_open := True\<rparr>
      | Ws_message d \<Rightarrow> if d \<noteq> [] then s\<lparr>ws_got := True, ws_closed := True\<rparr> else s
      | Ws_timeout \<Rightarrow> s\<lparr>ws_closed := True\<rparr>
      | _ \<Rightarrow> s)"

definition soak_wsTest :: "ws_event list \<Rightarrow> 'w k6 \<Rightarrow> 'w k6" where
  "soak_wsTest evs s =
     (let st = ws_connect soak_on_event evs; ok = (ws_open st \<and> ws_got st);
          s1 = check ''ws opened and received status'' ok s
      in s1\<lparr>k6_rates := k6_rates s1 @ [ok]\<rparr>)"

end
