(* ===== verification/Refresh_Race.thy ===== *)
theory Refresh_Race
  imports Back_End
begin

text \<open>
  The client's refreshing (\<open>lib/api.ts\<close>) on the back end's single-use refresh tokens
  (\<open>auth_handler.go\<close>): one call alone gets a new pair and retries; two calls whose access token
  expired under them race for the one refresh token.
\<close>

subsection \<open>Routes by segments\<close>

lemma find_map_option: "find P (map f xs) = map_option f (find (\<lambda>x. P (f x)) xs)"
  by (induction xs) auto

lemma find_same: "(\<And>x. x \<in> set xs \<Longrightarrow> P x = Q x) \<Longrightarrow> find P xs = find Q xs"
  by (induction xs) auto

lemma dispatch_segs:
  assumes "chi_law matches" "segments_ok ss"
  shows "dispatch matches m (path_of (''api'' # ''v1'' # ss)) =
    map_option (\<lambda>(a, m, ps). (a, m, path_of (''api'' # ''v1'' # ps)))
      (find (\<lambda>(a, m', ps). m' = m \<and> fits_path ps ss) api_segs)"
proof -
  have r: "api_routes = map (\<lambda>(a, m, ps). (a, m, path_of (''api'' # ''v1'' # ps))) api_segs" by code_simp
  have "matches (path_of (''api'' # ''v1'' # ps)) (path_of (''api'' # ''v1'' # ss)) = fits_path ps ss"
    if "(a, m', ps) \<in> set api_segs" for a m' ps
  proof -
    have "segments_ok (''api'' # ''v1'' # ss)" using assms(2) by (simp add: segments_ok_def)
    then show ?thesis using assms(1) api_segs_ok [OF that] unfolding chi_law_def by simp
  qed
  then show ?thesis
    unfolding dispatch_def r find_map_option by (intro arg_cong [where f = "map_option _"] find_same) auto
qed

lemma refresh_route:
  assumes "chi_law matches"
  shows "dispatch matches ''POST'' ''/api/v1/auth/refresh'' = Some (Public, ''POST'', ''/api/v1/auth/refresh'')"
proof -
  have "segments_ok [''auth'', ''refresh'']" by code_simp
  moreover have "find (\<lambda>(a, m', ps). m' = ''POST'' \<and> fits_path ps [''auth'', ''refresh'']) api_segs =
      Some (Public, ''POST'', [''auth'', ''refresh''])" by code_simp
  ultimately show ?thesis
    using dispatch_segs [OF assms, of "[''auth'', ''refresh'']" "''POST''"] by (simp add: path_of_def)
qed

subsection \<open>The two requests\<close>

lemma refresh_served:
  assumes "chi_law matches"
  shows "back_end lib big matches rest db (refresh_request (Some (JStr r))) = RefreshToken lib big db (refresh_body r)"
proof -
  have "url_path (API_BASE @ ''/auth/refresh'') = ''/api/v1/auth/refresh''" by code_simp
  then show ?thesis
    using refresh_route [OF assms]
    by (simp add: back_end_def refresh_request_def public_handler_def request_body_def refresh_body_def Let_def
        del: stringify.simps)
qed

text \<open>A call behind the sign-in with an access token that is no longer valid.\<close>

definition behind_sign_in :: "matcher \<Rightarrow> string \<Rightarrow> request_init \<Rightarrow> bool" where
  "behind_sign_in matches path opts \<longleftrightarrow>
     init_headers opts = [] \<and>
     (\<exists>a m p. dispatch matches (init_method opts) (url_path (API_BASE @ path)) = Some (a, m, p) \<and> a \<noteq> Public)"

lemma expired_refused:
  assumes "behind_sign_in matches path opts" "accessToken c = Some (JStr tok)" "header_token tok"
    and "ValidateToken lib db tok = None"
  shows "back_end lib big matches rest db (api_request path opts (request_headers c opts)) =
    (db, http_error (error_text ''invalid or expired token'') 401)"
proof -
  obtain a m p where d: "dispatch matches (init_method opts) (url_path (API_BASE @ path)) = Some (a, m, p)"
    "a \<noteq> Public" "init_headers opts = []"
    using assms(1) by (auto simp: behind_sign_in_def)
  have "AuthMiddleware lib db (request_headers c opts) = Inl (http_error (error_text ''invalid or expired token'') 401)"
    using bearer_accepted [OF assms(3) client_header [OF d(3) assms(2)]] assms(3,4) by (simp add: header_token_def)
  with d show ?thesis by (cases a) (simp_all add: back_end_def api_request_def Let_def)
qed

text \<open>What the client makes of the two answers.\<close>

lemma refresh_taken:
  assumes "encodes enc"
  shows "refresh_result c (go_success enc (tokens_json tp)) =
    (True, setTokens c (Some (JStr (tp_access tp))) (Some (JStr (tp_refresh tp))))"
proof -
  let ?j = "JObj [(''success'', JBool True), (''data'', tokens_json tp)]"
  have "plain_json ?j" by (simp add: tokens_json_def)
  then have "json_parse (enc ?j) = Some ?j" using assms unfolding encodes_def by blast
  then show ?thesis
    by (simp add: refresh_result_def go_success_def go_json_def res_ok_def res_json_def tokens_json_def)
qed

lemma refresh_refused: "refresh_result c (go_error enc 401 msg) = (False, c)"
  by (simp add: refresh_result_def go_error_def go_json_def res_ok_def)

subsection \<open>Two calls\<close>

definition two :: "client \<Rightarrow> 'w \<Rightarrow> call \<Rightarrow> call \<Rightarrow> 'w sys" where
  "two c w k1 k2 = \<lparr>sys_client = c, sys_net = w, sys_calls = [k1, k2]\<rparr>"

lemma two_steps:
  "call_step c k1 = Some (c', k1') \<Longrightarrow> sys_step net (two c w k1 k2) (two c' w k1' k2)"
  "call_step c k2 = Some (c', k2') \<Longrightarrow> sys_step net (two c w k1 k2) (two c' w k1 k2')"
  "in_flight (call_phase k1) = Some (q, reply) \<Longrightarrow> net w q = (w', res) \<Longrightarrow>
     sys_step net (two c w k1 k2) (two c w' (k1\<lparr>call_phase := reply res\<rparr>) k2)"
  "in_flight (call_phase k2) = Some (q, reply) \<Longrightarrow> net w q = (w', res) \<Longrightarrow>
     sys_step net (two c w k1 k2) (two c w' k1 (k2\<lparr>call_phase := reply res\<rparr>))"
  using sys_step.resume [of 0 "two c w k1 k2" c' k1' net] sys_step.resume [of 1 "two c w k1 k2" c' k2' net]
    sys_step.serve [of 0 "two c w k1 k2" q reply net w' res] sys_step.serve [of 1 "two c w k1 k2" q reply net w' res]
  by (simp_all add: two_def)

text \<open>
  A session whose access token has just expired: the client holds an expired access token and
  a refresh token the server would still accept.
\<close>

definition expired_session :: "auth_lib \<Rightarrow> auth_db \<Rightarrow> client \<Rightarrow> string \<Rightarrow> claims \<Rightarrow> user_rec \<Rightarrow> bool" where
  "expired_session lib db c r cl u \<longleftrightarrow>
     (\<exists>tok. accessToken c = Some (JStr tok) \<and> header_token tok \<and> ValidateToken lib db tok = None) \<and>
     refreshToken c = Some (JStr r) \<and> r \<noteq> [] \<and> body_token (refresh_body r) r \<and>
     ValidateToken lib db r = Some cl \<and> \<not> refreshTokenRevoked db (cl_id cl) \<and>
     find (\<lambda>u. ur_id u = cl_uid cl) (db_users db) = Some u"

text \<open>A call that was sent, was refused, and has asked for a refresh.\<close>

definition sent :: "client \<Rightarrow> string \<Rightarrow> request_init \<Rightarrow> phase \<Rightarrow> call" where
  "sent c path opts ph = \<lparr>call_path = path, call_init = opts, call_headers = request_headers c opts, call_phase = ph\<rparr>"

lemma sent_update [simp]: "(sent c path opts ph)\<lparr>call_phase := ph'\<rparr> = sent c path opts ph'"
  by (simp add: sent_def)

lemma sent_phase [simp]: "call_phase (sent c path opts ph) = ph"
  by (simp add: sent_def)

lemma sent_steps:
  "call_step c (new_call path opts) =
     Some (c, sent c path opts (FirstSent (api_request path opts (request_headers c opts))))"
  "truthy (refreshToken c') \<Longrightarrow> call_step c' (sent c path opts (FirstReply (http_error msg 401))) =
     Some (c', sent c path opts (RefreshSent (refresh_request (refreshToken c'))))"
  "call_step c' (sent c path opts (RefreshReply res)) =
     Some (snd (refresh_result c' res), sent c path opts (Refreshed (fst (refresh_result c' res))))"
  "call_step c' (sent c path opts (Refreshed False)) =
     Some (set_href (clearTokens c') ''/login'', sent c path opts (Finished (Inl (Thrown ''Session expired''))))"
  by (simp_all add: call_step_def new_call_def sent_def Let_def http_error_def split_beta)

lemma sent_served:
  assumes "net w q = (w', res)"
  shows "sys_step net (two c w (sent c0 p opts (FirstSent q)) k) (two c w' (sent c0 p opts (FirstReply res)) k)"
    and "sys_step net (two c w k (sent c0 p opts (FirstSent q))) (two c w' k (sent c0 p opts (FirstReply res)))"
    and "sys_step net (two c w (sent c0 p opts (RefreshSent q)) k) (two c w' (sent c0 p opts (RefreshReply res)) k)"
    and "sys_step net (two c w k (sent c0 p opts (RefreshSent q))) (two c w' k (sent c0 p opts (RefreshReply res)))"
  using two_steps(3) [of "sent c0 p opts (FirstSent q)" q FirstReply net w w' res c k]
    two_steps(4) [of "sent c0 p opts (FirstSent q)" q FirstReply net w w' res c k]
    two_steps(3) [of "sent c0 p opts (RefreshSent q)" q RefreshReply net w w' res c k]
    two_steps(4) [of "sent c0 p opts (RefreshSent q)" q RefreshReply net w w' res c k] assms
  by (simp_all add: in_flight_def)

text \<open>Up to the point where both calls have asked for a refresh with the same token.\<close>

lemma both_ask:
  assumes "expired_session lib db c r cl u" "behind_sign_in matches p1 o1" "behind_sign_in matches p2 o2"
  shows "sys_reach (back_end lib big matches rest) (two c db (new_call p1 o1) (new_call p2 o2))
    (two c db (sent c p1 o1 (RefreshSent (refresh_request (Some (JStr r)))))
      (sent c p2 o2 (RefreshSent (refresh_request (Some (JStr r))))))"
proof -
  let ?net = "back_end lib big matches rest"
  let ?no = "http_error (error_text ''invalid or expired token'') 401"
  let ?q = "\<lambda>p opts. FirstSent (api_request p opts (request_headers c opts))"
  let ?ask = "RefreshSent (refresh_request (refreshToken c))"
  have no: "?net db (api_request p opts (request_headers c opts)) = (db, ?no)" if "behind_sign_in matches p opts" for p opts
    using assms(1) expired_refused [OF that] unfolding expired_session_def by blast
  have t: "truthy (refreshToken c)" "refreshToken c = Some (JStr r)"
    using assms(1) by (auto simp: expired_session_def)
  have "sys_reach ?net (two c db (new_call p1 o1) (new_call p2 o2)) (two c db (sent c p1 o1 (?q p1 o1)) (new_call p2 o2))"
    by (rule sys_more [OF sys_refl two_steps(1) [OF sent_steps(1)]])
  from sys_more [OF this two_steps(2) [OF sent_steps(1)]]
  have "sys_reach ?net (two c db (new_call p1 o1) (new_call p2 o2)) (two c db (sent c p1 o1 (?q p1 o1)) (sent c p2 o2 (?q p2 o2)))" .
  from sys_more [OF this sent_served(1) [where net = ?net, OF no [OF assms(2)]]]
  have "sys_reach ?net (two c db (new_call p1 o1) (new_call p2 o2))
      (two c db (sent c p1 o1 (FirstReply ?no)) (sent c p2 o2 (?q p2 o2)))" .
  from sys_more [OF this sent_served(2) [where net = ?net, OF no [OF assms(3)]]]
  have "sys_reach ?net (two c db (new_call p1 o1) (new_call p2 o2))
      (two c db (sent c p1 o1 (FirstReply ?no)) (sent c p2 o2 (FirstReply ?no)))" .
  from sys_more [OF this two_steps(1) [OF sent_steps(2) [OF t(1)]]]
  have "sys_reach ?net (two c db (new_call p1 o1) (new_call p2 o2))
      (two c db (sent c p1 o1 ?ask) (sent c p2 o2 (FirstReply ?no)))" .
  from sys_more [OF this two_steps(2) [OF sent_steps(2) [OF t(1)]]]
  show ?thesis using t(2) by simp
qed

text \<open>The server's side of the race: the first request is answered with a pair, the second refused.\<close>

lemma race_served:
  assumes "claims_fixed lib" "jwt_law lib" "expired_session lib db c r cl u"
  obtains db' tp where "RefreshToken lib big db (refresh_body r) = (db', go_success (al_enc lib) (tokens_json tp))"
    "RefreshToken lib big db' (refresh_body r) = (db', go_error (al_enc lib) 401 ''invalid refresh token'')"
proof -
  have h: "body_token (refresh_body r) r" "ValidateToken lib db r = Some cl"
      "\<not> refreshTokenRevoked db (cl_id cl)" "find (\<lambda>u. ur_id u = cl_uid cl) (db_users db) = Some u"
    using assms(3) by (simp_all add: expired_session_def)
  then obtain tp where "snd (RefreshToken lib big db (refresh_body r)) = go_success (al_enc lib) (tokens_json tp)"
    using refresh_accepts [OF assms(2)] by metis
  then obtain db' where ok: "RefreshToken lib big db (refresh_body r) = (db', go_success (al_enc lib) (tokens_json tp))"
    by (cases "RefreshToken lib big db (refresh_body r)") simp
  then have "spent db' (cl_id cl)"
    using h(1,2) by (intro refresh_spends) (auto simp: go_success_def go_json_def)
  moreover have "c' = cl" if "ValidateToken lib db' r = Some c'" for c'
    using assms(1) h(2) that unfolding claims_fixed_def ValidateToken_def by blast
  ultimately have "RefreshToken lib big db' (refresh_body r) = (db', go_error (al_enc lib) 401 ''invalid refresh token'')"
    by (auto simp: refresh_unfold [OF h(1)] dest: spent_revoked split: option.split)
  with ok show ?thesis by (rule that)
qed

text \<open>
  C23. Two calls at once can end a good session. From any state in which the access token has
  expired and the refresh token is one the back end accepts, two concurrent calls behind the
  sign-in have a schedule in which the back end renews the session for the first one and the
  second one, refused with the same used-up token, clears the tokens, sends the browser to
  \<open>/login\<close> and throws 'Session expired'.
\<close>

theorem refresh_race:
  assumes "chi_law matches" "claims_fixed lib" "jwt_law lib" "encodes (al_enc lib)"
    and "expired_session lib db c r cl u" "behind_sign_in matches p1 o1" "behind_sign_in matches p2 o2"
  shows "\<exists>c' db' tp k1 k2.
    RefreshToken lib big db (refresh_body r) = (db', go_success (al_enc lib) (tokens_json tp)) \<and>
    sys_reach (back_end lib big matches rest) (two c db (new_call p1 o1) (new_call p2 o2)) (two c' db' k1 k2) \<and>
    call_phase k1 = Refreshed True \<and> call_phase k2 = Finished (Inl (Thrown ''Session expired'')) \<and>
    accessToken c' = Some JNull \<and> refreshToken c' = Some JNull \<and> hrefs c' = hrefs c @ [''/login'']"
proof -
  let ?net = "back_end lib big matches rest" and ?s0 = "two c db (new_call p1 o1) (new_call p2 o2)"
  let ?q = "refresh_request (Some (JStr r))" and ?no = "go_error (al_enc lib) 401 ''invalid refresh token''"
  obtain db' tp where srv: "RefreshToken lib big db (refresh_body r) = (db', go_success (al_enc lib) (tokens_json tp))"
    "RefreshToken lib big db' (refresh_body r) = (db', ?no)"
    using race_served [OF assms(2,3,5)] by metis
  let ?ok = "go_success (al_enc lib) (tokens_json tp)"
  let ?c1 = "setTokens c (Some (JStr (tp_access tp))) (Some (JStr (tp_refresh tp)))"
  let ?k1 = "sent c p1 o1" and ?k2 = "sent c p2 o2"
  have n1: "?net db ?q = (db', ?ok)" and n2: "?net db' ?q = (db', ?no)"
    using srv by (simp_all add: refresh_served [OF assms(1)])
  from sys_more [OF both_ask [OF assms(5-7)] sent_served(3) [where net = ?net, OF n1]]
  have "sys_reach ?net ?s0 (two c db' (?k1 (RefreshReply ?ok)) (?k2 (RefreshSent ?q)))" .
  from sys_more [OF this sent_served(4) [where net = ?net, OF n2]]
  have "sys_reach ?net ?s0 (two c db' (?k1 (RefreshReply ?ok)) (?k2 (RefreshReply ?no)))" .
  from sys_more [OF this two_steps(1) [OF sent_steps(3)]]
  have "sys_reach ?net ?s0 (two ?c1 db' (?k1 (Refreshed True)) (?k2 (RefreshReply ?no)))"
    by (simp add: refresh_taken [OF assms(4)])
  from sys_more [OF this two_steps(2) [OF sent_steps(3)]]
  have "sys_reach ?net ?s0 (two ?c1 db' (?k1 (Refreshed True)) (?k2 (Refreshed False)))"
    by (simp add: refresh_refused)
  from sys_more [OF this two_steps(2) [OF sent_steps(4)]] srv(1)
  show ?thesis
    by (intro exI [of _ "set_href (clearTokens ?c1) ''/login''"] exI [of _ db'] exI [of _ tp]
        exI [of _ "?k1 (Refreshed True)"] exI [of _ "?k2 (Finished (Inl (Thrown ''Session expired'')))"] conjI)
      (simp_all add: set_href_def clearTokens_def setTokens_def)
qed

subsection \<open>One call\<close>

definition retry_headers :: "client \<Rightarrow> request_init \<Rightarrow> token_pair \<Rightarrow> (string \<times> string) list" where
  "retry_headers c opts tp = obj_set ''Authorization'' (bearer (Some (JStr (tp_access tp)))) (request_headers c opts)"

lemma retry_header:
  assumes "init_headers opts = []" "accessToken c = Some (JStr tok)" "tok \<noteq> []"
  shows "header_get ''Authorization'' (retry_headers c opts tp) = trim_field (''Bearer '' @ tp_access tp)"
proof -
  have ne: "map ascii_upper ''Content-Type'' \<noteq> map ascii_upper ''Authorization''" by code_simp
  have "retry_headers c opts tp =
      [(''Content-Type'', ''application/json''), (''Authorization'', ''Bearer '' @ tp_access tp)]"
    using assms
    by (simp add: retry_headers_def request_headers_def json_headers_def obj_spread_def bearer_def js_string_def Let_def)
  then show ?thesis using ne unfolding header_get_def by (simp del: list.map)
qed

lemma signed_access:
  assumes "jwt_law lib" "GenerateTokens lib db u = (Some tp, db1)" "db_now db2 = db_now db" "0 < al_access lib"
  shows "ValidateToken lib db2 (tp_access tp) = Some (new_claims lib db u 0 (al_access lib))"
proof -
  obtain a where "al_sign lib (new_claims lib db u 0 (al_access lib)) = Some a"
    "\<forall>n. al_parse lib n a = (if n < cl_exp (new_claims lib db u 0 (al_access lib))
       then Some (new_claims lib db u 0 (al_access lib)) else None)"
    using assms(1) unfolding jwt_law_def by blast
  with assms(2-4) show ?thesis
    by (auto simp: GenerateTokens_def ValidateToken_def new_claims_def split: option.splits)
qed

lemma pair_now [simp]: "db_now (store_pair lib db tp) = db_now db" "db_now (revokeRefreshToken db i) = db_now db"
  by (auto simp: store_pair_def storeRefreshToken_def revokeRefreshToken_def revoke_where_def split: option.split)

text \<open>
  C36. One call alone renews the session unnoticed: with an expired access token and a refresh
  token the back end accepts, a call behind the sign-in refreshes, stores the new pair and
  comes to what the back end answers to the same request under the new access token, which
  passes the sign-in check as the account's own.
\<close>

theorem lone_call_renews:
  assumes "chi_law matches" "jwt_law lib" "encodes (al_enc lib)" "0 < al_access lib"
    and "\<forall>cl tok. al_sign lib cl = Some tok \<longrightarrow> header_token tok"
    and "expired_session lib db c r cl u" "behind_sign_in matches path opts"
  shows "\<exists>db' tp. RefreshToken lib big db (refresh_body r) = (db', go_success (al_enc lib) (tokens_json tp)) \<and>
    AuthMiddleware lib db' (retry_headers c opts tp) = Inr (new_claims lib db u 0 (al_access lib)) \<and>
    api (back_end lib big matches rest) c db path opts =
      (case back_end lib big matches rest db' (api_request path opts (retry_headers c opts tp)) of (db2, res) \<Rightarrow>
        ((case res of Rejected \<Rightarrow> Inl NetworkError | Response _ body \<Rightarrow> res_json body),
         setTokens c (Some (JStr (tp_access tp))) (Some (JStr (tp_refresh tp))), db2))"
proof -
  obtain tok where h: "accessToken c = Some (JStr tok)" "header_token tok" "ValidateToken lib db tok = None"
      "refreshToken c = Some (JStr r)" "r \<noteq> []" "body_token (refresh_body r) r" "ValidateToken lib db r = Some cl"
      "\<not> refreshTokenRevoked db (cl_id cl)" "find (\<lambda>u. ur_id u = cl_uid cl) (db_users db) = Some u"
    using assms(6) unfolding expired_session_def by blast
  obtain tp where g: "GenerateTokens lib db u = (Some tp, db\<lparr>db_drawn := db_drawn db + 2\<rparr>)"
    using assms(2) by (rule generated)
  define db' where "db' = store_pair lib (revokeRefreshToken (db\<lparr>db_drawn := db_drawn db + 2\<rparr>) (cl_id cl)) tp"
  have srv: "RefreshToken lib big db (refresh_body r) = (db', go_success (al_enc lib) (tokens_json tp))"
    using h(7-9) g by (simp add: refresh_unfold [OF h(6)] db'_def)
  have "header_token (tp_access tp)"
    using assms(5) g by (auto simp: GenerateTokens_def split: option.splits)
  moreover have "ValidateToken lib db' (tp_access tp) = Some (new_claims lib db u 0 (al_access lib))"
    by (rule signed_access [OF assms(2) g _ assms(4)]) (simp add: db'_def)
  ultimately have auth: "AuthMiddleware lib db' (retry_headers c opts tp) = Inr (new_claims lib db u 0 (al_access lib))"
    using bearer_accepted [OF _ retry_header [OF _ h(1)]] assms(7) h(2)
    by (simp add: behind_sign_in_def header_token_def)
  have no: "back_end lib big matches rest db (api_request path opts (request_headers c opts)) =
      (db, http_error (error_text ''invalid or expired token'') 401)"
    by (rule expired_refused [OF assms(7) h(1-3)])
  have yes: "back_end lib big matches rest db (refresh_request (refreshToken c)) = (db', go_success (al_enc lib) (tokens_json tp))"
    using srv by (simp add: h(4) refresh_served [OF assms(1)])
  have "api (back_end lib big matches rest) c db path opts =
      (case back_end lib big matches rest db' (api_request path opts (retry_headers c opts tp)) of (db2, res) \<Rightarrow>
        ((case res of Rejected \<Rightarrow> Inl NetworkError | Response _ body \<Rightarrow> res_json body),
         setTokens c (Some (JStr (tp_access tp))) (Some (JStr (tp_refresh tp))), db2))"
    using no yes h(4,5)
    by (simp add: api_def refreshAccessToken_def http_error_def refresh_taken [OF assms(3)] Let_def setTokens_def
        retry_headers_def split: prod.split net_result.split)
  with srv auth show ?thesis by blast
qed

subsection \<open>An instance\<close>

lemma sample_header_token: "header_token (sample_sign cl)"
proof -
  have "sample_sign cl \<noteq> []" "last (sample_sign cl) = CHR '']''" by (simp_all add: sample_sign_def)
  moreover have "code (CHR '']'') \<noteq> 9" by code_simp
  ultimately show ?thesis by (simp add: header_token_def)
qed

definition stale_access :: string where
  "stale_access = sample_sign (sample_claims\<lparr>cl_id := ''j0'', cl_exp := 9\<rparr>)"

definition stale_client :: client where
  "stale_client = \<lparr>accessToken = Some (JStr stale_access), refreshToken = Some (JStr (sample_sign sample_claims)),
     local_storage = (\<lambda>_. None), alerts = [], hrefs = []\<rparr>"

definition later_db :: auth_db where
  "later_db = sample_db\<lparr>db_now := 20\<rparr>"

lemma stale_session: "expired_session sample_lib later_db stale_client (sample_sign sample_claims) sample_claims admin_rec"
  using sample_body sample_header_token
  by (auto simp: expired_session_def stale_client_def stale_access_def later_db_def ValidateToken_def sample_parse_sign
      refreshTokenRevoked_def sample_claims_def admin_rec_def header_token_def)

lemma users_behind: "behind_sign_in segment_matcher ''/users'' get_init"
proof -
  have "find (\<lambda>(a, m', ps). m' = ''GET'' \<and> fits_path ps [''users'']) api_segs = Some (Admin_only, ''GET'', [''users''])"
    "segments_ok [''users'']" "url_path (API_BASE @ ''/users'') = ''/api/v1/users''" by code_simp+
  then show ?thesis
    using dispatch_segs [OF segment_matcher_law, of "[''users'']" "''GET''"]
    by (simp add: behind_sign_in_def path_of_def) (simp add: get_init_def)
qed

lemma refresh_race_witness:
  "\<exists>s'. sys_reach (back_end sample_lib (\<lambda>_. False) segment_matcher (\<lambda>_ _ _ db _. (db, Response 200 [])))
      (two stale_client later_db (new_call ''/users'' get_init) (new_call ''/users'' get_init)) s' \<and>
    accessToken (sys_client s') = Some JNull \<and> hrefs (sys_client s') = [''/login'']"
proof -
  have "encodes (al_enc sample_lib)" by (simp add: stringify_encodes)
  from refresh_race [OF segment_matcher_law sample_fixed sample_jwt this stale_session users_behind users_behind,
      of "\<lambda>_. False" "\<lambda>_ _ _ db _. (db, Response 200 [])"]
  obtain c' db' k1 k2 where "sys_reach (back_end sample_lib (\<lambda>_. False) segment_matcher (\<lambda>_ _ _ db _. (db, Response 200 [])))
      (two stale_client later_db (new_call ''/users'' get_init) (new_call ''/users'' get_init)) (two c' db' k1 k2)"
    "accessToken c' = Some JNull" "hrefs c' = hrefs stale_client @ [''/login'']" by blast
  then show ?thesis by (intro exI [of _ "two c' db' k1 k2"]) (simp add: two_def stale_client_def)
qed

lemma lone_call_renews_witness:
  "\<exists>tp :: token_pair. fst (snd (api (back_end sample_lib (\<lambda>_. False) segment_matcher (\<lambda>_ _ _ db _. (db, Response 200 ''[]'')))
      stale_client later_db ''/users'' get_init)) =
    setTokens stale_client (Some (JStr (tp_access tp))) (Some (JStr (tp_refresh tp)))"
proof -
  have "encodes (al_enc sample_lib)" "0 < al_access sample_lib"
    "\<forall>cl tok. al_sign sample_lib cl = Some tok \<longrightarrow> header_token tok"
    by (simp_all add: stringify_encodes sample_header_token)
  from lone_call_renews [OF segment_matcher_law sample_jwt this stale_session users_behind,
      of "\<lambda>_. False" "\<lambda>_ _ _ db _. (db, Response 200 ''[]'')"]
  obtain db' and tp :: token_pair where r: "api (back_end sample_lib (\<lambda>_. False) segment_matcher (\<lambda>_ _ _ db _. (db, Response 200 ''[]'')))
      stale_client later_db ''/users'' get_init =
    (case back_end sample_lib (\<lambda>_. False) segment_matcher (\<lambda>_ _ _ db _. (db, Response 200 ''[]'')) db'
        (api_request ''/users'' get_init (retry_headers stale_client get_init tp)) of (db2, res) \<Rightarrow>
      ((case res of Rejected \<Rightarrow> Inl NetworkError | Response _ body \<Rightarrow> res_json body),
       setTokens stale_client (Some (JStr (tp_access tp))) (Some (JStr (tp_refresh tp))), db2))" by blast
  show ?thesis by (rule exI [of _ tp]) (simp add: r split: prod.split)
qed

text \<open>A new account, signed in.\<close>

definition new_db :: auth_db where
  "new_db = sample_db\<lparr>db_users := [admin_rec\<lparr>ur_changed := False\<rparr>]\<rparr>"

lemma first_login_redirects_witness:
  "hrefs (fst (snd (api (back_end sample_lib (\<lambda>_. False) segment_matcher (\<lambda>_ _ _ db _. (db, Response 200 [])))
     stale_client new_db ''/users'' get_init))) = [''/settings'']"
proof -
  obtain a m p where d: "dispatch segment_matcher (init_method get_init) (url_path (API_BASE @ ''/users'')) = Some (a, m, p)"
      "a \<noteq> Public" "init_headers get_init = []"
    using users_behind by (auto simp: behind_sign_in_def)
  have v: "ValidateToken sample_lib new_db stale_access = Some (sample_claims\<lparr>cl_id := ''j0'', cl_exp := 9\<rparr>)"
    by (simp add: ValidateToken_def stale_access_def sample_parse_sign new_db_def)
  have e: "\<not> (\<exists>x \<in> set exempt_prefixes. starts_with x (url_path (API_BASE @ ''/users'')))" by code_simp
  have t: "accessToken stale_client = Some (JStr stale_access)" by (simp add: stale_client_def)
  have n: "\<not> (\<exists>u \<in> set (db_users new_db). ur_id u = cl_uid (sample_claims\<lparr>cl_id := ''j0'', cl_exp := 9\<rparr>) \<and> ur_changed u)"
    by (simp add: new_db_def)
  have "header_token stale_access" by (simp add: stale_access_def sample_header_token)
  from first_login_redirects [OF d(3) t this v n d(1,2) e, of "\<lambda>_. False" "\<lambda>_ _ _ db _. (db, Response 200 [])"]
  show ?thesis by (simp add: set_href_def alert_def stale_client_def)
qed

end
