(* ===== verification/QA_Runs.thy ===== *)
theory QA_Runs
  imports Users_Server Soak Refresh_Race
begin

text \<open>
  The load scripts on the modelled back end: the soak script's rotation passes its checks, and
  the churn scenarios of both scripts remove what they create.
\<close>

subsection \<open>Requests of the scripts\<close>

lemma login_route:
  assumes "chi_law matches"
  shows "dispatch matches ''POST'' ''/api/v1/auth/login'' = Some (Public, ''POST'', ''/api/v1/auth/login'')"
proof -
  have "segments_ok [''auth'', ''login'']" by code_simp
  moreover have "find (\<lambda>(a, m', ps). m' = ''POST'' \<and> fits_path ps [''auth'', ''login'']) api_segs =
      Some (Public, ''POST'', [''auth'', ''login''])" by code_simp
  ultimately show ?thesis
    using dispatch_segs [OF assms, of "[''auth'', ''login'']" "''POST''"] by (simp add: path_of_def)
qed

lemma create_route:
  assumes "chi_law matches"
  shows "dispatch matches ''POST'' ''/api/v1/users'' = Some (Admin_only, ''POST'', ''/api/v1/users'')"
proof -
  have "segments_ok [''users'']" by code_simp
  moreover have "find (\<lambda>(a, m', ps). m' = ''POST'' \<and> fits_path ps [''users'']) api_segs =
      Some (Admin_only, ''POST'', [''users''])" by code_simp
  ultimately show ?thesis
    using dispatch_segs [OF assms, of "[''users'']" "''POST''"] by (simp add: path_of_def)
qed

lemma delete_route:
  assumes "chi_law matches" "plain_seg i"
  shows "dispatch matches ''DELETE'' (''/api/v1/users/'' @ i) = Some (Admin_only, ''DELETE'', ''/api/v1/users/{id}'')"
proof -
  have "segments_ok [''users'', i]" using assms(2) by (simp add: segments_ok_def plain_seg_def)
  moreover have "find (\<lambda>(a, m', ps). m' = ''DELETE'' \<and> fits_path ps [''users'', i]) api_segs =
      Some (Admin_only, ''DELETE'', [''users'', ''{id}''])"
    by (code_simp, simp)
  ultimately show ?thesis
    using dispatch_segs [OF assms(1), of "[''users'', i]" "''DELETE''"] by (simp add: path_of_def)
qed

lemma plain_urls:
  "url_path ''/api/v1/auth/login'' = ''/api/v1/auth/login''" "url_path ''/api/v1/users'' = ''/api/v1/users''"
  "url_path ''/api/v1/auth/refresh'' = ''/api/v1/auth/refresh''"
  by code_simp+

lemma item_url: "plain_seg i \<Longrightarrow> url_path (''/api/v1/users/'' @ i) = ''/api/v1/users/'' @ i"
  using url_path_segs [of "[''api'', ''v1'', ''users'', i]" "[]"] by (simp add: path_of_def plain_seg_def)

subsection \<open>The rotation passes\<close>

lemma post_login:
  assumes "chi_law matches"
  shows "http_post (back_end lib big matches rest) ''/api/v1/auth/login'' (credentials name pw) hs s =
    (case Login_handler lib big (k6_server s) (login_request_body name pw) of (db, res) \<Rightarrow>
      ((case res of Rejected \<Rightarrow> \<lparr>k6_status = 0, k6_body = None\<rparr>
        | Response status b \<Rightarrow> \<lparr>k6_status = status, k6_body = Some b\<rparr>),
       s\<lparr>k6_server := db, k6_sent := k6_sent s @ [\<lparr>req_method = ''POST'', req_path = ''/api/v1/auth/login'',
         req_headers = hs, req_body = Some (login_request_body name pw)\<rparr>]\<rparr>))"
  using login_route [OF assms]
  by (simp add: http_post_def k6_request_def back_end_def public_handler_def request_body_def login_request_body_def
      credentials_def plain_urls Let_def split: prod.split net_result.split del: stringify.simps)

lemma post_refresh:
  assumes "chi_law matches"
  shows "http_post (back_end lib big matches rest) ''/api/v1/auth/refresh'' (JObj [(''refresh_token'', JStr tok)]) hs s =
    (case RefreshToken lib big (k6_server s) (refresh_body tok) of (db, res) \<Rightarrow>
      ((case res of Rejected \<Rightarrow> \<lparr>k6_status = 0, k6_body = None\<rparr>
        | Response status b \<Rightarrow> \<lparr>k6_status = status, k6_body = Some b\<rparr>),
       s\<lparr>k6_server := db, k6_sent := k6_sent s @ [\<lparr>req_method = ''POST'', req_path = ''/api/v1/auth/refresh'',
         req_headers = hs, req_body = Some (refresh_body tok)\<rparr>]\<rparr>))"
  using refresh_route [OF assms]
  by (simp add: http_post_def k6_request_def back_end_def public_handler_def request_body_def refresh_body_def
      plain_urls Let_def split: prod.split net_result.split del: stringify.simps)

lemma pair_users [simp]: "db_users (store_pair lib db tp) = db_users db"
  by (simp add: store_pair_def storeRefreshToken_def split: option.split)

text \<open>
  The soak script's rotation holds of the back end: with the credentials of an enabled
  account, each iteration's sign-in and the refresh with its token are both answered 200, so
  both of its checks pass, whatever the state of the token table.
\<close>

theorem rotation_passes:
  assumes "chi_law matches" "jwt_law lib" "encodes (al_enc lib)" "0 < al_refresh lib"
    and "\<forall>tok. al_sign lib (new_claims lib (k6_server s) u 1 (al_refresh lib)) = Some tok \<longrightarrow>
      tok \<noteq> [] \<and> length (refresh_body tok) \<le> maxAuthBodyBytes"
    and "fresh_issue lib (k6_server s)"
    and "find (\<lambda>u. ur_username u = name) (db_users (k6_server s)) = Some u" "al_verify lib pw (ur_hash u)" "ur_enabled u"
    and "name \<noteq> []" "pw \<noteq> []" "length pw \<le> maxPasswordBytes" "length name \<le> maxUsernameBytes"
    and "length (login_request_body name pw) \<le> maxAuthBodyBytes"
  shows "\<exists>s'. refreshTest (back_end lib big matches rest) name pw s = (Inr (), s') \<and>
    k6_checks s' = k6_checks s @ [(''rotation login 200'', True), (''refresh rotation 200'', True)]"
proof -
  let ?db = "k6_server s" and ?net = "back_end lib big matches rest"
  obtain tp where g: "GenerateTokens lib ?db u = (Some tp, ?db\<lparr>db_drawn := db_drawn ?db + 2\<rparr>)"
    "al_sign lib (new_claims lib ?db u 1 (al_refresh lib)) = Some (tp_refresh tp)"
    "\<forall>n. al_parse lib n (tp_refresh tp) =
       (if n < db_now ?db + al_refresh lib then Some (new_claims lib ?db u 1 (al_refresh lib)) else None)"
    using assms(2) by (rule generated)
  let ?db1 = "store_pair lib (?db\<lparr>db_drawn := db_drawn ?db + 2\<rparr>) tp"
  let ?reply = "JObj [(''success'', JBool True), (''data'', JObj [(''tokens'', tokens_json tp), (''user'', sanitizeUser u)])]"
  have login: "Login_handler lib big ?db (login_request_body name pw) = (?db1, Response 200 (al_enc lib ?reply))"
    using login_accepts [OF decode_login_body [OF assms(14)] assms(10-13,7-9) g(1), of big]
    by (simp add: go_success_def go_json_def)
  have "plain_json ?reply" by (simp add: tokens_json_def sanitizeUser_def)
  then have parse: "res_json (al_enc lib ?reply) = Inr ?reply"
    using assms(3) by (simp add: encodes_def res_json_def)
  have tok: "tp_refresh tp \<noteq> []" "body_token (refresh_body (tp_refresh tp)) (tp_refresh tp)"
    using assms(5) g(2) body_token_refresh by blast+
  have live: "\<not> refreshTokenRevoked ?db1 (cl_id (new_claims lib ?db u 1 (al_refresh lib)))"
    using stored_pair [OF assms(2,4,6) g(1), of "?db\<lparr>db_drawn := db_drawn ?db + 2\<rparr>"] by (simp add: new_claims_def)
  have val: "ValidateToken lib ?db1 (tp_refresh tp) = Some (new_claims lib ?db u 1 (al_refresh lib))"
    using g(3) assms(4) by (simp add: ValidateToken_def)
  have "find (\<lambda>u'. ur_id u' = ur_id u) (db_users ?db) \<noteq> None"
    using find_SomeD [OF assms(7)] by (auto simp: find_None_iff)
  then obtain v where v: "find (\<lambda>u'. ur_id u' = cl_uid (new_claims lib ?db u 1 (al_refresh lib))) (db_users ?db1) = Some v"
    by (auto simp: new_claims_def)
  obtain tp2 where "snd (RefreshToken lib big ?db1 (refresh_body (tp_refresh tp))) = go_success (al_enc lib) (tokens_json tp2)"
    using refresh_accepts [OF assms(2) tok(2) val live v] by metis
  then obtain db2 b where refresh: "RefreshToken lib big ?db1 (refresh_body (tp_refresh tp)) = (db2, Response 200 b)"
    by (cases "RefreshToken lib big ?db1 (refresh_body (tp_refresh tp))") (simp add: go_success_def go_json_def)
  have read: "opt_path (Some ?reply) [''data'', ''tokens'', ''refresh_token''] = Some (JStr (tp_refresh tp))"
    by (simp add: opt_prop_def tokens_json_def)
  show ?thesis
    using login parse refresh read tok(1)
    by (simp add: refreshTest_def post_login [OF assms(1)] post_refresh [OF assms(1)] check_def k6_json_def Let_def)
qed

lemma rotation_passes_witness:
  "k6_checks (snd (refreshTest (back_end sample_lib (\<lambda>_. False) segment_matcher (\<lambda>_ _ _ db _. (db, Response 200 [])))
     ''admin'' ''secret-pw'' (k6_start sample_db))) =
   [(''rotation login 200'', True), (''refresh rotation 200'', True)]"
proof -
  let ?s = "k6_start sample_db"
  let ?tok = "sample_sign (new_claims sample_lib sample_db admin_rec 1 99)"
  have "length (refresh_body ?tok) \<le> 150" "length (login_request_body ''admin'' ''secret-pw'') \<le> 150" by code_simp+
  then have len: "length (refresh_body ?tok) \<le> maxAuthBodyBytes"
      "length (login_request_body ''admin'' ''secret-pw'') \<le> maxAuthBodyBytes"
    by (simp_all add: maxAuthBodyBytes_def)
  have tok: "\<forall>tok. al_sign sample_lib (new_claims sample_lib (k6_server ?s) admin_rec 1 (al_refresh sample_lib)) = Some tok \<longrightarrow>
      tok \<noteq> [] \<and> length (refresh_body tok) \<le> maxAuthBodyBytes"
    using len(1) sample_header_token by (simp add: k6_start_def header_token_def)
  have enc: "encodes (al_enc sample_lib)" by (simp add: stringify_encodes)
  have fresh: "fresh_issue sample_lib (k6_server ?s)" by (simp add: k6_start_def sample_fresh)
  have u: "find (\<lambda>u. ur_username u = ''admin'') (db_users (k6_server ?s)) = Some admin_rec"
    "al_verify sample_lib ''secret-pw'' (ur_hash admin_rec)" "ur_enabled admin_rec"
    by (simp_all add: k6_start_def admin_rec_def)
  have "\<exists>s'. refreshTest (back_end sample_lib (\<lambda>_. False) segment_matcher (\<lambda>_ _ _ db _. (db, Response 200 []))) ''admin''
      ''secret-pw'' ?s = (Inr (), s') \<and>
    k6_checks s' = k6_checks ?s @ [(''rotation login 200'', True), (''refresh rotation 200'', True)]"
    by (rule rotation_passes [OF segment_matcher_law sample_jwt enc _ tok fresh u _ _ _ _ len(2)])
      (simp_all add: maxPasswordBytes_def maxUsernameBytes_def)
  then show ?thesis by (auto simp: k6_start_def)
qed

subsection \<open>The churn cleans up\<close>

lemma authorized_header:
  "header_get ''Authorization'' (authorized (Some (JStr tok))) = trim_field (''Bearer '' @ tok)"
  by (simp add: header_get_def authorized_def bearer_def js_string_def)

text \<open>What an administrator's requests to the users' routes meet.\<close>

definition admin_session :: "auth_lib \<Rightarrow> auth_db \<Rightarrow> string \<Rightarrow> claims \<Rightarrow> bool" where
  "admin_session lib db tok c \<longleftrightarrow>
     header_token tok \<and> ValidateToken lib db tok = Some c \<and> cl_role c = ''admin'' \<and>
     (\<exists>u \<in> set (db_users db). ur_id u = cl_uid c \<and> ur_changed u)"

lemma admin_served:
  assumes "admin_session lib db tok c" "dispatch matches (req_method q) (url_path (req_path q)) = Some (Admin_only, m, p)"
    and "req_headers q = authorized (Some (JStr tok))"
  shows "back_end lib big matches rest db q = session_handler lib big rest m p c db q"
proof -
  have "AuthMiddleware lib db (req_headers q) = Inr c"
    using assms bearer_accepted [OF _ authorized_header] by (simp add: admin_session_def)
  moreover have "ForcePasswordChange db c path = None" for path
    using assms(1) by (auto simp: ForcePasswordChange_def admin_session_def)
  ultimately show ?thesis
    using assms(1,2) by (simp add: back_end_def Let_def RequireRole_def admin_session_def)
qed

lemma post_user:
  assumes "chi_law matches" "admin_session lib (k6_server s) tok c"
  shows "http_post (back_end lib big matches (users_routes lib big rest)) ''/api/v1/users'' j (authorized (Some (JStr tok))) s =
    (case users_Create lib big (k6_server s) c (stringify j) of (db, res) \<Rightarrow>
      ((case res of Rejected \<Rightarrow> \<lparr>k6_status = 0, k6_body = None\<rparr>
        | Response status b \<Rightarrow> \<lparr>k6_status = status, k6_body = Some b\<rparr>),
       s\<lparr>k6_server := db, k6_sent := k6_sent s @ [\<lparr>req_method = ''POST'', req_path = ''/api/v1/users'',
         req_headers = authorized (Some (JStr tok)), req_body = Some (stringify j)\<rparr>]\<rparr>))"
  using admin_served [OF assms(2), of matches "\<lparr>req_method = ''POST'', req_path = ''/api/v1/users'',
      req_headers = authorized (Some (JStr tok)), req_body = Some (stringify j)\<rparr>"] create_route [OF assms(1)]
  by (simp add: http_post_def k6_request_def session_handler_def users_routes_def request_body_def plain_urls Let_def
      split: prod.split net_result.split del: stringify.simps)

lemma item_value: "plain_seg i \<Longrightarrow> path_value ''/api/v1/users/{id}'' (''/api/v1/users/'' @ i) = i"
proof -
  assume "plain_seg i"
  then have "\<forall>x \<in> set [[], ''api'', ''v1'', ''users'', i]. CHR ''/'' \<notin> set x" by (simp add: plain_seg_def)
  then have "js_split ''/'' (''/api/v1/users/'' @ i) = [[], ''api'', ''v1'', ''users'', i]"
    using js_split_join_char [of "[[], ''api'', ''v1'', ''users'', i]" "CHR ''/''"] by simp
  moreover have "js_split ''/'' ''/api/v1/users/{id}'' = [[], ''api'', ''v1'', ''users'', ''{id}'']" by code_simp
  ultimately show ?thesis by (simp add: path_value_def)
qed

lemma delete_user:
  assumes "chi_law matches" "admin_session lib (k6_server s) tok c" "plain_seg i"
  shows "http_del (back_end lib big matches (users_routes lib big rest)) (''/api/v1/users/'' @ i) (authorized (Some (JStr tok))) s =
    (case users_Delete lib (k6_server s) c i of (db, res) \<Rightarrow>
      ((case res of Rejected \<Rightarrow> \<lparr>k6_status = 0, k6_body = None\<rparr>
        | Response status b \<Rightarrow> \<lparr>k6_status = status, k6_body = Some b\<rparr>),
       s\<lparr>k6_server := db, k6_sent := k6_sent s @ [\<lparr>req_method = ''DELETE'', req_path = ''/api/v1/users/'' @ i,
         req_headers = authorized (Some (JStr tok)), req_body = None\<rparr>]\<rparr>))"
  using admin_served [OF assms(2), of matches "\<lparr>req_method = ''DELETE'', req_path = ''/api/v1/users/'' @ i,
      req_headers = authorized (Some (JStr tok)), req_body = None\<rparr>"] delete_route [OF assms(1,3)] item_url [OF assms(3)]
    item_value [OF assms(3)]
  by (simp add: http_del_def k6_request_def session_handler_def users_routes_def request_body_def Let_def
      split: prod.split net_result.split)

lemma decode_churn:
  assumes "length (stringify (churn_user vu iter)) \<le> maxAuthBodyBytes"
  shows "decode_create (decode_limited (stringify (churn_user vu iter))) =
    Some \<lparr>cu_username = churn_name vu iter, cu_email = churn_name vu iter @ ''@example.com'', cu_role = ''viewer'',
      cu_password = ''K6Pass123!''\<rparr>"
proof -
  have f: "go_fold ''username'' \<noteq> go_fold ''email''" "go_fold ''username'' \<noteq> go_fold ''role''"
    "go_fold ''username'' \<noteq> go_fold ''password''" "go_fold ''email'' \<noteq> go_fold ''role''"
    "go_fold ''email'' \<noteq> go_fold ''password''" "go_fold ''role'' \<noteq> go_fold ''password''" by code_simp+
  obtain kvs where kvs: "churn_user vu iter = JObj kvs" "\<forall>kv \<in> set kvs. plain_json (snd kv)" "kvs \<noteq> []"
    by (simp add: churn_user_def)
  then have "decode_limited (stringify (churn_user vu iter)) = Some kvs"
    using assms decode_stringify [OF kvs(2,3), of False]
    by (simp add: decode_limited_def decode_upto_def del: stringify.simps)
  with f f [symmetric] kvs(1) show ?thesis
    by (auto simp: churn_user_def decode_create_def decode_two_def decode_one_def simp del: go_fold.simps)
qed

lemma delete_new:
  assumes "\<forall>v \<in> set us. ur_id v \<noteq> ur_id u" "\<exists>v \<in> set us. ur_id v = cl_uid c" "ur_role u \<noteq> ''admin''"
  shows "users_Delete lib (db\<lparr>db_users := us @ [u]\<rparr>) c (ur_id u) =
    (db\<lparr>db_users := us\<rparr>, go_message (al_enc lib) ''deleted'')"
proof -
  have "find (\<lambda>v. ur_id v = ur_id u) us = None" using assms(1) by (simp add: find_None_iff)
  moreover have "filter (\<lambda>v. ur_id v \<noteq> ur_id u) us = us" using assms(1) by simp
  moreover have "cl_uid c \<noteq> ur_id u" using assms(1,2) by metis
  ultimately show ?thesis using assms(3) by (simp add: users_Delete_def Let_def find_append)
qed

lemma churn_created:
  assumes "chi_law matches" "encodes (al_enc lib)" "plain_seg (ur_id u)" "admin_session lib (k6_server s) tok c"
    and "users_Create lib big (k6_server s) c (stringify (churn_user vu iter)) =
      ((k6_server s)\<lparr>db_drawn := n, db_users := db_users (k6_server s) @ [u]\<rparr>, go_created (al_enc lib) (user_json u))"
    and "\<forall>v \<in> set (db_users (k6_server s)). ur_id v \<noteq> ur_id u" "ur_role u \<noteq> ''admin''"
  shows "\<exists>s'. userChurn (back_end lib big matches (users_routes lib big rest)) (Some (JStr tok)) vu iter s = (Inr (), s') \<and>
    db_users (k6_server s') = db_users (k6_server s) \<and>
    k6_checks s' = k6_checks s @ [(''churn create 201'', True), (''churn delete 200'', True)]"
proof -
  let ?db = "k6_server s"
  define db1 where "db1 = ?db\<lparr>db_drawn := n, db_users := db_users ?db @ [u]\<rparr>"
  let ?reply = "JObj [(''success'', JBool True), (''data'', user_json u)]"
  have "plain_json ?reply" by (simp add: user_json_def)
  then have parse: "res_json (al_enc lib ?reply) = Inr ?reply"
    using assms(2) by (simp add: encodes_def res_json_def)
  have i: "get_path (Some ?reply) [''data'', ''id''] = Inr (Some (JStr (ur_id u)))"
    by (simp add: user_json_def)
  have "\<exists>v \<in> set (db_users ?db). ur_id v = cl_uid c" using assms(4) by (auto simp: admin_session_def)
  then have del: "users_Delete lib db1 c (ur_id u) = (?db\<lparr>db_drawn := n\<rparr>, go_message (al_enc lib) ''deleted'')"
    using delete_new [OF assms(6) _ assms(7), of c lib "?db\<lparr>db_drawn := n\<rparr>"] by (simp add: db1_def)
  have adm: "admin_session lib (k6_server (s\<lparr>k6_server := db1, k6_sent := q, k6_checks := r\<rparr>)) tok c" for q r
    using assms(4) by (auto simp: admin_session_def db1_def ValidateToken_def)
  show ?thesis
    using parse i
    by (simp add: userChurn_def post_user [OF assms(1,4)] assms(5) db1_def [symmetric] check_def Let_def go_created_def
        go_json_def k6_json_def delete_user [OF assms(1) adm assms(3), unfolded append_Cons append_Nil] del
        go_message_def del: get_path.simps)
qed

text \<open>
  C26. The churn of the load script leaves no account behind: with an administrator's session, an
  iteration of \<open>userChurn\<close> on the back end ends without an exception and with the table of users
  it began with, whether the creation was refused (a clash, a hash that fails) or not, and the
  deletion check passes whenever the creation check did.
\<close>

theorem churn_leaves_no_user:
  assumes "chi_law matches" "encodes (al_enc lib)" "\<forall>n. plain_seg (al_draw lib n)"
    and "admin_session lib (k6_server s) tok c"
    and "length (stringify (churn_user vu iter)) \<le> maxAuthBodyBytes"
  shows "\<exists>s' ok. userChurn (back_end lib big matches (users_routes lib big rest)) (Some (JStr tok)) vu iter s = (Inr (), s') \<and>
    db_users (k6_server s') = db_users (k6_server s) \<and>
    k6_checks s' = k6_checks s @ (''churn create 201'', ok) # (if ok then [(''churn delete 200'', True)] else [])"
proof -
  let ?db = "k6_server s" and ?net = "back_end lib big matches (users_routes lib big rest)"
  let ?body = "stringify (churn_user vu iter)"
  obtain db1 res where cr: "users_Create lib big ?db c ?body = (db1, res)" by fastforce
  note out = create_outcomes [OF decode_churn [OF assms(5)], of lib ?db c big, unfolded cr create_outcome_def fst_conv snd_conv]
  show ?thesis
  proof (cases "\<exists>st b. res = Response st b \<and> st \<noteq> 201 \<and> db_users db1 = db_users ?db")
    case True
    then obtain st b where "res = Response st b" "st \<noteq> 201" "db_users db1 = db_users ?db" by blast
    then show ?thesis
      by (simp add: userChurn_def post_user [OF assms(1,4)] cr check_def Let_def) (rule exI [of _ False], simp)
  next
    case False
    with out obtain u n where "ur_role u = ''viewer''" "ur_id u = al_draw lib (db_drawn ?db + 1)"
      "\<forall>v \<in> set (db_users ?db). ur_id v \<noteq> ur_id u"
      "users_Create lib big ?db c ?body =
        (?db\<lparr>db_drawn := n, db_users := db_users ?db @ [u]\<rparr>, go_created (al_enc lib) (user_json u))"
      by (auto simp: cr)
    with churn_created [OF assms(1,2) _ assms(4), of u big vu iter n rest] assms(3) show ?thesis by fastforce
  qed
qed

lemma churn_leaves_no_user_witness:
  "\<exists>s'. userChurn (back_end sample_lib (\<lambda>_. False) segment_matcher
       (users_routes sample_lib (\<lambda>_. False) (\<lambda>_ _ _ db _. (db, Response 200 []))))
     (Some (JStr (sample_sign sample_claims))) 1 0 (k6_start sample_db) = (Inr (), s') \<and>
   db_users (k6_server s') = [admin_rec]"
proof -
  have "length (stringify (churn_user 1 0)) \<le> 150" by code_simp
  then have len: "length (stringify (churn_user 1 0)) \<le> maxAuthBodyBytes" by (simp add: maxAuthBodyBytes_def)
  have enc: "encodes (al_enc sample_lib)" by (simp add: stringify_encodes)
  have "\<not> is_digit (CHR ''/'')" "\<not> is_digit (CHR ''?'')" by code_simp+
  then have "CHR ''/'' \<notin> set (show_nat n)" "CHR ''?'' \<notin> set (show_nat n)" for n
    using show_nat_digits [of n] by metis+
  then have ids: "\<forall>n. plain_seg (al_draw sample_lib n)" by (auto simp: plain_seg_def)
  have adm: "admin_session sample_lib (k6_server (k6_start sample_db)) (sample_sign sample_claims) sample_claims"
    by (simp add: admin_session_def k6_start_def sample_header_token ValidateToken_def sample_parse_sign
        sample_claims_def admin_rec_def)
  from churn_leaves_no_user [OF segment_matcher_law enc ids adm len, of "\<lambda>_. False" "\<lambda>_ _ _ db _. (db, Response 200 [])"]
  show ?thesis by (auto simp: k6_start_def)
qed

end
