(* ===== verification/Dashboard.thy ===== *)
theory Dashboard
  imports App Utils Types
begin

text \<open>
  \<open>web/src/pages/Dashboard.tsx\<close>: the overview page, with two polled queries and the status
  messages of a web socket. Counts of bytes and seconds are integers here, as the back end
  sends them. The page has no controls; what can happen to it is that the socket opens,
  closes or delivers a message.
\<close>

definition modules :: "(string \<times> string) list" where
  "modules =
     [(''forward_rules'', ''Port Forwarding''), (''proxy_rules'', ''Reverse Proxy''), (''ddns_configs'', ''DDNS''),
      (''stun_tunnels'', ''STUN Tunnels''), (''wol_devices'', ''WOL Devices''), (''cron_jobs'', ''Cron Jobs''),
      (''acme_certificates'', ''Certificates''), (''storage_mounts'', ''Storage'')]"

text \<open>The page's own interfaces: \<open>ModuleCounts\<close>, \<open>DashboardData\<close>, \<open>WSStatus\<close>.\<close>

definition ModuleCounts_ty :: ty where
  "ModuleCounts_ty = TObject
     [(''forward_rules'', True, TNumber), (''proxy_rules'', True, TNumber), (''ddns_configs'', True, TNumber),
      (''stun_tunnels'', True, TNumber), (''wol_devices'', True, TNumber), (''cron_jobs'', True, TNumber),
      (''acme_certificates'', True, TNumber), (''storage_mounts'', True, TNumber)]"

definition mount_ty :: ty where
  "mount_ty = TObject [(''name'', True, TString), (''enabled'', True, TBoolean), (''source'', True, TString)]"

definition DashboardData_ty :: ty where
  "DashboardData_ty = TObject
     [(''system'', True, SystemStatus_ty), (''modules'', True, ModuleCounts_ty), (''storage_mounts'', True, TArray mount_ty)]"

definition ws_system_ty :: ty where
  "ws_system_ty = TObject
     [(''uptime'', True, TNumber), (''cpu_count'', True, TNumber), (''goroutines'', True, TNumber),
      (''memory_mb'', True, TNumber), (''version'', True, TString)]"

definition ws_forward_ty :: ty where
  "ws_forward_ty = TObject
     [(''id'', True, TString), (''name'', True, TString), (''active'', True, TBoolean),
      (''connections'', True, TNumber), (''bytes_in'', True, TNumber), (''bytes_out'', True, TNumber)]"

definition ws_stun_ty :: ty where
  "ws_stun_ty = TObject
     [(''nat_type'', True, TNumber), (''mapped_ip'', True, TString), (''mapped_port'', True, TNumber),
      (''servers'', True, TNumber)]"

definition WSStatus_ty :: ty where
  "WSStatus_ty = TObject
     [(''system'', True, ws_system_ty), (''forward'', True, TArray ws_forward_ty), (''stun'', False, ws_stun_ty)]"

record dash_state =
  ds_wsStatus :: jsval
  ds_wsConnected :: bool

definition dash_init :: dash_state where
  "dash_init = \<lparr>ds_wsStatus = Some JNull, ds_wsConnected = False\<rparr>"

definition ws_url :: "string \<Rightarrow> string \<Rightarrow> string" where
  "ws_url protocol host = (if protocol = ''https:'' then ''wss:'' else ''ws:'') @ ''//'' @ host @ ''/api/v1/ws''"

definition on_open :: "dash_state \<Rightarrow> dash_state" where
  "on_open s = s\<lparr>ds_wsConnected := True\<rparr>"

definition on_close :: "dash_state \<Rightarrow> dash_state" where
  "on_close s = s\<lparr>ds_wsConnected := False\<rparr>"

text \<open>A message: whatever throws on the way is caught and leaves the state as it was.\<close>

definition on_message :: "string \<Rightarrow> dash_state \<Rightarrow> dash_state" where
  "on_message txt s =
     (case json_parse txt of
        None \<Rightarrow> s
      | Some msg \<Rightarrow>
          (case get_prop (Some msg) ''type'' of
             Inl _ \<Rightarrow> s
           | Inr ty \<Rightarrow>
               let payload = opt_prop (Some msg) ''payload'' in
               if ty = Some (JStr ''status'') \<and> truthy payload then
                 (case payload of
                    Some (JStr inner) \<Rightarrow>
                      (case json_parse inner of None \<Rightarrow> s | Some j \<Rightarrow> s\<lparr>ds_wsStatus := Some j\<rparr>)
                  | _ \<Rightarrow> s\<lparr>ds_wsStatus := payload\<rparr>)
               else s))"

text \<open>What the page reads: the two queries' answers.\<close>

record dash_env =
  de_lang :: lang
  de_status :: jsval
  de_dashboard :: jsval

definition dtr :: "dash_env \<Rightarrow> string \<Rightarrow> string" where
  "dtr e k = t (de_lang e) k []"

definition dash_sign :: jsval where
  "dash_sign = Some (JStr [CHR 0xE2, CHR 0x80, CHR 0x94])"

definition dash_sys :: "dash_env \<Rightarrow> dash_state \<Rightarrow> jsval" where
  "dash_sys e s = coalesce (opt_prop (de_status e) ''data'') (opt_prop (ds_wsStatus s) ''system'')"

definition dash_mods :: "dash_env \<Rightarrow> jsval" where
  "dash_mods e = opt_prop (opt_prop (de_dashboard e) ''data'') ''modules''"

definition module_card :: "dash_env \<Rightarrow> string \<times> string \<Rightarrow> 'a node" where
  "module_card e kl =
     Card []
       [CardHeader [] [CardTitle [] [Txt (dtr e (snd kl))]],
        CardContent []
          [box (child (if truthy (dash_mods e) then opt_prop (dash_mods e) (fst kl) else dash_sign))]]"

definition natLabels :: "dash_env \<Rightarrow> rat \<Rightarrow> string option" where
  "natLabels e n = map_of
     [(0, dtr e ''Unknown''), (1, dtr e ''Open''), (2, dtr e ''Full Cone''), (3, dtr e ''Restricted Cone''),
      (4, dtr e ''Port Restricted''), (5, dtr e ''Symmetric'')] n"

definition nat_type_text :: "dash_env \<Rightarrow> jsval \<Rightarrow> string" where
  "nat_type_text e v =
     (case (case v of Some (JNum n) \<Rightarrow> natLabels e n | _ \<Rightarrow> None) of
        Some l \<Rightarrow> l
      | None \<Rightarrow> t (de_lang e) ''Type {n}'' [(''n'', js_string v)])"

definition live_badge :: "dash_env \<Rightarrow> dash_state \<Rightarrow> string \<Rightarrow> 'a node" where
  "live_badge e s off =
     Badge [Attr ''variant'' (if ds_wsConnected s then ''success'' else ''warning'')]
       [Txt (if ds_wsConnected s then dtr e ''Live'' else dtr e off)]"

definition fact_box :: "string \<Rightarrow> 'a node list \<Rightarrow> 'a node" where
  "fact_box label value = box [span [Txt label], box value]"

definition stun_card :: "dash_env \<Rightarrow> dash_state \<Rightarrow> jsval \<Rightarrow> 'a node" where
  "stun_card e s stun =
     Card []
       [CardHeader [] [CardTitle [] [Txt (dtr e ''STUN Topology'')], live_badge e s ''Polling''],
        CardContent [] [box
          [fact_box (dtr e ''NAT Type'') [Txt (nat_type_text e (opt_prop stun ''nat_type''))],
           fact_box (dtr e ''Public IP'') (child (js_or (opt_prop stun ''mapped_ip'') dash_sign)),
           fact_box (dtr e ''Mapped Port'') (child (js_or (opt_prop stun ''mapped_port'') dash_sign)),
           fact_box (dtr e ''STUN Servers'') (child (js_or (opt_prop stun ''servers'') dash_sign))]]]"

definition mount_card :: "dash_env \<Rightarrow> json \<Rightarrow> 'a node" where
  "mount_card e m =
     Card [] [CardContent []
       [box [para (child (field m ''name'')),
             Badge [Attr ''variant'' (if truthy (field m ''enabled'') then ''success'' else ''secondary'')]
               [Txt (if truthy (field m ''enabled'') then dtr e ''Mounted'' else dtr e ''Off'')]],
        para (child (field m ''source''))]]"

text \<open>\<open>f.name || f.id.slice(0, 8)\<close> on ASCII ids; \<open>slice\<close> of what is not a string throws.\<close>

definition forward_title :: "json \<Rightarrow> 'a node list" where
  "forward_title f =
     (if truthy (field f ''name'') then child (field f ''name'')
      else case field f ''id'' of Some (JStr i) \<Rightarrow> [Txt (take 8 i)] | _ \<Rightarrow> [Broken])"

text \<open>\<open>formatBytes(v)\<close>; of what is not a number it makes \<open>NaN undefined\<close>.\<close>

definition bytes_text :: "jsval \<Rightarrow> string" where
  "bytes_text v = (case v of Some (JNum r) \<Rightarrow> formatBytes \<lfloor>r\<rfloor> | _ \<Rightarrow> ''NaN undefined'')"

definition connection_card :: "dash_env \<Rightarrow> json \<Rightarrow> 'a node" where
  "connection_card e f =
     Card [] [CardContent []
       [para (forward_title f),
        box [box [span [Txt (dtr e ''Connections'')], span (child (field f ''connections''))],
             box [span [Txt (dtr e ''In'')], span [Txt (bytes_text (field f ''bytes_in''))]],
             box [span [Txt (dtr e ''Out'')], span [Txt (bytes_text (field f ''bytes_out''))]]]]]"

text \<open>\<open>{v && v.length > 0 && <Card>...v.map(f)</Card>}\<close> for a list \<open>v\<close>.\<close>

definition nonempty_list :: "jsval \<Rightarrow> (json list \<Rightarrow> 'a node) \<Rightarrow> 'a node list" where
  "nonempty_list v f = show_if (elements v \<noteq> []) (f (elements v))"

definition storage_card :: "dash_env \<Rightarrow> json list \<Rightarrow> 'a node" where
  "storage_card e ms =
     Card []
       [CardHeader [] [CardTitle [] [Txt '' '', Txt (dtr e ''Storage Mounts'')]],
        CardContent [] [box (map_rows (Some (JArr ms)) (mount_card e))]]"

definition connections_card :: "dash_env \<Rightarrow> dash_state \<Rightarrow> json list \<Rightarrow> 'a node" where
  "connections_card e s fs =
     Card []
       [CardHeader [] [CardTitle [] [Txt (dtr e ''Active Forward Connections'')], live_badge e s ''Connecting...''],
        CardContent [] [box (map_rows (Some (JArr fs)) (connection_card e))]]"

definition uptime_text :: "jsval \<Rightarrow> string" where
  "uptime_text sys = formatUptime (case opt_prop sys ''uptime'' of Some (JNum r) \<Rightarrow> \<lfloor>r\<rfloor> | _ \<Rightarrow> 0)"

definition system_card :: "dash_env \<Rightarrow> jsval \<Rightarrow> 'a node" where
  "system_card e sys =
     Card []
       [CardHeader [] [CardTitle [] [Txt (dtr e ''System Information'')]],
        CardContent [] [box
          [box [span [Txt (dtr e ''Uptime:'')], Txt '' '', span [Txt (uptime_text sys)]],
           box [span [Txt (dtr e ''Version:'')], Txt '' '', span [Txt (js_string (coalesce (opt_prop sys ''version'') dash_sign))]],
           box [span [Txt (dtr e ''Goroutines:'')], Txt '' '', span [Txt (js_string (coalesce (opt_prop sys ''goroutines'') dash_sign))]],
           box [span [Txt (dtr e ''Memory:'')], Txt '' '', span (child (coalesce (opt_prop sys ''memory_mb'') dash_sign) @ [Txt '' MB''])]]]]"

definition Dashboard :: "dash_env \<Rightarrow> dash_state \<Rightarrow> 'a node" where
  "Dashboard e s =
     PageLayout (dtr e ''Dashboard'') (dtr e ''Real-time overview of all network services'') []
       ([box (map (module_card e) modules)] @
        show_if (truthy (opt_prop (ds_wsStatus s) ''stun'')) (stun_card e s (opt_prop (ds_wsStatus s) ''stun'')) @
        nonempty_list (opt_prop (opt_prop (de_dashboard e) ''data'') ''storage_mounts'') (storage_card e) @
        nonempty_list (opt_prop (ds_wsStatus s) ''forward'') (connections_card e s) @
        show_if (truthy (dash_sys e s)) (system_card e (dash_sys e s)))"

subsection \<open>Properties of the dashboard\<close>

definition status_message :: "json \<Rightarrow> json" where
  "status_message payload = JObj [(''type'', JStr ''status''), (''payload'', payload)]"

text \<open>
  The dashboard takes a status message in either of the two forms a payload can have: sent
  as an object or as the text of that object, the status becomes that object; and no message
  changes whether the page counts as connected, nor can one that is not JSON, or not a status
  message, change anything.
\<close>

theorem ws_status_forms:
  assumes "plain_json (JObj kvs)"
  shows "on_message (stringify (status_message (JObj kvs))) s = s\<lparr>ds_wsStatus := Some (JObj kvs)\<rparr> \<and>
    on_message (stringify (status_message (JStr (stringify (JObj kvs))))) s = s\<lparr>ds_wsStatus := Some (JObj kvs)\<rparr> \<and>
    ds_wsConnected (on_message txt s) = ds_wsConnected s \<and>
    (json_parse txt = None \<longrightarrow> on_message txt s = s) \<and>
    (\<forall>msg. json_parse txt = Some msg \<longrightarrow> opt_prop (Some msg) ''type'' \<noteq> Some (JStr ''status'') \<longrightarrow> on_message txt s = s)"
proof (intro conjI)
  have parse: "json_parse (stringify j) = Some j" if "plain_json j" for j
    using that by (rule json_codec.dec_enc)
  have inner: "json_parse (stringify (JObj kvs)) = Some (JObj kvs)" by (rule parse [OF assms])
  have "json_parse (stringify (status_message (JObj kvs))) = Some (status_message (JObj kvs))"
    by (rule parse) (use assms in \<open>simp add: status_message_def\<close>)
  then show "on_message (stringify (status_message (JObj kvs))) s = s\<lparr>ds_wsStatus := Some (JObj kvs)\<rparr>"
    by (simp add: on_message_def status_message_def opt_prop_def Let_def)
  have "json_parse (stringify (status_message (JStr (stringify (JObj kvs))))) =
      Some (status_message (JStr (stringify (JObj kvs))))"
    by (rule parse) (simp add: status_message_def)
  then show "on_message (stringify (status_message (JStr (stringify (JObj kvs))))) s =
      s\<lparr>ds_wsStatus := Some (JObj kvs)\<rparr>"
    using inner by (simp add: on_message_def status_message_def opt_prop_def Let_def)
  show "ds_wsConnected (on_message txt s) = ds_wsConnected s"
    by (simp add: on_message_def Let_def split: option.split sum.split json.split)
  show "json_parse txt = None \<longrightarrow> on_message txt s = s" by (simp add: on_message_def)
  show "\<forall>msg. json_parse txt = Some msg \<longrightarrow> opt_prop (Some msg) ''type'' \<noteq> Some (JStr ''status'') \<longrightarrow> on_message txt s = s"
    by (auto simp: on_message_def opt_prop_def Let_def split: sum.split)
qed

lemma ws_status_forms_witness:
  "on_message (stringify (status_message (JObj [(''forward'', JArr [])]))) dash_init =
     \<lparr>ds_wsStatus = Some (JObj [(''forward'', JArr [])]), ds_wsConnected = False\<rparr>"
  using ws_status_forms [of "[(''forward'', JArr [])]" dash_init] by (simp add: dash_init_def)

end
