(* ===== verification/Status_Hub.thy ===== *)
theory Status_Hub
  imports Rendering Dashboard Go_Lib
begin

text \<open>
  What the back end tells the dashboard: the status messages of the web socket hub
  (\<open>internal/api/websocket/hub.go\<close>) and the two polled answers
  (\<open>internal/api/handler/system_handler.go\<close>). The facts about the process, the engine's rules
  and the tables are arguments; Go writes a map's members in the order of their names.
\<close>

subsection \<open>Messages and answers\<close>

record process =
  pr_uptime :: nat
  pr_cpus :: nat
  pr_goroutines :: nat
  pr_alloc :: nat
  pr_version :: string
  pr_hostname :: string
  pr_go :: string
  pr_os :: string
  pr_arch :: string

definition memory_mb :: "process \<Rightarrow> nat" where
  "memory_mb p = pr_alloc p div 1024 div 1024"

definition num :: "nat \<Rightarrow> json" where
  "num n = JNum (of_nat n)"

record rule_status =
  rs_id :: string
  rs_active :: bool
  rs_connections :: int
  rs_in :: nat
  rs_out :: nat

definition SystemPayload :: "process \<Rightarrow> json" where
  "SystemPayload p =
     JObj [(''uptime'', num (pr_uptime p)), (''cpu_count'', num (pr_cpus p)), (''goroutines'', num (pr_goroutines p)),
       (''memory_mb'', num (memory_mb p)), (''version'', JStr (pr_version p))]"

text \<open>A rule's name is looked up in the table; without a row it stays empty.\<close>

definition rule_name :: "(string \<rightharpoonup> string) \<Rightarrow> string \<Rightarrow> string" where
  "rule_name names i = (case names i of None \<Rightarrow> [] | Some n \<Rightarrow> n)"

definition ForwardStatus :: "(string \<rightharpoonup> string) \<Rightarrow> rule_status \<Rightarrow> json" where
  "ForwardStatus names r =
     JObj [(''id'', JStr (rs_id r)), (''name'', JStr (rule_name names (rs_id r))), (''active'', JBool (rs_active r)),
       (''connections'', JNum (of_int (rs_connections r))), (''bytes_in'', num (rs_in r)), (''bytes_out'', num (rs_out r))]"

definition status_payload :: "process \<Rightarrow> (string \<rightharpoonup> string) \<Rightarrow> rule_status list \<Rightarrow> json" where
  "status_payload p names stats =
     JObj [(''forward'', JArr (map (ForwardStatus names) stats)), (''system'', SystemPayload p)]"

definition buildStatus :: "process \<Rightarrow> (string \<rightharpoonup> string) \<Rightarrow> rule_status list \<Rightarrow> json" where
  "buildStatus p names stats = JObj [(''type'', JStr ''status''), (''payload'', status_payload p names stats)]"

definition System_Status :: "process \<Rightarrow> json" where
  "System_Status p =
     JObj [(''arch'', JStr (pr_arch p)), (''cpu_count'', num (pr_cpus p)), (''go_version'', JStr (pr_go p)),
       (''goroutines'', num (pr_goroutines p)), (''hostname'', JStr (pr_hostname p)), (''memory_mb'', num (memory_mb p)),
       (''os'', JStr (pr_os p)), (''uptime'', num (pr_uptime p)), (''version'', JStr (pr_version p))]"

definition Status_answer :: "process \<Rightarrow> json" where
  "Status_answer p = JObj [(''success'', JBool True), (''data'', System_Status p)]"

text \<open>The dashboard's answer: the number of rows of each table, and the mounts that are enabled.\<close>

definition counted_tables :: "string list" where
  "counted_tables =
     [''acme_certificates'', ''cron_jobs'', ''ddns_configs'', ''forward_rules'', ''proxy_rules'', ''storage_mounts'',
      ''stun_tunnels'', ''wol_devices'']"

definition table_counts :: "(string \<Rightarrow> nat) \<Rightarrow> json" where
  "table_counts rows = JObj (map (\<lambda>n. (n, num (rows n))) counted_tables)"

definition mount_json :: "string \<times> bool \<times> string \<Rightarrow> json" where
  "mount_json = (\<lambda>(name, enabled, source).
     JObj [(''enabled'', JBool enabled), (''name'', JStr name), (''source'', JStr source)])"

definition Dashboard_answer :: "process \<Rightarrow> (string \<Rightarrow> nat) \<Rightarrow> (string \<times> bool \<times> string) list \<Rightarrow> json" where
  "Dashboard_answer p rows mounts =
     JObj [(''data'', JObj
        [(''goroutines'', num (pr_goroutines p)), (''memory_mb'', num (memory_mb p)), (''modules'', table_counts rows),
         (''storage_mounts'', JArr (map mount_json (filter (\<lambda>(_, enabled, _). enabled) mounts))),
         (''uptime'', num (pr_uptime p)), (''version'', JStr (pr_version p))]),
       (''success'', JBool True)]"

subsection \<open>Rendering typed data\<close>

text \<open>Elements whose named fields render.\<close>

definition shown_rows :: "string list \<Rightarrow> jsval \<Rightarrow> bool" where
  "shown_rows ks v \<longleftrightarrow> (\<forall>x \<in> set (elements v). x \<noteq> JNull \<and> (\<forall>k \<in> set ks. primitive (field x k)))"

declare conforms.simps [simp del]

lemma primitive_or [simp]: "primitive v \<Longrightarrow> primitive (js_or v dash_sign)"
  by (simp add: js_or_def dash_sign_def primitive_def)

lemma primitive_coalesce [simp]: "primitive v \<Longrightarrow> primitive (coalesce v dash_sign)"
  by (auto simp: coalesce_def dash_sign_def primitive_def split: option.split json.split)

lemma sound_rows: "(\<And>x. x \<in> set xs \<Longrightarrow> x \<noteq> JNull \<and> \<not> has_broken (f x)) \<Longrightarrow> sound (map_rows (Some (JArr xs)) f)"
  by (auto simp: map_rows_def sound_def list_ex_iff)

lemma forward_title_sound:
  assumes "\<exists>i. field f ''id'' = Some (JStr i)" "primitive (field f ''name'')"
  shows "sound (forward_title f)"
  using assms by (auto simp: forward_title_def)

lemma dashboard_sound:
  assumes "\<And>k. truthy (dash_mods e) \<Longrightarrow> k \<in> fst ` set modules \<Longrightarrow> primitive (opt_prop (dash_mods e) k)"
    and "shown_rows [''name'', ''source''] (opt_prop (opt_prop (de_dashboard e) ''data'') ''storage_mounts'')"
    and "shown_rows [''name'', ''connections''] (opt_prop (ds_wsStatus s) ''forward'')"
    and "\<forall>x \<in> set (elements (opt_prop (ds_wsStatus s) ''forward'')). \<exists>i. field x ''id'' = Some (JStr i)"
    and "\<And>k. k \<in> {''mapped_ip'', ''mapped_port'', ''servers''} \<Longrightarrow> primitive (opt_prop (opt_prop (ds_wsStatus s) ''stun'') k)"
    and "primitive (opt_prop (dash_sys e s) ''memory_mb'')"
  shows "\<not> has_broken (Dashboard e s)"
proof -
  have sign: "primitive dash_sign" by (simp add: primitive_def dash_sign_def)
  have "\<not> has_broken (module_card e kl)" if "kl \<in> set modules" for kl
    using assms(1) that sign by (force simp: module_card_def ui_sound)
  moreover have "\<not> has_broken (storage_card e (elements (opt_prop (opt_prop (de_dashboard e) ''data'') ''storage_mounts'')))"
    using assms(2) by (auto simp: storage_card_def ui_sound mount_card_def shown_rows_def intro!: sound_rows)
  moreover have "\<not> has_broken (connections_card e s (elements (opt_prop (ds_wsStatus s) ''forward'')))"
    using assms(3,4)
    by (auto simp: connections_card_def ui_sound connection_card_def live_badge_def shown_rows_def
        intro!: sound_rows forward_title_sound)
  moreover have "\<not> has_broken (stun_card e s (opt_prop (ds_wsStatus s) ''stun''))"
    using assms(5) by (simp add: stun_card_def ui_sound live_badge_def fact_box_def)
  moreover have "\<not> has_broken (system_card e (dash_sys e s))"
    using assms(6) by (simp add: system_card_def ui_sound)
  ultimately show ?thesis by (auto simp: Dashboard_def nonempty_list_def ui_sound)
qed

text \<open>Typed values: their fields are there and of their types.\<close>

definition typed_answer :: "ty \<Rightarrow> jsval \<Rightarrow> bool" where
  "typed_answer ty v \<longleftrightarrow> v = None \<or> (\<exists>j. v = Some j \<and> conforms (APIResponse_ty ty) j)"

lemma typed_answer_data:
  assumes "typed_answer ty v"
  shows "opt_prop v ''data'' = None \<or> (\<exists>x. opt_prop v ''data'' = Some x \<and> conforms ty x)"
  using assms answer_data by (auto simp: typed_answer_def opt_prop_def)

lemma opt_prop_none [simp]: "opt_prop None k = None" "opt_prop (Some JNull) k = None"
  by (simp_all add: opt_prop_def)

lemma member_of_object:
  assumes "conforms (TObject fs) u" "(k, True, ty) \<in> set fs"
  obtains x where "opt_prop (Some u) k = Some x" "conforms ty x"
  using field_of_object [OF assms] by (auto simp: field_def)

lemma optional_member:
  assumes "conforms (TObject fs) u" "(k, False, ty) \<in> set fs"
  shows "opt_prop (Some u) k = None \<or> (\<exists>x. opt_prop (Some u) k = Some x \<and> conforms ty x)"
  using assms by (cases u) (fastforce simp: conforms.simps opt_prop_def split: option.splits)+

lemma primitive_member:
  assumes "conforms (TObject fs) u" "(k, True, ty) \<in> set fs" "ty = TNumber \<or> ty = TString"
  shows "primitive (opt_prop (Some u) k)"
proof -
  obtain x where "opt_prop (Some u) k = Some x" "conforms ty x" using member_of_object [OF assms(1,2)] by blast
  with assms(3) show ?thesis by (auto simp: primitive_def conforms.simps split: json.splits)
qed

lemma shown_typed_rows:
  assumes "conforms (TArray (TObject fs)) v" "\<forall>k \<in> set ks. (k, True, TNumber) \<in> set fs \<or> (k, True, TString) \<in> set fs"
  shows "shown_rows ks (Some v)"
proof -
  obtain xs where xs: "v = JArr xs" "\<forall>x \<in> set xs. conforms (TObject fs) x" using array_elements [OF assms(1)] by blast
  then show ?thesis
    using assms(2) primitive_member conforms_not_null by (fastforce simp: shown_rows_def elements_def field_def)
qed

lemmas dashboard_types = DashboardData_ty_def ModuleCounts_ty_def mount_ty_def WSStatus_ty_def ws_system_ty_def
  ws_forward_ty_def ws_stun_ty_def SystemStatus_ty_def

text \<open>The status a typed message sets.\<close>

definition typed_status :: "jsval \<Rightarrow> bool" where
  "typed_status v \<longleftrightarrow> v = Some JNull \<or> (\<exists>j. v = Some j \<and> conforms WSStatus_ty j)"

lemma typed_status_forward:
  assumes "typed_status v"
  shows "shown_rows [''name'', ''connections''] (opt_prop v ''forward'')"
    "\<forall>x \<in> set (elements (opt_prop v ''forward'')). \<exists>i. field x ''id'' = Some (JStr i)"
proof -
  consider "opt_prop v ''forward'' = None" | y where "opt_prop v ''forward'' = Some y" "conforms (TArray ws_forward_ty) y"
    using assms unfolding typed_status_def WSStatus_ty_def by (auto elim: member_of_object)
  then have "shown_rows [''name'', ''connections''] (opt_prop v ''forward'') \<and>
      (\<forall>x \<in> set (elements (opt_prop v ''forward'')). \<exists>i. field x ''id'' = Some (JStr i))"
  proof cases
    case (2 y)
    have "\<exists>i. field x ''id'' = Some (JStr i)" if c: "conforms ws_forward_ty x" for x
    proof -
      obtain z where "field x ''id'' = Some z" "conforms TString z"
        using field_of_object [OF c [unfolded ws_forward_ty_def], of "''id''" TString] by auto
      then show ?thesis by (auto simp: conforms.simps split: json.splits)
    qed
    with array_elements [OF 2(2)] 2(1) show ?thesis
      using shown_typed_rows [OF 2(2) [unfolded ws_forward_ty_def]] by (auto simp: elements_def)
  qed (simp add: shown_rows_def elements_def)
  then show "shown_rows [''name'', ''connections''] (opt_prop v ''forward'')"
    "\<forall>x \<in> set (elements (opt_prop v ''forward'')). \<exists>i. field x ''id'' = Some (JStr i)" by simp_all
qed

lemma typed_status_stun:
  assumes "typed_status v" "k \<in> {''mapped_ip'', ''mapped_port'', ''servers''}"
  shows "primitive (opt_prop (opt_prop v ''stun'') k)"
proof (cases "opt_prop v ''stun''")
  case None
  then show ?thesis by (simp add: primitive_def)
next
  case (Some x)
  then have "conforms ws_stun_ty x"
    using assms(1) optional_member by (fastforce simp: typed_status_def WSStatus_ty_def)
  then show ?thesis
    using Some assms(2) primitive_member [OF \<open>conforms ws_stun_ty x\<close> [unfolded ws_stun_ty_def], of k TNumber]
      primitive_member [OF \<open>conforms ws_stun_ty x\<close> [unfolded ws_stun_ty_def], of k TString] by auto
qed

lemma typed_sys_memory:
  assumes "typed_answer SystemStatus_ty (de_status e)" "typed_status (ds_wsStatus s)"
  shows "primitive (opt_prop (dash_sys e s) ''memory_mb'')"
proof -
  have n: "primitive (opt_prop v k)" if "v = None \<or> v = Some JNull" for v k
    using that by (auto simp: primitive_def)
  have ws: "primitive (opt_prop (opt_prop (ds_wsStatus s) ''system'') ''memory_mb'')"
  proof (cases "ds_wsStatus s = Some JNull")
    case False
    with assms(2) obtain j where j: "ds_wsStatus s = Some j" "conforms WSStatus_ty j" by (auto simp: typed_status_def)
    obtain x where x: "opt_prop (Some j) ''system'' = Some x" "conforms ws_system_ty x"
      using member_of_object [OF j(2) [unfolded WSStatus_ty_def], of "''system''" ws_system_ty] by auto
    then show ?thesis
      using primitive_member [OF x(2) [unfolded ws_system_ty_def], of "''memory_mb''" TNumber] j(1) by simp
  qed (simp add: primitive_def)
  from typed_answer_data [OF assms(1)] show ?thesis
  proof
    assume "\<exists>x. opt_prop (de_status e) ''data'' = Some x \<and> conforms SystemStatus_ty x"
    then obtain x where x: "opt_prop (de_status e) ''data'' = Some x" "conforms SystemStatus_ty x" by blast
    then have "x \<noteq> JNull" using conforms_not_null by (auto simp: SystemStatus_ty_def)
    then show ?thesis
      using primitive_member [OF x(2) [unfolded SystemStatus_ty_def], of "''memory_mb''" TNumber] x(1)
      by (simp add: dash_sys_def coalesce_def)
  qed (simp add: dash_sys_def coalesce_def ws)
qed

text \<open>
  The dashboard renders whatever a well-typed back end sends it: before any answer and after
  answers of the declared types (or without data), with no status message or one of the declared
  type, with or without its optional part, no expression of the page throws.
\<close>

theorem dashboard_renders:
  assumes "typed_answer SystemStatus_ty (de_status e)" "typed_answer DashboardData_ty (de_dashboard e)"
    and "typed_status (ds_wsStatus s)"
  shows "\<not> has_broken (Dashboard e s)"
proof (rule dashboard_sound)
  let ?d = "opt_prop (de_dashboard e) ''data''"
  have d: "?d = None \<or> (\<exists>x. ?d = Some x \<and> conforms DashboardData_ty x)" by (rule typed_answer_data [OF assms(2)])
  show "primitive (opt_prop (dash_mods e) k)" if "k \<in> fst ` set modules" for k
  proof (cases "?d = None")
    case False
    with d obtain x where x: "?d = Some x" "conforms DashboardData_ty x" by blast
    then obtain y where y: "opt_prop (Some x) ''modules'' = Some y" "conforms ModuleCounts_ty y"
      using member_of_object [OF x(2) [unfolded DashboardData_ty_def], of "''modules''" ModuleCounts_ty] by auto
    have "(k, True, TNumber) \<in> set [(''forward_rules'', True, TNumber), (''proxy_rules'', True, TNumber),
        (''ddns_configs'', True, TNumber), (''stun_tunnels'', True, TNumber), (''wol_devices'', True, TNumber),
        (''cron_jobs'', True, TNumber), (''acme_certificates'', True, TNumber), (''storage_mounts'', True, TNumber)]"
      using that by (auto simp: modules_def)
    with y(2) have "primitive (opt_prop (Some y) k)"
      unfolding ModuleCounts_ty_def using primitive_member by blast
    with x(1) y(1) show ?thesis by (simp add: dash_mods_def)
  qed (simp add: dash_mods_def primitive_def)
  show "shown_rows [''name'', ''source''] (opt_prop ?d ''storage_mounts'')"
  proof (cases "?d = None")
    case False
    with d obtain x where x: "?d = Some x" "conforms DashboardData_ty x" by blast
    then obtain y where y: "opt_prop (Some x) ''storage_mounts'' = Some y" "conforms (TArray mount_ty) y"
      using member_of_object [OF x(2) [unfolded DashboardData_ty_def], of "''storage_mounts''" "TArray mount_ty"] by auto
    with x(1) shown_typed_rows [OF y(2) [unfolded mount_ty_def], of "[''name'', ''source'']"] show ?thesis by simp
  qed (simp add: shown_rows_def elements_def)
qed (use assms typed_status_forward typed_status_stun typed_sys_memory in auto)

subsection \<open>What the back end sends is shown\<close>

lemma plain_num [simp]: "plain_json (num n)"
  by (simp add: num_def)

lemma plain_ForwardStatus [simp]: "plain_json (ForwardStatus names r)"
  by (simp add: ForwardStatus_def)

lemma plain_answers [simp]:
  "plain_json (buildStatus p names stats)" "plain_json (Status_answer p)" "plain_json (Dashboard_answer p rows mounts)"
  by (auto simp: buildStatus_def status_payload_def SystemPayload_def Status_answer_def System_Status_def
      Dashboard_answer_def table_counts_def counted_tables_def mount_json_def)

lemma encoded [simp]: "encodes enc \<Longrightarrow> plain_json j \<Longrightarrow> json_parse (enc j) = Some j"
  by (simp add: encodes_def)








subsection \<open>Instances\<close>

definition sample_process :: process where
  "sample_process =
     \<lparr>pr_uptime = 9, pr_cpus = 4, pr_goroutines = 3, pr_alloc = 0, pr_version = ''1.0'', pr_hostname = ''nb'',
      pr_go = ''go1'', pr_os = ''linux'', pr_arch = ''amd64''\<rparr>"

lemma dashboard_renders_witness:
  "\<not> has_broken (Dashboard \<lparr>de_lang = En, de_status = Some (Status_answer sample_process), de_dashboard = None\<rparr>
     \<lparr>ds_wsStatus = Some (status_payload sample_process (\<lambda>_. None) []), ds_wsConnected = True\<rparr>)"
proof (rule dashboard_renders)
  have "conforms (APIResponse_ty SystemStatus_ty) (Status_answer sample_process)"
    by (simp add: APIResponse_ty_def SystemStatus_ty_def Status_answer_def System_Status_def num_def conforms.simps)
  then show "typed_answer SystemStatus_ty (de_status \<lparr>de_lang = En, de_status = Some (Status_answer sample_process),
      de_dashboard = None\<rparr>)" by (simp add: typed_answer_def)
  have "conforms WSStatus_ty (status_payload sample_process (\<lambda>_. None) [])"
    by (simp add: WSStatus_ty_def ws_system_ty_def status_payload_def SystemPayload_def num_def conforms.simps)
  then show "typed_status (ds_wsStatus \<lparr>ds_wsStatus = Some (status_payload sample_process (\<lambda>_. None) []), ds_wsConnected = True\<rparr>)"
    by (simp add: typed_status_def)
qed (simp add: typed_answer_def)


end
