(* ===== verification/Audit_Server.thy ===== *)
theory Audit_Server
  imports Audit_Page Back_End "HOL-Library.Word"
begin

text \<open>
  The audit trail of the back end and the audit page on top of it:
  \<open>internal/api/middleware/audit.go\<close>, which records requests, and
  \<open>internal/api/handler/audit_handler.go\<close>, which lists what was recorded. The recording runs in
  a goroutine of its own; here its row is in the table when the next request is served. The
  printing of times is a parameter.
\<close>

subsection \<open>The query of a URL\<close>

text \<open>\<open>r.URL.Query()\<close>: pairs that do not decode, or hold a semicolon, are dropped.\<close>

definition cut_at :: "char \<Rightarrow> string \<Rightarrow> string \<times> string" where
  "cut_at c s = (takeWhile (\<lambda>x. x \<noteq> c) s, drop 1 (dropWhile (\<lambda>x. x \<noteq> c) s))"

definition query_pair :: "string \<Rightarrow> (string \<times> string) list" where
  "query_pair piece =
     (if piece = [] \<or> CHR '';'' \<in> set piece then []
      else let (k, v) = cut_at (CHR ''='') piece
           in case (query_unescape k, query_unescape v) of
                (Some k', Some v') \<Rightarrow> [(k', v')]
              | _ \<Rightarrow> [])"

definition url_query :: "string \<Rightarrow> (string \<times> string) list" where
  "url_query u = concat (map query_pair (js_split ''&'' (snd (cut_at (CHR ''?'') u))))"

definition query_get :: "string \<Rightarrow> (string \<times> string) list \<Rightarrow> string" where
  "query_get k ps = (case find (\<lambda>(k', _). k' = k) ps of Some (_, v) \<Rightarrow> v | None \<Rightarrow> [])"

text \<open>
  \<open>n, _ := strconv.Atoi(s)\<close>: 0 for what is no number, the nearest representable number for one
  that is out of range.
\<close>

definition max_int :: int where "max_int = 2 ^ 63 - 1"
definition min_int :: int where "min_int = - (2 ^ 63)"

definition go_atoi :: "string \<Rightarrow> int" where
  "go_atoi s =
     (let (neg, ds) = (case s of
            [] \<Rightarrow> (False, [])
          | c # cs \<Rightarrow> if c = CHR ''-'' then (True, cs) else if c = CHR ''+'' then (False, cs) else (False, c # cs))
      in if ds = [] \<or> \<not> list_all is_digit ds then 0
         else if neg then max min_int (- int (digits_val ds)) else min max_int (int (digits_val ds)))"

subsection \<open>Listing\<close>

record audit_event =
  ae_id :: nat
  ae_tenant :: string
  ae_user :: string
  ae_username :: string
  ae_action :: string
  ae_type :: string
  ae_resource :: string
  ae_changes :: string
  ae_addr :: string
  ae_time :: nat

definition event_json :: "(nat \<Rightarrow> string) \<Rightarrow> audit_event \<Rightarrow> json" where
  "event_json show e =
     JObj [(''id'', JNum (of_nat (ae_id e))), (''tenant_id'', JStr (ae_tenant e)), (''user_id'', JStr (ae_user e)),
       (''username'', JStr (ae_username e)), (''action'', JStr (ae_action e)), (''resource_type'', JStr (ae_type e)),
       (''resource_id'', JStr (ae_resource e)), (''changes'', JStr (ae_changes e)), (''remote_addr'', JStr (ae_addr e)),
       (''created_at'', JStr (show (ae_time e)))]"

text \<open>\<open>ORDER BY created_at DESC, id DESC\<close>\<close>

definition newest_first :: "audit_event list \<Rightarrow> audit_event list" where
  "newest_first es = rev (sort_key ae_time (sort_key ae_id es))"

definition wanted :: "string \<Rightarrow> string \<Rightarrow> string \<Rightarrow> audit_event \<Rightarrow> bool" where
  "wanted action rtype username e \<longleftrightarrow>
     (action = [] \<or> ae_action e = action) \<and> (rtype = [] \<or> ae_type e = rtype) \<and> (username = [] \<or> ae_username e = username)"

text \<open>\<open>LIMIT n OFFSET k\<close>, where a negative offset counts as none; Go's integers have 64 bits.\<close>

definition offset_of :: "int \<Rightarrow> int \<Rightarrow> int" where
  "offset_of page n = sint (word_of_int ((page - 1) * n) :: 64 word)"

definition limit_offset :: "int \<Rightarrow> int \<Rightarrow> 'a list \<Rightarrow> 'a list" where
  "limit_offset n k xs = take (nat n) (drop (nat k) xs)"

definition Paginated :: "encoder \<Rightarrow> json \<Rightarrow> nat \<Rightarrow> int \<Rightarrow> int \<Rightarrow> net_result" where
  "Paginated enc data count page n =
     (let total_pages = int count div n + (if int count mod n \<noteq> 0 then 1 else 0)
      in go_json enc 200 (JObj [(''success'', JBool True), (''data'', data), (''total'', JNum (of_nat count)),
           (''page'', JNum (of_int page)), (''page_size'', JNum (of_int n)), (''total_pages'', JNum (of_int total_pages))]))"

definition Audit_List :: "encoder \<Rightarrow> (nat \<Rightarrow> string) \<Rightarrow> audit_event list \<Rightarrow> string \<Rightarrow> net_result" where
  "Audit_List enc show es url =
     (let q = url_query url;
          page0 = go_atoi (query_get ''page'' q); n0 = go_atoi (query_get ''page_size'' q);
          page = (if page0 < 1 then 1 else page0);
          n = (if n0 < 1 \<or> 100 < n0 then 20 else n0);
          found = filter (wanted (go_trim (query_get ''action'' q)) (go_trim (query_get ''resource_type'' q))
            (go_trim (query_get ''username'' q))) es
      in Paginated enc (JArr (map (event_json show) (limit_offset n (offset_of page n) (newest_first found))))
           (length found) page n)"

subsection \<open>Recording\<close>

definition trim_slashes :: "string \<Rightarrow> string" where
  "trim_slashes s = rev (dropWhile (\<lambda>c. c = CHR ''/'') (rev (dropWhile (\<lambda>c. c = CHR ''/'') s)))"

definition type_of_segment :: "string \<Rightarrow> string" where
  "type_of_segment p =
     (case map_of
        [(''forward-rules'', ''forward_rule''), (''proxy-rules'', ''proxy_rule''), (''ddns'', ''ddns_config''),
         (''stun'', ''stun_tunnel''), (''wol'', ''wol_device''), (''cron'', ''cron_job''), (''acme'', ''acme_certificate''),
         (''storage'', ''storage_mount''), (''users'', ''user'')] p of
        Some x \<Rightarrow> x
      | None \<Rightarrow> [])"

definition extractAuditInfo :: "string \<Rightarrow> string \<Rightarrow> (string \<times> string \<times> string) option" where
  "extractAuditInfo path m =
     (if \<not> starts_with ''/api/v1/'' path then None
      else let action = (if m = ''POST'' then ''created'' else if m = ''PUT'' \<or> m = ''PATCH'' then ''updated''
             else if m = ''DELETE'' then ''deleted'' else []);
               parts = js_split ''/'' (trim_slashes (drop 8 path));
               rtype = type_of_segment (hd parts); i = (if 2 \<le> length parts then parts ! 1 else [])
           in if action = [] \<or> rtype = [] then None else Some (rtype, i, action))"

text \<open>
  The row a request leaves, whatever it was answered: \<open>ctx\<close> holds the claims in the context of
  the request the middleware was given.
\<close>

definition AuditMiddleware :: "claims option \<Rightarrow> string \<Rightarrow> nat \<Rightarrow> request \<Rightarrow> audit_event list \<Rightarrow> audit_event list" where
  "AuditMiddleware ctx addr now q es =
     (if req_method q \<in> {''GET'', ''HEAD'', ''OPTIONS''} then es
      else (case extractAuditInfo (url_path (req_path q)) (req_method q) of
              None \<Rightarrow> es
            | Some (rtype, i, action) \<Rightarrow> es @
                [\<lparr>ae_id = length es + 1, ae_tenant = [],
                  ae_user = (case ctx of None \<Rightarrow> [] | Some c \<Rightarrow> cl_uid c),
                  ae_username = (case ctx of None \<Rightarrow> [] | Some c \<Rightarrow> cl_uname c),
                  ae_action = action, ae_type = rtype, ae_resource = i, ae_changes = [], ae_addr = addr, ae_time = now\<rparr>]))"

text \<open>
  The server with its trail. The middleware stands before the routes, so the request it is given
  has not been through \<open>AuthMiddleware\<close>, which hands its claims to a copy of the request.
\<close>

definition audit_routes :: "auth_lib \<Rightarrow> (nat \<Rightarrow> string) \<Rightarrow> audit_event list \<Rightarrow> route_handler \<Rightarrow> route_handler" where
  "audit_routes lib show es rest m p caller db q =
     (if m = ''GET'' \<and> p = ''/api/v1/audit'' then (db, Audit_List (al_enc lib) show es (req_path q))
      else rest m p caller db q)"

definition audited ::
  "auth_lib \<Rightarrow> (string \<Rightarrow> bool) \<Rightarrow> matcher \<Rightarrow> (nat \<Rightarrow> string) \<Rightarrow> (request \<Rightarrow> string) \<Rightarrow> route_handler \<Rightarrow>
   (auth_db \<times> audit_event list) network" where
  "audited lib big matches show addr rest w q =
     (case w of (db, es) \<Rightarrow>
        (case back_end lib big matches (audit_routes lib show es rest) db q of (db', res) \<Rightarrow>
           ((db', AuditMiddleware None (addr q) (db_now db') q es), res)))"

subsection \<open>The page's query arrives\<close>

lemma unescape_plain: "CHR ''%'' \<notin> set s \<Longrightarrow> CHR ''+'' \<notin> set s \<Longrightarrow> query_unescape s = Some s"
  by (induction s) auto

lemma cut_at_append: "c \<notin> set a \<Longrightarrow> cut_at c (a @ c # b) = (a, b)"
  by (simp add: cut_at_def takeWhile_append dropWhile_append)

lemma query_pair_encoded:
  assumes "query_unescape k = Some k" "CHR ''='' \<notin> set k" "CHR '';'' \<notin> set k" "CHR '';'' \<notin> set v" "query_unescape v = Some w"
  shows "query_pair (k @ CHR ''='' # v) = [(k, w)]"
  using assms by (simp add: query_pair_def cut_at_append)

lemma show_nat_plain:
  "\<forall>c \<in> set (show_nat n). c \<notin> set ''%+;&=?''"
proof -
  have "list_all (\<lambda>c. \<not> is_digit c) ''%+;&=?''" by code_simp
  with show_nat_digits [of n] show ?thesis by (auto simp: list_all_iff)
qed

lemma encoded_plain: "c \<in> set ''&=;#?'' \<Longrightarrow> c \<notin> set (encodeURIComponent s)"
  using encode_plain by blast

lemma plain_key:
  assumes "list_all is_alpha (filter (\<lambda>c. c \<noteq> CHR ''_'') k)"
  shows "query_pair (k @ CHR ''='' # encodeURIComponent v) = [(k, v)]"
proof -
  have "list_all (\<lambda>c. \<not> is_alpha c \<and> c \<noteq> CHR ''_'') ''%+;=''" by code_simp
  then have k: "CHR ''%'' \<notin> set k" "CHR ''+'' \<notin> set k" "CHR '';'' \<notin> set k" "CHR ''='' \<notin> set k"
    using assms by (auto simp: list_all_iff)
  moreover have "CHR '';'' \<notin> set (encodeURIComponent v)" by (rule encoded_plain) simp
  ultimately show ?thesis
    by (intro query_pair_encoded unescape_plain query_unescape_encode)
qed

lemma audit_query:
  assumes "0 < n" "au_page s = int n"
  shows "url_query (API_BASE @ audit_path s) =
    [(''page'', show_nat n), (''page_size'', ''20''), (''action'', au_action s), (''resource_type'', au_resourceType s),
     (''username'', au_appliedUsername s)]"
proof -
  let ?ps = "[''page='' @ show_nat n, ''page_size=20'', ''action='' @ encodeURIComponent (au_action s),
    ''resource_type='' @ encodeURIComponent (au_resourceType s), ''username='' @ encodeURIComponent (au_appliedUsername s)]"
  have "API_BASE @ audit_path s = (API_BASE @ ''/audit'') @ CHR ''?'' # js_join ''&'' ?ps"
    by (simp add: audit_path_def assms show_int_def)
  moreover have "CHR ''?'' \<notin> set (API_BASE @ ''/audit'')" by code_simp
  then have "cut_at (CHR ''?'') ((API_BASE @ ''/audit'') @ CHR ''?'' # js_join ''&'' ?ps) = (API_BASE @ ''/audit'', js_join ''&'' ?ps)"
    by (rule cut_at_append)
  ultimately have "snd (cut_at (CHR ''?'') (API_BASE @ audit_path s)) = js_join ''&'' ?ps"
    by (simp only: snd_conv)
  moreover have "js_split ''&'' (js_join ''&'' ?ps) = ?ps"
  proof -
    have "CHR ''&'' \<notin> set (show_nat n)" using show_nat_plain [of n] by auto
    then show ?thesis using encoded_plain [of "CHR ''&''"] by (intro js_split_join_char) simp_all
  qed
  moreover have "query_pair (''page='' @ show_nat n) = [(''page'', show_nat n)]"
  proof -
    have "CHR ''%'' \<notin> set (show_nat n)" "CHR ''+'' \<notin> set (show_nat n)" "CHR '';'' \<notin> set (show_nat n)"
      using show_nat_plain [of n] by auto
    then show ?thesis
      using query_pair_encoded [of "''page''" "show_nat n" "show_nat n"] unescape_plain [of "show_nat n"] by simp
  qed
  moreover have "query_pair ''page_size=20'' = [(''page_size'', ''20'')]" by code_simp
  moreover have "query_pair (''action='' @ encodeURIComponent v) = [(''action'', v)]"
    "query_pair (''resource_type='' @ encodeURIComponent v) = [(''resource_type'', v)]"
    "query_pair (''username='' @ encodeURIComponent v) = [(''username'', v)]" for v
    using plain_key [of "''action''" v] plain_key [of "''resource_type''" v] plain_key [of "''username''" v]
    by (simp_all add: is_alpha_def code_def)
  ultimately show ?thesis by (simp add: url_query_def)
qed

lemma atoi_show: "int n \<le> max_int \<Longrightarrow> go_atoi (show_nat n) = int n"
proof -
  assume n: "int n \<le> max_int"
  obtain c cs where c: "show_nat n = c # cs" using show_nat_nonempty by (cases "show_nat n") auto
  have "is_digit c" "list_all is_digit (c # cs)" using show_nat_digits [of n] by (auto simp: c list_all_iff)
  moreover have "\<not> is_digit (CHR ''-'')" "\<not> is_digit (CHR ''+'')" by code_simp+
  ultimately have "c \<noteq> CHR ''-''" "c \<noteq> CHR ''+''" by metis+
  moreover have "digits_val (c # cs) = n" using digits_val_show [of n] by (simp add: c)
  ultimately show ?thesis using \<open>list_all is_digit (c # cs)\<close> n by (simp add: go_atoi_def c)
qed

lemma offset_small:
  assumes "0 \<le> (page - 1) * n" "(page - 1) * n \<le> max_int"
  shows "offset_of page n = (page - 1) * n"
  unfolding offset_of_def sint_sbintrunc' by (rule signed_take_bit_int_eq_self) (use assms in \<open>simp_all add: max_int_def\<close>)

lemma query_get_page:
  "query_get ''page'' [(''page'', p), (''page_size'', n), (''action'', a), (''resource_type'', r), (''username'', u)] = p"
  "query_get ''page_size'' [(''page'', p), (''page_size'', n), (''action'', a), (''resource_type'', r), (''username'', u)] = n"
  "query_get ''action'' [(''page'', p), (''page_size'', n), (''action'', a), (''resource_type'', r), (''username'', u)] = a"
  "query_get ''resource_type'' [(''page'', p), (''page_size'', n), (''action'', a), (''resource_type'', r), (''username'', u)] = r"
  "query_get ''username'' [(''page'', p), (''page_size'', n), (''action'', a), (''resource_type'', r), (''username'', u)] = u"
  by (simp_all add: query_get_def)

text \<open>The answer to the page's query, written out.\<close>

definition selected :: "audit_state \<Rightarrow> audit_event list \<Rightarrow> audit_event list" where
  "selected s = filter (wanted (go_trim (au_action s)) (go_trim (au_resourceType s)) (go_trim (au_appliedUsername s)))"

definition audit_pages :: "audit_event list \<Rightarrow> nat" where
  "audit_pages es = length es div 20 + (if length es mod 20 \<noteq> 0 then 1 else 0)"

lemma pages_int:
  "int (length es) div 20 + (if int (length es) mod 20 \<noteq> 0 then 1 else 0) = int (audit_pages es)"
proof -
  have "int (length es) mod 20 = int (length es mod 20)" "int (length es) div 20 = int (length es div 20)"
    by (simp_all add: zmod_int zdiv_int)
  then show ?thesis by (simp only: audit_pages_def) simp
qed

definition page_json :: "(nat \<Rightarrow> string) \<Rightarrow> audit_event list \<Rightarrow> nat \<Rightarrow> json" where
  "page_json show found k =
     JObj [(''success'', JBool True),
       (''data'', JArr (map (event_json show) (take 20 (drop ((k - 1) * 20) (newest_first found))))),
       (''total'', JNum (of_nat (length found))), (''page'', JNum (of_nat k)), (''page_size'', JNum 20),
       (''total_pages'', JNum (of_nat (audit_pages found)))]"

lemma Paginated_20:
  "Paginated enc data (length es) page 20 = Response 200 (enc (JObj [(''success'', JBool True), (''data'', data),
     (''total'', JNum (of_nat (length es))), (''page'', JNum (of_int page)), (''page_size'', JNum 20),
     (''total_pages'', JNum (of_nat (audit_pages es)))]))"
  unfolding Paginated_def pages_int Let_def go_json_def by simp

lemma audit_answer:
  assumes "0 < k" "int k * 20 \<le> max_int" "au_page s = int k"
  shows "Audit_List enc show es (API_BASE @ audit_path s) = Response 200 (enc (page_json show (selected s es) k))"
proof -
  have k: "int k \<le> max_int" using assms(2) by simp
  have o: "offset_of (int k) 20 = (int k - 1) * 20" using assms(1,2) by (intro offset_small) auto
  have "nat ((int k - 1) * 20) = (k - 1) * 20" using assms(1) by (simp add: nat_mult_distrib nat_diff_distrib)
  moreover have "go_atoi ''20'' = 20" by code_simp
  ultimately show ?thesis
    using assms(1) o
    by (simp add: Audit_List_def audit_query [OF assms(1,3)] query_get_page atoi_show [OF k] Paginated_20
        page_json_def limit_offset_def Let_def flip: selected_def)
qed

subsection \<open>Walking through the pages\<close>

lemma chunks: "concat (map (\<lambda>k. take n (drop (k * n) xs)) [0..<m]) = take (m * n) xs"
  by (induction m) (simp_all add: add.commute flip: take_add)

lemma pages_cover: "length es \<le> max 1 (audit_pages es) * 20"
  by (cases "length es mod 20 = 0") (auto simp: audit_pages_def max_def)

lemma newest_first_length [simp]: "length (newest_first es) = length es"
  by (simp add: newest_first_def)

lemma newest_first_set [simp]: "set (newest_first es) = set es"
  by (simp add: newest_first_def)

lemma page_data [simp]:
  "elements (field (page_json show found k) ''data'') =
    map (event_json show) (take 20 (drop ((k - 1) * 20) (newest_first found)))"
  by (simp add: page_json_def field_def opt_prop_def elements_def)

lemma all_pages:
  "concat (map (\<lambda>k. elements (field (page_json show found k) ''data'')) [1..<max 1 (audit_pages found) + 1]) =
    map (event_json show) (newest_first found)"
proof -
  let ?N = "max 1 (audit_pages found)" and ?xs = "newest_first found"
  have "[1..<?N + 1] = map Suc [0..<?N]" by (simp add: map_Suc_upt)
  then have "concat (map (\<lambda>k. elements (field (page_json show found k) ''data'')) [1..<?N + 1]) =
      map (event_json show) (concat (map (\<lambda>k. take 20 (drop (k * 20) ?xs)) [0..<?N]))"
    by (simp add: comp_def map_concat)
  also have "\<dots> = map (event_json show) ?xs" using pages_cover [of found] by (simp add: chunks)
  finally show ?thesis .
qed

lemma plain_page [simp]: "plain_json (page_json show found k)"
proof -
  have "of_int \<lfloor>of_nat n :: rat\<rfloor> = of_nat n" for n by simp
  then show ?thesis by (auto simp: page_json_def event_json_def)
qed

text \<open>The button \<open>Next\<close> under an answer.\<close>

lemma next_only:
  assumes "fires (Audit e s) (Done s' [])" "au_page s' = au_page s + 1" "1 \<le> au_page s"
  shows "\<not> at_least (au_page s) (totalPages e)"
  using assms(1)
proof (cases rule: Audit_controls)
  case (action v)
  then have "au_page s' = 1" by simp
  with assms(2,3) show ?thesis by simp
next
  case (resource v)
  then have "au_page s' = 1" by simp
  with assms(2,3) show ?thesis by simp
next
  case (username v)
  then have "au_page s' = au_page s" by simp
  with assms(2) show ?thesis by simp
next
  case filter_by
  then have "au_page s' = 1" by (simp add: apply_filter_def)
  with assms(2,3) show ?thesis by simp
next
  case other_key
  with assms(2) show ?thesis by simp
next
  case prev
  then have "au_page s' = max 1 (au_page s - 1)" by simp
  with assms(2) prev(1) show ?thesis by simp
qed

lemma next_offered:
  assumes "is_admin (env_user e)" "1 \<le> k"
  shows "fires (Audit (e\<lparr>env_data := Some (page_json show found k)\<rparr>) (s\<lparr>au_page := int k\<rparr>))
      (Done (s\<lparr>au_page := int (k + 1)\<rparr>) []) \<longleftrightarrow> k < audit_pages found"
proof -
  let ?e = "e\<lparr>env_data := Some (page_json show found k)\<rparr>" and ?s = "s\<lparr>au_page := int k\<rparr>"
  have tp: "at_least (int k) (totalPages ?e) \<longleftrightarrow> audit_pages found \<le> k"
    by (simp add: totalPages_def page_json_def opt_prop_def coalesce_def at_least_def)
  show ?thesis
  proof
    assume "fires (Audit ?e ?s) (Done (s\<lparr>au_page := int (k + 1)\<rparr>) [])"
    then have "\<not> at_least (au_page ?s) (totalPages ?e)"
      by (rule next_only) (use assms(2) in simp_all)
    then show "k < audit_pages found" by (simp add: tp)
  next
    assume "k < audit_pages found"
    then have "\<not> at_least (int k) (totalPages ?e)" by (simp add: tp)
    then show "fires (Audit ?e ?s) (Done (s\<lparr>au_page := int (k + 1)\<rparr>) [])"
      using assms(1)
      by (simp add: Audit_def fires_PageLayout any_fires_simps audit_pager_def fires_own fires_Button own_fires_def
          is_disabled_def ac_simps)
  qed
qed

text \<open>
  C24. The audit log can be read to the end: whatever filters are set, each page from the first to
  the last is answered with what the page asked for, \<open>Next\<close> is offered on every page but the
  last, and the pages put together are the matching events, newest first, each exactly once.
\<close>

theorem audit_walk:
  assumes "encodes enc" "is_admin (env_user e)" "length es < 2 ^ 62"
    and "found = selected s es" "N = max 1 (audit_pages found)"
  shows "(\<forall>k \<in> {1..N}.
      \<exists>j. Audit_List enc show es (API_BASE @ audit_path (s\<lparr>au_page := int k\<rparr>)) = Response 200 (enc j) \<and>
        res_json (enc j) = Inr j \<and> j = page_json show found k \<and>
        (fires (Audit (e\<lparr>env_data := Some j\<rparr>) (s\<lparr>au_page := int k\<rparr>)) (Done (s\<lparr>au_page := int (k + 1)\<rparr>) []) \<longleftrightarrow> k < N)) \<and>
    concat (map (\<lambda>k. elements (field (page_json show found k) ''data'')) [1..<N + 1]) =
      map (event_json show) (newest_first found)"
proof (intro conjI ballI exI)
  fix k assume k: "k \<in> {1..N}"
  have "length found \<le> length es" by (simp add: assms(4) selected_def)
  moreover have "length found div 20 * 20 \<le> length found" by simp
  ultimately have "N * 20 \<le> length es + 40" by (auto simp: assms(5) audit_pages_def max_def)
  with k assms(3) have "int k * 20 \<le> max_int" by (simp add: max_int_def)
  moreover have "selected (s\<lparr>au_page := int k\<rparr>) es = found" by (simp add: selected_def assms(4))
  ultimately show "Audit_List enc show es (API_BASE @ audit_path (s\<lparr>au_page := int k\<rparr>)) = Response 200 (enc (page_json show found k))"
    using audit_answer [of k "s\<lparr>au_page := int k\<rparr>" enc "show" es] k by simp
  show "res_json (enc (page_json show found k)) = Inr (page_json show found k)"
    using assms(1) by (simp add: encodes_def res_json_def)
  show "fires (Audit (e\<lparr>env_data := Some (page_json show found k)\<rparr>) (s\<lparr>au_page := int k\<rparr>))
      (Done (s\<lparr>au_page := int (k + 1)\<rparr>) []) \<longleftrightarrow> k < N"
    using next_offered [OF assms(2), of k] k by (auto simp: assms(5))
next
  show "concat (map (\<lambda>k. elements (field (page_json show found k) ''data'')) [1..<N + 1]) =
      map (event_json show) (newest_first found)"
    unfolding assms(5) by (rule all_pages)
qed simp

subsection \<open>Who did it\<close>

text \<open>The trail along a run of requests.\<close>

definition serve_all ::
  "auth_lib \<Rightarrow> (string \<Rightarrow> bool) \<Rightarrow> matcher \<Rightarrow> (nat \<Rightarrow> string) \<Rightarrow> (request \<Rightarrow> string) \<Rightarrow> route_handler \<Rightarrow> request list \<Rightarrow>
   auth_db \<times> audit_event list \<Rightarrow> auth_db \<times> audit_event list" where
  "serve_all lib big matches show addr rest qs w =
     fold (\<lambda>q w. fst (audited lib big matches show addr rest w q)) qs w"

definition anonymous :: "audit_event list \<Rightarrow> bool" where
  "anonymous es \<longleftrightarrow> (\<forall>x \<in> set es. ae_username x = [] \<and> ae_user x = [])"

lemma anonymous_middleware: "anonymous es \<Longrightarrow> anonymous (AuditMiddleware None addr now q es)"
  by (auto simp: AuditMiddleware_def anonymous_def split: option.split)

lemma anonymous_run:
  "anonymous (snd w) \<Longrightarrow> anonymous (snd (serve_all lib big matches show addr rest qs w))"
proof (induction qs arbitrary: w)
  case (Cons q qs)
  obtain db es where w: "w = (db, es)" by (cases w)
  obtain db' res where "back_end lib big matches (audit_routes lib show es rest) db q = (db', res)" by fastforce
  then have "snd (fst (audited lib big matches show addr rest w q)) = AuditMiddleware None (addr q) (db_now db') q es"
    by (simp add: audited_def w)
  with Cons.prems have "anonymous (snd (fst (audited lib big matches show addr rest w q)))"
    by (simp add: w anonymous_middleware)
  from Cons.IH [OF this] show ?case by (simp add: serve_all_def)
qed (simp add: serve_all_def)

text \<open>
  The audit trail does not know who acted: after any run of requests, from accounts of every
  kind, every recorded event has an empty user, so that the page shows a dash in the user column
  of each row, and filtering by a user name that is not blank finds nothing.
\<close>

theorem audit_trail_anonymous:
  assumes "serve_all lib big matches show addr rest qs (db, []) = (db', es)" "0 < au_page s" "au_page s * 20 \<le> max_int"
  shows "(\<forall>x \<in> set es. \<exists>r. audit_row (event_json show x) = TableRow [] r \<and> r ! 1 = TableCell [] [Txt ''-'']) \<and>
    (go_trim (au_appliedUsername s) \<noteq> [] \<longrightarrow>
      Audit_List enc show es (API_BASE @ audit_path s) = Response 200 (enc (page_json show [] (nat (au_page s)))))"
proof -
  have anon: "anonymous es"
    using anonymous_run [of "(db, [])" lib big matches "show" addr rest qs] assms(1) by (simp add: anonymous_def)
  have "selected s es = []" if "go_trim (au_appliedUsername s) \<noteq> []"
    using anon that by (auto simp: selected_def wanted_def anonymous_def filter_empty_conv)
  moreover have "Audit_List enc show es (API_BASE @ audit_path s) = Response 200 (enc (page_json show (selected s es) (nat (au_page s))))"
    by (rule audit_answer) (use assms(2,3) in simp_all)
  moreover have "\<exists>r. audit_row (event_json show x) = TableRow [] r \<and> r ! 1 = TableCell [] [Txt ''-'']" if "x \<in> set es" for x
    using anon that by (auto simp: audit_row_def event_json_def field_def opt_prop_def js_or_def anonymous_def)
  ultimately show ?thesis by simp
qed

subsection \<open>Instances\<close>

text \<open>Twenty-one events, read in two pages; and the trail of an administrator's creation of a user.\<close>

definition sample_event :: "nat \<Rightarrow> audit_event" where
  "sample_event i = \<lparr>ae_id = i + 1, ae_tenant = [], ae_user = [], ae_username = [], ae_action = ''created'',
     ae_type = ''user'', ae_resource = [], ae_changes = [], ae_addr = ''peer'', ae_time = i\<rparr>"

lemma audit_walk_witness:
  "concat (map (\<lambda>k. elements (field (page_json show_nat (map sample_event [0..<21]) k) ''data'')) [1..<3]) =
    map (event_json show_nat) (newest_first (map sample_event [0..<21]))"
proof -
  have "go_trim [] = []" by code_simp
  then have found: "map sample_event [0..<21] = selected audit_init (map sample_event [0..<21])"
    by (simp add: selected_def audit_init_def wanted_def)
  have n: "(2::nat) = max 1 (audit_pages (map sample_event [0..<21]))" by (simp add: audit_pages_def)
  have "is_admin (env_user auditor)" by (simp add: auditor_def is_admin_def opt_prop_def)
  moreover have "encodes stringify" by (simp add: encodes_def json_codec.dec_enc)
  moreover have "length (map sample_event [0..<21]) < 2 ^ 62" by simp
  ultimately show ?thesis
    using audit_walk [OF _ _ _ found n, of stringify auditor show_nat] by simp
qed

definition user_creation :: request where
  "user_creation = \<lparr>req_method = ''POST'', req_path = ''/api/v1/users'',
     req_headers = [(''Authorization'', ''Bearer x'')], req_body = Some ''{}''\<rparr>"

lemma audit_trail_anonymous_witness:
  "\<exists>db' x. serve_all sample_lib (\<lambda>_. False) segment_matcher show_nat (\<lambda>_. ''peer'') (\<lambda>_ _ _ db _. (db, Response 200 []))
      [user_creation] (sample_db, []) = (db', [x]) \<and>
    Audit_List stringify show_nat [x] (API_BASE @ audit_path (audit_init\<lparr>au_appliedUsername := ''admin''\<rparr>)) =
      Response 200 (stringify (page_json show_nat [] 1))"
proof -
  let ?run = "serve_all sample_lib (\<lambda>_. False) segment_matcher show_nat (\<lambda>_. ''peer'') (\<lambda>_ _ _ db _. (db, Response 200 []))
      [user_creation] (sample_db, [])"
  have "extractAuditInfo (url_path ''/api/v1/users'') ''POST'' = Some (''user'', [], ''created'')" by code_simp
  moreover obtain d r where "back_end sample_lib (\<lambda>_. False) segment_matcher
      (audit_routes sample_lib show_nat [] (\<lambda>_ _ _ db _. (db, Response 200 []))) sample_db user_creation = (d, r)"
    by fastforce
  ultimately obtain db' x where run: "?run = (db', [x])"
    by (simp add: serve_all_def audited_def AuditMiddleware_def user_creation_def)
  have "go_trim (au_appliedUsername (audit_init\<lparr>au_appliedUsername := ''admin''\<rparr>)) \<noteq> []" by code_simp
  with audit_trail_anonymous [OF run, of "audit_init\<lparr>au_appliedUsername := ''admin''\<rparr>" stringify] run
  show ?thesis by (simp add: audit_init_def max_int_def)
qed

end
