(* ===== verification/Webhook_Server.thy ===== *)
theory Webhook_Server
  imports Webhooks Users_Server
begin

text \<open>
  The webhook endpoints of the back end (\<open>internal/api/handler/webhook_handler.go\<close>,
  \<open>internal/service/webhook.go\<close>) and the page's editor on top of them. Whether a text is a URL
  with a scheme and a host is a parameter (\<open>url_ok\<close>), so are the times and the outcome of a
  delivery. Requests are served one at a time and the database answers every query.
\<close>

subsection \<open>Event types\<close>



subsection \<open>Requests\<close>





definition listed :: "string list option \<Rightarrow> string list" where
  "listed evs = (case evs of None \<Rightarrow> [] | Some xs \<Rightarrow> xs)"


subsection \<open>Endpoints\<close>

record endpoint =
  ep_id :: string
  ep_name :: string
  ep_url :: string
  ep_secret :: string
  ep_events :: "string list option"     \<comment> \<open>\<open>None\<close> is nil\<close>
  ep_enabled :: bool
  ep_created :: string
  ep_updated :: string

definition events_json :: "string list option \<Rightarrow> json" where
  "events_json evs = (case evs of None \<Rightarrow> JNull | Some xs \<Rightarrow> JArr (map JStr xs))"

definition endpoint_json :: "endpoint \<Rightarrow> json" where
  "endpoint_json x =
     JObj [(''id'', JStr (ep_id x)), (''name'', JStr (ep_name x)), (''url'', JStr (ep_url x)),
       (''has_secret'', JBool (ep_secret x \<noteq> [])), (''events'', events_json (ep_events x)),
       (''enabled'', JBool (ep_enabled x)), (''created_at'', JStr (ep_created x)), (''updated_at'', JStr (ep_updated x))]"

subsection \<open>Handlers\<close>

text \<open>The table in the order of creation, which is what \<open>created_at\<close> orders by.\<close>

definition webhooks_List :: "encoder \<Rightarrow> endpoint list \<Rightarrow> net_result" where
  "webhooks_List enc eps = go_success enc (JArr (map endpoint_json (rev eps)))"




text \<open>\<open>Test\<close>, with a dispatcher: what \<open>SendTest\<close> came to is \<open>Inl\<close> an error's text or \<open>Inr\<close>.\<close>

definition webhooks_Test :: "auth_lib \<Rightarrow> (endpoint \<Rightarrow> string + unit) \<Rightarrow> endpoint list \<Rightarrow> string \<Rightarrow> net_result" where
  "webhooks_Test lib SendTest eps i =
     (case find (\<lambda>x. ep_id x = i) eps of
        None \<Rightarrow> go_error (al_enc lib) 404 ''webhook endpoint not found''
      | Some x \<Rightarrow>
          (case SendTest x of
             Inl msg \<Rightarrow> go_error (al_enc lib) 502 (''delivery failed: '' @ msg)
           | Inr _ \<Rightarrow> go_message (al_enc lib) ''delivery ok''))"

subsection \<open>Delivery\<close>

definition webhookMatches :: "endpoint \<Rightarrow> string \<Rightarrow> bool" where
  "webhookMatches x ty \<longleftrightarrow> listed (ep_events x) = [] \<or> ty \<in> set (listed (ep_events x))"

text \<open>
  One event: which endpoints get it. A delivery takes one of \<open>free\<close> slots; without one, the
  event is dropped for that endpoint.
\<close>

fun dispatch_event :: "nat \<Rightarrow> endpoint list \<Rightarrow> string \<Rightarrow> endpoint list" where
  "dispatch_event free [] ty = []"
| "dispatch_event free (x # xs) ty =
     (if \<not> ep_enabled x \<or> \<not> webhookMatches x ty then dispatch_event free xs ty
      else if 0 < free then x # dispatch_event (free - 1) xs ty
      else dispatch_event free xs ty)"

subsection \<open>What the table holds\<close>



lemma go_trim_idem [simp]: "go_trim (go_trim s) = go_trim s"
  by (simp add: go_trim_def trim_by_idem)




lemma map_same: "(\<And>x. f (g x) = f x) \<Longrightarrow> map f (map g xs) = map f xs"
  by simp






subsection \<open>Opening the editor and saving\<close>











subsection \<open>An instance\<close>





end
