(* ===== verification/Lockout.thy ===== *)
theory Lockout
  imports Sessions "HOL-Library.AList"
begin

text \<open>
  The sign-in lock-out of the back end (\<open>internal/api/middleware/bruteforce.go\<close>) around the
  sign-in handler: the table of failures per peer, the middleware, the periodic clean-up. Times
  are in seconds; Go's zero time is 0. A peer is the text \<open>clientIPKey\<close> makes of its address.
  Attempts are served one after the other.
\<close>

subsection \<open>The table\<close>











subsection \<open>The middleware\<close>



subsection \<open>Runs\<close>




definition has_status :: "int \<Rightarrow> string \<Rightarrow> string \<times> net_result \<Rightarrow> bool" where
  "has_status st ip r \<longleftrightarrow> fst r = ip \<and> (case snd r of Response s _ \<Rightarrow> s = st | Rejected \<Rightarrow> False)"



subsection \<open>The table stays small\<close>







subsection \<open>A peer's entry\<close>









definition refusals :: "string \<Rightarrow> (string \<times> net_result) list \<Rightarrow> nat" where
  "refusals ip outs = length (filter (has_status 401 ip) outs)"




lemma refusals_simps [simp]: "refusals ip [] = 0" "refusals ip (xs @ ys) = refusals ip xs + refusals ip ys"
  by (simp_all add: refusals_def)












end
