(* ===== verification/Go_Struct.thy ===== *)
theory Go_Struct
  imports Go_Lib
begin

text \<open>
  Structs of the back end as \<open>encoding/json\<close> reads and writes them: a struct type is a list of
  fields with their JSON names, kinds and \<open>omitempty\<close>, a struct a list of values by those names.
  Fields tagged \<open>json:"-"\<close> are values the description does not name.

  A member given twice counts the last time (Go decodes a repeated array over the elements of the
  one before). An integer is accepted however it is spelled; \<open>tm\<close> stands for reading a time: the
  text it is written back as, or nothing when it is no time.
\<close>

subsection \<open>Kinds and values\<close>

datatype gkind = K_text | K_int | K_bool | K_texts | K_dict | K_acl | K_time | K_opt_time

datatype gval =
    V_text string
  | V_int int
  | V_bool bool
  | V_texts "string list option"                  \<comment> \<open>\<open>None\<close> is nil\<close>
  | V_dict "(string \<times> string) list option"        \<comment> \<open>sorted by key\<close>
  | V_acl "(string \<times> string) list option"         \<comment> \<open>\<open>[]ACLEntry\<close>: id, value\<close>
  | V_time string
  | V_opt_time "string option"

record gfield =
  gf_name :: string
  gf_kind :: gkind
  gf_omit :: bool

type_synonym gstruct = "(string \<times> gval) list"

fun zero_val :: "gkind \<Rightarrow> gval" where
  "zero_val K_text = V_text []"
| "zero_val K_int = V_int 0"
| "zero_val K_bool = V_bool False"
| "zero_val K_texts = V_texts None"
| "zero_val K_dict = V_dict None"
| "zero_val K_acl = V_acl None"
| "zero_val K_time = V_time zero_time"
| "zero_val K_opt_time = V_opt_time None"

definition gget :: "gstruct \<Rightarrow> string \<Rightarrow> gval" where
  "gget v k = (case map_of v k of None \<Rightarrow> V_text [] | Some x \<Rightarrow> x)"

definition zero_struct :: "gfield list \<Rightarrow> string list \<Rightarrow> gstruct" where
  "zero_struct fs hidden = map (\<lambda>f. (gf_name f, zero_val (gf_kind f))) fs @ map (\<lambda>k. (k, V_text [])) hidden"

subsection \<open>Reading\<close>

fun all_some :: "'a option list \<Rightarrow> 'a list option" where
  "all_some [] = Some []"
| "all_some (None # xs) = None"
| "all_some (Some x # xs) = map_option ((#) x) (all_some xs)"

definition text_elem :: "json \<Rightarrow> string option" where
  "text_elem j = (case j of JStr s \<Rightarrow> Some s | JNull \<Rightarrow> Some [] | _ \<Rightarrow> None)"

text \<open>Keys of a map in the order in which Go prints them.\<close>

fun bytes_less :: "string \<Rightarrow> string \<Rightarrow> bool" where
  "bytes_less _ [] = False"
| "bytes_less [] (_ # _) = True"
| "bytes_less (a # as) (b # bs) = (code a < code b \<or> a = b \<and> bytes_less as bs)"

fun dict_put :: "string \<Rightarrow> string \<Rightarrow> (string \<times> string) list \<Rightarrow> (string \<times> string) list" where
  "dict_put k v [] = [(k, v)]"
| "dict_put k v ((k', v') # r) =
     (if k = k' then (k, v) # r else if bytes_less k k' then (k, v) # (k', v') # r else (k', v') # dict_put k v r)"

fun dict_members :: "(string \<times> json) list \<Rightarrow> (string \<times> string) list \<Rightarrow> (string \<times> string) list option" where
  "dict_members [] d = Some d"
| "dict_members ((k, j) # r) d = (case text_elem j of None \<Rightarrow> None | Some s \<Rightarrow> dict_members r (dict_put k s d))"

definition acl_elem :: "json \<Rightarrow> (string \<times> string) option" where
  "acl_elem j =
     (case j of
        JObj kvs \<Rightarrow>
          (case (string_member ''id'' kvs [], string_member ''value'' kvs []) of
             (Some i, Some v) \<Rightarrow> Some (i, v)
           | _ \<Rightarrow> None)
      | JNull \<Rightarrow> Some ([], [])
      | _ \<Rightarrow> None)"

definition int_of_num :: "rat \<Rightarrow> int option" where
  "int_of_num r = (if of_int \<lfloor>r\<rfloor> = r \<and> - (2 ^ 63) \<le> \<lfloor>r\<rfloor> \<and> \<lfloor>r\<rfloor> < 2 ^ 63 then Some \<lfloor>r\<rfloor> else None)"

text \<open>The value a field is left with: \<open>old\<close> is the one it had.\<close>

fun read_val :: "(string \<Rightarrow> string option) \<Rightarrow> gkind \<Rightarrow> gval \<Rightarrow> json \<Rightarrow> gval option" where
  "read_val tm K_text old j = (case j of JStr s \<Rightarrow> Some (V_text s) | JNull \<Rightarrow> Some old | _ \<Rightarrow> None)"
| "read_val tm K_int old j = (case j of JNum r \<Rightarrow> map_option V_int (int_of_num r) | JNull \<Rightarrow> Some old | _ \<Rightarrow> None)"
| "read_val tm K_bool old j = (case j of JBool b \<Rightarrow> Some (V_bool b) | JNull \<Rightarrow> Some old | _ \<Rightarrow> None)"
| "read_val tm K_texts old j =
     (case j of JArr xs \<Rightarrow> map_option (\<lambda>ts. V_texts (Some ts)) (all_some (map text_elem xs))
      | JNull \<Rightarrow> Some (V_texts None) | _ \<Rightarrow> None)"
| "read_val tm K_dict old j =
     (case j of JObj kvs \<Rightarrow> map_option (\<lambda>d. V_dict (Some d)) (dict_members kvs (case old of V_dict (Some d) \<Rightarrow> d | _ \<Rightarrow> []))
      | JNull \<Rightarrow> Some (V_dict None) | _ \<Rightarrow> None)"
| "read_val tm K_acl old j =
     (case j of JArr xs \<Rightarrow> map_option (\<lambda>ts. V_acl (Some ts)) (all_some (map acl_elem xs))
      | JNull \<Rightarrow> Some (V_acl None) | _ \<Rightarrow> None)"
| "read_val tm K_time old j =
     (case j of JStr s \<Rightarrow> map_option V_time (tm s) | JNull \<Rightarrow> Some old | _ \<Rightarrow> None)"
| "read_val tm K_opt_time old j =
     (case j of JStr s \<Rightarrow> map_option (\<lambda>x. V_opt_time (Some x)) (tm s) | JNull \<Rightarrow> Some (V_opt_time None) | _ \<Rightarrow> None)"

definition field_named :: "gfield list \<Rightarrow> string \<Rightarrow> gfield option" where
  "field_named fs k = find (\<lambda>f. go_fold (gf_name f) = go_fold k) fs"

fun decode_members :: "(string \<Rightarrow> string option) \<Rightarrow> gfield list \<Rightarrow> (string \<times> json) list \<Rightarrow> gstruct \<Rightarrow> gstruct option" where
  "decode_members tm fs [] v = Some v"
| "decode_members tm fs ((k, j) # r) v =
     (case field_named fs k of
        None \<Rightarrow> decode_members tm fs r v
      | Some f \<Rightarrow>
          (case read_val tm (gf_kind f) (gget v (gf_name f)) j of
             None \<Rightarrow> None
           | Some x \<Rightarrow> decode_members tm fs r (obj_set (gf_name f) x v)))"

definition decode_struct ::
  "(string \<Rightarrow> string option) \<Rightarrow> gfield list \<Rightarrow> string list \<Rightarrow> (string \<times> json) list option \<Rightarrow> gstruct option" where
  "decode_struct tm fs hidden m =
     (case m of None \<Rightarrow> None | Some kvs \<Rightarrow> decode_members tm fs kvs (zero_struct fs hidden))"

subsection \<open>Writing\<close>

fun empty_val :: "gval \<Rightarrow> bool" where
  "empty_val (V_text s) = (s = [])"
| "empty_val (V_int n) = (n = 0)"
| "empty_val (V_bool b) = (\<not> b)"
| "empty_val (V_texts x) = (x = None \<or> x = Some [])"
| "empty_val (V_dict x) = (x = None \<or> x = Some [])"
| "empty_val (V_acl x) = (x = None \<or> x = Some [])"
| "empty_val (V_time _) = False"
| "empty_val (V_opt_time x) = (x = None)"

definition acl_json :: "string \<times> string \<Rightarrow> json" where
  "acl_json e = JObj [(''id'', JStr (fst e)), (''value'', JStr (snd e))]"

fun write_val :: "gval \<Rightarrow> json" where
  "write_val (V_text s) = JStr s"
| "write_val (V_int n) = JNum (of_int n)"
| "write_val (V_bool b) = JBool b"
| "write_val (V_texts x) = (case x of None \<Rightarrow> JNull | Some ts \<Rightarrow> JArr (map JStr ts))"
| "write_val (V_dict x) = (case x of None \<Rightarrow> JNull | Some d \<Rightarrow> JObj (map (\<lambda>(k, s). (k, JStr s)) d))"
| "write_val (V_acl x) = (case x of None \<Rightarrow> JNull | Some es \<Rightarrow> JArr (map acl_json es))"
| "write_val (V_time s) = JStr s"
| "write_val (V_opt_time x) = (case x of None \<Rightarrow> JNull | Some s \<Rightarrow> JStr s)"

definition struct_members :: "gfield list \<Rightarrow> gstruct \<Rightarrow> (string \<times> json) list" where
  "struct_members fs v =
     map (\<lambda>f. (gf_name f, write_val (gget v (gf_name f))))
       (filter (\<lambda>f. \<not> (gf_omit f \<and> empty_val (gget v (gf_name f)))) fs)"

definition struct_json :: "gfield list \<Rightarrow> gstruct \<Rightarrow> json" where
  "struct_json fs v = JObj (struct_members fs v)"

subsection \<open>Values of a kind\<close>

definition dict_ok :: "(string \<times> string) list \<Rightarrow> bool" where
  "dict_ok d \<longleftrightarrow> sorted_wrt bytes_less (map fst d)"

fun has_kind :: "(string \<Rightarrow> string option) \<Rightarrow> gkind \<Rightarrow> gval \<Rightarrow> bool" where
  "has_kind tm K_text v = (case v of V_text _ \<Rightarrow> True | _ \<Rightarrow> False)"
| "has_kind tm K_int v = (case v of V_int n \<Rightarrow> - (2 ^ 63) \<le> n \<and> n < 2 ^ 63 | _ \<Rightarrow> False)"
| "has_kind tm K_bool v = (case v of V_bool _ \<Rightarrow> True | _ \<Rightarrow> False)"
| "has_kind tm K_texts v = (case v of V_texts _ \<Rightarrow> True | _ \<Rightarrow> False)"
| "has_kind tm K_dict v = (case v of V_dict d \<Rightarrow> (case d of None \<Rightarrow> True | Some kvs \<Rightarrow> dict_ok kvs) | _ \<Rightarrow> False)"
| "has_kind tm K_acl v = (case v of V_acl _ \<Rightarrow> True | _ \<Rightarrow> False)"
| "has_kind tm K_time v = (case v of V_time s \<Rightarrow> tm s = Some s | _ \<Rightarrow> False)"
| "has_kind tm K_opt_time v = (case v of V_opt_time t \<Rightarrow> (case t of None \<Rightarrow> True | Some s \<Rightarrow> tm s = Some s) | _ \<Rightarrow> False)"

text \<open>What is read and written back reads the same again; so does the zero time.\<close>

definition time_law :: "(string \<Rightarrow> string option) \<Rightarrow> bool" where
  "time_law tm \<longleftrightarrow> tm zero_time = Some zero_time \<and> (\<forall>s t. tm s = Some t \<longrightarrow> tm t = Some t)"

lemma zero_kind: "time_law tm \<Longrightarrow> has_kind tm k (zero_val k)"
  by (cases k) (simp_all add: time_law_def)

lemma bytes_less_irrefl [simp]: "\<not> bytes_less a a"
  by (induction a) auto

lemma bytes_less_trans: "bytes_less a b \<Longrightarrow> bytes_less b c \<Longrightarrow> bytes_less a c"
proof (induction a b arbitrary: c rule: bytes_less.induct)
  case (3 a as b bs)
  then show ?case by (cases c) auto
next
  case (2 b bs)
  then show ?case by (cases c) auto
qed simp

lemma bytes_less_total: "a \<noteq> b \<Longrightarrow> \<not> bytes_less a b \<Longrightarrow> bytes_less b a"
proof (induction a b rule: bytes_less.induct)
  case (1 a)
  then show ?case by (cases a) auto
next
  case (3 a as b bs)
  then show ?case by (auto simp: code_inject)
qed simp

lemma dict_put_keys: "set (map fst (dict_put k v d)) = insert k (set (map fst d))"
  by (induction k v d rule: dict_put.induct) (simp_all add: insert_commute)

lemma dict_put_ok: "dict_ok d \<Longrightarrow> dict_ok (dict_put k v d)"
proof (induction d)
  case (Cons e d)
  obtain k' v' where e: "e = (k', v')" by (cases e)
  have tl: "dict_ok d" "\<forall>y \<in> set (map fst d). bytes_less k' y"
    using Cons.prems by (simp_all add: e dict_ok_def)
  have "\<forall>y \<in> set (map fst (dict_put k v d)). bytes_less k' y" if "bytes_less k' k"
    unfolding dict_put_keys using tl(2) that by simp
  moreover have "\<forall>y \<in> set (map fst d). bytes_less k y" if "bytes_less k k'"
    using tl(2) bytes_less_trans [OF that] by blast
  ultimately show ?case
    using Cons.IH [OF tl(1)] tl bytes_less_total [of k k'] by (simp add: e dict_ok_def)
qed (simp add: dict_ok_def)

lemma dict_put_last: "dict_ok (d @ [(k, v)]) \<Longrightarrow> dict_put k v d = d @ [(k, v)]"
proof (induction d)
  case (Cons e d)
  then show ?case
    by (cases e) (auto simp: dict_ok_def sorted_wrt_append dest: bytes_less_trans)
qed simp

lemma dict_members_ok: "dict_members kvs d = Some d' \<Longrightarrow> dict_ok d \<Longrightarrow> dict_ok d'"
  by (induction kvs d rule: dict_members.induct) (auto intro: dict_put_ok split: option.splits)

lemma dict_members_written: "dict_ok (d @ r) \<Longrightarrow> dict_members (map (\<lambda>(k, s). (k, JStr s)) r) d = Some (d @ r)"
proof (induction r arbitrary: d)
  case (Cons e r)
  obtain k s where e: "e = (k, s)" by (cases e)
  have "dict_ok (d @ [(k, s)])" using Cons.prems by (auto simp: e dict_ok_def sorted_wrt_append)
  then show ?case using Cons.IH [of "d @ [(k, s)]"] Cons.prems by (simp add: e text_elem_def dict_put_last)
qed simp

lemma dict_distinct: "dict_ok d \<Longrightarrow> distinct (map fst d)"
  by (induction d) (auto simp: dict_ok_def)

text \<open>What is read has the field's kind, and what is written reads back.\<close>

lemma read_kind:
  assumes "read_val tm k old j = Some x" "has_kind tm k old" "time_law tm"
  shows "has_kind tm k x"
proof (cases k)
  case K_dict
  then show ?thesis
    using assms dict_members_ok [of _ "case old of V_dict (Some d) \<Rightarrow> d | _ \<Rightarrow> []"]
    by (auto simp: dict_ok_def split: json.splits gval.splits option.splits)
qed (use assms in \<open>auto simp: int_of_num_def time_law_def split: json.splits if_splits\<close>)

lemma read_written:
  assumes "has_kind tm k v"
  shows "read_val tm k (zero_val k) (write_val v) = Some v"
proof (cases k)
  case K_texts
  have "all_some (map text_elem (map JStr xs)) = Some xs" for xs by (induction xs) (simp_all add: text_elem_def)
  then show ?thesis using assms K_texts by (auto simp del: map_map split: gval.splits option.splits)
next
  case K_acl
  have "acl_elem (acl_json e) = Some e" for e
  proof -
    have "go_fold ''id'' \<noteq> go_fold ''value''" by code_simp
    then show ?thesis by (cases e) (simp add: acl_elem_def acl_json_def del: go_fold.simps)
  qed
  then have "all_some (map acl_elem (map acl_json es)) = Some es" for es by (induction es) simp_all
  then show ?thesis using assms K_acl by (auto simp del: map_map split: gval.splits option.splits)
next
  case K_dict
  then show ?thesis
    using assms dict_members_written [of "[]"] by (auto split: gval.splits option.splits)
qed (use assms in \<open>auto simp: int_of_num_def split: gval.splits option.splits\<close>)

lemma plain_written: "has_kind tm k v \<Longrightarrow> plain_json (write_val v)"
  by (cases k) (auto simp: acl_json_def o_def split_beta dict_distinct split: gval.splits option.splits)

subsection \<open>Decoding what was written\<close>

definition fields_ok :: "gfield list \<Rightarrow> bool" where
  "fields_ok fs \<longleftrightarrow> distinct (map (\<lambda>f. go_fold (gf_name f)) fs)"

lemma field_named_own:
  assumes "fields_ok fs" "f \<in> set fs"
  shows "field_named fs (gf_name f) = Some f"
  using assms unfolding field_named_def fields_ok_def by (induction fs) (auto simp: image_iff)

lemma fields_distinct: "fields_ok fs \<Longrightarrow> distinct (map gf_name fs)"
  unfolding fields_ok_def by (induction fs) auto

lemma gget_set [simp]: "gget (obj_set k x v) k' = (if k' = k then x else gget v k')"
  by (simp add: gget_def)

lemma keys_set_present: "k \<in> fst ` set v \<Longrightarrow> map fst (obj_set k x v) = map fst v"
proof (induction v)
  case (Cons e v)
  then show ?case by (cases e; cases "fst e = k") simp_all
qed simp

text \<open>
  Members that are fields' own names, each once, are read one by one; members that name no field
  are passed over.
\<close>

definition given_member :: "(string \<Rightarrow> string option) \<Rightarrow> gfield list \<Rightarrow> gstruct \<Rightarrow> (string \<Rightarrow> json \<Rightarrow> gval) \<Rightarrow> string \<times> json \<Rightarrow> bool" where
  "given_member tm fs v g kj \<longleftrightarrow>
     (case field_named fs (fst kj) of
        None \<Rightarrow> True
      | Some f \<Rightarrow> gf_name f = fst kj \<and> fst kj \<in> fst ` set v \<and>
          read_val tm (gf_kind f) (gget v (fst kj)) (snd kj) = Some (g (fst kj) (snd kj)))"

lemma decode_given:
  assumes "\<forall>kj \<in> set kvs. given_member tm fs v g kj" "distinct (map fst kvs)"
  shows "\<exists>w. decode_members tm fs kvs v = Some w \<and> map fst w = map fst v \<and>
    (\<forall>k. gget w k = (case map_of kvs k of
       None \<Rightarrow> gget v k
     | Some j \<Rightarrow> if field_named fs k = None then gget v k else g k j))"
  using assms
proof (induction kvs arbitrary: v)
  case (Cons kj kvs)
  obtain k j where kj: "kj = (k, j)" by (cases kj)
  have fresh: "k \<notin> fst ` set kvs" using Cons.prems(2) by (simp add: kj)
  then have none: "map_of kvs k = None" by (simp add: map_of_eq_None_iff)
  show ?case
  proof (cases "field_named fs k")
    case None
    with Cons.IH [of v] Cons.prems obtain w where
      "decode_members tm fs kvs v = Some w" "map fst w = map fst v"
      "\<forall>k'. gget w k' = (case map_of kvs k' of None \<Rightarrow> gget v k' | Some j \<Rightarrow> if field_named fs k' = None then gget v k' else g k' j)"
      by auto
    with None none show ?thesis by (auto simp: kj)
  next
    case (Some f)
    with Cons.prems(1) kj have f: "gf_name f = k" "k \<in> fst ` set v" "read_val tm (gf_kind f) (gget v k) j = Some (g k j)"
      by (auto simp: given_member_def)
    let ?v = "obj_set k (g k j) v"
    have keys: "map fst ?v = map fst v" by (rule keys_set_present [OF f(2)])
    have "given_member tm fs ?v g kj'" if m: "kj' \<in> set kvs" for kj'
    proof -
      have "fst kj' \<noteq> k" using fresh m by (metis image_eqI)
      moreover have "fst ` set ?v = fst ` set v" using keys by (metis list.set_map)
      ultimately show ?thesis
        using Cons.prems(1) m by (auto simp: given_member_def split: option.splits)
    qed
    with Cons.IH [of ?v] Cons.prems(2) obtain w where
      "decode_members tm fs kvs ?v = Some w" "map fst w = map fst ?v"
      "\<forall>k'. gget w k' = (case map_of kvs k' of None \<Rightarrow> gget ?v k' | Some j \<Rightarrow> if field_named fs k' = None then gget ?v k' else g k' j)"
      by (auto simp: kj)
    with f keys Some none show ?thesis by (auto simp: kj split: option.split)
  qed
qed simp

text \<open>Whatever is decoded has the fields' kinds.\<close>

definition fields_typed :: "(string \<Rightarrow> string option) \<Rightarrow> gfield list \<Rightarrow> gstruct \<Rightarrow> bool" where
  "fields_typed tm fs v \<longleftrightarrow> (\<forall>f \<in> set fs. has_kind tm (gf_kind f) (gget v (gf_name f)))"

lemma field_named_in: "field_named fs k = Some f \<Longrightarrow> f \<in> set fs"
  unfolding field_named_def by (induction fs) (auto split: if_splits)

lemma decode_typed:
  assumes "decode_members tm fs kvs v = Some w" "fields_typed tm fs v" "gf_name ` set fs \<subseteq> fst ` set v"
    and "fields_ok fs" "time_law tm"
  shows "fields_typed tm fs w \<and> map fst w = map fst v"
  using assms(1-3)
proof (induction kvs arbitrary: v)
  case (Cons kj kvs)
  obtain k j where kj: "kj = (k, j)" by (cases kj)
  show ?case
  proof (cases "field_named fs k")
    case (Some f)
    with Cons.prems(1) obtain x where x: "read_val tm (gf_kind f) (gget v (gf_name f)) j = Some x"
      "decode_members tm fs kvs (obj_set (gf_name f) x v) = Some w" by (auto simp: kj split: option.splits)
    note f = field_named_in [OF Some]
    have "has_kind tm (gf_kind f) x"
      using read_kind [OF x(1) _ assms(5)] Cons.prems(2) f by (auto simp: fields_typed_def)
    moreover have "f' = f" if "f' \<in> set fs" "gf_name f' = gf_name f" for f'
      using field_named_own [OF assms(4) that(1)] field_named_own [OF assms(4) f] that(2) by (metis option.inject)
    ultimately have "fields_typed tm fs (obj_set (gf_name f) x v)" using Cons.prems(2) by (auto simp: fields_typed_def)
    moreover have "gf_name f \<in> fst ` set v" using Cons.prems(3) f by blast
    ultimately show ?thesis
      using Cons.IH [OF x(2)] Cons.prems(3) keys_set_present [of "gf_name f" v x] keys_obj_set [of "gf_name f" x v]
      by (simp add: subset_insertI2)
  qed (use Cons kj in auto)
qed simp

lemma zero_struct_keys: "map fst (zero_struct fs hidden) = map gf_name fs @ hidden"
  by (simp add: zero_struct_def o_def)

lemma zero_struct_get:
  assumes "fields_ok fs" "set hidden \<inter> gf_name ` set fs = {}"
  shows "f \<in> set fs \<Longrightarrow> gget (zero_struct fs hidden) (gf_name f) = zero_val (gf_kind f)"
    and "gget (zero_struct fs hidden) k = V_text [] \<or> k \<in> gf_name ` set fs"
proof -
  have d: "distinct (map gf_name fs)" using fields_distinct [OF assms(1)] .
  let ?z = "map (\<lambda>f. (gf_name f, zero_val (gf_kind f))) fs"
  have "map_of ?z (gf_name f) = Some (zero_val (gf_kind f))" if "f \<in> set fs" for f
    using that d by (intro map_of_is_SomeI) (auto simp: o_def)
  then show "gget (zero_struct fs hidden) (gf_name f) = zero_val (gf_kind f)" if "f \<in> set fs"
    using that by (simp add: gget_def zero_struct_def map_add_def)
  have "map_of ?z k = None" if "k \<notin> gf_name ` set fs" using that by (auto simp: map_of_eq_None_iff)
  moreover have "map_of (map (\<lambda>k. (k, V_text [])) hidden) k = Some x \<Longrightarrow> x = V_text []" for x
    by (induction hidden) (auto split: if_splits)
  ultimately show "gget (zero_struct fs hidden) k = V_text [] \<or> k \<in> gf_name ` set fs"
    by (auto simp: gget_def zero_struct_def map_add_def split: option.split)
qed

lemma decode_struct_typed:
  assumes "decode_struct tm fs hidden m = Some w" "fields_ok fs" "set hidden \<inter> gf_name ` set fs = {}" "time_law tm"
  shows "fields_typed tm fs w \<and> map fst w = map gf_name fs @ hidden"
proof -
  obtain kvs where d: "decode_members tm fs kvs (zero_struct fs hidden) = Some w"
    using assms(1) by (auto simp: decode_struct_def split: option.splits)
  have "fields_typed tm fs (zero_struct fs hidden)"
    using zero_struct_get(1) [OF assms(2,3)] zero_kind [OF assms(4)] by (simp add: fields_typed_def)
  moreover have "gf_name ` set fs \<subseteq> fst ` set (zero_struct fs hidden)" by (force simp: zero_struct_def)
  ultimately show ?thesis using decode_typed [OF d _ _ assms(2,4)] zero_struct_keys by auto
qed

text \<open>A member as it is written: absent when empty and to be left out.\<close>

lemma same_field: "fields_ok fs \<Longrightarrow> f \<in> set fs \<Longrightarrow> f' \<in> set fs \<Longrightarrow> gf_name f = gf_name f' \<Longrightarrow> f = f'"
  using fields_distinct [of fs] by (auto simp: distinct_map dest: inj_onD)

lemma written_member:
  assumes "fields_ok fs" "f \<in> set fs"
  shows "map_of (struct_members fs v) (gf_name f) =
    (if gf_omit f \<and> empty_val (gget v (gf_name f)) then None else Some (write_val (gget v (gf_name f))))"
proof (cases "gf_omit f \<and> empty_val (gget v (gf_name f))")
  case True
  then have "gf_name f \<notin> fst ` set (struct_members fs v)"
    using same_field [OF assms] by (auto simp: struct_members_def)
  with True show ?thesis by (simp add: map_of_eq_None_iff)
next
  case False
  have "distinct (map fst (struct_members fs v))"
    using fields_distinct [OF assms(1)] by (simp add: struct_members_def o_def distinct_map_filter)
  moreover have "(gf_name f, write_val (gget v (gf_name f))) \<in> set (struct_members fs v)"
    using assms(2) False by (auto simp: struct_members_def)
  ultimately show ?thesis using False by (simp add: map_of_is_SomeI)
qed

lemma members_plain:
  assumes "fields_ok fs" "fields_typed tm fs v"
  shows "plain_json (struct_json fs v)"
proof -
  have "distinct (map fst (struct_members fs v))"
    using fields_distinct [OF assms(1)] by (simp add: struct_members_def o_def distinct_map_filter)
  then show ?thesis
    using assms(2) plain_written by (auto simp: struct_json_def struct_members_def fields_typed_def)
qed

end
