(* ===== verification/Resource_Server.thy ===== *)
theory Resource_Server
  imports Go_Struct Audit_Server Users_Server
begin

text \<open>
  What the handlers of the eight modules have in common (\<open>forward_handler.go\<close>,
  \<open>proxy_handler.go\<close>, \<open>ddns_handler.go\<close>, \<open>module_handlers.go\<close> under \<open>internal/api/handler\<close>):
  a struct is decoded from the body, checked, written to a table; lists of the forwarding and
  proxy rules are kept in tables of their own; some changes are told to a notifier. A module is a
  description (\<open>resource\<close>): its struct, the columns its statements write and read, its check and
  its choices. Statements that no constraint can refuse succeed.
\<close>

subsection \<open>Descriptions and tables\<close>

datatype paging = By_page | Page_of_20 | Everything

record resource =
  re_name :: string
  re_fields :: "gfield list"
  re_hidden :: "string list"                \<comment> \<open>tagged \<open>json:"-"\<close>, all texts\<close>
  re_lists :: "(string \<times> string) list"      \<comment> \<open>fields with a table of their own, in the order they are saved\<close>
  re_insert :: "string list"                \<comment> \<open>columns the \<open>INSERT\<close> writes\<close>
  re_default :: gstruct                     \<comment> \<open>the other columns of a new row; a text is empty\<close>
  re_update :: "string list"                \<comment> \<open>columns the \<open>UPDATE\<close> writes, besides \<open>updated_at\<close>\<close>
  re_select :: "string list"                \<comment> \<open>columns the \<open>SELECT\<close> of the listing reads\<close>
  re_check :: "gstruct \<Rightarrow> string option"     \<comment> \<open>what \<open>Create\<close> refuses\<close>
  re_bad_body :: string
  re_paging :: paging
  re_insert_checked :: bool                 \<comment> \<open>whether \<open>Create\<close> looks at the error of its \<open>INSERT\<close>\<close>
  re_tells :: "string list"                 \<comment> \<open>which handlers call the notifier\<close>

record module_lib =
  ml_enc :: encoder
  ml_draw :: "nat \<Rightarrow> string"                 \<comment> \<open>\<open>generateUUID\<close>\<close>
  ml_time :: "string \<Rightarrow> string option"        \<comment> \<open>a time as it is read and written back\<close>
  ml_show :: "nat \<Rightarrow> string"
  ml_url :: "string \<Rightarrow> (string \<times> string) option"   \<comment> \<open>\<open>url.Parse\<close>: scheme and host\<close>

text \<open>
  The tables of a module: its rows, oldest first; its lists (id, rule, value) by table; what the
  notifier was told.
\<close>

record module_db =
  md_rows :: "gstruct list"
  md_lists :: "string \<Rightarrow> (string \<times> string \<times> string) list"
  md_drawn :: nat
  md_now :: nat
  md_told :: "(string \<times> string \<times> string) list"

definition row_id :: "gstruct \<Rightarrow> string" where
  "row_id x = (case gget x ''id'' of V_text i \<Rightarrow> i | _ \<Rightarrow> [])"

definition row_ids :: "module_db \<Rightarrow> string list" where
  "row_ids db = map row_id (md_rows db)"

definition tell :: "resource \<Rightarrow> string \<Rightarrow> string \<Rightarrow> module_db \<Rightarrow> module_db" where
  "tell R action i db =
     (if action \<in> set (re_tells R) then db\<lparr>md_told := md_told db @ [(re_name R, action, i)]\<rparr> else db)"

subsection \<open>Lists in tables of their own\<close>

text \<open>
  \<open>saveACLEntries\<close>, \<open>saveStringList\<close>, \<open>saveProxyDomains\<close>: an entry without an id is given one; the
  insertion fails, without anyone noticing, when the id is taken or the rule does not exist.
\<close>

definition save_entry :: "module_lib \<Rightarrow> string \<Rightarrow> string \<Rightarrow> string \<times> string \<Rightarrow> module_db \<Rightarrow> module_db" where
  "save_entry lib table rule ev db =
     (let db1 = (if fst ev = [] then db\<lparr>md_drawn := md_drawn db + 1\<rparr> else db);
          e = (if fst ev = [] then ml_draw lib (md_drawn db) else fst ev);
          rows = md_lists db table
      in if rule \<in> set (row_ids db) \<and> e \<notin> fst ` set rows
         then db1\<lparr>md_lists := (md_lists db)(table := rows @ [(e, rule, snd ev)])\<rparr> else db1)"

definition save_entries :: "module_lib \<Rightarrow> string \<Rightarrow> string \<Rightarrow> (string \<times> string) list \<Rightarrow> module_db \<Rightarrow> module_db" where
  "save_entries lib table rule es db = fold (save_entry lib table rule) es db"

definition list_entries :: "gval \<Rightarrow> (string \<times> string) list" where
  "list_entries v =
     (case v of V_acl (Some es) \<Rightarrow> es | V_texts (Some ts) \<Rightarrow> map (\<lambda>x. ([], x)) ts | _ \<Rightarrow> [])"

fun save_lists :: "module_lib \<Rightarrow> (string \<times> string) list \<Rightarrow> string \<Rightarrow> gstruct \<Rightarrow> module_db \<Rightarrow> module_db" where
  "save_lists lib [] rule v db = db"
| "save_lists lib ((k, table) # r) rule v db =
     save_lists lib r rule v (save_entries lib table rule (list_entries (gget v k)) db)"

definition drop_lists :: "resource \<Rightarrow> string \<Rightarrow> module_db \<Rightarrow> module_db" where
  "drop_lists R rule db =
     db\<lparr>md_lists := (\<lambda>tab. if tab \<in> snd ` set (re_lists R) then filter (\<lambda>(_, r, _). r \<noteq> rule) (md_lists db tab)
       else md_lists db tab)\<rparr>"

text \<open>\<open>loadACLEntries\<close>, \<open>loadStringList\<close>, \<open>loadProxyDomains\<close>: never nil.\<close>

definition load_list :: "gkind \<Rightarrow> string \<Rightarrow> string \<Rightarrow> module_db \<Rightarrow> gval" where
  "load_list k table rule db =
     (let es = map (\<lambda>(e, _, v). (e, v)) (filter (\<lambda>(_, r, _). r = rule) (md_lists db table))
      in if k = K_acl then V_acl (Some es) else V_texts (Some (map snd es)))"

subsection \<open>Handlers\<close>

definition columns :: "resource \<Rightarrow> string list" where
  "columns R = filter (\<lambda>k. k \<notin> fst ` set (re_lists R)) (map gf_name (re_fields R)) @ re_hidden R"

definition new_row :: "resource \<Rightarrow> gstruct \<Rightarrow> gstruct" where
  "new_row R v = map (\<lambda>k. (k, if k \<in> set (re_insert R) then gget v k else gget (re_default R) k)) (columns R)"

definition overwrite :: "string list \<Rightarrow> gstruct \<Rightarrow> gstruct \<Rightarrow> gstruct" where
  "overwrite ks v x = map (\<lambda>(k, y). (k, if k \<in> set ks then gget v k else y)) x"

definition stamped :: "string \<Rightarrow> string \<Rightarrow> gstruct \<Rightarrow> gstruct" where
  "stamped i now v =
     obj_set ''updated_at'' (V_time now) (obj_set ''created_at'' (V_time now) (obj_set ''id'' (V_text i) v))"

definition decode_body :: "module_lib \<Rightarrow> resource \<Rightarrow> string \<Rightarrow> gstruct option" where
  "decode_body lib R body = decode_struct (ml_time lib) (re_fields R) (re_hidden R) (decode_upto maxJSONBodyBytes body)"

definition resource_Create :: "module_lib \<Rightarrow> resource \<Rightarrow> module_db \<Rightarrow> string \<Rightarrow> module_db \<times> net_result" where
  "resource_Create lib R db body =
     (case decode_body lib R body of
        None \<Rightarrow> (db, go_error (ml_enc lib) 400 (re_bad_body R))
      | Some v0 \<Rightarrow>
          (case re_check R v0 of
             Some msg \<Rightarrow> (db, go_error (ml_enc lib) 400 msg)
           | None \<Rightarrow>
               let i = ml_draw lib (md_drawn db); db1 = db\<lparr>md_drawn := md_drawn db + 1\<rparr>;
                   v = stamped i (ml_show lib (md_now db)) v0; taken = (i \<in> set (row_ids db))
               in if taken \<and> re_insert_checked R then (db1, go_error (ml_enc lib) 500 ''create failed'')
                  else let db2 = (if taken then db1 else db1\<lparr>md_rows := md_rows db1 @ [new_row R v]\<rparr>);
                           db3 = save_lists lib (re_lists R) i v db2
                       in (tell R ''created'' i db3, go_created (ml_enc lib) (struct_json (re_fields R) v))))"

definition resource_Update :: "module_lib \<Rightarrow> resource \<Rightarrow> module_db \<Rightarrow> string \<Rightarrow> string \<Rightarrow> module_db \<times> net_result" where
  "resource_Update lib R db i body =
     (case decode_body lib R body of
        None \<Rightarrow> (db, go_error (ml_enc lib) 400 (re_bad_body R))
      | Some v \<Rightarrow>
          let now = V_time (ml_show lib (md_now db));
              db1 = db\<lparr>md_rows := map (\<lambda>x. if row_id x = i
                then overwrite [''updated_at''] [(''updated_at'', now)] (overwrite (re_update R) v x) else x) (md_rows db)\<rparr>;
              db2 = save_lists lib (re_lists R) i v (drop_lists R i db1)
          in (tell R ''updated'' i db2, go_message (ml_enc lib) ''updated''))"

text \<open>The rows of the other tables go with the rule they belong to (\<open>ON DELETE CASCADE\<close>).\<close>

definition resource_Delete :: "module_lib \<Rightarrow> resource \<Rightarrow> module_db \<Rightarrow> string \<Rightarrow> module_db \<times> net_result" where
  "resource_Delete lib R db i =
     (tell R ''deleted'' i (drop_lists R i (db\<lparr>md_rows := filter (\<lambda>x. row_id x \<noteq> i) (md_rows db)\<rparr>)),
      go_message (ml_enc lib) ''deleted'')"

text \<open>A row as the listing reads it: columns it does not select are zero.\<close>

definition loaded :: "resource \<Rightarrow> module_db \<Rightarrow> gstruct \<Rightarrow> gstruct" where
  "loaded R db x =
     map (\<lambda>f. (gf_name f,
       case map_of (re_lists R) (gf_name f) of
         Some table \<Rightarrow> load_list (gf_kind f) table (row_id x) db
       | None \<Rightarrow> if gf_name f \<in> set (re_select R) then gget x (gf_name f) else zero_val (gf_kind f))) (re_fields R)"

definition row_json :: "resource \<Rightarrow> module_db \<Rightarrow> gstruct \<Rightarrow> json" where
  "row_json R db x = struct_json (re_fields R) (loaded R db x)"

text \<open>\<open>page\<close> and \<open>page_size\<close> of the query, as the handlers of the listings limit them.\<close>

definition page_of :: "(string \<times> string) list \<Rightarrow> int" where
  "page_of q = (let p = go_atoi (query_get ''page'' q) in if p < 1 then 1 else p)"

definition page_size_of :: "(string \<times> string) list \<Rightarrow> int" where
  "page_size_of q = (let n = go_atoi (query_get ''page_size'' q) in if n < 1 \<or> 100 < n then 20 else n)"

definition rows_wanted :: "resource \<Rightarrow> (string \<times> string) list \<Rightarrow> module_db \<Rightarrow> gstruct list" where
  "rows_wanted R q db =
     (let newest = rev (md_rows db)
      in case re_paging R of
           By_page \<Rightarrow> limit_offset (page_size_of q) (offset_of (page_of q) (page_size_of q)) newest
         | Page_of_20 \<Rightarrow> limit_offset 20 (offset_of (page_of q) 20) newest
         | Everything \<Rightarrow> newest)"

definition resource_List :: "module_lib \<Rightarrow> resource \<Rightarrow> module_db \<Rightarrow> string \<Rightarrow> net_result" where
  "resource_List lib R db url =
     (let q = url_query url; rows = JArr (map (row_json R db) (rows_wanted R q db))
      in if re_paging R = By_page
         then Paginated (ml_enc lib) rows (length (md_rows db)) (page_of q) (page_size_of q)
         else go_success (ml_enc lib) rows)"

subsection \<open>Runs\<close>

datatype module_request =
    M_create string
  | M_update string string      \<comment> \<open>id, body\<close>
  | M_delete string
  | M_time nat

fun module_serve :: "module_lib \<Rightarrow> resource \<Rightarrow> module_request \<Rightarrow> module_db \<Rightarrow> module_db" where
  "module_serve lib R (M_create body) db = fst (resource_Create lib R db body)"
| "module_serve lib R (M_update i body) db = fst (resource_Update lib R db i body)"
| "module_serve lib R (M_delete i) db = fst (resource_Delete lib R db i)"
| "module_serve lib R (M_time n) db = db\<lparr>md_now := md_now db + n\<rparr>"

definition empty_db :: module_db where
  "empty_db = \<lparr>md_rows = [], md_lists = (\<lambda>_. []), md_drawn = 0, md_now = 0, md_told = []\<rparr>"

subsection \<open>What a table holds\<close>

text \<open>The laws of the library: what it writes reads back, an identifier is not empty.\<close>

definition lib_law :: "module_lib \<Rightarrow> bool" where
  "lib_law lib \<longleftrightarrow> encodes (ml_enc lib) \<and> time_law (ml_time lib) \<and>
     (\<forall>n. ml_time lib (ml_show lib n) = Some (ml_show lib n)) \<and> (\<forall>n. ml_draw lib n \<noteq> [])"

definition row_ok :: "(string \<Rightarrow> string option) \<Rightarrow> resource \<Rightarrow> gstruct \<Rightarrow> bool" where
  "row_ok tm R x \<longleftrightarrow>
     map fst x = columns R \<and>
     (\<forall>f \<in> set (re_fields R). gf_name f \<notin> fst ` set (re_lists R) \<longrightarrow> has_kind tm (gf_kind f) (gget x (gf_name f)))"

subsubsection \<open>Lists\<close>

definition lists_ok :: "module_db \<Rightarrow> bool" where
  "lists_ok db \<longleftrightarrow>
     (\<forall>tab. distinct (map fst (md_lists db tab)) \<and> (\<forall>e \<in> set (md_lists db tab). fst e \<noteq> [] \<and> fst (snd e) \<in> set (row_ids db)))"

lemma save_entry_same [simp]:
  "md_rows (save_entry lib tab i e db) = md_rows db" "md_now (save_entry lib tab i e db) = md_now db"
  "md_told (save_entry lib tab i e db) = md_told db"
  by (simp_all add: save_entry_def Let_def)

lemma save_entries_same [simp]:
  "md_rows (save_entries lib tab i es db) = md_rows db" "md_now (save_entries lib tab i es db) = md_now db"
  "md_told (save_entries lib tab i es db) = md_told db"
  unfolding save_entries_def by (induction es arbitrary: db) simp_all

lemma save_lists_same [simp]:
  "md_rows (save_lists lib ls i v db) = md_rows db" "md_now (save_lists lib ls i v db) = md_now db"
  "md_told (save_lists lib ls i v db) = md_told db"
  by (induction lib ls i v db rule: save_lists.induct) simp_all

lemma drop_lists_same [simp]:
  "md_rows (drop_lists R i db) = md_rows db" "md_now (drop_lists R i db) = md_now db"
  "md_told (drop_lists R i db) = md_told db" "md_drawn (drop_lists R i db) = md_drawn db"
  by (simp_all add: drop_lists_def)

lemma tell_same [simp]:
  "md_rows (tell R a i db) = md_rows db" "md_now (tell R a i db) = md_now db" "md_lists (tell R a i db) = md_lists db"
  "md_drawn (tell R a i db) = md_drawn db"
  by (simp_all add: tell_def)

lemma row_ids_same: "md_rows db' = md_rows db \<Longrightarrow> row_ids db' = row_ids db"
  by (simp add: row_ids_def)

lemma save_entry_ok: "lists_ok db \<Longrightarrow> lib_law lib \<Longrightarrow> lists_ok (save_entry lib tab i e db)"
  by (auto simp: save_entry_def Let_def lists_ok_def row_ids_def lib_law_def)

lemma save_entries_ok: "lists_ok db \<Longrightarrow> lib_law lib \<Longrightarrow> lists_ok (save_entries lib tab i es db)"
  unfolding save_entries_def by (induction es arbitrary: db) (simp_all add: save_entry_ok)

lemma save_lists_ok: "lists_ok db \<Longrightarrow> lib_law lib \<Longrightarrow> lists_ok (save_lists lib ls i v db)"
  by (induction lib ls i v db rule: save_lists.induct) (simp_all add: save_entries_ok)

text \<open>Lists whose rule goes from the table go as well.\<close>

lemma drop_lists_ok:
  assumes "\<forall>tab. distinct (map fst (md_lists db tab)) \<and> (\<forall>e \<in> set (md_lists db tab). fst e \<noteq> [] \<and> fst (snd e) \<in> insert i (set (row_ids db)))"
    and "\<forall>tab. tab \<notin> snd ` set (re_lists R) \<longrightarrow> md_lists db tab = []"
  shows "lists_ok (drop_lists R i db)"
  unfolding lists_ok_def
proof (intro allI conjI ballI)
  fix tab
  show "distinct (map fst (md_lists (drop_lists R i db) tab))"
    using assms by (simp add: drop_lists_def distinct_map_filter)
  fix e assume "e \<in> set (md_lists (drop_lists R i db) tab)"
  then have "e \<in> set (md_lists db tab)" "fst (snd e) \<noteq> i"
    using assms(2) by (auto simp: drop_lists_def split: if_splits)
  with assms(1) show "fst e \<noteq> []" "fst (snd e) \<in> set (row_ids (drop_lists R i db))" by (auto simp: row_ids_def)
qed

lemma save_lists_tables:
  "tab \<notin> snd ` set ls \<Longrightarrow> md_lists (save_lists lib ls i v db) tab = md_lists db tab"
proof (induction lib ls i v db rule: save_lists.induct)
  case (2 lib k table r rule v db)
  have "md_lists (save_entries lib table rule es db) tab = md_lists db tab" if "tab \<noteq> table" for es
    unfolding save_entries_def using that
    by (induction es arbitrary: db) (auto simp: save_entry_def Let_def)
  with 2 show ?case by simp
qed simp

lemma drop_lists_tables: "md_lists db tab = [] \<Longrightarrow> md_lists (drop_lists R i db) tab = []"
  by (simp add: drop_lists_def)

definition db_ok :: "(string \<Rightarrow> string option) \<Rightarrow> resource \<Rightarrow> module_db \<Rightarrow> bool" where
  "db_ok tm R db \<longleftrightarrow>
     (\<forall>x \<in> set (md_rows db). row_ok tm R x) \<and> distinct (row_ids db) \<and> lists_ok db \<and>
     (\<forall>tab. tab \<notin> snd ` set (re_lists R) \<longrightarrow> md_lists db tab = [])"

lemma lists_ok_tell [simp]: "lists_ok (tell R a i db) = lists_ok db"
  by (simp add: lists_ok_def row_ids_def)

lemma db_ok_after:
  assumes "md_rows db = md_rows db'" "\<forall>x \<in> set (md_rows db'). row_ok tm R x" "distinct (row_ids db')" "lists_ok db"
    and "\<And>tab. tab \<notin> snd ` set (re_lists R) \<Longrightarrow> md_lists db tab = []"
  shows "db_ok tm R db"
  using assms row_ids_same [of db db'] by (simp add: db_ok_def)

text \<open>What a description must satisfy.\<close>

locale module_server =
  fixes R :: resource
  assumes fields: "fields_ok (re_fields R)"
    and hidden: "set (re_hidden R) \<inter> gf_name ` set (re_fields R) = {}"
    and id_field: "\<exists>f \<in> set (re_fields R). gf_name f = ''id'' \<and> gf_kind f = K_text \<and> \<not> gf_omit f"
    and stamp_fields: "k \<in> {''created_at'', ''updated_at''} \<Longrightarrow> \<exists>f \<in> set (re_fields R). gf_name f = k \<and> gf_kind f = K_time"
    and list_kinds: "f \<in> set (re_fields R) \<Longrightarrow> gf_name f \<in> fst ` set (re_lists R) \<Longrightarrow> gf_kind f \<in> {K_acl, K_texts}"
    and list_tables: "distinct (map snd (re_lists R))" "distinct (map fst (re_lists R))"
    and list_columns: "fst ` set (re_lists R) \<inter> {''id'', ''created_at'', ''updated_at''} = {}"
    and inserted: "{''id'', ''created_at'', ''updated_at''} \<subseteq> set (re_insert R)"
    and kept: "''id'' \<notin> set (re_update R)"
    and defaults: "f \<in> set (re_fields R) \<Longrightarrow> gf_name f \<notin> fst ` set (re_lists R) \<Longrightarrow> gf_name f \<notin> set (re_insert R) \<Longrightarrow>
      has_kind tm (gf_kind f) (gget (re_default R) (gf_name f))"
begin

lemma key_col [simp]:
  "k \<in> {''id'', ''created_at'', ''updated_at''} \<Longrightarrow> k \<in> set (columns R)"
proof -
  assume k: "k \<in> {''id'', ''created_at'', ''updated_at''}"
  then have "k \<notin> fst ` set (re_lists R)" using list_columns by blast
  moreover have "k \<in> gf_name ` set (re_fields R)"
  proof (cases "k = ''id''")
    case False
    with k have "k \<in> {''created_at'', ''updated_at''}" by blast
    from stamp_fields [OF this] show ?thesis by (auto intro: rev_image_eqI)
  qed (use id_field in \<open>auto intro: rev_image_eqI\<close>)
  ultimately show ?thesis by (simp add: columns_def)
qed

lemma decoded_typed:
  assumes "decode_body lib R body = Some v" "lib_law lib"
  shows "fields_typed (ml_time lib) (re_fields R) v \<and> map fst v = map gf_name (re_fields R) @ re_hidden R"
  using decode_struct_typed [OF _ fields hidden] assms by (auto simp: decode_body_def lib_law_def)

lemma loaded_get:
  assumes "f \<in> set (re_fields R)"
  shows "gget (loaded R db x) (gf_name f) =
    (case map_of (re_lists R) (gf_name f) of
       Some tab \<Rightarrow> load_list (gf_kind f) tab (row_id x) db
     | None \<Rightarrow> if gf_name f \<in> set (re_select R) then gget x (gf_name f) else zero_val (gf_kind f))"
proof -
  have "map_of (map (\<lambda>f. (gf_name f, h f)) (re_fields R)) (gf_name f) = Some (h f)" for h :: "gfield \<Rightarrow> gval"
    using assms fields_distinct [OF fields] by (intro map_of_is_SomeI) (auto simp: o_def)
  then show ?thesis by (simp add: gget_def loaded_def)
qed

lemmas the_field = same_field [OF fields]

lemma stamped_typed:
  assumes "fields_typed (ml_time lib) (re_fields R) v" "lib_law lib"
  shows "fields_typed (ml_time lib) (re_fields R) (stamped i (ml_show lib n) v)"
proof -
  have "gf_kind f = K_text" if "f \<in> set (re_fields R)" "gf_name f = ''id''" for f
    using id_field the_field [OF that(1)] that(2) by auto
  moreover have "gf_kind f = K_time" if f: "f \<in> set (re_fields R)" "gf_name f \<in> {''created_at'', ''updated_at''}" for f
  proof -
    obtain f' where f': "f' \<in> set (re_fields R)" "gf_name f' = gf_name f" "gf_kind f' = K_time"
      using stamp_fields [OF f(2)] by blast
    with the_field [OF f(1) f'(1)] show ?thesis by simp
  qed
  ultimately show ?thesis using assms by (auto simp: fields_typed_def stamped_def lib_law_def)
qed

lemma get_of_keys: "gget (map (\<lambda>k. (k, g k)) ks) k = (if k \<in> set ks then g k else V_text [])"
  by (induction ks) (auto simp: gget_def)

lemma field_column: "f \<in> set (re_fields R) \<Longrightarrow> gf_name f \<notin> fst ` set (re_lists R) \<Longrightarrow> gf_name f \<in> set (columns R)"
  by (simp add: columns_def)

lemma new_row_ok:
  assumes "fields_typed (ml_time lib) (re_fields R) v"
  shows "row_ok (ml_time lib) R (new_row R v)"
  using assms field_column defaults by (auto simp: row_ok_def new_row_def get_of_keys fields_typed_def o_def)

lemma gget_overwrite: "gget (overwrite ks v x) k = (if k \<in> fst ` set x \<and> k \<in> set ks then gget v k else gget x k)"
  by (induction x) (auto simp: gget_def overwrite_def)

lemma overwrite_keys [simp]: "map fst (overwrite ks v x) = map fst x"
  by (simp add: overwrite_def o_def split_beta)

lemma overwrite_id: "k \<notin> set ks \<Longrightarrow> gget (overwrite ks v x) k = gget x k"
  by (simp add: gget_overwrite)

lemma new_row_id: "row_id (new_row R (stamped i now v)) = i"
  using inserted by (simp add: row_id_def new_row_def get_of_keys stamped_def)

lemma updated_row_id:
  "row_id (overwrite [''updated_at''] [(''updated_at'', now)] (overwrite (re_update R) v x)) = row_id x"
  using kept by (simp add: row_id_def overwrite_id)

lemma updated_row_ok:
  assumes "row_ok (ml_time lib) R x" "fields_typed (ml_time lib) (re_fields R) v" "lib_law lib"
  shows "row_ok (ml_time lib) R (overwrite [''updated_at''] [(''updated_at'', V_time (ml_show lib n))] (overwrite (re_update R) v x))"
  unfolding row_ok_def
proof (intro conjI ballI impI)
  fix f assume f: "f \<in> set (re_fields R)" "gf_name f \<notin> fst ` set (re_lists R)"
  obtain f' where f': "f' \<in> set (re_fields R)" "gf_name f' = ''updated_at''" "gf_kind f' = K_time"
    using stamp_fields [of "''updated_at''"] by blast
  have "gf_kind f = K_time" if "gf_name f = ''updated_at''" using the_field [OF f(1) f'(1)] f'(2,3) that by simp
  moreover have "gget [(''updated_at'', V_time (ml_show lib n))] ''updated_at'' = V_time (ml_show lib n)" by (simp add: gget_def)
  ultimately show "has_kind (ml_time lib) (gf_kind f)
      (gget (overwrite [''updated_at''] [(''updated_at'', V_time (ml_show lib n))] (overwrite (re_update R) v x)) (gf_name f))"
    using assms f by (auto simp: gget_overwrite row_ok_def fields_typed_def lib_law_def)
qed (use assms(1) in \<open>simp add: row_ok_def\<close>)

text \<open>Every request keeps the tables in order.\<close>

lemma create_ok:
  assumes "db_ok (ml_time lib) R db" "lib_law lib"
  shows "db_ok (ml_time lib) R (fst (resource_Create lib R db body))"
proof (cases "decode_body lib R body")
  case (Some v0)
  let ?i = "ml_draw lib (md_drawn db)" and ?v = "stamped (ml_draw lib (md_drawn db)) (ml_show lib (md_now db)) v0"
  let ?db1 = "db\<lparr>md_drawn := md_drawn db + 1\<rparr>"
  have one: "db_ok (ml_time lib) R ?db1" using assms(1) by (simp add: db_ok_def lists_ok_def row_ids_def)
  have keep: "db_ok (ml_time lib) R (tell R a i (save_lists lib (re_lists R) i' v db'))"
    if "db_ok (ml_time lib) R db'" for a i i' v db'
    using that save_lists_ok [of db' lib "re_lists R" i' v] assms(2) save_lists_tables [of _ "re_lists R" lib i' v db']
    by (simp add: db_ok_def lists_ok_def row_ids_def)
  have "row_ok (ml_time lib) R (new_row R ?v)"
    using decoded_typed [OF Some assms(2)] assms(2) by (intro new_row_ok stamped_typed) simp_all
  then have "db_ok (ml_time lib) R (?db1\<lparr>md_rows := md_rows db @ [new_row R ?v]\<rparr>)" if "?i \<notin> set (row_ids db)"
    using one that by (auto simp: db_ok_def lists_ok_def row_ids_def new_row_id)
  with one keep assms(1) show ?thesis
    by (auto simp: resource_Create_def Some Let_def split: option.split)
qed (use assms in \<open>simp add: resource_Create_def\<close>)

lemma update_ok:
  assumes "db_ok (ml_time lib) R db" "lib_law lib"
  shows "db_ok (ml_time lib) R (fst (resource_Update lib R db i body))"
proof (cases "decode_body lib R body")
  case (Some v)
  let ?up = "\<lambda>x. if row_id x = i then overwrite [''updated_at''] [(''updated_at'', V_time (ml_show lib (md_now db)))]
      (overwrite (re_update R) v x) else x"
  let ?db1 = "db\<lparr>md_rows := map ?up (md_rows db)\<rparr>"
  have ids: "row_ids ?db1 = row_ids db" by (simp add: row_ids_def updated_row_id o_def)
  have rows: "\<forall>x \<in> set (md_rows ?db1). row_ok (ml_time lib) R x"
    using assms decoded_typed [OF Some assms(2)] updated_row_ok by (auto simp: db_ok_def)
  have "\<forall>tab. distinct (map fst (md_lists ?db1 tab)) \<and> (\<forall>e \<in> set (md_lists ?db1 tab). fst e \<noteq> [] \<and> fst (snd e) \<in> insert i (set (row_ids ?db1)))"
    using assms(1) by (simp add: ids db_ok_def lists_ok_def)
  then have "lists_ok (drop_lists R i ?db1)"
    by (rule drop_lists_ok) (use assms(1) in \<open>simp add: db_ok_def\<close>)
  then have lists: "lists_ok (save_lists lib (re_lists R) i v (drop_lists R i ?db1))" by (rule save_lists_ok [OF _ assms(2)])
  have "md_lists (save_lists lib (re_lists R) i v (drop_lists R i ?db1)) tab = []" if "tab \<notin> snd ` set (re_lists R)" for tab
    using that assms(1) by (simp add: save_lists_tables drop_lists_def db_ok_def)
  moreover have "fst (resource_Update lib R db i body) = tell R ''updated'' i (save_lists lib (re_lists R) i v (drop_lists R i ?db1))"
    by (simp add: resource_Update_def Some Let_def)
  ultimately show ?thesis
    using rows lists assms(1) ids by (intro db_ok_after [where db' = ?db1]) (simp_all add: db_ok_def)
qed (use assms in \<open>simp add: resource_Update_def\<close>)

lemma delete_ok:
  assumes "db_ok (ml_time lib) R db"
  shows "db_ok (ml_time lib) R (fst (resource_Delete lib R db i))"
proof -
  let ?db1 = "db\<lparr>md_rows := filter (\<lambda>x. row_id x \<noteq> i) (md_rows db)\<rparr>"
  have "set (row_ids db) \<subseteq> insert i (set (row_ids ?db1))" by (auto simp: row_ids_def)
  then have "\<forall>tab. distinct (map fst (md_lists ?db1 tab)) \<and> (\<forall>e \<in> set (md_lists ?db1 tab). fst e \<noteq> [] \<and> fst (snd e) \<in> insert i (set (row_ids ?db1)))"
    using assms by (auto simp: db_ok_def lists_ok_def)
  then have "lists_ok (drop_lists R i ?db1)"
    by (rule drop_lists_ok) (use assms in \<open>simp add: db_ok_def\<close>)
  then show ?thesis
    using assms by (auto simp: resource_Delete_def db_ok_def lists_ok_def row_ids_def drop_lists_tables distinct_map_filter)
qed

lemma serve_ok: "db_ok (ml_time lib) R db \<Longrightarrow> lib_law lib \<Longrightarrow> db_ok (ml_time lib) R (module_serve lib R q db)"
  by (cases q) (simp_all add: create_ok update_ok delete_ok, simp add: db_ok_def lists_ok_def row_ids_def)

lemma run_ok: "lib_law lib \<Longrightarrow> db_ok (ml_time lib) R db \<Longrightarrow> db_ok (ml_time lib) R (fold (module_serve lib R) qs db)"
  by (induction qs arbitrary: db) (simp_all add: serve_ok)

lemma empty_ok: "db_ok tm R empty_db"
  by (simp add: db_ok_def empty_db_def lists_ok_def row_ids_def)

text \<open>What a listed row shows.\<close>

lemma loaded_typed:
  assumes "row_ok (ml_time lib) R x" "lib_law lib"
  shows "fields_typed (ml_time lib) (re_fields R) (loaded R db x)"
  unfolding fields_typed_def
proof
  fix f assume f: "f \<in> set (re_fields R)"
  then have "gget (loaded R db x) (gf_name f) =
      (case map_of (re_lists R) (gf_name f) of
         Some tab \<Rightarrow> load_list (gf_kind f) tab (row_id x) db
       | None \<Rightarrow> if gf_name f \<in> set (re_select R) then gget x (gf_name f) else zero_val (gf_kind f))"
    using loaded_get [OF f] by simp
  moreover have "gf_kind f \<in> {K_acl, K_texts}" if "map_of (re_lists R) (gf_name f) = Some tab" for tab
    by (rule list_kinds [OF f]) (use that in \<open>force dest: map_of_SomeD\<close>)
  moreover have "gf_name f \<notin> fst ` set (re_lists R)" if "map_of (re_lists R) (gf_name f) = None"
    using that by (simp add: map_of_eq_None_iff)
  ultimately show "has_kind (ml_time lib) (gf_kind f) (gget (loaded R db x) (gf_name f))"
    using assms f zero_kind [of "ml_time lib"] by (auto simp: lib_law_def row_ok_def load_list_def Let_def split: option.split)
qed

text \<open>A member of a listed row: its written value, unless it is empty and may be left out.\<close>

lemma row_member:
  assumes "f \<in> set (re_fields R)"
  shows "field (row_json R db x) (gf_name f) =
    (if gf_omit f \<and> empty_val (gget (loaded R db x) (gf_name f)) then None
     else Some (write_val (gget (loaded R db x) (gf_name f))))"
  using written_member [OF fields assms] by (simp add: row_json_def struct_json_def field_def opt_prop_def)

lemma row_plain: "row_ok (ml_time lib) R x \<Longrightarrow> lib_law lib \<Longrightarrow> plain_json (row_json R db x)"
  using members_plain [OF fields loaded_typed] by (simp add: row_json_def)

text \<open>What the page gets for its query.\<close>

lemma listed_rows: "set (rows_wanted R q db) \<subseteq> set (md_rows db)"
  by (auto simp: rows_wanted_def limit_offset_def Let_def dest!: in_set_takeD in_set_dropD split: paging.splits)

lemma list_answer:
  assumes "db_ok (ml_time lib) R db" "lib_law lib"
  obtains j where "resource_List lib R db url = Response 200 (ml_enc lib j)" "res_json (ml_enc lib j) = Inr j"
    "opt_prop (Some j) ''data'' = Some (JArr (map (row_json R db) (rows_wanted R (url_query url) db)))"
proof -
  let ?rows = "JArr (map (row_json R db) (rows_wanted R (url_query url) db))"
  have "plain_json ?rows"
    using assms(1) row_plain [OF _ assms(2)] listed_rows [of "url_query url" db] by (auto simp: db_ok_def)
  then have parse: "plain_json (JObj kvs) \<Longrightarrow> res_json (ml_enc lib (JObj kvs)) = Inr (JObj kvs)" for kvs
    using assms(2) by (simp add: lib_law_def encodes_def res_json_def)
  show thesis
  proof (cases "re_paging R = By_page")
    case True
    with \<open>plain_json ?rows\<close> show ?thesis
      by (intro that [OF _ parse]) (auto simp: resource_List_def Paginated_def go_json_def Let_def opt_prop_def)
  next
    case False
    with \<open>plain_json ?rows\<close> show ?thesis
      by (intro that [OF _ parse]) (auto simp: resource_List_def go_success_def go_json_def Let_def opt_prop_def)
  qed
qed

end

end
