(* ===== verification/Resource_Lists.thy ===== *)
theory Resource_Lists
  imports Resource_Server
begin

text \<open>
  What becomes of the lists of a rule when it is saved: under identifiers nobody has used, every
  entry is stored, in order, and the lists of other rules stay as they are.
\<close>

subsection \<open>Fresh identifiers\<close>

definition fresh_draws :: "module_lib \<Rightarrow> module_db \<Rightarrow> bool" where
  "fresh_draws lib db \<longleftrightarrow>
     inj (ml_draw lib) \<and>
     (\<forall>n \<ge> md_drawn db. ml_draw lib n \<notin> set (row_ids db) \<and> (\<forall>tab. ml_draw lib n \<notin> fst ` set (md_lists db tab)))"

definition entries_for :: "string \<Rightarrow> string \<Rightarrow> module_db \<Rightarrow> (string \<times> string \<times> string) list" where
  "entries_for tab rule db = filter (\<lambda>(_, r, _). r = rule) (md_lists db tab)"

text \<open>Entries without ids, or with ids that are neither taken nor about to be drawn.\<close>

definition new_entries :: "module_lib \<Rightarrow> string \<Rightarrow> module_db \<Rightarrow> (string \<times> string) list \<Rightarrow> bool" where
  "new_entries lib tab db es \<longleftrightarrow>
     (\<forall>e \<in> set es. fst e = []) \<or>
     (distinct (map fst es) \<and>
      (\<forall>e \<in> set es. fst e \<noteq> [] \<and> fst e \<notin> fst ` set (md_lists db tab) \<and> (\<forall>n \<ge> md_drawn db. ml_draw lib n \<noteq> fst e)))"

text \<open>One entry.\<close>

lemma entry_saved:
  assumes "fresh_draws lib db" "rule \<in> set (row_ids db)" "new_entries lib tab db (ev # es)"
  shows "\<exists>e. md_lists (save_entry lib tab rule ev db) = (md_lists db)(tab := md_lists db tab @ [(e, rule, snd ev)]) \<and>
      (fst ev \<noteq> [] \<longrightarrow> e = fst ev) \<and> md_drawn db \<le> md_drawn (save_entry lib tab rule ev db)"
    and "fresh_draws lib (save_entry lib tab rule ev db)"
    and "new_entries lib tab (save_entry lib tab rule ev db) es"
proof -
  have fr: "ml_draw lib n \<notin> set (row_ids db)" "ml_draw lib n \<notin> fst ` set (md_lists db tb)" if "md_drawn db \<le> n" for n tb
    using assms(1) that by (auto simp: fresh_draws_def)
  have inj: "inj (ml_draw lib)" using assms(1) by (simp add: fresh_draws_def)
  have "(\<exists>e. md_lists (save_entry lib tab rule ev db) = (md_lists db)(tab := md_lists db tab @ [(e, rule, snd ev)]) \<and>
      (fst ev \<noteq> [] \<longrightarrow> e = fst ev) \<and> md_drawn db \<le> md_drawn (save_entry lib tab rule ev db)) \<and>
    fresh_draws lib (save_entry lib tab rule ev db) \<and> new_entries lib tab (save_entry lib tab rule ev db) es"
  proof (cases "fst ev = []")
    case True
    let ?e = "ml_draw lib (md_drawn db)"
    have s: "save_entry lib tab rule ev db =
        db\<lparr>md_drawn := md_drawn db + 1, md_lists := (md_lists db)(tab := md_lists db tab @ [(?e, rule, snd ev)])\<rparr>"
      using True assms(2) fr(2) [of "md_drawn db" tab] by (simp add: save_entry_def Let_def)
    have "ml_draw lib n \<noteq> ?e" if "Suc (md_drawn db) \<le> n" for n using inj that by (auto dest: injD)
    then have "fresh_draws lib (save_entry lib tab rule ev db)"
      using fr inj by (auto simp: s fresh_draws_def row_ids_def)
    moreover have "new_entries lib tab (save_entry lib tab rule ev db) es"
      using assms(3) True by (auto simp: new_entries_def)
    ultimately show ?thesis using True by (simp add: s) blast
  next
    case False
    with assms(3) have ev: "fst ev \<notin> fst ` set (md_lists db tab)" "\<forall>n \<ge> md_drawn db. ml_draw lib n \<noteq> fst ev"
      by (auto simp: new_entries_def)
    have s: "save_entry lib tab rule ev db = db\<lparr>md_lists := (md_lists db)(tab := md_lists db tab @ [(fst ev, rule, snd ev)])\<rparr>"
      using False assms(2) ev(1) by (simp add: save_entry_def Let_def)
    have "fresh_draws lib (save_entry lib tab rule ev db)"
      using fr inj ev(2) by (auto simp: s fresh_draws_def row_ids_def)
    moreover have "new_entries lib tab (save_entry lib tab rule ev db) es"
      using assms(3) False by (auto simp: s new_entries_def) (metis fst_conv image_eqI)+
    ultimately show ?thesis by (simp add: s) blast
  qed
  then show "\<exists>e. md_lists (save_entry lib tab rule ev db) = (md_lists db)(tab := md_lists db tab @ [(e, rule, snd ev)]) \<and>
      (fst ev \<noteq> [] \<longrightarrow> e = fst ev) \<and> md_drawn db \<le> md_drawn (save_entry lib tab rule ev db)"
    "fresh_draws lib (save_entry lib tab rule ev db)" "new_entries lib tab (save_entry lib tab rule ev db) es"
    by blast+
qed

text \<open>A list.\<close>

lemma entries_saved:
  assumes "fresh_draws lib db" "rule \<in> set (row_ids db)" "new_entries lib tab db es"
  shows "\<exists>xs. md_lists (save_entries lib tab rule es db) = (md_lists db)(tab := md_lists db tab @ xs) \<and>
      (\<forall>x \<in> set xs. fst (snd x) = rule) \<and> map (\<lambda>(_, _, v). v) xs = map snd es \<and>
      ((\<forall>e \<in> set es. fst e \<noteq> []) \<longrightarrow> map (\<lambda>(e, _, v). (e, v)) xs = es) \<and>
      md_drawn db \<le> md_drawn (save_entries lib tab rule es db)"
    and "fresh_draws lib (save_entries lib tab rule es db)"
  using assms
proof (induction es arbitrary: db)
  case Nil
  {
    case 1
    then show ?case by (auto simp: save_entries_def intro: exI [of _ "[]"])
  next
    case 2
    then show ?case by (simp add: save_entries_def)
  }
next
  case (Cons ev es)
  have step: "save_entries lib tab rule (ev # es) db = save_entries lib tab rule es (save_entry lib tab rule ev db)" for db
    by (simp add: save_entries_def)
  {
    case 1
    note one = entry_saved [OF 1]
    let ?db1 = "save_entry lib tab rule ev db"
    have r: "rule \<in> set (row_ids ?db1)" using 1(2) by (simp add: row_ids_def)
    obtain e where e: "md_lists ?db1 = (md_lists db)(tab := md_lists db tab @ [(e, rule, snd ev)])"
      "fst ev \<noteq> [] \<longrightarrow> e = fst ev" "md_drawn db \<le> md_drawn ?db1" using one(1) by blast
    obtain xs where xs: "md_lists (save_entries lib tab rule es ?db1) = (md_lists ?db1)(tab := md_lists ?db1 tab @ xs)"
      "\<forall>x \<in> set xs. fst (snd x) = rule" "map (\<lambda>(_, _, v). v) xs = map snd es"
      "(\<forall>e \<in> set es. fst e \<noteq> []) \<longrightarrow> map (\<lambda>(e, _, v). (e, v)) xs = es"
      "md_drawn ?db1 \<le> md_drawn (save_entries lib tab rule es ?db1)"
      using Cons.IH(1) [OF one(2) r one(3)] by blast
    show ?case
      by (rule exI [of _ "(e, rule, snd ev) # xs"]) (use e xs in \<open>auto simp: step prod_eq_iff\<close>)
  next
    case 2
    note one = entry_saved [OF 2]
    have "rule \<in> set (row_ids (save_entry lib tab rule ev db))" using 2(2) by (simp add: row_ids_def)
    from Cons.IH(2) [OF one(2) this one(3)] show ?case by (simp add: step)
  }
qed

text \<open>All lists of a rule.\<close>

definition list_stored :: "string \<Rightarrow> string \<Rightarrow> (string \<times> string) list \<Rightarrow> module_db \<Rightarrow> module_db \<Rightarrow> bool" where
  "list_stored tab rule es db db' \<longleftrightarrow>
     (\<exists>xs. md_lists db' tab = md_lists db tab @ xs \<and> (\<forall>x \<in> set xs. fst (snd x) = rule) \<and> map (\<lambda>(_, _, v). v) xs = map snd es \<and>
        ((\<forall>e \<in> set es. fst e \<noteq> []) \<longrightarrow> map (\<lambda>(e, _, v). (e, v)) xs = es))"

lemma new_entries_later:
  "new_entries lib tab db es \<Longrightarrow> md_lists db' tab = md_lists db tab \<Longrightarrow> md_drawn db \<le> md_drawn db' \<Longrightarrow> new_entries lib tab db' es"
  by (auto simp: new_entries_def)

lemma lists_saved:
  assumes "fresh_draws lib db" "rule \<in> set (row_ids db)" "distinct (map snd ls)"
    and "\<forall>(k, tab) \<in> set ls. new_entries lib tab db (list_entries (gget v k))"
  shows "(\<forall>(k, tab) \<in> set ls. list_stored tab rule (list_entries (gget v k)) db (save_lists lib ls rule v db)) \<and>
    (\<forall>tab. tab \<notin> snd ` set ls \<longrightarrow> md_lists (save_lists lib ls rule v db) tab = md_lists db tab) \<and>
    fresh_draws lib (save_lists lib ls rule v db)"
  using assms
proof (induction ls arbitrary: db)
  case (Cons kt ls)
  obtain k tab where kt: "kt = (k, tab)" by (cases kt)
  let ?es = "list_entries (gget v k)"
  let ?db1 = "save_entries lib tab rule ?es db"
  have ne: "new_entries lib tab db ?es" using Cons.prems(4) by (simp add: kt)
  note one = entries_saved [OF Cons.prems(1,2) ne]
  have other: "md_lists ?db1 tb = md_lists db tb" if "tb \<noteq> tab" for tb using one(1) that by auto
  have stored: "list_stored tab rule ?es db ?db1" and mono: "md_drawn db \<le> md_drawn ?db1"
    using one(1) by (auto simp: list_stored_def)
  have rest: "tab \<notin> snd ` set ls" using Cons.prems(3) by (auto simp: kt)
  have "new_entries lib tb ?db1 (list_entries (gget v k'))" if "(k', tb) \<in> set ls" for k' tb
  proof (rule new_entries_later [OF _ _ mono])
    show "new_entries lib tb db (list_entries (gget v k'))" using Cons.prems(4) that by auto
    show "md_lists ?db1 tb = md_lists db tb" using rest that by (intro other) (metis image_eqI snd_conv)
  qed
  then have all: "\<forall>(k, tab) \<in> set ls. new_entries lib tab ?db1 (list_entries (gget v k))" by blast
  have "rule \<in> set (row_ids ?db1)" using Cons.prems(2) by (simp add: row_ids_def)
  note IH = Cons.IH [OF one(2) this _ all]
  let ?db2 = "save_lists lib ls rule v ?db1"
  have IH1: "list_stored tb rule (list_entries (gget v k')) ?db1 ?db2" if "(k', tb) \<in> set ls" for k' tb
    using IH Cons.prems(3) that by (auto simp: kt)
  have IH2: "md_lists ?db2 tb = md_lists ?db1 tb" if "tb \<notin> snd ` set ls" for tb
    using IH Cons.prems(3) that by (auto simp: kt)
  have "list_stored tab rule ?es db ?db2" using stored IH2 [OF rest] by (simp add: list_stored_def)
  moreover have "list_stored tb rule (list_entries (gget v k')) db ?db2" if "(k', tb) \<in> set ls" for k' tb
  proof -
    have "tb \<noteq> tab" using rest that by (metis image_eqI snd_conv)
    with IH1 [OF that] other show ?thesis by (simp add: list_stored_def)
  qed
  moreover have "fresh_draws lib ?db2" using IH Cons.prems(3) by (simp add: kt)
  ultimately show ?case using IH2 other by (auto simp: kt)
qed simp

end
