(* ===== verification/Resource_Saves.thy ===== *)
theory Resource_Saves
  imports Resource_Lists
begin

text \<open>
  What becomes of a body that gives fields values of their kinds: it decodes, the row holds the
  values, and the listing shows them again.
\<close>

subsection \<open>Values a field takes\<close>

fun fit_val :: "gkind \<Rightarrow> json \<Rightarrow> gval" where
  "fit_val K_text j = (case j of JStr s \<Rightarrow> V_text s | _ \<Rightarrow> V_text [])"
| "fit_val K_int j = (case j of JNum r \<Rightarrow> V_int \<lfloor>r\<rfloor> | _ \<Rightarrow> V_int 0)"
| "fit_val K_bool j = (case j of JBool b \<Rightarrow> V_bool b | _ \<Rightarrow> V_bool False)"
| "fit_val K_texts j = (case j of JArr xs \<Rightarrow> V_texts (Some (map (\<lambda>x. case x of JStr s \<Rightarrow> s | _ \<Rightarrow> []) xs)) | _ \<Rightarrow> V_texts None)"
| "fit_val K_dict _ = V_dict (Some [])"
| "fit_val K_acl _ = V_acl (Some [])"
| "fit_val k _ = zero_val k"

fun value_fits :: "gkind \<Rightarrow> json \<Rightarrow> bool" where
  "value_fits K_text j = (case j of JStr _ \<Rightarrow> True | _ \<Rightarrow> False)"
| "value_fits K_int j = (case j of JNum r \<Rightarrow> r = of_int \<lfloor>r\<rfloor> \<and> - (2 ^ 63) \<le> \<lfloor>r\<rfloor> \<and> \<lfloor>r\<rfloor> < 2 ^ 63 | _ \<Rightarrow> False)"
| "value_fits K_bool j = (case j of JBool _ \<Rightarrow> True | _ \<Rightarrow> False)"
| "value_fits K_texts j = (case j of JArr xs \<Rightarrow> list_all (\<lambda>x. case x of JStr _ \<Rightarrow> True | _ \<Rightarrow> False) xs | _ \<Rightarrow> False)"
| "value_fits K_dict j = (j = JObj [])"
| "value_fits K_acl j = (j = JArr [])"
| "value_fits _ _ = False"

lemma texts_fit:
  assumes "list_all (\<lambda>x. case x of JStr _ \<Rightarrow> True | _ \<Rightarrow> False) xs"
  shows "all_some (map text_elem xs) = Some (map (\<lambda>x. case x of JStr s \<Rightarrow> s | _ \<Rightarrow> []) xs)"
    "map (\<lambda>x. JStr (case x of JStr s \<Rightarrow> s | _ \<Rightarrow> [])) xs = xs" "\<forall>x \<in> set xs. plain_json x"
  using assms by (induction xs) (auto simp: text_elem_def split: json.splits)

lemma fits_read:
  assumes "value_fits k j"
  shows "read_val tm k (zero_val k) j = Some (fit_val k j)" "write_val (fit_val k j) = j" "plain_json j"
    "empty_val (fit_val k j) \<Longrightarrow> j \<in> {JStr [], JNum 0, JBool False, JArr [], JObj []}"
  using assms texts_fit
  by (cases k; auto simp: int_of_num_def o_def split: json.splits)+

definition fits_body :: "resource \<Rightarrow> (string \<times> json) list \<Rightarrow> bool" where
  "fits_body R kvs \<longleftrightarrow>
     kvs \<noteq> [] \<and> distinct (map fst kvs) \<and>
     (\<forall>(k, j) \<in> set kvs. k \<notin> {''id'', ''created_at'', ''updated_at''} \<and>
        (case field_named (re_fields R) k of
           None \<Rightarrow> plain_json j
         | Some f \<Rightarrow> gf_name f = k \<and> value_fits (gf_kind f) j))"

lemma stored_loads:
  assumes "list_stored tab i es db db'" "entries_for tab i db = []"
  shows "load_list K_texts tab i db' = V_texts (Some (map snd es))"
    and "\<forall>e \<in> set es. fst e \<noteq> [] \<Longrightarrow> load_list K_acl tab i db' = V_acl (Some es)"
proof -
  obtain xs where xs: "md_lists db' tab = md_lists db tab @ xs" "\<forall>x \<in> set xs. fst (snd x) = i"
    "map (\<lambda>(_, _, v). v) xs = map snd es" "(\<forall>e \<in> set es. fst e \<noteq> []) \<longrightarrow> map (\<lambda>(e, _, v). (e, v)) xs = es"
    using assms(1) unfolding list_stored_def by blast
  have "filter (\<lambda>(_, r, _). r = i) xs = xs" using xs(2) by (intro filter_id_all) auto
  then have f: "filter (\<lambda>(_, r, _). r = i) (md_lists db' tab) = xs"
    using assms(2) by (simp add: xs(1) entries_for_def)
  have "map (\<lambda>x. snd (snd x)) xs = map snd es" using xs(3) by (simp add: case_prod_unfold)
  with f show "load_list K_texts tab i db' = V_texts (Some (map snd es))"
    by (simp add: load_list_def Let_def o_def case_prod_unfold)
  show "load_list K_acl tab i db' = V_acl (Some es)" if "\<forall>e \<in> set es. fst e \<noteq> []"
    using f xs(4) that by (simp add: load_list_def Let_def)
qed

context module_server begin

lemma decode_fits:
  assumes "fits_body R kvs" "length (stringify (JObj kvs)) \<le> maxJSONBodyBytes"
  obtains w where "decode_body lib R (stringify (JObj kvs)) = Some w"
    "\<And>f. f \<in> set (re_fields R) \<Longrightarrow> gget w (gf_name f) =
       (case map_of kvs (gf_name f) of None \<Rightarrow> zero_val (gf_kind f) | Some j \<Rightarrow> fit_val (gf_kind f) j)"
    "\<And>h. h \<in> set (re_hidden R) \<Longrightarrow> gget w h = V_text []"
proof -
  let ?z = "zero_struct (re_fields R) (re_hidden R)"
  let ?g = "\<lambda>k j. fit_val (case field_named (re_fields R) k of Some f \<Rightarrow> gf_kind f | None \<Rightarrow> K_text) j"
  have kvs: "kvs \<noteq> []" "distinct (map fst kvs)" "\<forall>kv \<in> set kvs. plain_json (snd kv)"
    using assms(1) fits_read(3) by (fastforce simp: fits_body_def split: option.splits)+
  have z: "gget ?z (gf_name f) = zero_val (gf_kind f)" if "f \<in> set (re_fields R)" for f
    using zero_struct_get(1) [OF fields hidden that] .
  have keys: "gf_name f \<in> fst ` set ?z" if "f \<in> set (re_fields R)" for f
    using that by (force simp: zero_struct_def)
  have "\<forall>kj \<in> set kvs. given_member (ml_time lib) (re_fields R) ?z ?g kj"
  proof
    fix kj assume m: "kj \<in> set kvs"
    show "given_member (ml_time lib) (re_fields R) ?z ?g kj"
    proof (cases "field_named (re_fields R) (fst kj)")
      case (Some f)
      with assms(1) m have f: "gf_name f = fst kj" "value_fits (gf_kind f) (snd kj)"
        by (auto simp: fits_body_def split: option.splits)
      note inf = field_named_in [OF Some]
      show ?thesis
        using z [OF inf] keys [OF inf] fits_read(1) [OF f(2)] Some f(1) by (simp add: given_member_def)
    qed (simp add: given_member_def)
  qed
  from decode_given [OF this kvs(2)] obtain w where w: "decode_members (ml_time lib) (re_fields R) kvs ?z = Some w"
    "\<forall>k. gget w k = (case map_of kvs k of None \<Rightarrow> gget ?z k
       | Some j \<Rightarrow> if field_named (re_fields R) k = None then gget ?z k else ?g k j)" by blast
  have "decode_object False (stringify (JObj kvs)) = Some kvs" by (rule decode_stringify [OF kvs(3,1)])
  then have "decode_body lib R (stringify (JObj kvs)) = Some w"
    using w(1) assms(2) by (simp add: decode_body_def decode_upto_def decode_struct_def del: stringify.simps)
  moreover have "gget w (gf_name f) =
      (case map_of kvs (gf_name f) of None \<Rightarrow> zero_val (gf_kind f) | Some j \<Rightarrow> fit_val (gf_kind f) j)"
    if "f \<in> set (re_fields R)" for f
    using w(2) z [OF that] field_named_own [OF fields that] by (simp split: option.split)
  moreover have "gget w h = V_text []" if h: "h \<in> set (re_hidden R)" for h
  proof -
    have "gget ?z h = V_text []" using zero_struct_get(2) [OF fields hidden, of h] hidden h by auto
    moreover have "field_named (re_fields R) h = None" if "map_of kvs h = Some j" for j
    proof (rule ccontr)
      assume "field_named (re_fields R) h \<noteq> None"
      then obtain f where f: "field_named (re_fields R) h = Some f" by auto
      have "(h, j) \<in> set kvs" using that by (rule map_of_SomeD)
      with f assms(1) have "gf_name f = h" by (auto simp: fits_body_def split: option.splits)
      with field_named_in [OF f] hidden h show False by blast
    qed
    ultimately show ?thesis using w(2) by (simp split: option.split)
  qed
  ultimately show thesis by (rule that)
qed

end

text \<open>Every field the body gives is shown by the row the listing reads for it.\<close>

definition body_shown :: "resource \<Rightarrow> (string \<times> json) list \<Rightarrow> json \<Rightarrow> bool" where
  "body_shown R kvs u \<longleftrightarrow>
     (\<forall>(k, j) \<in> set kvs. field_named (re_fields R) k = None \<or> field u k = Some j \<or>
        (field u k = None \<and> j \<in> {JStr [], JNum 0, JBool False, JArr [], JObj []}))"

lemma fits_entries:
  assumes "k \<in> {K_acl, K_texts}"
  shows "value_fits k j \<Longrightarrow> \<forall>e \<in> set (list_entries (fit_val k j)). fst e = []"
    and "value_fits k j \<Longrightarrow> (if k = K_acl then V_acl (Some (list_entries (fit_val k j)))
       else V_texts (Some (map snd (list_entries (fit_val k j))))) = fit_val k j"
    and "list_entries (zero_val k) = []"
  using assms by (auto simp: list_entries_def o_def split: json.splits)

lemma loads_fit:
  assumes "list_stored tab i (list_entries (fit_val k j)) db db'" "entries_for tab i db = []"
    and "k \<in> {K_acl, K_texts}" "value_fits k j"
  shows "load_list k tab i db' = fit_val k j"
proof (cases "k = K_acl")
  case True
  with assms(4) have "list_entries (fit_val k j) = []" "fit_val k j = V_acl (Some [])" by (auto simp: list_entries_def)
  with stored_loads(2) [OF assms(1,2)] True show ?thesis by simp
next
  case False
  with assms(3) have "k = K_texts" by simp
  with stored_loads(1) [OF assms(1,2)] fits_entries(2) [OF assms(3,4)] show ?thesis by simp
qed

context module_server begin

lemma given_value:
  assumes "fits_body R kvs" "f \<in> set (re_fields R)" "map_of kvs (gf_name f) = Some j"
  shows "value_fits (gf_kind f) j"
  using assms(1) map_of_SomeD [OF assms(3)] field_named_own [OF fields assms(2)] by (auto simp: fits_body_def)

lemma list_field:
  assumes "(k, tab) \<in> set (re_lists R)" "f \<in> set (re_fields R)" "gf_name f = k"
  shows "gf_kind f \<in> {K_acl, K_texts}"
  using list_kinds [OF assms(2)] assms by force

text \<open>The lists of a new rule bring no ids of their own.\<close>

lemma given_entries:
  assumes "fits_body R kvs" "fst ` set (re_lists R) \<subseteq> gf_name ` set (re_fields R)" "(k, tab) \<in> set (re_lists R)"
    and "\<And>f. f \<in> set (re_fields R) \<Longrightarrow> gget w (gf_name f) =
       (case map_of kvs (gf_name f) of None \<Rightarrow> zero_val (gf_kind f) | Some j \<Rightarrow> fit_val (gf_kind f) j)"
  shows "\<forall>e \<in> set (list_entries (gget w k)). fst e = []"
proof -
  obtain f where f: "f \<in> set (re_fields R)" "gf_name f = k" using assms(2,3) by force
  note kind = list_field [OF assms(3) f]
  show ?thesis
  proof (cases "map_of kvs (gf_name f)")
    case None
    with assms(4) [OF f(1)] fits_entries(3) [OF kind] f(2) show ?thesis by simp
  next
    case (Some j)
    with assms(4) [OF f(1)] fits_entries(1) [OF kind given_value [OF assms(1) f(1) Some]] f(2) show ?thesis by simp
  qed
qed

lemma stamped_gget: "k \<notin> {''id'', ''created_at'', ''updated_at''} \<Longrightarrow> gget (stamped i now v) k = gget v k"
  by (simp add: stamped_def)

text \<open>A creation whose check passes adds one row, and the row shows what was given.\<close>

lemma create_given:
  assumes "db_ok (ml_time lib) R db" "lib_law lib" "fresh_draws lib db" "fits_body R kvs"
    and "length (stringify (JObj kvs)) \<le> maxJSONBodyBytes"
    and "fst ` set (re_lists R) \<subseteq> gf_name ` set (re_fields R)"
    and "\<forall>k \<in> fst ` set kvs. k \<in> fst ` set (re_lists R) \<or> k \<in> set (re_insert R) \<and> k \<in> set (re_select R) \<or>
      field_named (re_fields R) k = None"
    and "resource_Create lib R db (stringify (JObj kvs)) = (db', ans)"
  shows "(\<exists>w msg. decode_body lib R (stringify (JObj kvs)) = Some w \<and> re_check R w = Some msg \<and> db' = db \<and> ans = go_error (ml_enc lib) 400 msg) \<or>
    (\<exists>x j. ans = go_created (ml_enc lib) j \<and> md_rows db' = md_rows db @ [x] \<and> body_shown R kvs (row_json R db' x) \<and>
      fresh_draws lib db')"
proof -
  obtain w where w: "decode_body lib R (stringify (JObj kvs)) = Some w"
    "\<And>f. f \<in> set (re_fields R) \<Longrightarrow> gget w (gf_name f) =
       (case map_of kvs (gf_name f) of None \<Rightarrow> zero_val (gf_kind f) | Some j \<Rightarrow> fit_val (gf_kind f) j)"
    by (rule decode_fits [OF assms(4,5)]) blast
  show ?thesis
  proof (cases "re_check R w")
    case (Some msg)
    with assms(8) w(1) show ?thesis by (auto simp: resource_Create_def)
  next
    case None
    let ?i = "ml_draw lib (md_drawn db)"
    let ?v = "stamped ?i (ml_show lib (md_now db)) w"
    let ?x = "new_row R ?v"
    let ?db2 = "db\<lparr>md_drawn := Suc (md_drawn db), md_rows := md_rows db @ [?x]\<rparr>"
    let ?db3 = "save_lists lib (re_lists R) ?i ?v ?db2"
    have new: "?i \<notin> set (row_ids db)" using assms(3) by (simp add: fresh_draws_def)
    have inj: "inj (ml_draw lib)" using assms(3) by (simp add: fresh_draws_def)
    have res: "db' = tell R ''created'' ?i ?db3" "ans = go_created (ml_enc lib) (struct_json (re_fields R) ?v)"
      using assms(8) w(1) None new by (auto simp: resource_Create_def Let_def)
    have ids: "row_ids ?db2 = row_ids db @ [?i]" by (simp add: row_ids_def new_row_id)
    have "ml_draw lib n \<noteq> ?i" if "Suc (md_drawn db) \<le> n" for n using inj that by (auto dest: injD)
    then have fresh: "fresh_draws lib ?db2" using assms(3) by (auto simp: fresh_draws_def ids)
    have no_ids: "\<forall>e \<in> set (list_entries (gget ?v k)). fst e = []" if l: "(k, tab) \<in> set (re_lists R)" for k tab
    proof -
      have "k \<in> fst ` set (re_lists R)" using l by force
      then have "k \<notin> {''id'', ''created_at'', ''updated_at''}" using list_columns by blast
      then show ?thesis using given_entries [OF assms(4,6) l w(2)] by (simp add: stamped_gget)
    qed
    then have "\<forall>(k, tab) \<in> set (re_lists R). new_entries lib tab ?db2 (list_entries (gget ?v k))"
      unfolding new_entries_def by blast
    from lists_saved [OF fresh _ list_tables(1) this, of ?i] have
      stored: "\<And>k tab. (k, tab) \<in> set (re_lists R) \<Longrightarrow> list_stored tab ?i (list_entries (gget ?v k)) ?db2 ?db3"
      and later: "fresh_draws lib ?db3"
      by (auto simp: ids)
    have none: "entries_for tab ?i ?db2 = []" for tab
      using assms(1) new by (fastforce simp: entries_for_def db_ok_def lists_ok_def filter_empty_conv)
    have "field_named (re_fields R) k = None \<or> field (row_json R db' ?x) k = Some j \<or>
        (field (row_json R db' ?x) k = None \<and> j \<in> {JStr [], JNum 0, JBool False, JArr [], JObj []})"
      if kj: "(k, j) \<in> set kvs" for k j
    proof -
      have k: "k \<notin> {''id'', ''created_at'', ''updated_at''}" using assms(4) kj by (auto simp: fits_body_def)
      show ?thesis
      proof (cases "field_named (re_fields R) k")
        case (Some f)
        have f: "f \<in> set (re_fields R)" "gf_name f = k" "value_fits (gf_kind f) j"
          using field_named_in [OF Some] assms(4) kj Some by (auto simp: fits_body_def)
        have "map_of kvs k = Some j" using assms(4) kj by (intro map_of_is_SomeI) (auto simp: fits_body_def)
        then have g: "gget ?v k = fit_val (gf_kind f) j" using w(2) [OF f(1)] f(2) k by (simp add: stamped_gget)
        have "gget (loaded R db' ?x) k = fit_val (gf_kind f) j"
        proof (cases "map_of (re_lists R) k")
          case (Some tab)
          from map_of_SomeD [OF this] have l: "(k, tab) \<in> set (re_lists R)" .
          note kind = list_field [OF l f(1,2)]
          have "row_id ?x = ?i" by (rule new_row_id)
          moreover have "list_stored tab ?i (list_entries (fit_val (gf_kind f) j)) ?db2 db'"
            using stored [OF l] g res(1) by (simp add: list_stored_def)
          ultimately have "load_list (gf_kind f) tab (row_id ?x) db' = fit_val (gf_kind f) j"
            using loads_fit [OF _ none kind f(3)] by simp
          with Some f(2) loaded_get [OF f(1), of db' ?x] show ?thesis by simp
        next
          case None
          then have "k \<notin> fst ` set (re_lists R)" by (simp add: map_of_eq_None_iff)
          moreover have "k \<in> fst ` set kvs" using kj by force
          ultimately have "k \<in> set (re_insert R)" "k \<in> set (re_select R)"
            using bspec [OF assms(7), of k] Some by simp_all
          moreover have "k \<in> set (columns R)"
            using \<open>k \<notin> fst ` set (re_lists R)\<close> field_column [OF f(1)] f(2) by simp
          moreover note g
          ultimately have "gget ?x k = fit_val (gf_kind f) j" "k \<in> set (re_select R)" by (simp_all add: new_row_def get_of_keys)
          with None f(2) show ?thesis using loaded_get [OF f(1), of db' ?x] by simp
        qed
        then show ?thesis using row_member [OF f(1), of db' ?x] f(2) fits_read(2,4) [OF f(3)] by auto
      qed simp
    qed
    then have "body_shown R kvs (row_json R db' ?x)" unfolding body_shown_def by blast
    moreover have "fresh_draws lib db'" using later by (simp add: res(1) fresh_draws_def row_ids_def)
    ultimately show ?thesis using res by auto
  qed
qed

end

end
