(* ===== verification/Resource_Toggle.thy ===== *)
theory Resource_Toggle
  imports Resource_Saves Crud
begin

text \<open>
  What becomes of a listed row sent back as the page does it, less its id and with \<open>enabled\<close>
  turned around; and of the columns no body can set.
\<close>

subsection \<open>Hidden columns\<close>

definition hidden_empty :: "resource \<Rightarrow> module_db \<Rightarrow> bool" where
  "hidden_empty R db \<longleftrightarrow> (\<forall>x \<in> set (md_rows db). \<forall>h \<in> set (re_hidden R). gget x h = V_text [])"

lemma decode_unnamed:
  "decode_members tm fs kvs v = Some w \<Longrightarrow> k \<notin> gf_name ` set fs \<Longrightarrow> gget w k = gget v k"
proof (induction tm fs kvs v rule: decode_members.induct)
  case (2 tm fs k' j r v)
  show ?case
  proof (cases "field_named fs k'")
    case (Some f)
    with 2 field_named_in [OF Some] show ?thesis by (auto split: option.splits)
  qed (use 2 in simp)
qed simp

context module_server begin

lemma hidden_not_key: "h \<in> set (re_hidden R) \<Longrightarrow> h \<notin> {''id'', ''created_at'', ''updated_at''}"
proof
  assume h: "h \<in> set (re_hidden R)" and k: "h \<in> {''id'', ''created_at'', ''updated_at''}"
  have "h \<in> gf_name ` set (re_fields R)"
  proof (cases "h = ''id''")
    case False
    with k have "h \<in> {''created_at'', ''updated_at''}" by blast
    from stamp_fields [OF this] show ?thesis by (auto intro: rev_image_eqI)
  qed (use id_field in \<open>auto intro: rev_image_eqI\<close>)
  with h hidden show False by blast
qed

lemma decoded_hidden:
  assumes "decode_body lib R body = Some w" "h \<in> set (re_hidden R)"
  shows "gget w h = V_text []"
proof -
  obtain kvs where d: "decode_members (ml_time lib) (re_fields R) kvs (zero_struct (re_fields R) (re_hidden R)) = Some w"
    using assms(1) by (auto simp: decode_body_def decode_struct_def split: option.splits)
  have h: "h \<notin> gf_name ` set (re_fields R)" using hidden assms(2) by blast
  from decode_unnamed [OF d h] zero_struct_get(2) [OF fields hidden, of h] h show ?thesis by auto
qed

lemma hidden_serve:
  assumes "set (re_hidden R) \<subseteq> set (re_insert R)" "hidden_empty R db"
  shows "hidden_empty R (module_serve lib R q db)"
proof (cases q)
  case (M_create body)
  show ?thesis
  proof (cases "decode_body lib R body")
    case (Some w)
    have "gget (new_row R (stamped i now w)) h = V_text []" if "h \<in> set (re_hidden R)" for h i now
    proof -
      have "gget (stamped i now w) h = V_text []"
        using decoded_hidden [OF Some that] hidden_not_key [OF that] by (simp add: stamped_def)
      with assms(1) that show ?thesis by (auto simp: new_row_def get_of_keys)
    qed
    with assms(2) show ?thesis
      by (auto simp: M_create Some resource_Create_def hidden_empty_def Let_def split: option.split)
  qed (use assms in \<open>simp add: M_create resource_Create_def\<close>)
next
  case (M_update i body)
  show ?thesis
  proof (cases "decode_body lib R body")
    case (Some w)
    have "gget (overwrite [''updated_at''] t (overwrite ks w x)) h = V_text []"
      if "h \<in> set (re_hidden R)" "gget x h = V_text []" for h t ks x
      using that decoded_hidden [OF Some that(1)] hidden_not_key [OF that(1)] by (simp add: gget_overwrite)
    with assms(2) show ?thesis by (auto simp: M_update Some resource_Update_def hidden_empty_def Let_def)
  qed (use assms in \<open>simp add: M_update resource_Update_def\<close>)
next
  case (M_delete i)
  with assms(2) show ?thesis by (simp add: resource_Delete_def hidden_empty_def)
next
  case (M_time n)
  with assms(2) show ?thesis by (simp add: hidden_empty_def)
qed

lemma hidden_run:
  assumes "set (re_hidden R) \<subseteq> set (re_insert R)" "hidden_empty R db"
  shows "hidden_empty R (fold (module_serve lib R) qs db)"
  using assms(2) by (induction qs arbitrary: db) (simp_all add: hidden_serve [OF assms(1)])

end

subsection \<open>Rows sent back\<close>

definition flipped :: "string \<Rightarrow> json \<Rightarrow> json" where
  "flipped now u =
     (case u of
        JObj kvs \<Rightarrow>
          JObj (obj_set ''updated_at'' (JStr now) (obj_set ''enabled'' (JBool (\<not> truthy (map_of kvs ''enabled''))) kvs))
      | _ \<Rightarrow> u)"

lemma set_obj_set:
  "distinct (map fst os) \<Longrightarrow> x \<in> set (obj_set k v os) \<Longrightarrow> x = (k, v) \<or> x \<in> set os \<and> fst x \<noteq> k"
proof (induction os)
  case (Cons e os)
  then show ?case by (cases e; cases "fst e = k") (auto simp: image_iff)
qed simp

lemma members_changed:
  assumes "fields_ok fs" "f \<in> set fs" "\<not> gf_omit f"
    and "\<And>f'. f' \<in> set fs \<Longrightarrow> gget w (gf_name f') = (if gf_name f' = gf_name f then y else gget v (gf_name f'))"
  shows "struct_members fs w = obj_set (gf_name f) (write_val y) (struct_members fs v)"
  using fields_distinct [OF assms(1)] assms(2-4)
proof (induction fs)
  case (Cons g fs)
  show ?case
  proof (cases "g = f")
    case True
    have "gget w (gf_name h) = gget v (gf_name h)" if "h \<in> set fs" for h
      using Cons.prems(4) [of h] Cons.prems(1) True that by (auto simp: image_iff)
    then have "struct_members fs w = struct_members fs v"
      unfolding struct_members_def by (intro map_cong filter_cong) auto
    with Cons.prems True show ?thesis by (simp add: struct_members_def)
  next
    case False
    with Cons.prems(2) have f: "f \<in> set fs" by simp
    then have n: "gf_name g \<noteq> gf_name f" using Cons.prems(1) by auto
    with Cons.IH Cons.prems f show ?thesis by (simp add: struct_members_def)
  qed
qed simp

text \<open>Dropping the lists of a rule frees its identifiers; saving entries under them again is possible.\<close>

lemma dropped_lists:
  "tab \<in> snd ` set (re_lists R) \<Longrightarrow> md_lists (drop_lists R i db) tab = filter (\<lambda>(_, r, _). r \<noteq> i) (md_lists db tab)"
  by (simp add: drop_lists_def)

lemma drop_fresh:
  assumes "fresh_draws lib db" "row_ids db1 = row_ids db" "md_lists db1 = md_lists db" "md_drawn db1 = md_drawn db"
  shows "fresh_draws lib (drop_lists R i db1)"
proof -
  have "set (md_lists (drop_lists R i db1) tb) \<subseteq> set (md_lists db tb)" for tb by (auto simp: drop_lists_def assms(3))
  then show ?thesis
    using assms(1) unfolding fresh_draws_def
    by (metis (no_types, lifting) assms(2,4) drop_lists_same(1,4) image_mono row_ids_same subsetD)
qed

lemma own_entry_free:
  assumes "distinct (map fst l)" "(e, i, v) \<in> set l"
  shows "e \<notin> fst ` set (filter (\<lambda>(_, r, _). r \<noteq> i) l)"
proof
  assume "e \<in> fst ` set (filter (\<lambda>(_, r, _). r \<noteq> i) l)"
  then obtain r u where "(e, r, u) \<in> set l" "r \<noteq> i" by auto
  with assms(2) inj_onD [of fst "set l" "(e, i, v)" "(e, r, u)"] assms(1) show False by (simp add: distinct_map)
qed

lemma own_entries_new:
  assumes "lists_ok db" "fresh_draws lib db" "md_lists db1 = md_lists db" "md_drawn db1 = md_drawn db"
    and "tab \<in> snd ` set (re_lists R)" "map fst es = map fst (entries_for tab i db)"
  shows "new_entries lib tab (drop_lists R i db1) es"
proof -
  have ok: "distinct (map fst (md_lists db tab))" "\<forall>e \<in> set (md_lists db tab). fst e \<noteq> []"
    using assms(1) by (simp_all add: lists_ok_def)
  have "a \<noteq> [] \<and> a \<notin> fst ` set (md_lists (drop_lists R i db1) tab) \<and> (\<forall>n \<ge> md_drawn db. ml_draw lib n \<noteq> a)"
    if "a \<in> set (map fst es)" for a
  proof -
    have "a \<in> fst ` set (entries_for tab i db)" using that unfolding assms(6) by simp
    then obtain v where m: "(a, i, v) \<in> set (md_lists db tab)" by (auto simp: entries_for_def)
    have "\<forall>n \<ge> md_drawn db. ml_draw lib n \<noteq> a" using assms(2) m unfolding fresh_draws_def by (metis fst_conv image_eqI)
    with ok(2) m own_entry_free [OF ok(1) m] show ?thesis by (fastforce simp: dropped_lists [OF assms(5)] assms(3))
  qed
  moreover have "distinct (map fst es)" using ok(1) by (simp add: assms(6) entries_for_def distinct_map_filter)
  ultimately show ?thesis using assms(4) by (auto simp: new_entries_def)
qed

lemma load_other:
  assumes "md_lists db' tab = filter (\<lambda>(_, r, _). r \<noteq> i) (md_lists db tab) @ xs" "\<forall>x \<in> set xs. fst (snd x) = i" "j \<noteq> i"
  shows "load_list k tab j db' = load_list k tab j db"
proof -
  have "filter (\<lambda>(_, r, _). r = j) xs = []" using assms(2,3) by (auto simp: filter_empty_conv)
  moreover have "filter (\<lambda>(_, r, _). r = j) (filter (\<lambda>(_, r, _). r \<noteq> i) l) = filter (\<lambda>(_, r, _). r = j) l"
    for l :: "(string \<times> string \<times> string) list"
    using assms(3) by (induction l) auto
  ultimately show ?thesis by (simp add: load_list_def assms(1))
qed

lemma load_own:
  assumes "md_lists db' tab = filter (\<lambda>(_, r, _). r \<noteq> i) (md_lists db tab) @ xs" "\<forall>x \<in> set xs. fst (snd x) = i"
    and "map (\<lambda>(_, _, v). v) xs = map snd es" "(\<forall>e \<in> set es. fst e \<noteq> []) \<longrightarrow> map (\<lambda>(e, _, v). (e, v)) xs = es"
    and "\<forall>e \<in> set (md_lists db tab). fst e \<noteq> []"
    and "es = (if k = K_acl then map (\<lambda>(e, _, v). (e, v)) (entries_for tab i db)
      else map (\<lambda>(_, _, v). ([], v)) (entries_for tab i db))"
  shows "load_list k tab i db' = load_list k tab i db"
proof -
  have "filter (\<lambda>(_, r, _). r = i) xs = xs" using assms(2) by (intro filter_id_all) auto
  then have all: "filter (\<lambda>(_, r, _). r = i) (md_lists db' tab) = xs"
    by (simp add: assms(1) case_prod_unfold)
  show ?thesis
  proof (cases "k = K_acl")
    case True
    then have "\<forall>e \<in> set es. fst e \<noteq> []" using assms(5,6) by (auto simp: entries_for_def)
    with assms(4,6) True all show ?thesis by (simp add: load_list_def Let_def entries_for_def)
  next
    case False
    with assms(3,6) all show ?thesis by (simp add: load_list_def Let_def entries_for_def o_def case_prod_unfold)
  qed
qed

locale toggled_server = module_server +
  assumes enabled_field: "\<exists>f \<in> set (re_fields R). gf_name f = ''enabled'' \<and> gf_kind f = K_bool \<and> \<not> gf_omit f"
    and stamp_shown: "f \<in> set (re_fields R) \<Longrightarrow> gf_name f = ''updated_at'' \<Longrightarrow> \<not> gf_omit f"
    and left_out: "f \<in> set (re_fields R) \<Longrightarrow> gf_omit f \<Longrightarrow> gf_name f \<notin> fst ` set (re_lists R) \<Longrightarrow>
      gf_kind f \<in> {K_text, K_int, K_bool}"
    and list_fields: "fst ` set (re_lists R) \<subseteq> gf_name ` set (re_fields R)"
    and enabled_column: "''enabled'' \<in> set (re_update R)" "''enabled'' \<notin> fst ` set (re_lists R)"
      "''updated_at'' \<notin> set (re_update R)"
    and read_columns: "set (re_update R) \<union> {''updated_at''} \<subseteq> set (re_select R) \<union> set (re_hidden R)"
begin

text \<open>The struct a toggled row decodes to.\<close>

lemma toggled_decodes:
  assumes "row_ok (ml_time lib) R x" "lib_law lib"
    and "length (stringify (JObj (toggled (row_json R db x)))) \<le> maxJSONBodyBytes"
  obtains w b where "decode_body lib R (stringify (JObj (toggled (row_json R db x)))) = Some w"
    "gget (loaded R db x) ''enabled'' = V_bool b" "gget w ''enabled'' = V_bool (\<not> b)"
    "\<And>f. f \<in> set (re_fields R) \<Longrightarrow> gf_name f \<notin> {''id'', ''enabled''} \<Longrightarrow>
       gget w (gf_name f) = gget (loaded R db x) (gf_name f) \<or>
       (gf_omit f \<and> empty_val (gget (loaded R db x) (gf_name f)) \<and> gget w (gf_name f) = zero_val (gf_kind f))"
proof -
  let ?v = "loaded R db x" and ?z = "zero_struct (re_fields R) (re_hidden R)"
  let ?ms = "struct_members (re_fields R) ?v"
  have typed: "fields_typed (ml_time lib) (re_fields R) ?v" by (rule loaded_typed [OF assms(1,2)])
  obtain fe where fe: "fe \<in> set (re_fields R)" "gf_name fe = ''enabled''" "gf_kind fe = K_bool" "\<not> gf_omit fe"
    using enabled_field by blast
  obtain b where b: "gget ?v ''enabled'' = V_bool b"
    using typed fe by (force simp: fields_typed_def split: gval.splits)
  have plain: "distinct (map fst ?ms)" "\<forall>kj \<in> set ?ms. plain_json (snd kj)"
    using members_plain [OF fields typed] by (simp_all add: struct_json_def)
  have "map_of ?ms ''enabled'' = Some (JBool b)" using written_member [OF fields fe(1), of ?v] fe b by simp
  then have tog: "toggled (row_json R db x) = obj_set ''enabled'' (JBool (\<not> b)) (obj_omit ''id'' ?ms)"
    by (simp add: row_json_def struct_json_def toggled_def)
  let ?kvs = "obj_set ''enabled'' (JBool (\<not> b)) (obj_omit ''id'' ?ms)"
  let ?g = "\<lambda>k (j :: json). if k = ''enabled'' then V_bool (\<not> b) else gget ?v k"
  have kvs: "distinct (map fst ?kvs)" "?kvs \<noteq> []" "\<forall>kj \<in> set ?kvs. plain_json (snd kj)"
  proof -
    have d: "distinct (map fst (obj_omit ''id'' ?ms))" by (rule distinct_obj_omit [OF plain(1)])
    then show "distinct (map fst ?kvs)" by (rule distinct_obj_set)
    have "map_of ?kvs ''enabled'' = Some (JBool (\<not> b))" by simp
    then show "?kvs \<noteq> []" by force
    show "\<forall>kj \<in> set ?kvs. plain_json (snd kj)"
      using set_obj_set [OF d] plain(2) by (fastforce simp: obj_omit_def)
  qed
  have z: "gget ?z (gf_name f) = zero_val (gf_kind f)" "gf_name f \<in> fst ` set ?z" if "f \<in> set (re_fields R)" for f
    using zero_struct_get(1) [OF fields hidden that] that by (force simp: zero_struct_def)+
  have member: "\<exists>f \<in> set (re_fields R). gf_name f = k \<and> read_val (ml_time lib) (gf_kind f) (zero_val (gf_kind f)) j = Some (?g k j)"
    if "(k, j) \<in> set ?kvs" for k j
  proof (cases "k = ''enabled''")
    case True
    then have "j = JBool (\<not> b)" using map_of_is_SomeI [OF kvs(1) that] by simp
    with True fe show ?thesis by (intro bexI [of _ fe]) simp_all
  next
    case False
    then have "map_of ?ms k = Some j" using map_of_is_SomeI [OF kvs(1) that] by (auto split: if_splits)
    from map_of_SomeD [OF this] obtain f where f: "f \<in> set (re_fields R)" "gf_name f = k" "j = write_val (gget ?v k)"
      by (auto simp: struct_members_def)
    moreover have "has_kind (ml_time lib) (gf_kind f) (gget ?v k)" using typed f by (auto simp: fields_typed_def)
    ultimately show ?thesis using read_written False by (intro bexI [of _ f]) simp_all
  qed
  have "\<forall>kj \<in> set ?kvs. given_member (ml_time lib) (re_fields R) ?z ?g kj"
  proof
    fix kj assume m: "kj \<in> set ?kvs"
    obtain f where "f \<in> set (re_fields R)" "gf_name f = fst kj"
      "read_val (ml_time lib) (gf_kind f) (zero_val (gf_kind f)) (snd kj) = Some (?g (fst kj) (snd kj))"
      using member [of "fst kj" "snd kj"] m by auto
    then show "given_member (ml_time lib) (re_fields R) ?z ?g kj"
      using z [of f] field_named_own [OF fields, of f] by (simp add: given_member_def)
  qed
  from decode_given [OF this kvs(1)] obtain w where w: "decode_members (ml_time lib) (re_fields R) ?kvs ?z = Some w"
    "\<forall>k. gget w k = (case map_of ?kvs k of None \<Rightarrow> gget ?z k
       | Some j \<Rightarrow> if field_named (re_fields R) k = None then gget ?z k else ?g k j)" by blast
  have "decode_object False (stringify (JObj ?kvs)) = Some ?kvs" by (rule decode_stringify [OF kvs(3,2)])
  then have "decode_body lib R (stringify (JObj (toggled (row_json R db x)))) = Some w"
    using w(1) assms(3) by (simp add: tog decode_body_def decode_upto_def decode_struct_def del: stringify.simps)
  moreover have "gget w ''enabled'' = V_bool (\<not> b)"
    using w(2) field_named_own [OF fields fe(1)] fe(2) by simp
  moreover have "gget w (gf_name f) = gget ?v (gf_name f) \<or>
      (gf_omit f \<and> empty_val (gget ?v (gf_name f)) \<and> gget w (gf_name f) = zero_val (gf_kind f))"
    if f: "f \<in> set (re_fields R)" "gf_name f \<notin> {''id'', ''enabled''}" for f
    using w(2) f(2) z(1) [OF f(1)] field_named_own [OF fields f(1)] written_member [OF fields f(1), of ?v] by simp
  ultimately show thesis using b by (intro that)
qed

text \<open>The lists that come back are those that were there.\<close>

lemma entries_back:
  assumes "gget w k = load_list (gf_kind f) tab i db \<or> empty_val (load_list (gf_kind f) tab i db) \<and> gget w k = zero_val (gf_kind f)"
    and "(k, tab) \<in> set (re_lists R)" "f \<in> set (re_fields R)" "gf_name f = k"
  shows "list_entries (gget w k) = (if gf_kind f = K_acl then map (\<lambda>(e, _, v). (e, v)) (entries_for tab i db)
      else map (\<lambda>(_, _, v). ([], v)) (entries_for tab i db))"
  using assms(1) list_field [OF assms(2-4)]
  by (auto simp: load_list_def list_entries_def entries_for_def Let_def o_def case_prod_unfold)

lemma lists_back:
  assumes "db_ok (ml_time lib) R db" "fresh_draws lib db" "i \<in> set (row_ids db)"
    and "row_ids db1 = row_ids db" "md_lists db1 = md_lists db" "md_drawn db1 = md_drawn db"
    and "\<And>k tab f. (k, tab) \<in> set (re_lists R) \<Longrightarrow> f \<in> set (re_fields R) \<Longrightarrow> gf_name f = k \<Longrightarrow>
      gget w k = load_list (gf_kind f) tab i db \<or> empty_val (load_list (gf_kind f) tab i db) \<and> gget w k = zero_val (gf_kind f)"
    and "(k, tab) \<in> set (re_lists R)" "f \<in> set (re_fields R)" "gf_name f = k"
  shows "load_list (gf_kind f) tab j (save_lists lib (re_lists R) i w (drop_lists R i db1)) = load_list (gf_kind f) tab j db"
proof -
  let ?dd = "drop_lists R i db1"
  let ?db2 = "save_lists lib (re_lists R) i w ?dd"
  have ok: "lists_ok db" using assms(1) by (simp add: db_ok_def)
  have "new_entries lib tb ?dd (list_entries (gget w k'))" if l: "(k', tb) \<in> set (re_lists R)" for k' tb
  proof -
    obtain f' where f': "f' \<in> set (re_fields R)" "gf_name f' = k'" using l list_fields by force
    have tb: "tb \<in> snd ` set (re_lists R)" using l by force
    note e = entries_back [OF assms(7) [OF l f'] l f']
    show ?thesis
    proof (cases "gf_kind f' = K_acl")
      case True
      then show ?thesis
        using e by (intro own_entries_new [OF ok assms(2,5,6) tb, of _ i]) (simp add: o_def case_prod_unfold)
    next
      case False
      then show ?thesis using e by (auto simp: new_entries_def)
    qed
  qed
  then have "\<forall>(k, tab) \<in> set (re_lists R). new_entries lib tab ?dd (list_entries (gget w k))" by blast
  from lists_saved [OF drop_fresh [OF assms(2,4-6)] _ list_tables(1) this, of i]
  have "list_stored tab i (list_entries (gget w k)) ?dd ?db2"
    using assms(3,4,8) row_ids_same [of ?dd db1] by auto
  moreover have "md_lists ?dd tab = filter (\<lambda>(_, r, _). r \<noteq> i) (md_lists db tab)"
    using dropped_lists [of tab R i db1] assms(5,8) by force
  ultimately obtain xs where xs: "md_lists ?db2 tab = filter (\<lambda>(_, r, _). r \<noteq> i) (md_lists db tab) @ xs"
    "\<forall>x \<in> set xs. fst (snd x) = i" "map (\<lambda>(_, _, v). v) xs = map snd (list_entries (gget w k))"
    "(\<forall>e \<in> set (list_entries (gget w k)). fst e \<noteq> []) \<longrightarrow> map (\<lambda>(e, _, v). (e, v)) xs = list_entries (gget w k)"
    unfolding list_stored_def by metis
  show ?thesis
  proof (cases "j = i")
    case True
    have "\<forall>e \<in> set (md_lists db tab). fst e \<noteq> []" using ok by (simp add: lists_ok_def)
    with True show ?thesis
      using load_own [OF xs _ entries_back [OF assms(7) [OF assms(8-10)] assms(8-10)]] by simp
  qed (rule load_other [OF xs(1,2)])
qed

end

text \<open>What a field of the row shows when the update has been written.\<close>

definition toggled_value :: "string \<Rightarrow> gstruct \<Rightarrow> string \<Rightarrow> gval" where
  "toggled_value now v k =
     (if k = ''updated_at'' then V_time now
      else if k = ''enabled'' then V_bool (gget v ''enabled'' = V_bool False) else gget v k)"

definition updated_row :: "resource \<Rightarrow> string \<Rightarrow> gstruct \<Rightarrow> gstruct \<Rightarrow> gstruct" where
  "updated_row R now w x = overwrite [''updated_at''] [(''updated_at'', V_time now)] (overwrite (re_update R) w x)"

context toggled_server begin

lemma value_back:
  assumes "fields_typed tm (re_fields R) v" "f \<in> set (re_fields R)" "gf_name f \<notin> fst ` set (re_lists R)"
    and "gget w (gf_name f) = gget v (gf_name f) \<or>
      (gf_omit f \<and> empty_val (gget v (gf_name f)) \<and> gget w (gf_name f) = zero_val (gf_kind f))"
  shows "gget w (gf_name f) = gget v (gf_name f)"
proof (cases "gf_omit f \<and> empty_val (gget v (gf_name f))")
  case True
  with left_out [OF assms(2) _ assms(3)] have "gf_kind f \<in> {K_text, K_int, K_bool}" by simp
  moreover have "has_kind tm (gf_kind f) (gget v (gf_name f))" using assms(1,2) by (simp add: fields_typed_def)
  ultimately have "gget v (gf_name f) = zero_val (gf_kind f)" using True by (auto split: gval.splits)
  with assms(4) show ?thesis by auto
qed (use assms(4) in auto)

lemma updated_get:
  assumes "row_ok tm R x" "f \<in> set (re_fields R)" "gf_name f \<notin> fst ` set (re_lists R)"
  shows "gget (updated_row R now w x) (gf_name f) =
    (if gf_name f = ''updated_at'' then V_time now
     else if gf_name f \<in> set (re_update R) then gget w (gf_name f) else gget x (gf_name f))"
proof -
  have "fst ` set x = set (columns R)" using assms(1) by (metis row_ok_def list.set_map)
  then have "gf_name f \<in> fst ` set x" using field_column [OF assms(2,3)] by simp
  moreover have "fst ` set (overwrite (re_update R) w x) = fst ` set x" by (metis list.set_map overwrite_keys)
  moreover have "gget [(''updated_at'', V_time now)] ''updated_at'' = V_time now" by (simp add: gget_def)
  ultimately show ?thesis by (simp add: updated_row_def gget_overwrite)
qed

lemma updated_loaded:
  assumes "row_ok (ml_time lib) R x" "lib_law lib" "f \<in> set (re_fields R)"
    and "\<And>tab. (gf_name f, tab) \<in> set (re_lists R) \<Longrightarrow>
      load_list (gf_kind f) tab (row_id x) db' = load_list (gf_kind f) tab (row_id x) db"
    and "gget (loaded R db x) ''enabled'' = V_bool b" "gget w ''enabled'' = V_bool (\<not> b)"
    and "gf_name f \<notin> {''id'', ''enabled''} \<Longrightarrow>
       gget w (gf_name f) = gget (loaded R db x) (gf_name f) \<or>
       (gf_omit f \<and> empty_val (gget (loaded R db x) (gf_name f)) \<and> gget w (gf_name f) = zero_val (gf_kind f))"
  shows "gget (loaded R db' (updated_row R now w x)) (gf_name f) = toggled_value now (loaded R db x) (gf_name f)"
proof (cases "map_of (re_lists R) (gf_name f)")
  case (Some tab)
  note l = map_of_SomeD [OF Some]
  have "gf_name f \<in> fst ` set (re_lists R)" using l by force
  moreover have "''updated_at'' \<notin> fst ` set (re_lists R)" using list_columns by blast
  ultimately have "gf_name f \<noteq> ''updated_at''" "gf_name f \<noteq> ''enabled''"
    using enabled_column(2) by metis+
  moreover have "row_id (updated_row R now w x) = row_id x" by (simp add: updated_row_def updated_row_id)
  ultimately show ?thesis
    using loaded_get [OF assms(3), of db' "updated_row R now w x"] loaded_get [OF assms(3), of db x] Some assms(4) [OF l]
    by (simp add: toggled_value_def)
next
  case None
  then have nl: "gf_name f \<notin> fst ` set (re_lists R)" by (simp add: map_of_eq_None_iff)
  have "gf_name f \<notin> set (re_hidden R)" using hidden assms(3) by blast
  then have sel: "gf_name f \<in> set (re_select R)" if "gf_name f \<in> set (re_update R) \<union> {''updated_at''}"
    using read_columns that by blast
  have v: "gget (loaded R db x) (gf_name f) = (if gf_name f \<in> set (re_select R) then gget x (gf_name f) else zero_val (gf_kind f))"
    using loaded_get [OF assms(3), of db x] None by simp
  have as_was: "gget w (gf_name f) = gget (loaded R db x) (gf_name f)" if "gf_name f \<notin> {''id'', ''enabled''}"
    by (rule value_back [OF loaded_typed [OF assms(1,2)] assms(3) nl assms(7) [OF that]])
  have "gf_name f \<noteq> ''id''" if "gf_name f \<in> set (re_update R)" using kept that by auto
  moreover have "gget (loaded R db' (updated_row R now w x)) (gf_name f) =
      (if gf_name f \<in> set (re_select R) then gget (updated_row R now w x) (gf_name f) else zero_val (gf_kind f))"
    using loaded_get [OF assms(3), of db' "updated_row R now w x"] None by simp
  ultimately show ?thesis
    using v sel as_was enabled_column(1) assms(5,6) updated_get [OF assms(1,3) nl] by (auto simp: toggled_value_def)
qed

lemma toggled_json:
  assumes "\<And>f. f \<in> set (re_fields R) \<Longrightarrow> gget w (gf_name f) = toggled_value now v (gf_name f)"
    and "gget v ''enabled'' = V_bool b"
  shows "struct_json (re_fields R) w = flipped now (struct_json (re_fields R) v)"
proof -
  obtain fe fu where fe: "fe \<in> set (re_fields R)" "gf_name fe = ''enabled''" "\<not> gf_omit fe"
    and fu: "fu \<in> set (re_fields R)" "gf_name fu = ''updated_at''" "\<not> gf_omit fu"
    using enabled_field stamp_fields [of "''updated_at''"] stamp_shown by blast
  let ?v1 = "obj_set ''enabled'' (V_bool (\<not> b)) v"
  have "struct_members (re_fields R) ?v1 = obj_set ''enabled'' (JBool (\<not> b)) (struct_members (re_fields R) v)"
    using members_changed [OF fields fe(1,3), of ?v1 "V_bool (\<not> b)" v] by (simp add: fe(2))
  moreover have "struct_members (re_fields R) w = obj_set ''updated_at'' (JStr now) (struct_members (re_fields R) ?v1)"
    using members_changed [OF fields fu(1,3), of w "V_time now" ?v1] assms by (simp add: fu(2) toggled_value_def)
  moreover have "map_of (struct_members (re_fields R) v) ''enabled'' = Some (JBool b)"
    using written_member [OF fields fe(1), of v] fe(2,3) assms(2) by simp
  ultimately show ?thesis by (simp add: struct_json_def flipped_def)
qed

text \<open>The row comes back with \<open>enabled\<close> turned around; no other row changes.\<close>

lemma toggle_struct:
  assumes "db_ok (ml_time lib) R db" "lib_law lib" "fresh_draws lib db" "x \<in> set (md_rows db)"
    and "length (stringify (JObj (toggled (row_json R db x)))) \<le> maxJSONBodyBytes"
    and "resource_Update lib R db (row_id x) (stringify (JObj (toggled (row_json R db x)))) = (db', ans)"
  obtains x' b where "ans = go_message (ml_enc lib) ''updated''" "row_id x' = row_id x"
    "md_rows db' = map (\<lambda>y. if y = x then x' else y) (md_rows db)" "gget (loaded R db x) ''enabled'' = V_bool b"
    "\<And>f. f \<in> set (re_fields R) \<Longrightarrow>
       gget (loaded R db' x') (gf_name f) = toggled_value (ml_show lib (md_now db)) (loaded R db x) (gf_name f)"
    "\<And>y. loaded R db' y = loaded R db y"
proof -
  let ?now = "ml_show lib (md_now db)" and ?v = "loaded R db x"
  have rok: "row_ok (ml_time lib) R x" using assms(1,4) by (simp add: db_ok_def)
  obtain w b where w: "decode_body lib R (stringify (JObj (toggled (row_json R db x)))) = Some w"
    "gget ?v ''enabled'' = V_bool b" "gget w ''enabled'' = V_bool (\<not> b)"
    "\<And>f. f \<in> set (re_fields R) \<Longrightarrow> gf_name f \<notin> {''id'', ''enabled''} \<Longrightarrow>
       gget w (gf_name f) = gget ?v (gf_name f) \<or>
       (gf_omit f \<and> empty_val (gget ?v (gf_name f)) \<and> gget w (gf_name f) = zero_val (gf_kind f))"
    by (rule toggled_decodes [OF rok assms(2,5)]) blast
  let ?db1 = "db\<lparr>md_rows := map (\<lambda>y. if row_id y = row_id x then updated_row R ?now w y else y) (md_rows db)\<rparr>"
  let ?db2 = "save_lists lib (re_lists R) (row_id x) w (drop_lists R (row_id x) ?db1)"
  have res: "db' = tell R ''updated'' (row_id x) ?db2" "ans = go_message (ml_enc lib) ''updated''"
    using assms(6) w(1) unfolding updated_row_def by (auto simp: resource_Update_def Let_def simp del: stringify.simps)
  have ids1: "row_ids ?db1 = row_ids db" by (simp add: row_ids_def o_def updated_row_def updated_row_id)
  have lists: "load_list (gf_kind f) tab j db' = load_list (gf_kind f) tab j db"
    if l: "(gf_name f, tab) \<in> set (re_lists R)" "f \<in> set (re_fields R)" for f tab j
  proof -
    have "gget w k = load_list (gf_kind f') tb (row_id x) db \<or>
        empty_val (load_list (gf_kind f') tb (row_id x) db) \<and> gget w k = zero_val (gf_kind f')"
      if l': "(k, tb) \<in> set (re_lists R)" "f' \<in> set (re_fields R)" "gf_name f' = k" for k tb f'
    proof -
      have "k \<in> fst ` set (re_lists R)" using l'(1) by force
      then have "k \<notin> {''id'', ''enabled''}" using list_columns enabled_column(2) by blast
      moreover have "gget ?v k = load_list (gf_kind f') tb (row_id x) db"
        using loaded_get [OF l'(2), of db x] l' list_tables(2) by (simp add: map_of_is_SomeI)
      ultimately show ?thesis using w(4) [OF l'(2)] l'(3) by auto
    qed
    then have "load_list (gf_kind f) tab j ?db2 = load_list (gf_kind f) tab j db"
      by (intro lists_back [OF assms(1,3) _ ids1 _ _ _ l refl]) (use assms(4) in \<open>simp_all add: row_ids_def\<close>)
    then show ?thesis by (simp add: res(1) load_list_def)
  qed
  have other: "loaded R db' y = loaded R db y" for y
    using lists by (auto simp: loaded_def dest: map_of_SomeD split: option.split)
  have "y = x" if "y \<in> set (md_rows db)" "row_id y = row_id x" for y
    using assms(1,4) that by (auto simp: db_ok_def row_ids_def distinct_map dest: inj_onD)
  then have "md_rows db' = map (\<lambda>y. if y = x then updated_row R ?now w x else y) (md_rows db)" by (auto simp: res(1))
  moreover have "row_id (updated_row R ?now w x) = row_id x" by (simp add: updated_row_def updated_row_id)
  ultimately show thesis
    using that [OF res(2) _ _ w(2) updated_loaded [OF rok assms(2) _ lists w(2,3,4)] other] by blast
qed

lemma toggle_row:
  assumes "db_ok (ml_time lib) R db" "lib_law lib" "fresh_draws lib db" "x \<in> set (md_rows db)"
    and "length (stringify (JObj (toggled (row_json R db x)))) \<le> maxJSONBodyBytes"
    and "resource_Update lib R db (row_id x) (stringify (JObj (toggled (row_json R db x)))) = (db', ans)"
  shows "ans = go_message (ml_enc lib) ''updated'' \<and>
    map (row_json R db') (md_rows db') =
      map (\<lambda>y. if y = x then flipped (ml_show lib (md_now db)) (row_json R db x) else row_json R db y) (md_rows db)"
proof -
  obtain x' b where x': "ans = go_message (ml_enc lib) ''updated''" "md_rows db' = map (\<lambda>y. if y = x then x' else y) (md_rows db)"
    "gget (loaded R db x) ''enabled'' = V_bool b"
    "\<And>f. f \<in> set (re_fields R) \<Longrightarrow>
       gget (loaded R db' x') (gf_name f) = toggled_value (ml_show lib (md_now db)) (loaded R db x) (gf_name f)"
    "\<And>y. loaded R db' y = loaded R db y"
    by (rule toggle_struct [OF assms]) blast
  have "row_json R db' x' = flipped (ml_show lib (md_now db)) (row_json R db x)"
    unfolding row_json_def by (rule toggled_json [OF x'(4,3)])
  then show ?thesis using x'(1,2,5) by (simp add: row_json_def)
qed

end

end
