(* ===== verification/Netip.thy ===== *)
theory Netip
  imports JS_Text Digits "HOL-Library.Word"
begin

text \<open>
  Addresses and networks as texts: what \<open>net/netip\<close> and \<open>net\<close> of Go's library parse, as far as the
  access lists use it. An address is a word of 32 or 128 bits; one of the latter can have a zone.
\<close>

unbundle bit_operations_syntax

datatype ip_addr = V4 "32 word" | V6 "128 word" string

type_synonym ip_prefix = "ip_addr \<times> nat"

subsection \<open>\<open>ParseAddr\<close>\<close>

text \<open>Fields of \<open>k\<close> bits as one word.\<close>

definition of_fields :: "nat \<Rightarrow> nat list \<Rightarrow> 'a :: len word" where
  "of_fields k fs = foldl (\<lambda>w n. push_bit k w OR word_of_nat n) 0 fs"

definition ipv4_field :: "string \<Rightarrow> nat option" where
  "ipv4_field s =
     (if s \<noteq> [] \<and> list_all is_digit s \<and> (hd s = CHR ''0'' \<longrightarrow> length s = 1) \<and> digits_val s \<le> 255
      then Some (digits_val s) else None)"

definition parseIPv4Fields :: "string \<Rightarrow> nat list option" where
  "parseIPv4Fields s =
     (let fs = map ipv4_field (js_split ''.'' s)
      in if length fs = 4 \<and> None \<notin> set fs then Some (map the fs) else None)"

definition is_hex :: "char \<Rightarrow> bool" where
  "is_hex c \<longleftrightarrow> hex_val c \<noteq> None"

text \<open>
  The groups of \<open>parseIPv6\<close>: what is left of the text, the groups read, where \<open>::\<close> stood. Each round
  reads a group, so there are at most eight.
\<close>

function parse_groups :: "string \<Rightarrow> nat list \<Rightarrow> nat option \<Rightarrow> (string \<times> nat list \<times> nat option) option" where
  "parse_groups s gs ellipsis =
     (if 8 \<le> length gs then Some (s, gs, ellipsis)
      else
        let run = takeWhile is_hex s; rest = dropWhile is_hex s
        in if run = [] \<or> 4 < length run then None
           else if starts_with ''.'' rest then
             (if (ellipsis = None \<and> length gs \<noteq> 6) \<or> 6 < length gs then None
              else (case parseIPv4Fields s of
                  None \<Rightarrow> None
                | Some fs \<Rightarrow> Some ([], gs @ [of_digits 256 (take 2 fs), of_digits 256 (drop 2 fs)], ellipsis)))
           else
             let gs' = gs @ [of_digits 16 (map (the \<circ> hex_val) run)]
             in if rest = [] then Some ([], gs', ellipsis)
                else if hd rest \<noteq> CHR '':'' \<or> length rest = 1 then None
                else if hd (tl rest) \<noteq> CHR '':'' then parse_groups (tl rest) gs' ellipsis
                else if ellipsis \<noteq> None then None
                else if tl (tl rest) = [] then Some ([], gs', Some (length gs'))
                else parse_groups (tl (tl rest)) gs' (Some (length gs')))"
  by pat_completeness auto
termination
  by (relation "measure (\<lambda>(s, gs, ellipsis). 8 - length gs)") auto

declare parse_groups.simps [simp del]

definition parse_ipv6_body :: "string \<Rightarrow> nat list option" where
  "parse_ipv6_body s =
     (let leading = starts_with ''::'' s; r = (if leading then drop 2 s else s)
      in if leading \<and> r = [] then Some (replicate 8 0)
         else (case parse_groups r [] (if leading then Some 0 else None) of
             None \<Rightarrow> None
           | Some (left, gs, ellipsis) \<Rightarrow>
               if left \<noteq> [] then None
               else if length gs < 8 then
                 map_option (\<lambda>k. take k gs @ replicate (8 - length gs) 0 @ drop k gs) ellipsis
               else if ellipsis \<noteq> None then None
               else Some gs))"

text \<open>The text before the first \<open>c\<close> and the one after it.\<close>

definition split_first :: "char \<Rightarrow> string \<Rightarrow> (string \<times> string) option" where
  "split_first c s = (if c \<in> set s then Some (takeWhile (\<lambda>x. x \<noteq> c) s, tl (dropWhile (\<lambda>x. x \<noteq> c) s)) else None)"

definition parseIPv6 :: "string \<Rightarrow> ip_addr option" where
  "parseIPv6 s =
     (case split_first CHR ''%'' s of
        None \<Rightarrow> map_option (\<lambda>gs. V6 (of_fields 16 gs) []) (parse_ipv6_body s)
      | Some (s', zone) \<Rightarrow>
          if zone = [] then None
          else map_option (\<lambda>gs. V6 (of_fields 16 gs) zone) (parse_ipv6_body s'))"

definition ParseAddr :: "string \<Rightarrow> ip_addr option" where
  "ParseAddr s =
     (case find (\<lambda>c. c \<in> {CHR ''.'', CHR '':'', CHR ''%''}) s of
        None \<Rightarrow> None
      | Some c \<Rightarrow>
          if c = CHR ''.'' then map_option (\<lambda>fs. V4 (of_fields 8 fs)) (parseIPv4Fields s)
          else if c = CHR '':'' then parseIPv6 s
          else None)"

fun zone :: "ip_addr \<Rightarrow> string" where
  "zone (V4 w) = []"
| "zone (V6 w z) = z"

fun bit_len :: "ip_addr \<Rightarrow> nat" where
  "bit_len (V4 w) = 32"
| "bit_len (V6 w z) = 128"

subsection \<open>\<open>ParsePrefix\<close> and \<open>Contains\<close>\<close>

text \<open>\<open>Atoi\<close> of a text that may not start with a sign or, unless it is \<open>0\<close>, a zero.\<close>

definition prefix_bits :: "string \<Rightarrow> nat option" where
  "prefix_bits s =
     (if s \<noteq> [] \<and> list_all is_digit s \<and> (1 < length s \<longrightarrow> hd s \<noteq> CHR ''0'') then Some (digits_val s) else None)"

text \<open>The last \<open>/\<close> counts.\<close>

definition ParsePrefix :: "string \<Rightarrow> ip_prefix option" where
  "ParsePrefix s =
     (case split_first CHR ''/'' (rev s) of
        None \<Rightarrow> None
      | Some (bits, addr) \<Rightarrow>
          (case (ParseAddr (rev addr), prefix_bits (rev bits)) of
             (Some a, Some n) \<Rightarrow> if zone a = [] \<and> n \<le> bit_len a then Some (a, n) else None
           | _ \<Rightarrow> None))"

fun Contains :: "ip_prefix \<Rightarrow> ip_addr \<Rightarrow> bool" where
  "Contains (V4 p, n) (V4 a) = (drop_bit (32 - n) (a XOR p) = 0)"
| "Contains (V6 p z, n) (V6 a y) = (y = [] \<and> (a XOR p) AND NOT (mask (128 - n)) = 0)"
| "Contains _ _ = False"

subsection \<open>\<open>SplitHostPort\<close>\<close>

text \<open>The host; \<open>None\<close> for every error.\<close>

definition SplitHostPort :: "string \<Rightarrow> string option" where
  "SplitHostPort s =
     (case split_first CHR '':'' (rev s) of
        None \<Rightarrow> None
      | Some (port, front) \<Rightarrow>
          let i = length front; head = rev front
          in if starts_with ''['' s then
               (case split_first CHR '']'' s of
                  None \<Rightarrow> None
                | Some (inner, after) \<Rightarrow>
                    if length inner + 1 \<noteq> i \<or> CHR ''['' \<in> set (tl s) \<or> CHR '']'' \<in> set after then None
                    else Some (tl inner))
             else if CHR '':'' \<in> set head \<or> CHR ''['' \<in> set s \<or> CHR '']'' \<in> set s then None
             else Some head)"

subsection \<open>What the validator takes\<close>

text \<open>\<open>net.ParseIP\<close> and \<open>net.ParseCIDR\<close>, which reads the length of a network with \<open>dtoi\<close>.\<close>

definition ParseIP_ok :: "string \<Rightarrow> bool" where
  "ParseIP_ok s \<longleftrightarrow> (case ParseAddr s of None \<Rightarrow> False | Some a \<Rightarrow> zone a = [])"

definition ParseCIDR_ok :: "string \<Rightarrow> bool" where
  "ParseCIDR_ok s \<longleftrightarrow>
     (case split_first CHR ''/'' s of
        None \<Rightarrow> False
      | Some (addr, m) \<Rightarrow>
          (case ParseAddr addr of
             None \<Rightarrow> False
           | Some a \<Rightarrow> zone a = [] \<and> m \<noteq> [] \<and> list_all is_digit m \<and> digits_val m \<le> bit_len a))"

definition IPOrCIDR :: "string \<Rightarrow> bool" where
  "IPOrCIDR v \<longleftrightarrow> v \<noteq> [] \<and> (ParseCIDR_ok v \<or> ParseIP_ok v)"

end
