(* ===== verification/Module_Servers.thy ===== *)
theory Module_Servers
  imports Resource_Toggle Crud_Pages Rendering Netip
begin

text \<open>
  The eight modules of the back end: the structs of \<open>internal/model/models.go\<close>, the statements of
  the handlers and what \<open>Create\<close> checks (\<open>pkg/validator\<close>), as descriptions the shared handlers
  of theory \<open>Resource_Server\<close> run on.
\<close>

subsection \<open>Validators\<close>

definition valid_port :: "int \<Rightarrow> bool" where
  "valid_port p \<longleftrightarrow> 0 < p \<and> p \<le> 65535"

definition is_letter :: "char \<Rightarrow> bool" where
  "is_letter c \<longleftrightarrow> (65 \<le> code c \<and> code c \<le> 90) \<or> (97 \<le> code c \<and> code c \<le> 122)"

definition is_alnum :: "char \<Rightarrow> bool" where
  "is_alnum c \<longleftrightarrow> is_letter c \<or> is_digit c"

text \<open>\<open>[a-zA-Z0-9](?:[a-zA-Z0-9\-]{0,61}[a-zA-Z0-9])?\<close>\<close>

definition domain_label :: "string \<Rightarrow> bool" where
  "domain_label s \<longleftrightarrow>
     s \<noteq> [] \<and> length s \<le> 63 \<and> is_alnum (hd s) \<and> is_alnum (last s) \<and> list_all (\<lambda>c. is_alnum c \<or> c = CHR ''-'') s"

text \<open>\<open>domainRegex\<close>: labels, a dot after each, two letters or more; \<open>*.\<close> may stand before them.\<close>

definition domain_regex :: "string \<Rightarrow> bool" where
  "domain_regex d \<longleftrightarrow>
     (let parts = js_split ''.'' (if starts_with ''*.'' d then drop 2 d else d)
      in 2 \<le> length parts \<and> list_all domain_label (butlast parts) \<and> 2 \<le> length (last parts) \<and>
         list_all is_letter (last parts))"

definition valid_domain :: "string \<Rightarrow> bool" where
  "valid_domain d \<longleftrightarrow> d \<noteq> [] \<and> length d \<le> 253 \<and> \<not> js_includes d ''..'' \<and> domain_regex d"

definition valid_url :: "module_lib \<Rightarrow> string \<Rightarrow> bool" where
  "valid_url lib raw \<longleftrightarrow>
     raw \<noteq> [] \<and>
     (case ml_url lib raw of
        None \<Rightarrow> False
      | Some (scheme, host) \<Rightarrow> (scheme = ''http'' \<or> scheme = ''https'') \<and> host \<noteq> []) \<and>
     length raw \<le> 2048"

subsection \<open>Values of a struct\<close>

definition text_col :: "gstruct \<Rightarrow> string \<Rightarrow> string" where
  "text_col v k = (case gget v k of V_text s \<Rightarrow> s | _ \<Rightarrow> [])"

definition int_of :: "gstruct \<Rightarrow> string \<Rightarrow> int" where
  "int_of v k = (case gget v k of V_int n \<Rightarrow> n | _ \<Rightarrow> 0)"

definition bool_of :: "gstruct \<Rightarrow> string \<Rightarrow> bool" where
  "bool_of x k = (gget x k = V_bool True)"

definition entries_of :: "gstruct \<Rightarrow> string \<Rightarrow> string list" where
  "entries_of v k = map snd (list_entries (gget v k))"

definition refuse :: "string \<Rightarrow> (string \<Rightarrow> bool) \<Rightarrow> string list \<Rightarrow> string option" where
  "refuse msg ok xs = (case find (\<lambda>x. \<not> ok x) xs of None \<Rightarrow> None | Some x \<Rightarrow> Some (msg @ x))"

text \<open>The first refusal counts.\<close>

fun first_of :: "string option list \<Rightarrow> string option" where
  "first_of [] = None"
| "first_of (None # r) = first_of r"
| "first_of (Some x # r) = Some x"

abbreviation fld :: "gkind \<Rightarrow> string \<Rightarrow> gfield" where
  "fld k n \<equiv> \<lparr>gf_name = n, gf_kind = k, gf_omit = False\<rparr>"

abbreviation fld_omit :: "gkind \<Rightarrow> string \<Rightarrow> gfield" where
  "fld_omit k n \<equiv> \<lparr>gf_name = n, gf_kind = k, gf_omit = True\<rparr>"

subsection \<open>Port forwarding\<close>

definition ForwardRule_fields :: "gfield list" where
  "ForwardRule_fields =
     [fld K_text ''id'', fld K_text ''tenant_id'', fld K_text ''owner_id'', fld K_text ''name'', fld K_text ''protocol'',
      fld K_text ''listen_addr'', fld K_int ''listen_port'', fld K_text ''target_addr'', fld K_int ''target_port'',
      fld K_bool ''enable_ipv6'', fld_omit K_acl ''whitelist'', fld_omit K_acl ''blacklist'', fld K_int ''max_conns'',
      fld K_bool ''enabled'', fld_omit K_text ''schedule_on'', fld_omit K_text ''schedule_off'',
      fld K_time ''created_at'', fld K_time ''updated_at'']"

definition forward_check :: "gstruct \<Rightarrow> string option" where
  "forward_check v =
     (if \<not> valid_port (int_of v ''listen_port'') \<or> \<not> valid_port (int_of v ''target_port'') then Some ''port must be 1-65535''
      else first_of [refuse ''invalid whitelist: '' IPOrCIDR (entries_of v ''whitelist''),
        refuse ''invalid blacklist: '' IPOrCIDR (entries_of v ''blacklist'')])"

definition forward_columns :: "string list" where
  "forward_columns =
     [''id'', ''tenant_id'', ''owner_id'', ''name'', ''protocol'', ''listen_addr'', ''listen_port'', ''target_addr'',
      ''target_port'', ''enable_ipv6'', ''max_conns'', ''enabled'', ''schedule_on'', ''schedule_off'', ''created_at'', ''updated_at'']"

definition forward_resource :: "module_lib \<Rightarrow> resource" where
  "forward_resource lib =
     \<lparr>re_name = ''forward'', re_fields = ForwardRule_fields, re_hidden = [],
      re_lists = [(''whitelist'', ''forward_whitelist''), (''blacklist'', ''forward_blacklist'')],
      re_insert = forward_columns, re_default = [],
      re_update = [''name'', ''protocol'', ''listen_addr'', ''listen_port'', ''target_addr'', ''target_port'', ''enable_ipv6'',
        ''max_conns'', ''enabled'', ''schedule_on'', ''schedule_off''],
      re_select = forward_columns, re_check = forward_check, re_bad_body = ''invalid request body'',
      re_paging = By_page, re_insert_checked = True, re_tells = [''created'', ''updated'', ''deleted'']\<rparr>"

subsection \<open>Reverse proxy\<close>

definition ProxyRule_fields :: "gfield list" where
  "ProxyRule_fields =
     [fld K_text ''id'', fld K_text ''tenant_id'', fld K_text ''owner_id'', fld K_text ''name'', fld K_texts ''domains'',
      fld K_text ''target_url'', fld K_bool ''tls_enabled'', fld_omit K_text ''cert_id'', fld K_bool ''force_https'',
      fld K_bool ''http2'', fld K_bool ''websocket'', fld_omit K_text ''url_rewrite'', fld_omit K_text ''basic_auth_user'',
      fld_omit K_acl ''ip_whitelist'', fld_omit K_acl ''ip_blacklist'', fld_omit K_texts ''ua_whitelist'',
      fld_omit K_texts ''ua_blacklist'', fld K_bool ''enabled'', fld K_int ''max_conns'',
      fld K_time ''created_at'', fld K_time ''updated_at'']"

definition proxy_check :: "module_lib \<Rightarrow> gstruct \<Rightarrow> string option" where
  "proxy_check lib v =
     first_of [refuse ''invalid domain: '' valid_domain (entries_of v ''domains''),
       (if valid_url lib (text_col v ''target_url'') then None else Some ''invalid target URL''),
       refuse ''invalid whitelist entry: '' IPOrCIDR (entries_of v ''ip_whitelist''),
       refuse ''invalid blacklist entry: '' IPOrCIDR (entries_of v ''ip_blacklist'')]"

definition proxy_columns :: "string list" where
  "proxy_columns =
     [''id'', ''tenant_id'', ''owner_id'', ''name'', ''target_url'', ''tls_enabled'', ''cert_id'', ''force_https'', ''http2'',
      ''websocket'', ''url_rewrite'', ''basic_auth_user'', ''basic_auth_hash'', ''max_conns'', ''enabled'', ''created_at'',
      ''updated_at'']"

definition proxy_resource :: "module_lib \<Rightarrow> resource" where
  "proxy_resource lib =
     \<lparr>re_name = ''proxy'', re_fields = ProxyRule_fields, re_hidden = [''basic_auth_hash''],
      re_lists = [(''domains'', ''proxy_domains''), (''ip_whitelist'', ''proxy_ip_whitelist''),
        (''ip_blacklist'', ''proxy_ip_blacklist''), (''ua_whitelist'', ''proxy_ua_whitelist''),
        (''ua_blacklist'', ''proxy_ua_blacklist'')],
      re_insert = proxy_columns, re_default = [],
      re_update = [''name'', ''target_url'', ''tls_enabled'', ''cert_id'', ''force_https'', ''http2'', ''websocket'', ''url_rewrite'',
        ''basic_auth_user'', ''basic_auth_hash'', ''max_conns'', ''enabled''],
      re_select = proxy_columns, re_check = proxy_check lib, re_bad_body = ''invalid request body'',
      re_paging = By_page, re_insert_checked = True, re_tells = [''created'', ''updated'', ''deleted'']\<rparr>"

subsection \<open>Dynamic DNS\<close>

definition DDNSConfig_fields :: "gfield list" where
  "DDNSConfig_fields =
     [fld K_text ''id'', fld K_text ''tenant_id'', fld K_text ''name'', fld K_text ''provider'', fld K_text ''domain'',
      fld K_text ''sub_domain'', fld K_text ''record_type'', fld K_int ''ttl'', fld K_dict ''credentials'',
      fld K_text ''get_ip_url'', fld K_text ''get_ip_type'', fld_omit K_text ''net_interface'', fld K_int ''interval'',
      fld K_bool ''enabled'', fld K_time ''created_at'', fld K_time ''updated_at'']"

definition ddns_settings :: "string list" where
  "ddns_settings =
     [''name'', ''provider'', ''domain'', ''sub_domain'', ''record_type'', ''ttl'', ''credentials'', ''get_ip_url'', ''get_ip_type'',
      ''net_interface'', ''interval'', ''enabled'']"

definition ddns_resource :: resource where
  "ddns_resource =
     \<lparr>re_name = ''ddns'', re_fields = DDNSConfig_fields, re_hidden = [], re_lists = [],
      re_insert = [''id''] @ ddns_settings @ [''created_at'', ''updated_at''], re_default = [], re_update = ddns_settings,
      re_select = [''id''] @ ddns_settings @ [''created_at'', ''updated_at''], re_check = (\<lambda>_. None),
      re_bad_body = ''invalid request body'', re_paging = By_page, re_insert_checked = True,
      re_tells = [''created'', ''updated'', ''deleted'']\<rparr>"

subsection \<open>STUN, Wake-on-LAN, scheduled jobs\<close>

definition STUNTunnel_fields :: "gfield list" where
  "STUNTunnel_fields =
     [fld K_text ''id'', fld K_text ''tenant_id'', fld K_text ''name'', fld K_text ''protocol'', fld K_int ''local_port'',
      fld K_int ''remote_port'', fld K_text ''stun_server'', fld K_text ''target_addr'', fld K_int ''target_port'',
      fld K_bool ''enabled'', fld K_time ''created_at'', fld K_time ''updated_at'']"

definition stun_settings :: "string list" where
  "stun_settings =
     [''name'', ''protocol'', ''local_port'', ''remote_port'', ''stun_server'', ''target_addr'', ''target_port'', ''enabled'']"

definition stun_resource :: resource where
  "stun_resource =
     \<lparr>re_name = ''stun'', re_fields = STUNTunnel_fields, re_hidden = [], re_lists = [],
      re_insert = [''id''] @ stun_settings @ [''created_at'', ''updated_at''], re_default = [], re_update = stun_settings,
      re_select = [''id''] @ stun_settings @ [''created_at'', ''updated_at''], re_check = (\<lambda>_. None),
      re_bad_body = ''invalid body'', re_paging = Page_of_20, re_insert_checked = False,
      re_tells = [''updated'', ''deleted'']\<rparr>"

definition WOLDevice_fields :: "gfield list" where
  "WOLDevice_fields =
     [fld K_text ''id'', fld K_text ''tenant_id'', fld K_text ''name'', fld K_text ''mac'', fld K_text ''broadcast'',
      fld K_int ''port'', fld_omit K_text ''platform'', fld_omit K_text ''platform_key'',
      fld K_time ''created_at'', fld K_time ''updated_at'']"

definition wol_settings :: "string list" where
  "wol_settings = [''name'', ''mac'', ''broadcast'', ''port'', ''platform'', ''platform_key'']"

definition wol_resource :: resource where
  "wol_resource =
     \<lparr>re_name = ''wol'', re_fields = WOLDevice_fields, re_hidden = [], re_lists = [],
      re_insert = [''id''] @ wol_settings @ [''created_at'', ''updated_at''], re_default = [], re_update = wol_settings,
      re_select = [''id''] @ wol_settings @ [''created_at'', ''updated_at''], re_check = (\<lambda>_. None),
      re_bad_body = ''invalid body'', re_paging = Everything, re_insert_checked = False, re_tells = []\<rparr>"

text \<open>The handler behind the page's \<open>Wake\<close> button.\<close>

definition wol_Wake :: "module_lib \<Rightarrow> module_db \<Rightarrow> module_db \<times> net_result" where
  "wol_Wake lib db = (db, go_message (ml_enc lib) ''wake signal sent'')"

definition CronJob_fields :: "gfield list" where
  "CronJob_fields =
     [fld K_text ''id'', fld K_text ''tenant_id'', fld K_text ''name'', fld K_text ''schedule'', fld K_text ''type'',
      fld_omit K_text ''command'', fld_omit K_text ''module_id'', fld_omit K_text ''module_type'', fld K_bool ''enabled'',
      fld_omit K_opt_time ''last_run'', fld_omit K_opt_time ''next_run'', fld K_time ''created_at'', fld K_time ''updated_at'']"

definition cron_settings :: "string list" where
  "cron_settings = [''name'', ''schedule'', ''type'', ''command'', ''module_id'', ''module_type'', ''enabled'']"

definition cron_resource :: resource where
  "cron_resource =
     \<lparr>re_name = ''cron'', re_fields = CronJob_fields, re_hidden = [], re_lists = [],
      re_insert = [''id''] @ cron_settings @ [''created_at'', ''updated_at''],
      re_default = [(''last_run'', V_opt_time None), (''next_run'', V_opt_time None)], re_update = cron_settings,
      re_select = [''id''] @ cron_settings @ [''last_run'', ''next_run'', ''created_at'', ''updated_at''],
      re_check = (\<lambda>_. None), re_bad_body = ''invalid body'', re_paging = Everything, re_insert_checked = False, re_tells = []\<rparr>"

subsection \<open>Certificates and storage\<close>

definition ACMECertificate_fields :: "gfield list" where
  "ACMECertificate_fields =
     [fld K_text ''id'', fld K_text ''tenant_id'', fld K_text ''name'', fld K_texts ''domains'', fld K_text ''provider'',
      fld K_text ''dns_provider'', fld K_dict ''dns_config'', fld K_text ''email'', fld K_bool ''auto_renew'',
      fld K_int ''renew_days'', fld_omit K_text ''cert_path'', fld_omit K_text ''key_path'',
      fld_omit K_opt_time ''expires_at'', fld K_text ''status'', fld_omit K_text ''error'',
      fld K_time ''created_at'', fld K_time ''updated_at'']"

definition acme_check :: "gstruct \<Rightarrow> string option" where
  "acme_check v =
     first_of [refuse ''invalid domain: '' valid_domain (entries_of v ''domains''),
       (if valid_email (text_col v ''email'') then None else Some ''invalid email'')]"

definition acme_settings :: "string list" where
  "acme_settings = [''name'', ''domains'', ''provider'', ''dns_provider'', ''dns_config'', ''email'', ''auto_renew'', ''renew_days'']"

definition acme_resource :: resource where
  "acme_resource =
     \<lparr>re_name = ''acme'', re_fields = ACMECertificate_fields, re_hidden = [], re_lists = [],
      re_insert = [''id''] @ acme_settings @ [''created_at'', ''updated_at''],
      re_default = [(''status'', V_text ''pending''), (''expires_at'', V_opt_time None)], re_update = acme_settings,
      re_select = [''id''] @ acme_settings @ [''cert_path'', ''key_path'', ''expires_at'', ''status'', ''error'', ''created_at'',
        ''updated_at''],
      re_check = acme_check, re_bad_body = ''invalid body'', re_paging = Everything, re_insert_checked = False, re_tells = []\<rparr>"

definition StorageMount_fields :: "gfield list" where
  "StorageMount_fields =
     [fld K_text ''id'', fld K_text ''tenant_id'', fld K_text ''name'', fld K_text ''type'', fld K_text ''source'',
      fld_omit K_text ''username'', fld K_texts ''services'', fld_omit K_int ''ftp_port'', fld K_bool ''enabled'',
      fld K_time ''created_at'', fld K_time ''updated_at'']"

definition storage_settings :: "string list" where
  "storage_settings = [''name'', ''type'', ''source'', ''username'', ''password'', ''services'', ''ftp_port'', ''enabled'']"

definition storage_resource :: resource where
  "storage_resource =
     \<lparr>re_name = ''storage'', re_fields = StorageMount_fields, re_hidden = [''password''], re_lists = [],
      re_insert = [''id''] @ storage_settings @ [''created_at'', ''updated_at''], re_default = [], re_update = storage_settings,
      re_select = [''id''] @ storage_settings @ [''created_at'', ''updated_at''], re_check = (\<lambda>_. None),
      re_bad_body = ''invalid body'', re_paging = Everything, re_insert_checked = False, re_tells = []\<rparr>"

subsection \<open>The contract holds\<close>

fun module_resource :: "module_lib \<Rightarrow> module \<Rightarrow> resource" where
  "module_resource lib M_forward = forward_resource lib"
| "module_resource lib M_proxy = proxy_resource lib"
| "module_resource lib M_ddns = ddns_resource"
| "module_resource lib M_stun = stun_resource"
| "module_resource lib M_wol = wol_resource"
| "module_resource lib M_cron = cron_resource"
| "module_resource lib M_acme = acme_resource"
| "module_resource lib M_storage = storage_resource"

lemmas resource_defs = forward_resource_def proxy_resource_def ddns_resource_def stun_resource_def wol_resource_def
  cron_resource_def acme_resource_def storage_resource_def
lemmas fields_defs = ForwardRule_fields_def ProxyRule_fields_def DDNSConfig_fields_def STUNTunnel_fields_def
  WOLDevice_fields_def CronJob_fields_def ACMECertificate_fields_def StorageMount_fields_def
lemmas columns_defs = forward_columns_def proxy_columns_def ddns_settings_def stun_settings_def wol_settings_def
  cron_settings_def acme_settings_def storage_settings_def

text \<open>Names of lower-case letters, digits and underscores differ when folded, too.\<close>

definition plain_name :: "string \<Rightarrow> bool" where
  "plain_name s \<longleftrightarrow> list_all (\<lambda>c. code c < 128 \<and> \<not> (65 \<le> code c \<and> code c \<le> 90)) s"

lemma plain_char: "code c < 128 \<Longrightarrow> c \<noteq> CHR 0xE2" "code c < 128 \<Longrightarrow> c \<noteq> CHR 0xC5"
proof -
  have "code CHR 0xE2 = 226" "code CHR 0xC5 = 197" by code_simp+
  then show "code c < 128 \<Longrightarrow> c \<noteq> CHR 0xE2" "code c < 128 \<Longrightarrow> c \<noteq> CHR 0xC5" by auto
qed

lemma fold_plain: "plain_name s \<Longrightarrow> go_fold s = map ascii_upper s"
proof (induction s rule: go_fold.induct)
  case (1 a b c r)
  then have p: "code a < 128" "code b < 128" by (simp_all add: plain_name_def)
  with 1 plain_char [OF p(1)] plain_char [OF p(2)] show ?case by (simp add: plain_name_def)
next
  case (2 a b)
  then have p: "code a < 128" by (simp add: plain_name_def)
  with plain_char [OF p] show ?case by simp
qed simp_all

lemma upper_inj:
  assumes "code c < 128" "\<not> (65 \<le> code c \<and> code c \<le> 90)" "code d < 128" "\<not> (65 \<le> code d \<and> code d \<le> 90)"
    and "ascii_upper c = ascii_upper d"
  shows "c = d"
proof -
  have "code (ascii_upper x) = (if 97 \<le> code x \<and> code x \<le> 122 then code x - 32 else code x)" if "code x < 128" for x
    using that by (simp add: ascii_upper_def code_char_of)
  from this [OF assms(1)] this [OF assms(3)] assms have "code c = code d" by (auto split: if_splits)
  then show ?thesis by (simp add: code_inject)
qed

lemma plain_fields_ok:
  assumes "list_all (\<lambda>f. plain_name (gf_name f)) fs" "distinct (map gf_name fs)"
  shows "fields_ok fs"
proof -
  have "inj_on go_fold (gf_name ` set fs)"
  proof (rule inj_onI)
    fix a b assume "a \<in> gf_name ` set fs" "b \<in> gf_name ` set fs" and eq: "go_fold a = go_fold b"
    then have p: "plain_name a" "plain_name b" using assms(1) by (auto simp: list_all_iff)
    with eq have "map ascii_upper a = map ascii_upper b" by (simp add: fold_plain)
    with p show "a = b"
    proof (induction a arbitrary: b)
      case (Cons c a)
      then obtain d b' where b: "b = d # b'" by (cases b) auto
      have p: "plain_name a" "plain_name b'" "map ascii_upper a = map ascii_upper b'" "ascii_upper c = ascii_upper d"
        "code c < 128" "\<not> (65 \<le> code c \<and> code c \<le> 90)" "code d < 128" "\<not> (65 \<le> code d \<and> code d \<le> 90)"
        using Cons.prems by (simp_all add: b plain_name_def)
      from upper_inj [OF p(5-8,4)] Cons.IH [OF p(1-3)] show ?case by (simp add: b)
    qed simp
  qed
  moreover have "inj_on gf_name (set fs)" "distinct fs" using assms(2) by (simp_all add: distinct_map)
  ultimately have "inj_on (go_fold \<circ> gf_name) (set fs)" by (intro comp_inj_on)
  with \<open>distinct fs\<close> show ?thesis by (simp add: fields_ok_def distinct_map o_def)
qed

lemma module_names: "list_all (\<lambda>f. plain_name (gf_name f)) (re_fields (module_resource lib m))"
proof -
  have "list_all (\<lambda>f. plain_name (gf_name f)) ForwardRule_fields" "list_all (\<lambda>f. plain_name (gf_name f)) ProxyRule_fields"
    "list_all (\<lambda>f. plain_name (gf_name f)) DDNSConfig_fields" "list_all (\<lambda>f. plain_name (gf_name f)) STUNTunnel_fields"
    "list_all (\<lambda>f. plain_name (gf_name f)) WOLDevice_fields" "list_all (\<lambda>f. plain_name (gf_name f)) CronJob_fields"
    "list_all (\<lambda>f. plain_name (gf_name f)) ACMECertificate_fields" "list_all (\<lambda>f. plain_name (gf_name f)) StorageMount_fields"
    by code_simp+
  then show ?thesis by (cases m) (simp_all add: resource_defs)
qed

lemma module_distinct: "distinct (map gf_name (re_fields (module_resource lib m)))"
  by (cases m) (simp_all add: resource_defs fields_defs)

lemma module_resource_contract: "module_server (module_resource lib m)"
proof (unfold_locales, goal_cases)
  case 1
  show ?case by (rule plain_fields_ok [OF module_names module_distinct])
next
  case 2
  show ?case by (cases m) (simp_all add: resource_defs fields_defs)
next
  case 3
  show ?case by (cases m) (simp_all add: resource_defs fields_defs)
next
  case (4 k)
  then show ?case by (cases m) (auto simp: resource_defs fields_defs)
next
  case (5 f)
  then show ?case by (cases m) (auto simp: resource_defs fields_defs)
next
  case 6
  show ?case by (cases m) (simp_all add: resource_defs)
next
  case 7
  show ?case by (cases m) (simp_all add: resource_defs)
next
  case 8
  show ?case by (cases m) (simp_all add: resource_defs)
next
  case 9
  show ?case by (cases m) (simp_all add: resource_defs columns_defs)
next
  case 10
  show ?case by (cases m) (simp_all add: resource_defs columns_defs)
next
  case (11 f tm)
  then show ?case by (cases m) (auto simp: resource_defs fields_defs columns_defs gget_def)
qed

interpretation ms: module_server "module_resource lib m"
  by (rule module_resource_contract)

text \<open>The two modules whose lists have a switch.\<close>

lemma toggled_modules:
  "m = M_forward \<or> m = M_proxy \<Longrightarrow> toggled_server (module_resource lib m)"
proof (intro toggled_server.intro [OF module_resource_contract] toggled_server_axioms.intro, goal_cases)
  case (3 f)
  then show ?case by (auto simp: resource_defs fields_defs)
qed (auto simp: resource_defs fields_defs columns_defs)

interpretation tf: toggled_server "forward_resource lib"
  using toggled_modules [of M_forward lib] by simp

interpretation tp: toggled_server "proxy_resource lib"
  using toggled_modules [of M_proxy lib] by simp

lemma hidden_inserted: "set (re_hidden (module_resource lib m)) \<subseteq> set (re_insert (module_resource lib m))"
  by (cases m) (simp_all add: resource_defs columns_defs)

subsection \<open>Engines that listen\<close>

text \<open>A request to a module's handlers, with an engine that listens: it hears what the notifier is told.\<close>

definition serve_heard ::
  "module_lib \<Rightarrow> resource \<Rightarrow> (module_db \<Rightarrow> string \<times> string \<times> string \<Rightarrow> 'e \<Rightarrow> 'e) \<Rightarrow> module_request \<Rightarrow> module_db \<times> 'e \<Rightarrow> module_db \<times> 'e" where
  "serve_heard lib R hear q s =
     (let db' = module_serve lib R q (fst s)
      in (db', fold (hear db') (drop (length (md_told (fst s))) (md_told db')) (snd s)))"

subsection \<open>A library for witnesses\<close>

definition sample_module_lib :: module_lib where
  "sample_module_lib =
     \<lparr>ml_enc = (\<lambda>j. stringify j @ [char_of (10::nat)]), ml_draw = (\<lambda>n. CHR ''i'' # show_nat n), ml_time = Some,
      ml_show = (\<lambda>_. zero_time), ml_url = (\<lambda>_. Some (''http'', ''h''))\<rparr>"

lemma sample_law: "lib_law sample_module_lib"
  by (simp add: lib_law_def sample_module_lib_def stringify_encodes time_law_def)

lemma sample_draws_fresh: "fresh_draws sample_module_lib empty_db"
proof -
  have "inj show_nat" by (metis digits_val_show injI)
  then show ?thesis by (simp add: fresh_draws_def sample_module_lib_def empty_db_def row_ids_def inj_def)
qed

end
