(* ===== verification/Proxy_Engine.thy ===== *)
theory Proxy_Engine
  imports Module_Servers
begin

text \<open>
  The reverse proxy (\<open>internal/engine/proxy/proxy.go\<close>) and how it follows the table of proxy rules:
  the handlers' notifier publishes an event, to which \<open>wire.go\<close> has subscribed the engine. \<open>Publish\<close>
  calls its handlers in turn, so a request acts on the table and then, still in its handler, on the
  engine.

  The map from domains to entries is a list with one entry per domain; \<open>pick\<close> stands for the order in
  which Go walks a map: of several entries that fit, one that fits.
\<close>

subsection \<open>Rules\<close>

record proxy_rule =
  pr_id :: string
  pr_domains :: "string list"
  pr_target :: string
  pr_websocket :: bool
  pr_user :: string
  pr_hash :: string
  pr_wl :: "string list"
  pr_bl :: "string list"
  pr_enabled :: bool

text \<open>A row with its lists, as \<open>GetRules\<close> and \<open>loadProxyRule\<close> read it.\<close>

definition rule_of :: "module_db \<Rightarrow> gstruct \<Rightarrow> proxy_rule" where
  "rule_of db x =
     (let vals = (\<lambda>table. map snd (list_entries (load_list K_acl table (row_id x) db)))
      in \<lparr>pr_id = row_id x, pr_domains = vals ''proxy_domains'', pr_target = text_col x ''target_url'',
          pr_websocket = bool_of x ''websocket'', pr_user = text_col x ''basic_auth_user'',
          pr_hash = text_col x ''basic_auth_hash'', pr_wl = vals ''proxy_ip_whitelist'',
          pr_bl = vals ''proxy_ip_blacklist'', pr_enabled = bool_of x ''enabled''\<rparr>)"

definition GetRules :: "module_db \<Rightarrow> proxy_rule list" where
  "GetRules db = map (rule_of db) (md_rows db)"

definition loadProxyRule :: "module_db \<Rightarrow> string \<Rightarrow> proxy_rule option" where
  "loadProxyRule db i = map_option (rule_of db) (find (\<lambda>x. row_id x = i) (md_rows db))"

subsection \<open>Routes\<close>

type_synonym proxy_routes = "(string \<times> proxy_rule) list"

type_synonym picker = "proxy_routes \<Rightarrow> string \<times> proxy_rule"

definition picks :: "picker \<Rightarrow> bool" where
  "picks pick \<longleftrightarrow> (\<forall>cs. cs \<noteq> [] \<longrightarrow> pick cs \<in> set cs)"

definition addRoute :: "proxy_rule \<Rightarrow> proxy_routes \<Rightarrow> proxy_routes" where
  "addRoute r rs = fold (\<lambda>d. obj_set d r) (pr_domains r) rs"

definition ruleKey :: "proxy_rule \<Rightarrow> string" where
  "ruleKey r = (case pr_domains r of [] \<Rightarrow> pr_id r | d # _ \<Rightarrow> d)"

definition proxy_Start :: "module_db \<Rightarrow> proxy_routes" where
  "proxy_Start db = fold (\<lambda>r rs. if pr_enabled r then addRoute r rs else rs) (GetRules db) []"

definition proxy_Reload :: "proxy_rule \<Rightarrow> proxy_routes \<Rightarrow> proxy_routes" where
  "proxy_Reload r rs =
     (let rs1 = obj_omit (ruleKey r) rs in if pr_enabled r then addRoute r rs1 else rs1)"

definition proxy_Remove :: "picker \<Rightarrow> string \<Rightarrow> proxy_routes \<Rightarrow> proxy_routes" where
  "proxy_Remove pick i rs =
     (case filter (\<lambda>(_, r). pr_id r = i) rs of [] \<Rightarrow> rs | cs \<Rightarrow> obj_omit (fst (pick cs)) rs)"

text \<open>What \<open>setupEvents\<close> subscribes for proxy rules.\<close>

definition proxy_event :: "picker \<Rightarrow> module_db \<Rightarrow> string \<times> string \<times> string \<Rightarrow> proxy_routes \<Rightarrow> proxy_routes" where
  "proxy_event pick db ev rs =
     (let action = fst (snd ev); i = snd (snd ev)
      in if fst ev \<noteq> ''proxy'' then rs
         else if action = ''deleted'' then proxy_Remove pick i rs
         else (case loadProxyRule db i of None \<Rightarrow> rs | Some r \<Rightarrow> proxy_Reload r rs))"

subsection \<open>Requests\<close>

text \<open>
  A request as the proxy gets it; \<open>hr_peer\<close> is the host of its \<open>RemoteAddr\<close>, which \<open>net/http\<close>
  sets to a host and a port.
\<close>

record proxy_request =
  hr_host :: string
  hr_xff :: string
  hr_xri :: string
  hr_peer :: string
  hr_basic :: "(string \<times> string) option"

datatype verdict =
    Upstream proxy_rule
  | No_route
  | Bad_upstream
  | Forbidden
  | Unauthorized

definition clientIP :: "proxy_request \<Rightarrow> string" where
  "clientIP q =
     (if hr_xff q \<noteq> [] then go_trim (hd (js_split '','' (hr_xff q)))
      else if hr_xri q \<noteq> [] then hr_xri q else hr_peer q)"

definition aclHandler :: "proxy_rule \<Rightarrow> proxy_request \<Rightarrow> verdict" where
  "aclHandler r q =
     (let ip = clientIP q
      in if ip \<in> set (pr_bl r) then Forbidden
         else if pr_wl r \<noteq> [] \<and> ip \<notin> set (pr_wl r) then Forbidden
         else if pr_user r \<noteq> [] \<and> hr_basic q \<noteq> Some (pr_user r, pr_hash r) then Unauthorized
         else Upstream r)"

definition buildHandler :: "module_lib \<Rightarrow> proxy_rule \<Rightarrow> proxy_request \<Rightarrow> verdict" where
  "buildHandler lib r q =
     (if ml_url lib (pr_target r) = None then Bad_upstream
      else if pr_websocket r then Upstream r
      else aclHandler r q)"

definition has_suffix :: "string \<Rightarrow> string \<Rightarrow> bool" where
  "has_suffix s x \<longleftrightarrow> length s \<le> length x \<and> drop (length x - length s) x = s"

definition route_of :: "picker \<Rightarrow> proxy_routes \<Rightarrow> string \<Rightarrow> proxy_rule option" where
  "route_of pick rs host =
     (case map_of rs host of
        Some r \<Rightarrow> Some r
      | None \<Rightarrow>
          (case filter (\<lambda>(d, _). starts_with ''*.'' d \<and> has_suffix (tl d) host) rs of
             [] \<Rightarrow> None | cs \<Rightarrow> Some (snd (pick cs))))"

definition proxy_serveHTTP :: "module_lib \<Rightarrow> picker \<Rightarrow> proxy_routes \<Rightarrow> proxy_request \<Rightarrow> verdict" where
  "proxy_serveHTTP lib pick rs q =
     (case route_of pick rs (hd (js_split '':'' (hr_host q))) of
        None \<Rightarrow> No_route
      | Some r \<Rightarrow> buildHandler lib r q)"

subsection \<open>Lemmas\<close>

lemma map_of_addRoute:
  "map_of (addRoute r rs) d = (if d \<in> set (pr_domains r) then Some r else map_of rs d)"
proof -
  have "map_of (fold (\<lambda>d. obj_set d r) ds rs) d = (if d \<in> set ds then Some r else map_of rs d)" for ds
    by (induction ds arbitrary: rs) auto
  then show ?thesis by (simp add: addRoute_def)
qed

lemma distinct_addRoute: "distinct (map fst rs) \<Longrightarrow> distinct (map fst (addRoute r rs))"
proof -
  have "distinct (map fst rs) \<Longrightarrow> distinct (map fst (fold (\<lambda>d. obj_set d r) ds rs))" for ds
    by (induction ds arbitrary: rs) (simp_all add: distinct_obj_set)
  then show "distinct (map fst rs) \<Longrightarrow> distinct (map fst (addRoute r rs))" by (simp add: addRoute_def)
qed

lemma map_of_Reload:
  "map_of (proxy_Reload r rs) d =
     (if pr_enabled r \<and> d \<in> set (pr_domains r) then Some r else if d = ruleKey r then None else map_of rs d)"
  by (simp add: proxy_Reload_def Let_def map_of_addRoute)

lemma distinct_Reload: "distinct (map fst rs) \<Longrightarrow> distinct (map fst (proxy_Reload r rs))"
  by (simp add: proxy_Reload_def Let_def distinct_addRoute distinct_obj_omit)

subsection \<open>Following the table\<close>

text \<open>The routes an engine should have: each domain of an enabled rule leads to that rule.\<close>

definition serves :: "proxy_rule list \<Rightarrow> proxy_routes \<Rightarrow> bool" where
  "serves rules rs \<longleftrightarrow>
     distinct (map fst rs) \<and>
     (\<forall>d r. map_of rs d = Some r \<longleftrightarrow> r \<in> set rules \<and> pr_enabled r \<and> d \<in> set (pr_domains r))"

definition one_domain :: "proxy_rule list \<Rightarrow> bool" where
  "one_domain rules \<longleftrightarrow> (\<forall>r \<in> set rules. length (pr_domains r) = 1) \<and> distinct (map pr_domains rules)"

lemma one_domain_key: "one_domain rules \<Longrightarrow> r \<in> set rules \<Longrightarrow> pr_domains r = [ruleKey r]"
  by (cases "pr_domains r") (auto simp: one_domain_def ruleKey_def)

lemma one_domain_inj: "one_domain rules \<Longrightarrow> r \<in> set rules \<Longrightarrow> r' \<in> set rules \<Longrightarrow> ruleKey r = ruleKey r' \<Longrightarrow> r = r'"
  using one_domain_key [of rules r] one_domain_key [of rules r'] inj_onD [of pr_domains "set rules" r r']
  by (simp add: one_domain_def distinct_map)

lemma serves_add:
  assumes "serves rules rs" "one_domain (rules @ [r])" "pr_id r \<notin> pr_id ` set rules"
  shows "serves (rules @ [r]) (proxy_Reload r rs)"
proof -
  have r: "pr_domains r = [ruleKey r]" using one_domain_key [OF assms(2), of r] by simp
  have other: "ruleKey r \<notin> set (pr_domains r')" if "r' \<in> set rules" for r'
  proof
    assume "ruleKey r \<in> set (pr_domains r')"
    then have "r' = r" using one_domain_key [OF assms(2), of r'] one_domain_inj [OF assms(2), of r' r] that by auto
    with that assms(3) show False by auto
  qed
  show ?thesis
    using assms(1) other r by (auto simp: serves_def distinct_Reload map_of_Reload)
qed

lemma serves_set:
  assumes "serves rules rs" "one_domain rules" "distinct (map pr_id rules)" "r0 \<in> set rules"
    and "pr_id r = pr_id r0" "pr_domains r = pr_domains r0"
  shows "serves (map (\<lambda>x. if pr_id x = pr_id r0 then r else x) rules) (proxy_Reload r rs)"
proof -
  obtain d0 where "pr_domains r0 = [d0]" using one_domain_key [OF assms(2,4)] by blast
  then have r: "pr_domains r = [ruleKey r]" "ruleKey r = ruleKey r0"
    using assms(6) by (simp_all add: ruleKey_def)
  have id: "x = r0" if "x \<in> set rules" "pr_id x = pr_id r0" for x
    using assms(3,4) that by (auto simp: distinct_map dest: inj_onD)
  have key: "x = r0" if "x \<in> set rules" "ruleKey r \<in> set (pr_domains x)" for x
    using one_domain_key [OF assms(2) that(1)] one_domain_inj [OF assms(2) that(1) assms(4)] that(2) r(2) by auto
  have mem: "y \<in> set (map (\<lambda>x. if pr_id x = pr_id r0 then r else x) rules) \<longleftrightarrow> y = r \<or> y \<in> set rules \<and> y \<noteq> r0 \<and> pr_id y \<noteq> pr_id r0" for y
    using id assms(4) by auto
  have "map_of (proxy_Reload r rs) d = Some y \<longleftrightarrow>
      (y = r \<or> y \<in> set rules \<and> y \<noteq> r0 \<and> pr_id y \<noteq> pr_id r0) \<and> pr_enabled y \<and> d \<in> set (pr_domains y)" for d y
  proof (cases "d = ruleKey r")
    case True
    then show ?thesis using key [of y] r by (auto simp: map_of_Reload)
  next
    case False
    then have "map_of (proxy_Reload r rs) d = map_of rs d" using r(1) by (simp add: map_of_Reload)
    moreover have "d \<notin> set (pr_domains r)" "d \<notin> set (pr_domains r0)" using False r(1) assms(6) by auto
    ultimately show ?thesis using assms(1) id by (auto simp: serves_def)
  qed
  then show ?thesis
    using assms(1) distinct_Reload unfolding serves_def mem by blast
qed

lemma serves_remove:
  assumes "serves rules rs" "one_domain rules" "distinct (map pr_id rules)" "picks pick"
  shows "serves (filter (\<lambda>r. pr_id r \<noteq> i) rules) (proxy_Remove pick i rs)"
proof -
  let ?cs = "filter (\<lambda>(_, r). pr_id r = i) rs"
  have entry: "map_of rs d = Some r \<longleftrightarrow> (d, r) \<in> set rs" for d r
    using assms(1) map_of_eq_Some_iff [of rs d r] by (simp add: serves_def)
  have only: "d = d' \<and> r = r'" if "(d, r) \<in> set ?cs" "(d', r') \<in> set ?cs" for d r d' r'
  proof -
    have m: "r \<in> set rules" "r' \<in> set rules" "d \<in> set (pr_domains r)" "d' \<in> set (pr_domains r')" "pr_id r = pr_id r'"
      using that assms(1) entry by (auto simp: serves_def)
    then have "r = r'" using assms(3) by (auto simp: distinct_map dest: inj_onD)
    with m one_domain_key [OF assms(2) m(1)] show ?thesis by auto
  qed
  show ?thesis
  proof (cases "?cs = []")
    case True
    then have "pr_id r \<noteq> i" if "map_of rs d = Some r" for d r
      using that entry by (auto simp: filter_empty_conv)
    with True assms(1) show ?thesis by (fastforce simp: serves_def proxy_Remove_def)
  next
    case False
    then have p: "pick ?cs \<in> set ?cs" using assms(4) unfolding picks_def by blast
    obtain d0 r0 where dr: "pick ?cs = (d0, r0)" by (cases "pick ?cs")
    have rem: "proxy_Remove pick i rs = obj_omit d0 rs"
      using False dr by (cases ?cs) (auto simp: proxy_Remove_def)
    have "map_of (obj_omit d0 rs) d = Some r \<longleftrightarrow> map_of rs d = Some r \<and> pr_id r \<noteq> i" for d r
    proof
      assume a: "map_of (obj_omit d0 rs) d = Some r"
      then have m: "d \<noteq> d0" "map_of rs d = Some r" by (auto split: if_splits)
      moreover have "pr_id r \<noteq> i" using only [of d r d0 r0] m p dr entry by auto
      ultimately show "map_of rs d = Some r \<and> pr_id r \<noteq> i" by simp
    next
      assume a: "map_of rs d = Some r \<and> pr_id r \<noteq> i"
      have "d \<noteq> d0"
      proof
        assume "d = d0"
        then have "map_of rs d = Some r0" "pr_id r0 = i" using p dr entry [of d0 r0] by auto
        with a show False by simp
      qed
      with a show "map_of (obj_omit d0 rs) d = Some r" by simp
    qed
    with assms(1) show ?thesis by (auto simp: serves_def rem distinct_obj_omit)
  qed
qed

end
