(* ===== verification/Engine_Events.thy ===== *)
theory Engine_Events
  imports Module_Servers
begin

text \<open>
  What an engine behind a table hears of it (\<open>internal/service/wire.go\<close>): it reads the rows with
  their lists when it starts, and a row again when the notifier tells of its creation or change.
  \<open>load\<close> is how an engine's adapter reads a row. Most engines keep what they run by identifier,
  and reload and remove it alike.
\<close>

subsection \<open>Reading rows\<close>

definition rules_read :: "(module_db \<Rightarrow> gstruct \<Rightarrow> 'r) \<Rightarrow> module_db \<Rightarrow> 'r list" where
  "rules_read load db = map (load db) (md_rows db)"

definition rule_read :: "(module_db \<Rightarrow> gstruct \<Rightarrow> 'r) \<Rightarrow> module_db \<Rightarrow> string \<Rightarrow> 'r option" where
  "rule_read load db i = map_option (load db) (find (\<lambda>x. row_id x = i) (md_rows db))"

lemma load_saved_other:
  assumes "j \<noteq> i"
  shows "load_list k tab j (save_lists lib ls i v db) = load_list k tab j db"
proof -
  have one: "load_list k tab j (save_entry lib tb i e db) = load_list k tab j db" for e tb db
    using assms by (auto simp: load_list_def save_entry_def Let_def)
  have "load_list k tab j (save_entries lib tb i es db) = load_list k tab j db" for es tb db
    unfolding save_entries_def by (induction es arbitrary: db) (simp_all add: one)
  then show ?thesis by (induction lib ls i v db rule: save_lists.induct) simp_all
qed

lemma load_dropped_other:
  assumes "j \<noteq> i"
  shows "load_list k tab j (drop_lists R i db) = load_list k tab j db"
proof -
  have "(\<lambda>x :: string \<times> string \<times> string. fst (snd x) \<noteq> i \<and> fst (snd x) = j) = (\<lambda>x. fst (snd x) = j)" using assms by auto
  then show ?thesis by (simp add: load_list_def drop_lists_def case_prod_unfold)
qed

lemma find_key: "distinct (map f xs) \<Longrightarrow> x \<in> set xs \<Longrightarrow> find (\<lambda>y. f y = f x) xs = Some x"
  by (induction xs) auto

lemma find_last: "\<forall>y \<in> set xs. \<not> P y \<Longrightarrow> P x \<Longrightarrow> find P (xs @ [x]) = Some x"
  by (induction xs) auto

lemma find_row: "distinct (row_ids db) \<Longrightarrow> x \<in> set (md_rows db) \<Longrightarrow> find (\<lambda>y. row_id y = row_id x) (md_rows db) = Some x"
  unfolding row_ids_def by (rule find_key)

lemma read_cong:
  assumes "find (\<lambda>x. row_id x = j) (md_rows db') = find (\<lambda>x. row_id x = j) (md_rows db)"
    and "\<And>y. row_id y = j \<Longrightarrow> load db' y = load db y"
  shows "rule_read load db' j = rule_read load db j"
proof (cases "find (\<lambda>x. row_id x = j) (md_rows db)")
  case (Some x)
  then have "row_id x = j" by (auto simp: find_Some_iff)
  with assms Some show ?thesis by (simp add: rule_read_def)
qed (simp add: rule_read_def assms(1))

lemma rule_read_None: "rule_read load db i = None \<longleftrightarrow> i \<notin> set (row_ids db)"
  by (auto simp: rule_read_def find_None_iff row_ids_def)

subsection \<open>What a request does to the rules\<close>

definition told_by :: "resource \<Rightarrow> string \<Rightarrow> string \<Rightarrow> (string \<times> string \<times> string) list" where
  "told_by R action i = (if action \<in> set (re_tells R) then [(re_name R, action, i)] else [])"

lemma told_after: "md_told (tell R action i db) = md_told db @ told_by R action i"
  by (simp add: tell_def told_by_def)

text \<open>The outcomes: nothing, a new row, a changed row, a row less; rules of other rows stay.\<close>

definition rows_kept :: "(module_db \<Rightarrow> gstruct \<Rightarrow> 'r) \<Rightarrow> module_db \<Rightarrow> module_db \<Rightarrow> bool" where
  "rows_kept load db db' \<longleftrightarrow> md_rows db' = md_rows db \<and> md_told db' = md_told db \<and> (\<forall>y. load db' y = load db y)"

definition row_added :: "resource \<Rightarrow> (module_db \<Rightarrow> gstruct \<Rightarrow> 'r) \<Rightarrow> module_db \<Rightarrow> module_db \<Rightarrow> bool" where
  "row_added R load db db' \<longleftrightarrow>
     (\<exists>x. md_rows db' = md_rows db @ [x] \<and> row_id x \<notin> set (row_ids db) \<and>
        md_told db' = md_told db @ told_by R ''created'' (row_id x) \<and>
        (\<forall>y. row_id y \<noteq> row_id x \<longrightarrow> load db' y = load db y))"

definition row_updated :: "resource \<Rightarrow> (module_db \<Rightarrow> gstruct \<Rightarrow> 'r) \<Rightarrow> string \<Rightarrow> module_db \<Rightarrow> module_db \<Rightarrow> bool" where
  "row_updated R load i db db' \<longleftrightarrow>
     (\<exists>f. md_rows db' = map (\<lambda>x. if row_id x = i then f x else x) (md_rows db) \<and> (\<forall>x. row_id (f x) = row_id x) \<and>
        md_told db' = md_told db @ told_by R ''updated'' i \<and>
        (\<forall>y. row_id y \<noteq> i \<longrightarrow> load db' y = load db y))"

definition row_deleted :: "resource \<Rightarrow> (module_db \<Rightarrow> gstruct \<Rightarrow> 'r) \<Rightarrow> string \<Rightarrow> module_db \<Rightarrow> module_db \<Rightarrow> bool" where
  "row_deleted R load i db db' \<longleftrightarrow>
     md_rows db' = filter (\<lambda>x. row_id x \<noteq> i) (md_rows db) \<and> md_told db' = md_told db @ told_by R ''deleted'' i \<and>
     (\<forall>y. row_id y \<noteq> i \<longrightarrow> load db' y = load db y)"

text \<open>
  A reader of rows: a rule has its row's identifier and depends on no list but its own. When an
  identifier is taken nothing is told: the handler looks at the error of its \<open>INSERT\<close>, or keeps
  no lists and never tells of a creation.
\<close>

locale rule_reader = module_server R for R +
  fixes load :: "module_db \<Rightarrow> gstruct \<Rightarrow> 'r" and rid :: "'r \<Rightarrow> string"
  assumes load_id: "rid (load db x) = row_id x"
    and load_own: "(\<And>k tab. load_list k tab (row_id x) db' = load_list k tab (row_id x) db) \<Longrightarrow> load db' x = load db x"
    and noticed: "re_insert_checked R \<or> re_lists R = [] \<and> ''created'' \<notin> set (re_tells R)"
begin

lemma load_tell [simp]: "load (tell R' a i db) x = load db x"
  by (rule load_own) (simp add: load_list_def)

lemma ids_read: "map rid (rules_read load db) = row_ids db"
  by (simp add: rules_read_def row_ids_def load_id o_def)

lemma created:
  "rows_kept load db (fst (resource_Create lib R db body)) \<or> row_added R load db (fst (resource_Create lib R db body))"
proof (cases "decode_body lib R body")
  case None
  then show ?thesis by (simp add: resource_Create_def rows_kept_def)
next
  case (Some v0)
  let ?i = "ml_draw lib (md_drawn db)"
  let ?v = "stamped ?i (ml_show lib (md_now db)) v0"
  have drawn: "rows_kept load db (db\<lparr>md_drawn := n\<rparr>)" for n
    by (auto simp: rows_kept_def load_list_def intro!: load_own)
  have silent: "tell R ''created'' ?i (save_lists lib (re_lists R) ?i ?v db1) = db1" if "\<not> re_insert_checked R" for db1
    using noticed that by (auto simp: tell_def)
  show ?thesis
  proof (cases "re_check R v0 = None \<and> ?i \<notin> set (row_ids db)")
    case False
    with drawn [of "md_drawn db"] drawn [of "md_drawn db + 1"] Some silent show ?thesis
      by (auto simp: resource_Create_def Let_def split: option.split)
  next
    case True
    let ?x = "new_row R ?v"
    let ?db1 = "db\<lparr>md_drawn := md_drawn db + 1, md_rows := md_rows db @ [?x]\<rparr>"
    have res: "fst (resource_Create lib R db body) = tell R ''created'' ?i (save_lists lib (re_lists R) ?i ?v ?db1)"
      using Some True by (simp add: resource_Create_def Let_def)
    have id: "row_id ?x = ?i" by (rule new_row_id)
    have "load (save_lists lib (re_lists R) ?i ?v ?db1) y = load db y" if "row_id y \<noteq> ?i" for y
      by (rule load_own) (simp add: load_saved_other [OF that], simp add: load_list_def)
    with True id have "row_added R load db (fst (resource_Create lib R db body))"
      unfolding row_added_def res by (intro exI [of _ ?x]) (simp add: told_after)
    then show ?thesis ..
  qed
qed

lemma updated:
  "fst (resource_Update lib R db i body) = db \<or> row_updated R load i db (fst (resource_Update lib R db i body))"
proof (cases "decode_body lib R body")
  case None
  then show ?thesis by (simp add: resource_Update_def)
next
  case (Some v)
  let ?now = "ml_show lib (md_now db)"
  let ?db1 = "db\<lparr>md_rows := map (\<lambda>x. if row_id x = i then updated_row R ?now v x else x) (md_rows db)\<rparr>"
  have res: "fst (resource_Update lib R db i body) =
      tell R ''updated'' i (save_lists lib (re_lists R) i v (drop_lists R i ?db1))"
    unfolding updated_row_def using Some by (simp add: resource_Update_def Let_def)
  have "load (save_lists lib (re_lists R) i v (drop_lists R i ?db1)) y = load db y" if "row_id y \<noteq> i" for y
    by (rule load_own) (simp add: load_saved_other [OF that] load_dropped_other [OF that], simp add: load_list_def)
  moreover have "row_id (updated_row R ?now v x) = row_id x" for x by (simp add: updated_row_def updated_row_id)
  ultimately have "row_updated R load i db (fst (resource_Update lib R db i body))"
    unfolding row_updated_def res by (intro exI [of _ "updated_row R ?now v"]) (simp add: told_after)
  then show ?thesis ..
qed

lemma deleted: "row_deleted R load i db (fst (resource_Delete lib R db i))"
proof -
  let ?db1 = "db\<lparr>md_rows := filter (\<lambda>x. row_id x \<noteq> i) (md_rows db)\<rparr>"
  have "load (drop_lists R i ?db1) y = load db y" if "row_id y \<noteq> i" for y
    by (rule load_own) (simp add: load_dropped_other [OF that], simp add: load_list_def)
  then show ?thesis by (simp add: row_deleted_def resource_Delete_def told_after)
qed

lemma after_add:
  assumes "row_added R load db db'"
  obtains x where "rules_read load db' = rules_read load db @ [load db' x]" "row_id x \<notin> set (row_ids db)"
    "md_told db' = md_told db @ told_by R ''created'' (row_id x)" "rule_read load db' (row_id x) = Some (load db' x)"
    "\<And>i. i \<noteq> row_id x \<Longrightarrow> rule_read load db' i = rule_read load db i"
proof -
  obtain x where x: "md_rows db' = md_rows db @ [x]" "row_id x \<notin> set (row_ids db)"
    "md_told db' = md_told db @ told_by R ''created'' (row_id x)"
    "\<forall>y. row_id y \<noteq> row_id x \<longrightarrow> load db' y = load db y"
    using assms unfolding row_added_def by blast
  have old: "row_id y \<noteq> row_id x" if "y \<in> set (md_rows db)" for y using x(2) that unfolding row_ids_def by (metis image_eqI list.set_map)
  then have "rules_read load db' = rules_read load db @ [load db' x]" using x(1,4) by (simp add: rules_read_def)
  moreover have "find (\<lambda>y. row_id y = row_id x) (md_rows db @ [x]) = Some x" by (rule find_last) (use old in auto)
  then have "rule_read load db' (row_id x) = Some (load db' x)" by (simp only: rule_read_def x(1) option.map)
  moreover have "rule_read load db' i = rule_read load db i" if "i \<noteq> row_id x" for i
  proof -
    have "find (\<lambda>y. row_id y = i) (md_rows db @ [x]) = find (\<lambda>y. row_id y = i) (md_rows db)"
      using that by (simp add: find_append split: option.split)
    then show ?thesis using x(1,4) that by (intro read_cong) simp_all
  qed
  ultimately show thesis using x(2,3) that by blast
qed

lemma after_update:
  assumes "row_updated R load i db db'"
  shows "md_told db' = md_told db @ told_by R ''updated'' i" "row_ids db' = row_ids db"
    "\<And>j. j \<noteq> i \<Longrightarrow> rule_read load db' j = rule_read load db j"
proof -
  obtain f where f: "md_rows db' = map (\<lambda>x. if row_id x = i then f x else x) (md_rows db)" "\<forall>x. row_id (f x) = row_id x"
    "md_told db' = md_told db @ told_by R ''updated'' i" "\<forall>y. row_id y \<noteq> i \<longrightarrow> load db' y = load db y"
    using assms unfolding row_updated_def by blast
  show "md_told db' = md_told db @ told_by R ''updated'' i" by (rule f(3))
  show "row_ids db' = row_ids db" using f(1,2) by (simp add: row_ids_def o_def)
  fix j assume j: "j \<noteq> i"
  have "find (\<lambda>x. row_id x = j) (map (\<lambda>x. if row_id x = i then f x else x) xs) = find (\<lambda>x. row_id x = j) xs" for xs
    using j f(2) by (induction xs) auto
  then have "find (\<lambda>x. row_id x = j) (md_rows db') = find (\<lambda>x. row_id x = j) (md_rows db)" by (simp only: f(1))
  then show "rule_read load db' j = rule_read load db j" using j f(4) by (intro read_cong) simp_all
qed

lemma after_delete:
  assumes "row_deleted R load i db db'"
  shows "md_told db' = md_told db @ told_by R ''deleted'' i" "rule_read load db' i = None"
    "\<And>j. j \<noteq> i \<Longrightarrow> rule_read load db' j = rule_read load db j"
proof -
  have d: "md_rows db' = filter (\<lambda>x. row_id x \<noteq> i) (md_rows db)" "\<forall>y. row_id y \<noteq> i \<longrightarrow> load db' y = load db y"
    "md_told db' = md_told db @ told_by R ''deleted'' i"
    using assms by (auto simp: row_deleted_def)
  show "md_told db' = md_told db @ told_by R ''deleted'' i" by (rule d(3))
  show "rule_read load db' i = None" by (simp add: rule_read_def d(1) find_None_iff)
  fix j assume j: "j \<noteq> i"
  have "find (\<lambda>x. row_id x = j) (filter (\<lambda>x. row_id x \<noteq> i) xs) = find (\<lambda>x. row_id x = j) xs" for xs
    using j by (induction xs) auto
  then have "find (\<lambda>x. row_id x = j) (md_rows db') = find (\<lambda>x. row_id x = j) (md_rows db)" by (simp only: d(1))
  then show "rule_read load db' j = rule_read load db j" using j d(2) by (intro read_cong) simp_all
qed

lemma rule_read_same: "rows_kept load db db' \<Longrightarrow> rule_read load db' = rule_read load db"
  by (intro ext read_cong) (simp_all add: rows_kept_def)

lemma rule_read_id: "rule_read load db i = Some r \<Longrightarrow> rid r = i"
  by (auto simp: rule_read_def find_Some_iff load_id)

end

subsection \<open>Engines that keep what they run by identifier\<close>

definition engine_Start :: "('r \<Rightarrow> string) \<Rightarrow> ('r \<Rightarrow> bool) \<Rightarrow> 'r list \<Rightarrow> (string \<Rightarrow> 'r option)" where
  "engine_Start rid ren rules = fold (\<lambda>r e. if ren r then e(rid r \<mapsto> r) else e) rules Map.empty"

definition engine_Reload :: "('r \<Rightarrow> string) \<Rightarrow> ('r \<Rightarrow> bool) \<Rightarrow> 'r \<Rightarrow> (string \<Rightarrow> 'r option) \<Rightarrow> (string \<Rightarrow> 'r option)" where
  "engine_Reload rid ren r e = (if ren r then e(rid r \<mapsto> r) else e(rid r := None))"

definition engine_Remove :: "string \<Rightarrow> (string \<Rightarrow> 'r option) \<Rightarrow> (string \<Rightarrow> 'r option)" where
  "engine_Remove i e = e(i := None)"

text \<open>\<open>Subscribe\<close>: the handlers of a resource's three events.\<close>

definition engine_event ::
  "string \<Rightarrow> (module_db \<Rightarrow> gstruct \<Rightarrow> 'r) \<Rightarrow> ('r \<Rightarrow> string) \<Rightarrow> ('r \<Rightarrow> bool) \<Rightarrow>
    module_db \<Rightarrow> string \<times> string \<times> string \<Rightarrow> (string \<Rightarrow> 'r option) \<Rightarrow> (string \<Rightarrow> 'r option)" where
  "engine_event name load rid ren db ev e =
     (let action = fst (snd ev); i = snd (snd ev)
      in if fst ev \<noteq> name then e
         else if action = ''deleted'' then engine_Remove i e
         else (case rule_read load db i of None \<Rightarrow> e | Some r \<Rightarrow> engine_Reload rid ren r e))"

text \<open>What an engine should run: the enabled rules, as they are. \<open>runs_only\<close>: it runs nothing else.\<close>

definition due :: "(module_db \<Rightarrow> gstruct \<Rightarrow> 'r) \<Rightarrow> ('r \<Rightarrow> bool) \<Rightarrow> module_db \<Rightarrow> string \<Rightarrow> 'r option" where
  "due load ren db i = (case rule_read load db i of None \<Rightarrow> None | Some r \<Rightarrow> if ren r then Some r else None)"

definition runs_only :: "(module_db \<Rightarrow> gstruct \<Rightarrow> 'r) \<Rightarrow> ('r \<Rightarrow> bool) \<Rightarrow> module_db \<Rightarrow> (string \<Rightarrow> 'r option) \<Rightarrow> bool" where
  "runs_only load ren db e \<longleftrightarrow> e \<subseteq>\<^sub>m due load ren db"

lemma due_cong: "rule_read load db' i = rule_read load db i \<Longrightarrow> due load ren db' i = due load ren db i"
  by (simp add: due_def)

lemma fold_put:
  "distinct (map rid rs) \<Longrightarrow> fold (\<lambda>r e. if ren r then e(rid r \<mapsto> r) else e) rs e i =
    (case find (\<lambda>r. rid r = i) rs of None \<Rightarrow> e i | Some r \<Rightarrow> if ren r then Some r else e i)"
proof (induction rs arbitrary: e)
  case (Cons r rs)
  then have IH: "fold (\<lambda>r e. if ren r then e(rid r \<mapsto> r) else e) rs e' i =
      (case find (\<lambda>r. rid r = i) rs of None \<Rightarrow> e' i | Some r \<Rightarrow> if ren r then Some r else e' i)" for e' by simp
  have "find (\<lambda>r'. rid r' = rid r) rs = None"
    using Cons.prems unfolding find_None_iff by (metis distinct.simps(2) image_eqI list.set_map list.simps(9))
  then show ?case unfolding fold_simps comp_apply IH by (cases "rid r = i") (auto split: option.split)
qed simp

context rule_reader begin

lemma started:
  assumes "distinct (row_ids db)"
  shows "engine_Start rid ren (rules_read load db) = due load ren db"
proof -
  have "find (\<lambda>r. rid r = i) (map (load db) xs) = map_option (load db) (find (\<lambda>x. row_id x = i) xs)" for i xs
    by (induction xs) (simp_all add: load_id)
  then have found: "find (\<lambda>r. rid r = i) (rules_read load db) = rule_read load db i" for i
    by (simp add: rules_read_def rule_read_def)
  have "engine_Start rid ren (rules_read load db) i = due load ren db i" for i
    unfolding engine_Start_def due_def by (subst fold_put) (use assms in \<open>simp_all add: ids_read found\<close>)
  then show ?thesis ..
qed

lemma heard_change:
  assumes "serve_heard lib R (engine_event (re_name R) load rid ren) q (db, e) = (db', e')"
    and "md_told db' = md_told db @ told_by R a i" "a \<in> set (re_tells R)"
    and "rule_read load db' i = None \<Longrightarrow> a = ''deleted'' \<or> e i = None" "a = ''deleted'' \<Longrightarrow> rule_read load db' i = None"
  shows "e' = e(i := due load ren db' i)"
proof -
  have "e' = engine_event (re_name R) load rid ren db' (re_name R, a, i) e"
    using assms(1-3) by (auto simp: serve_heard_def Let_def told_by_def)
  moreover have "e(i := None) = e" if "e i = None" using that by auto
  ultimately show ?thesis
    using assms(4,5) rule_read_id [of db' i]
    by (auto simp: engine_event_def engine_Reload_def engine_Remove_def due_def split: option.split)
qed

lemma due_change:
  assumes "\<And>j. j \<noteq> i \<Longrightarrow> rule_read load db' j = rule_read load db j" "e' = e(i := due load ren db' i)"
  shows "runs_only load ren db e \<Longrightarrow> runs_only load ren db' e'" "e = due load ren db \<Longrightarrow> e' = due load ren db'"
proof -
  have same: "due load ren db' j = due load ren db j" if "j \<noteq> i" for j by (rule due_cong) (rule assms(1) [OF that])
  then show "runs_only load ren db e \<Longrightarrow> runs_only load ren db' e'"
    by (auto simp: runs_only_def map_le_def assms(2) split: if_splits)
  show "e = due load ren db \<Longrightarrow> e' = due load ren db'" using same by (auto simp: assms(2) fun_eq_iff)
qed

lemma keyed_step:
  assumes "serve_heard lib R (engine_event (re_name R) load rid ren) q (db, e) = (db', e')"
    and "{''updated'', ''deleted''} \<subseteq> set (re_tells R)" "runs_only load ren db e"
  shows "runs_only load ren db' e' \<and> (''created'' \<in> set (re_tells R) \<longrightarrow> e = due load ren db \<longrightarrow> e' = due load ren db')"
proof -
  let ?goal = "runs_only load ren db' e' \<and> (''created'' \<in> set (re_tells R) \<longrightarrow> e = due load ren db \<longrightarrow> e' = due load ren db')"
  have db': "db' = module_serve lib R q db" using assms(1) by (auto simp: serve_heard_def Let_def)
  have idle: "e i = None" if "rule_read load db i = None" for i
  proof (rule ccontr)
    assume "e i \<noteq> None"
    then have "e i = due load ren db i" using assms(3) by (auto simp: runs_only_def map_le_def)
    with that \<open>e i \<noteq> None\<close> show False by (simp add: due_def)
  qed
  have kept: ?goal if k: "rows_kept load db db'"
  proof -
    have "due load ren db' = due load ren db" using rule_read_same [OF k] by (simp add: due_def fun_eq_iff)
    moreover have "e' = e" using assms(1) k by (auto simp: serve_heard_def rows_kept_def Let_def)
    ultimately show ?thesis using assms(3) by (simp add: runs_only_def)
  qed
  have added: ?goal if a: "row_added R load db db'"
  proof -
    obtain x where x: "row_id x \<notin> set (row_ids db)" "md_told db' = md_told db @ told_by R ''created'' (row_id x)"
      "rule_read load db' (row_id x) = Some (load db' x)" "\<And>i. i \<noteq> row_id x \<Longrightarrow> rule_read load db' i = rule_read load db i"
      using after_add [OF a] by metis
    show ?thesis
    proof (cases "''created'' \<in> set (re_tells R)")
      case True
      from heard_change [OF assms(1) x(2) True] x(3) have "e' = e(row_id x := due load ren db' (row_id x))" by simp
      from due_change [OF x(4) this] assms(3) show ?thesis by blast
    next
      case False
      then have "e' = e" using assms(1) x(2) by (auto simp: serve_heard_def told_by_def Let_def)
      moreover have "e (row_id x) = None" using x(1) by (intro idle) (simp add: rule_read_None)
      moreover from this have "due load ren db' i = due load ren db i" if "e i \<noteq> None" for i
        using that x(4) by (intro due_cong) (metis (no_types))
      ultimately have "runs_only load ren db' e'" using assms(3) by (auto simp: runs_only_def map_le_def)
      with False show ?thesis by simp
    qed
  qed
  have after_put: ?goal if u: "row_updated R load i db db'" for i
  proof -
    note u = after_update [OF u]
    have "rule_read load db' i = None \<longleftrightarrow> rule_read load db i = None" using u(2) by (simp add: rule_read_None)
    then have "e' = e(i := due load ren db' i)"
      using assms(2) idle by (intro heard_change [OF assms(1) u(1)]) auto
    from due_change [OF u(3) this] assms(3) show ?thesis by blast
  qed
  have after_drop: ?goal if d: "row_deleted R load i db db'" for i
  proof -
    note d = after_delete [OF d]
    have "e' = e(i := due load ren db' i)" using assms(2) d(2) by (intro heard_change [OF assms(1) d(1)]) auto
    from due_change [OF d(3) this] assms(3) show ?thesis by blast
  qed
  show ?thesis
  proof (cases q)
    case (M_create body)
    with db' created [of db lib body] kept added show ?thesis by auto
  next
    case (M_update i body)
    have "fst (resource_Update lib R db i body) = db \<Longrightarrow> rows_kept load db db'" by (simp add: rows_kept_def db' M_update)
    with db' M_update updated [of lib db i body] after_put show ?thesis using kept by auto
  next
    case (M_delete i)
    with db' deleted [of i db lib] after_drop show ?thesis by auto
  next
    case (M_time n)
    with db' show ?thesis by (intro kept) (auto simp: rows_kept_def load_list_def intro!: load_own)
  qed
qed

text \<open>A run of requests: nothing else ever runs, and where creations are told all that should.\<close>

lemma keyed_run:
  assumes "fold (serve_heard lib R (engine_event (re_name R) load rid ren)) qs (db1, e1) = (db, e)"
    and "{''updated'', ''deleted''} \<subseteq> set (re_tells R)" "runs_only load ren db1 e1"
  shows "runs_only load ren db e \<and> db = fold (module_serve lib R) qs db1 \<and>
    (''created'' \<in> set (re_tells R) \<longrightarrow> e1 = due load ren db1 \<longrightarrow> e = due load ren db)"
  using assms(1,3)
proof (induction qs arbitrary: db1 e1)
  case (Cons q qs)
  obtain db2 e2 where s: "serve_heard lib R (engine_event (re_name R) load rid ren) q (db1, e1) = (db2, e2)"
    by (rule prod.exhaust)
  then have "db2 = module_serve lib R q db1" by (auto simp: serve_heard_def Let_def)
  note step = keyed_step [OF s assms(2) Cons.prems(2)]
  have "fold (serve_heard lib R (engine_event (re_name R) load rid ren)) qs (db2, e2) = (db, e)" using Cons.prems(1) s by simp
  from Cons.IH [OF this step [THEN conjunct1]] step show ?case unfolding fold_simps comp_apply \<open>db2 = module_serve lib R q db1\<close> by blast
qed simp

end

end
