(* ===== verification/Proxy_Runs.thy ===== *)
theory Proxy_Runs
  imports Proxy_Engine Engine_Events
begin

text \<open>
  The proxy engine beside the table of proxy rules: what each request does to the rules the engine
  reads, when the engine follows the table, and when it does not.
\<close>

subsection \<open>What a request does to the rules\<close>






lemma told_proxy [simp]:
  "action \<in> {''created'', ''updated'', ''deleted''} \<Longrightarrow> told_by (proxy_resource lib) action i = [(''proxy'', action, i)]"
  by (auto simp: told_by_def proxy_resource_def)

subsection \<open>Following\<close>






lemma told_one [simp]: "drop (length xs) (xs @ ys) = ys"
  by simp




subsection \<open>Not following\<close>







subsection \<open>Who gets through\<close>

lemma clientIP_chosen:
  assumes "a \<noteq> []" "CHR '','' \<notin> set a" "go_trim a = a"
  shows "clientIP (q\<lparr>hr_xff := a\<rparr>) = a"
proof -
  have "js_split '','' a = [a]" using js_split_join_char [of "[a]" "CHR '',''"] assms(2) by simp
  with assms show ?thesis by (simp add: clientIP_def)
qed

text \<open>
  C19. Who gets through a proxy rule. Whatever requests are served on a table with no hashes, as
  an empty one, a rule with a user lets
  in exactly those who give that user and an empty password: the hash the engine compares with is
  hidden from JSON and never set. A rule with websockets lets everybody in. And since the
  address is taken from \<open>X-Forwarded-For\<close> when the client sends it, everybody who knows an
  address that the lists admit gets through.
\<close>

theorem proxy_admits:
  assumes "hidden_empty (proxy_resource lib) db0" "db = fold (module_serve lib (proxy_resource lib)) qs db0"
    and "x \<in> set (md_rows db)" "r = rule_of db x" "ml_url lib (pr_target r) \<noteq> None"
  shows "(buildHandler lib r q = Upstream r \<longleftrightarrow>
      pr_websocket r \<or>
      (clientIP q \<notin> set (pr_bl r) \<and> (pr_wl r = [] \<or> clientIP q \<in> set (pr_wl r)) \<and>
       (pr_user r = [] \<or> hr_basic q = Some (pr_user r, [])))) \<and>
    (a \<noteq> [] \<and> CHR '','' \<notin> set a \<and> go_trim a = a \<and> a \<notin> set (pr_bl r) \<and> (pr_wl r = [] \<or> a \<in> set (pr_wl r)) \<longrightarrow>
      buildHandler lib r (q\<lparr>hr_xff := a, hr_basic := Some (pr_user r, [])\<rparr>) = Upstream r)"
proof -
  have "hidden_empty (proxy_resource lib) db"
    unfolding assms(2) using hidden_inserted [of lib M_proxy]
    by (intro tp.hidden_run [OF _ assms(1)]) simp
  then have "gget x ''basic_auth_hash'' = V_text []"
    using assms(3) by (simp add: hidden_empty_def proxy_resource_def)
  then have hash: "pr_hash r = []" by (simp add: assms(4) rule_of_def text_col_def Let_def)
  have acl: "buildHandler lib r p = Upstream r \<longleftrightarrow>
      pr_websocket r \<or>
      (clientIP p \<notin> set (pr_bl r) \<and> (pr_wl r = [] \<or> clientIP p \<in> set (pr_wl r)) \<and>
       (pr_user r = [] \<or> hr_basic p = Some (pr_user r, [])))" for p
    using assms(5) hash by (auto simp: buildHandler_def aclHandler_def Let_def)
  have "clientIP (q\<lparr>hr_xff := a, hr_basic := b\<rparr>) = clientIP (q\<lparr>hr_xff := a\<rparr>)" for b by (simp add: clientIP_def)
  with acl [of q] acl [of "q\<lparr>hr_xff := a, hr_basic := Some (pr_user r, [])\<rparr>"] clientIP_chosen [of a q] show ?thesis by auto
qed

subsection \<open>Witnesses\<close>

definition sample_proxy :: gstruct where
  "sample_proxy =
     [(''id'', V_text ''p''), (''tenant_id'', V_text []), (''owner_id'', V_text []), (''name'', V_text ''n''),
      (''target_url'', V_text ''u''), (''tls_enabled'', V_bool False), (''cert_id'', V_text []), (''force_https'', V_bool False),
      (''http2'', V_bool False), (''websocket'', V_bool False), (''url_rewrite'', V_text []), (''basic_auth_user'', V_text ''u''),
      (''enabled'', V_bool True), (''max_conns'', V_int 0), (''created_at'', V_time zero_time), (''updated_at'', V_time zero_time),
      (''basic_auth_hash'', V_text [])]"

definition sample_proxies :: "string list \<Rightarrow> module_db" where
  "sample_proxies ds =
     \<lparr>md_rows = [sample_proxy], md_lists = (\<lambda>_. [])(''proxy_domains'' := map (\<lambda>d. (d, ''p'', d)) ds),
      md_drawn = 0, md_now = 0, md_told = []\<rparr>"

lemma sample_proxy_id: "row_id sample_proxy = ''p''"
  by (simp add: row_id_def gget_def sample_proxy_def)

lemma sample_proxies_rule:
  "rule_of (sample_proxies ds) sample_proxy =
     \<lparr>pr_id = ''p'', pr_domains = ds, pr_target = ''u'', pr_websocket = False, pr_user = ''u'', pr_hash = [], pr_wl = [],
      pr_bl = [], pr_enabled = True\<rparr>"
  by (simp add: rule_of_def sample_proxies_def sample_proxy_id load_list_def list_entries_def text_col_def bool_of_def o_def
      filter_map) (simp add: sample_proxy_def gget_def)






lemma proxy_admits_witness:
  "buildHandler sample_module_lib (rule_of (sample_proxies [''a'']) sample_proxy)
     \<lparr>hr_host = ''a'', hr_xff = ''1'', hr_xri = [], hr_peer = ''2'', hr_basic = Some (''u'', [])\<rparr> =
   Upstream (rule_of (sample_proxies [''a'']) sample_proxy)"
proof -
  have h: "hidden_empty (proxy_resource sample_module_lib) (sample_proxies [''a''])"
    by (simp add: hidden_empty_def proxy_resource_def sample_proxies_def sample_proxy_def gget_def)
  have x: "sample_proxy \<in> set (md_rows (sample_proxies [''a'']))" by (simp add: sample_proxies_def)
  show ?thesis
    using proxy_admits [OF h, of "sample_proxies [''a'']" "[]" sample_proxy, OF _ x refl,
        of "\<lparr>hr_host = ''a'', hr_xff = ''1'', hr_xri = [], hr_peer = ''2'', hr_basic = Some (''u'', [])\<rparr>"]
    by (simp add: sample_proxies_rule) (simp add: sample_module_lib_def)
qed

end
