(* ===== verification/Module_Runs.thy ===== *)
theory Module_Runs
  imports Module_Servers
begin

text \<open>
  The eight module pages on the modules of the back end: what the pages show of the tables, and
  what becomes of what they send.
\<close>

subsection \<open>Rows the pages can show\<close>

definition kind_shown :: "gkind \<Rightarrow> bool \<Rightarrow> jsval \<Rightarrow> bool" where
  "kind_shown k omit v \<longleftrightarrow>
     (omit \<and> v = None) \<or>
     (case k of
        K_text \<Rightarrow> \<exists>s. v = Some (JStr s)
      | K_int \<Rightarrow> \<exists>n. v = Some (JNum (of_int n))
      | K_bool \<Rightarrow> \<exists>b. v = Some (JBool b)
      | K_texts \<Rightarrow> v = Some JNull \<or> (\<exists>ts. v = Some (JArr (map JStr ts)))
      | K_opt_time \<Rightarrow> v = Some JNull \<or> (\<exists>s. v = Some (JStr s))
      | _ \<Rightarrow> True)"

definition shown_row :: "gfield list \<Rightarrow> json \<Rightarrow> bool" where
  "shown_row fs u \<longleftrightarrow> u \<noteq> JNull \<and> (\<forall>f \<in> set fs. kind_shown (gf_kind f) (gf_omit f) (field u (gf_name f)))"

lemma written_shown: "has_kind tm k v \<Longrightarrow> kind_shown k b (Some (write_val v))"
  by (cases k) (auto simp: kind_shown_def split: gval.splits option.splits)

lemma listed_shown:
  assumes "row_ok (ml_time lib) (module_resource lib m) x" "lib_law lib"
  shows "shown_row (re_fields (module_resource lib m)) (row_json (module_resource lib m) db x)"
proof -
  let ?R = "module_resource lib m"
  have "kind_shown (gf_kind f) (gf_omit f) (field (row_json ?R db x) (gf_name f))" if "f \<in> set (re_fields ?R)" for f
    using ms.loaded_typed [OF assms, of db] written_shown that
    by (auto simp: ms.row_member fields_typed_def kind_shown_def [of _ _ None])
  moreover have "row_json ?R db x \<noteq> JNull" by (simp add: row_json_def struct_json_def)
  ultimately show ?thesis by (simp add: shown_row_def)
qed

text \<open>Cells of each kind render.\<close>

definition has_field :: "gkind \<Rightarrow> string \<Rightarrow> gfield list \<Rightarrow> bool" where
  "has_field k n fs \<longleftrightarrow> list_ex (\<lambda>f. gf_name f = n \<and> gf_kind f = k) fs"

lemma shown_cells:
  assumes "shown_row fs u"
  shows "has_field K_text k fs \<or> has_field K_int k fs \<Longrightarrow> primitive (field u k)"
    and "has_field K_text k fs \<Longrightarrow> primitive (js_or (field u k) (Some (JStr s)))"
    and "list_ex (\<lambda>f. gf_name f = k \<and> gf_kind f = K_text \<and> \<not> gf_omit f) fs \<Longrightarrow> sound (upper_child (field u k))"
    and "has_field K_texts k fs \<Longrightarrow> sound (badges (field u k))"
proof -
  have k: "kind_shown (gf_kind f) (gf_omit f) (field u (gf_name f))" if "f \<in> set fs" for f
    using assms that by (simp add: shown_row_def)
  show "has_field K_text k fs \<or> has_field K_int k fs \<Longrightarrow> primitive (field u k)"
    using k by (force simp: has_field_def list_ex_iff kind_shown_def primitive_def)
  show "has_field K_text k fs \<Longrightarrow> primitive (js_or (field u k) (Some (JStr s)))"
    using k by (force simp: has_field_def list_ex_iff kind_shown_def primitive_def js_or_def)
  show "list_ex (\<lambda>f. gf_name f = k \<and> gf_kind f = K_text \<and> \<not> gf_omit f) fs \<Longrightarrow> sound (upper_child (field u k))"
    using k by (force simp: list_ex_iff kind_shown_def upper_child_def)
  assume "has_field K_texts k fs"
  then consider "field u k = None" | "field u k = Some JNull" | ts where "field u k = Some (JArr (map JStr ts))"
    using k by (fastforce simp: has_field_def list_ex_iff kind_shown_def)
  then show "sound (badges (field u k))" by cases (auto simp: badges_def ui_sound primitive_def)
qed

lemma sound_on_off [simp]: "\<not> has_broken (on_off e v y n)"
  by (simp add: on_off_def ui_sound)

lemma sound_delete_button [simp]: "\<not> has_broken (delete_button s u)"
  by (simp add: delete_button_def ui_sound)

lemma sound_list_card [simp]: "has_broken (list_card e ls rows) \<longleftrightarrow> \<not> sound rows"
  by (auto simp: list_card_def head_cells_def ui_sound)

lemma sound_form_fields [simp]:
  "\<not> has_broken (text_field s k as)" "\<not> has_broken (number_field b s k as)" "\<not> has_broken (switch_field s k l)"
  "\<not> has_broken (save_button s l)" "\<not> has_broken (select_field s k opts)" "has_broken (labelled l n) \<longleftrightarrow> has_broken n"
  by (auto simp: text_field_def number_field_def switch_field_def save_button_def select_field_def labelled_def ui_sound)

lemma sound_colon_pair: "primitive v \<Longrightarrow> primitive w \<Longrightarrow> sound (colon_pair v w)"
  by (simp add: colon_pair_def)

lemmas row_cells = ui_sound sound_colon_pair has_field_def fields_defs

lemma row_sound:
  "shown_row ForwardRule_fields u \<Longrightarrow> \<not> has_broken (forward_row e s u)"
  "shown_row ProxyRule_fields u \<Longrightarrow> \<not> has_broken (proxy_row e s u)"
  "shown_row DDNSConfig_fields u \<Longrightarrow> \<not> has_broken (ddns_row e s u)"
  "shown_row STUNTunnel_fields u \<Longrightarrow> \<not> has_broken (stun_row e s u)"
  "shown_row WOLDevice_fields u \<Longrightarrow> \<not> has_broken (wol_row e s u)"
  "shown_row CronJob_fields u \<Longrightarrow> \<not> has_broken (cron_row st e s u)"
  "shown_row ACMECertificate_fields u \<Longrightarrow> \<not> has_broken (acme_row st e s u)"
  "shown_row StorageMount_fields u \<Longrightarrow> \<not> has_broken (storage_row e s u)"
proof -
  show "\<not> has_broken (forward_row e s u)" if u: "shown_row ForwardRule_fields u"
    by (simp add: forward_row_def shown_cells [OF u] row_cells)
  show "\<not> has_broken (proxy_row e s u)" if u: "shown_row ProxyRule_fields u"
    by (simp add: proxy_row_def shown_cells [OF u] row_cells)
  show "\<not> has_broken (ddns_row e s u)" if u: "shown_row DDNSConfig_fields u"
    by (simp add: ddns_row_def shown_cells [OF u] row_cells)
  show "\<not> has_broken (stun_row e s u)" if u: "shown_row STUNTunnel_fields u"
    by (simp add: stun_row_def shown_cells [OF u] row_cells)
  show "\<not> has_broken (wol_row e s u)" if u: "shown_row WOLDevice_fields u"
    by (simp add: wol_row_def shown_cells [OF u] row_cells)
  show "\<not> has_broken (cron_row st e s u)" if u: "shown_row CronJob_fields u"
    by (simp add: cron_row_def shown_cells [OF u] row_cells)
  show "\<not> has_broken (acme_row st e s u)" if u: "shown_row ACMECertificate_fields u"
    by (simp add: acme_row_def shown_cells [OF u] row_cells)
  show "\<not> has_broken (storage_row e s u)" if u: "shown_row StorageMount_fields u"
    by (simp add: storage_row_def shown_cells [OF u] row_cells)
qed

lemma null_not_shown [simp]: "\<not> shown_row fs JNull"
  by (simp add: shown_row_def)

lemma rows_sound:
  assumes "d = Some (JArr xs)" "\<forall>x \<in> set xs. shown_row fs x" "\<And>u. shown_row fs u \<Longrightarrow> \<not> has_broken (f u)"
  shows "sound (list_rows e cols none d f)" "sound (list_rows e cols none (coalesce d y) f)"
proof -
  have "\<forall>x \<in> set xs. x \<noteq> JNull \<and> \<not> has_broken (f x)" using assms(2,3) null_not_shown by metis
  then show "sound (list_rows e cols none d f)" "sound (list_rows e cols none (coalesce d y) f)"
    by (intro sound_list_rows; simp add: assms(1) coalesce_def)+
qed

lemma form_cards_sound [simp]:
  "\<not> has_broken (forward_form_card e s)" "\<not> has_broken (proxy_form_card e s)" "\<not> has_broken (ddns_form_card e s)"
  "\<not> has_broken (stun_form_card e s)" "\<not> has_broken (wol_form_card e s)" "\<not> has_broken (cron_form_card e s)"
  "\<not> has_broken (acme_form_card e s)" "\<not> has_broken (storage_form_card e s)"
  by (simp_all add: forward_form_card_def proxy_form_card_def ddns_form_card_def stun_form_card_def wol_form_card_def
      cron_form_card_def acme_form_card_def storage_form_card_def service_badges_def ui_sound Let_def)

lemma module_view_sound:
  assumes "query_rows e = Some (JArr xs)" "\<forall>x \<in> set xs. shown_row (re_fields (module_resource lib m)) x"
  shows "\<not> has_broken (module_view show m e s)"
proof (cases m)
  case M_forward
  with assms(2) have "\<forall>x \<in> set xs. shown_row ForwardRule_fields x" by (simp add: resource_defs)
  from rows_sound(1) [OF assms(1) this row_sound(1)] M_forward show ?thesis by (simp add: Forward_def ui_sound)
next
  case M_proxy
  with assms(2) have "\<forall>x \<in> set xs. shown_row ProxyRule_fields x" by (simp add: resource_defs)
  from rows_sound(1) [OF assms(1) this row_sound(2)] M_proxy show ?thesis by (simp add: Proxy_def ui_sound)
next
  case M_ddns
  with assms(2) have "\<forall>x \<in> set xs. shown_row DDNSConfig_fields x" by (simp add: resource_defs)
  from rows_sound(2) [OF assms(1) this row_sound(3)] M_ddns show ?thesis by (simp add: DDNS_def ui_sound)
next
  case M_stun
  with assms(2) have "\<forall>x \<in> set xs. shown_row STUNTunnel_fields x" by (simp add: resource_defs)
  from rows_sound(2) [OF assms(1) this row_sound(4)] M_stun show ?thesis by (simp add: STUN_def ui_sound)
next
  case M_wol
  with assms(2) have "\<forall>x \<in> set xs. shown_row WOLDevice_fields x" by (simp add: resource_defs)
  from rows_sound(2) [OF assms(1) this row_sound(5)] M_wol show ?thesis by (simp add: WOL_def ui_sound)
next
  case M_cron
  with assms(2) have "\<forall>x \<in> set xs. shown_row CronJob_fields x" by (simp add: resource_defs)
  from rows_sound(2) [OF assms(1) this row_sound(6)] M_cron show ?thesis by (simp add: Cron_def ui_sound)
next
  case M_acme
  with assms(2) have "\<forall>x \<in> set xs. shown_row ACMECertificate_fields x" by (simp add: resource_defs)
  from rows_sound(2) [OF assms(1) this row_sound(7)] M_acme show ?thesis by (simp add: ACME_def ui_sound)
next
  case M_storage
  with assms(2) have "\<forall>x \<in> set xs. shown_row StorageMount_fields x" by (simp add: resource_defs)
  from rows_sound(2) [OF assms(1) this row_sound(8)] M_storage
  show ?thesis by (simp add: Storage_def ui_sound)
qed

subsection \<open>The listings\<close>

fun module_query :: "module \<Rightarrow> string" where
  "module_query M_forward = forward_query"
| "module_query M_proxy = proxy_query"
| "module_query M_ddns = ddns_query"
| "module_query M_stun = stun_query"
| "module_query M_wol = wol_query"
| "module_query M_cron = cron_query"
| "module_query M_acme = acme_query"
| "module_query M_storage = storage_query"

text \<open>The rows a page is sent: of four modules the newest twenty.\<close>

definition on_screen :: "module \<Rightarrow> module_db \<Rightarrow> gstruct list" where
  "on_screen m db = (if m \<in> {M_forward, M_proxy, M_ddns, M_stun} then take 20 (rev (md_rows db)) else rev (md_rows db))"

lemma query_first_page:
  "page_of (url_query (API_BASE @ module_query m)) = 1 \<and> page_size_of (url_query (API_BASE @ module_query m)) = 20"
proof -
  have paged: "url_query (API_BASE @ q @ ''?page=1&page_size=20'') = [(''page'', ''1''), (''page_size'', ''20'')]"
    if "q = ''/forward-rules'' \<or> q = ''/proxy-rules''" for q
    using that by (elim disjE) (simp_all, code_simp+)
  have bare: "url_query (API_BASE @ module_query m) = []" if "m \<noteq> M_forward" "m \<noteq> M_proxy"
    using that by (cases m; simp) (code_simp+)
  have "page_of [(''page'', ''1''), (''page_size'', ''20'')] = 1" "page_size_of [(''page'', ''1''), (''page_size'', ''20'')] = 20"
    "page_of [] = 1" "page_size_of [] = 20" by code_simp+
  with paged [of "''/forward-rules''"] paged [of "''/proxy-rules''"] bare show ?thesis
    by (cases m) (simp_all add: forward_query_def proxy_query_def)
qed

lemma listed_on_screen: "rows_wanted (module_resource lib m) (url_query (API_BASE @ module_query m)) db = on_screen m db"
proof -
  have "offset_of 1 20 = 0" by (simp add: offset_of_def)
  then show ?thesis
    using query_first_page [of m]
    by (cases m) (simp_all add: rows_wanted_def on_screen_def limit_offset_def resource_defs)
qed

text \<open>
  C20. The module pages show what the back end holds. Whatever requests built a module's table,
  its page's query is answered 200 with one row per entry, newest first; of the forwarding rules,
  proxy rules, DDNS configurations and tunnels only the newest twenty, whatever the page does: it
  has no control that asks for others. No page throws on what it is sent.
\<close>

theorem modules_render:
  assumes "lib_law lib" "db = fold (module_serve lib (module_resource lib m)) qs empty_db"
    and "resource_List lib (module_resource lib m) db (API_BASE @ module_query m) = Response status body"
    and "res_json body = Inr j" "env_data e = Some j"
  shows "status = 200 \<and> query_rows e = Some (JArr (map (row_json (module_resource lib m) db) (on_screen m db))) \<and>
    \<not> has_broken (module_view show m e s)"
proof -
  let ?R = "module_resource lib m"
  have ok: "db_ok (ml_time lib) ?R db" unfolding assms(2) by (rule ms.run_ok [OF assms(1) ms.empty_ok])
  obtain j' where j': "resource_List lib ?R db (API_BASE @ module_query m) = Response 200 (ml_enc lib j')"
    "res_json (ml_enc lib j') = Inr j'"
    "opt_prop (Some j') ''data'' = Some (JArr (map (row_json ?R db) (on_screen m db)))"
    using ms.list_answer [OF ok assms(1), of "API_BASE @ module_query m"] unfolding listed_on_screen by metis
  with assms(3,4) have "status = 200" "j = j'" by simp_all
  then have q: "query_rows e = Some (JArr (map (row_json ?R db) (on_screen m db)))"
    using assms(5) j'(3) by (simp add: query_rows_def)
  have "shown_row (re_fields ?R) x" if x: "x \<in> set (map (row_json ?R db) (on_screen m db))" for x
  proof -
    obtain y where y: "x = row_json ?R db y" "y \<in> set (on_screen m db)" using x by auto
    then have "y \<in> set (md_rows db)" by (auto simp: on_screen_def dest: in_set_takeD split: if_splits)
    with ok y(1) show ?thesis using listed_shown [OF _ assms(1)] by (simp add: db_ok_def)
  qed
  then have "\<not> has_broken (module_view show m e s)" by (intro module_view_sound [OF q]) blast
  with q \<open>status = 200\<close> show ?thesis by blast
qed

end
