(* ===== verification/Module_Sessions.thy ===== *)
theory Module_Sessions
  imports Module_Runs
begin

text \<open>
  What the module pages send to the handlers of the back end, and what the next listing shows of it.
\<close>

subsection \<open>Creations\<close>

text \<open>Numbers Go's \<open>int\<close> takes.\<close>

definition int_form :: "form \<Rightarrow> bool" where
  "int_form f \<longleftrightarrow> list_all (\<lambda>kv. case snd kv of JNum _ \<Rightarrow> value_fits K_int (snd kv) | _ \<Rightarrow> True) f"

lemma fits_bodyI:
  assumes "kvs \<noteq> []" "distinct (map fst kvs)" "fields_ok (re_fields R)"
    and "\<forall>kj \<in> set kvs. fst kj \<notin> {''id'', ''created_at'', ''updated_at''} \<and>
      ((\<exists>f \<in> set (re_fields R). gf_name f = fst kj \<and> value_fits (gf_kind f) (snd kj)) \<or>
       (field_named (re_fields R) (fst kj) = None \<and> plain_json (snd kj)))"
  shows "fits_body R kvs"
proof -
  have "k \<notin> {''id'', ''created_at'', ''updated_at''} \<and>
      (case field_named (re_fields R) k of None \<Rightarrow> plain_json j | Some f \<Rightarrow> gf_name f = k \<and> value_fits (gf_kind f) j)"
    if "(k, j) \<in> set kvs" for k j
    using bspec [OF assms(4) that] field_named_own [OF assms(3)] by auto
  with assms(1,2) show ?thesis unfolding fits_body_def by blast
qed

text \<open>Types whose values a kind takes; the types of values a body may carry without a field.\<close>

fun takes :: "gkind \<Rightarrow> ty \<Rightarrow> bool" where
  "takes K_text TString = True"
| "takes K_text (TLiteral _) = True"
| "takes K_int TNumber = True"
| "takes K_bool TBoolean = True"
| "takes K_texts (TArray ty) = (ty = TString)"
| "takes _ _ = False"

definition field_takes :: "gfield list \<Rightarrow> string \<times> ty \<Rightarrow> bool" where
  "field_takes gs kt \<longleftrightarrow>
     fst kt \<notin> {''id'', ''created_at'', ''updated_at''} \<and>
     (list_ex (\<lambda>g. gf_name g = fst kt \<and> takes (gf_kind g) (snd kt)) gs \<or> field_named gs (fst kt) = None \<and> snd kt = TString)"

lemma takes_fits:
  assumes "takes k ty" "conforms ty v" "\<And>r. v = JNum r \<Longrightarrow> value_fits K_int v"
  shows "value_fits k v"
  using assms by (cases "(k, ty)" rule: takes.cases) (auto simp: list_all_iff split: json.splits)

lemma set_obj_spread:
  assumes "distinct (map fst os)" "x \<in> set (obj_spread os ps)"
  shows "x \<in> set ps \<or> x \<in> set os \<and> fst x \<notin> fst ` set ps"
  using assms
proof (induction ps arbitrary: os)
  case (Cons p ps)
  have "x \<in> set (obj_spread (obj_set (fst p) (snd p) os) ps)" using Cons.prems(2) by (simp add: obj_spread_def split_beta)
  from Cons.IH [OF distinct_obj_set [OF Cons.prems(1)] this] set_obj_set [OF Cons.prems(1), of x "fst p" "snd p"]
  show ?case by auto
qed (simp add: obj_spread_def)

definition member_fits :: "gfield list \<Rightarrow> string \<times> json \<Rightarrow> bool" where
  "member_fits gs kj \<longleftrightarrow>
     fst kj \<notin> {''id'', ''created_at'', ''updated_at''} \<and>
     ((\<exists>g \<in> set gs. gf_name g = fst kj \<and> value_fits (gf_kind g) (snd kj)) \<or>
      (field_named gs (fst kj) = None \<and> plain_json (snd kj)))"

lemma form_member_fits:
  assumes "form_ok fs f" "int_form f" "kj \<in> set f" "list_all (\<lambda>kt. fst kt \<in> K \<or> field_takes gs kt) fs" "fst kj \<notin> K"
  shows "member_fits gs kj"
proof -
  have "\<exists>ty. (fst kj, ty) \<in> set fs \<and> conforms ty (snd kj)"
    using assms(1,3) unfolding form_ok_def by (induction rule: list_all2_induct) auto
  then obtain ty where ty: "(fst kj, ty) \<in> set fs" "conforms ty (snd kj)" by blast
  with assms(4,5) have t: "field_takes gs (fst kj, ty)" by (auto simp: list_all_iff)
  have int: "value_fits K_int (snd kj)" if "snd kj = JNum r" for r
    using bspec [OF assms(2) [unfolded int_form_def list_all_iff] assms(3)] that by simp
  show ?thesis
  proof (cases "\<exists>g \<in> set gs. gf_name g = fst kj \<and> takes (gf_kind g) ty")
    case True
    with takes_fits [OF _ ty(2) int] t show ?thesis by (auto simp: member_fits_def field_takes_def)
  next
    case False
    with t ty(2) show ?thesis by (auto simp: member_fits_def field_takes_def list_ex_iff split: json.splits)
  qed
qed

lemma spread_fits:
  assumes "form_ok fs f" "int_form f" "distinct (map fst fs)" "fields_ok (re_fields R)" "f \<noteq> []"
    and "list_all (\<lambda>kt. fst kt \<in> fst ` set ps \<or> field_takes (re_fields R) kt) fs" "\<forall>kj \<in> set ps. member_fits (re_fields R) kj"
  shows "fits_body R (obj_spread f ps)"
proof (rule fits_bodyI [OF _ _ assms(4)])
  have d: "distinct (map fst f)" using assms(3) form_ok_keys [OF assms(1)] by simp
  then show "distinct (map fst (obj_spread f ps))" by (rule distinct_obj_spread)
  have "map_of (obj_spread f ps) (fst (hd f)) \<noteq> None"
    using assms(5) by (cases f) (auto simp: map_of_obj_spread map_add_def split: option.split)
  then show "obj_spread f ps \<noteq> []" by auto
  show "\<forall>kj \<in> set (obj_spread f ps). fst kj \<notin> {''id'', ''created_at'', ''updated_at''} \<and>
      ((\<exists>g \<in> set (re_fields R). gf_name g = fst kj \<and> value_fits (gf_kind g) (snd kj)) \<or>
       (field_named (re_fields R) (fst kj) = None \<and> plain_json (snd kj)))"
  proof
    fix kj assume "kj \<in> set (obj_spread f ps)"
    from set_obj_spread [OF d this] have "member_fits (re_fields R) kj"
      using assms(7) form_member_fits [OF assms(1,2) _ assms(6)] by (elim disjE conjE) simp_all
    then show "fst kj \<notin> {''id'', ''created_at'', ''updated_at''} \<and>
      ((\<exists>g \<in> set (re_fields R). gf_name g = fst kj \<and> value_fits (gf_kind g) (snd kj)) \<or>
       (field_named (re_fields R) (fst kj) = None \<and> plain_json (snd kj)))" by (simp add: member_fits_def)
  qed
qed

definition module_extras :: "module \<Rightarrow> form \<Rightarrow> form" where
  "module_extras m f =
     (case m of
        M_proxy \<Rightarrow> [(''domains'', split_field f ''domains''), (''ip_whitelist'', JArr []), (''ip_blacklist'', JArr []),
          (''ua_whitelist'', JArr []), (''ua_blacklist'', JArr [])]
      | M_ddns \<Rightarrow> [(''credentials'', JObj []), (''get_ip_url'', JStr []), (''get_ip_type'', JStr ''url''), (''ttl'', JNum 600)]
      | M_acme \<Rightarrow> [(''domains'', split_field f ''domains''), (''dns_config'', JObj []), (''renew_days'', JNum 30)]
      | _ \<Rightarrow> [])"

lemma payload_spread: "module_payload m f = obj_spread f (module_extras m f)"
  by (cases m) (simp_all add: module_extras_def proxy_payload_def ddns_payload_def acme_payload_def obj_spread_def)

lemmas form_fields_defs = forward_fields_def proxy_fields_def ddns_fields_def stun_fields_def wol_fields_def cron_fields_def
  acme_fields_def storage_fields_def

lemma no_password_field: "field_named StorageMount_fields ''password'' = None"
  by code_simp

lemma payload_fits:
  assumes "form_ok (module_fields m) f" "int_form f"
  shows "fits_body (module_resource lib m) (module_payload m f)"
  unfolding payload_spread
proof (rule spread_fits [OF assms _ ms.fields])
  have "map fst f = map fst (module_fields m)" by (rule form_ok_keys [OF assms(1)])
  then show "f \<noteq> []" by (cases m) (auto simp: form_fields_defs)
  show "distinct (map fst (module_fields m))" by (cases m) (simp_all add: form_fields_defs)
  show "list_all (\<lambda>kt. fst kt \<in> fst ` set (module_extras m f) \<or> field_takes (re_fields (module_resource lib m)) kt) (module_fields m)"
    using no_password_field
    by (cases m) (simp_all add: form_fields_defs module_extras_def field_takes_def resource_defs fields_defs)
  show "\<forall>kj \<in> set (module_extras m f). member_fits (re_fields (module_resource lib m)) kj"
    by (cases m) (simp_all add: module_extras_def member_fits_def resource_defs fields_defs split_field_def list_all_iff)
qed

text \<open>Every name a page sends is a column of the module, but for the password of a mount.\<close>

lemma payload_keys:
  assumes "form_ok (module_fields m) f"
  shows "fst ` set (module_payload m f) = fst ` set (module_fields m) \<union> fst ` set (module_extras m f)"
proof -
  have "fst ` set f = fst ` set (module_fields m)" using form_ok_keys [OF assms] by (metis list.set_map)
  moreover have "fst ` set (obj_spread f ps) = fst ` set f \<union> fst ` set ps" for ps :: form
    using arg_cong [OF map_of_obj_spread [of f ps], of dom]
    by (simp add: dom_map_of_conv_image_fst Un_commute)
  ultimately show ?thesis by (simp add: payload_spread)
qed

lemma payload_columns:
  assumes "form_ok (module_fields m) f" "k \<in> fst ` set (module_payload m f)"
  shows "k \<in> gf_name ` set (re_fields (module_resource lib m)) \<and>
      (k \<in> fst ` set (re_lists (module_resource lib m)) \<or>
       k \<in> set (re_insert (module_resource lib m)) \<and> k \<in> set (re_select (module_resource lib m))) \<or>
    m = M_storage \<and> k = ''password''"
  using assms(2) unfolding payload_keys [OF assms(1)]
  by (cases m) (auto simp: form_fields_defs module_extras_def resource_defs fields_defs columns_defs)

lemma payload_cols:
  assumes "form_ok (module_fields m) f"
  shows "\<forall>k \<in> fst ` set (module_payload m f). k \<in> fst ` set (re_lists (module_resource lib m)) \<or>
    k \<in> set (re_insert (module_resource lib m)) \<and> k \<in> set (re_select (module_resource lib m)) \<or>
    field_named (re_fields (module_resource lib m)) k = None"
proof
  fix k assume "k \<in> fst ` set (module_payload m f)"
  from payload_columns [OF assms this, of lib] no_password_field
  show "k \<in> fst ` set (re_lists (module_resource lib m)) \<or>
    k \<in> set (re_insert (module_resource lib m)) \<and> k \<in> set (re_select (module_resource lib m)) \<or>
    field_named (re_fields (module_resource lib m)) k = None"
    by (elim disjE conjE) (simp_all add: storage_resource_def)
qed

lemma module_call_create:
  "init_body (snd (module_call m (Create_item f))) = Some (stringify (JObj (module_payload m f)))"
  by (cases m) (simp_all add: forward_call_def proxy_call_def ddns_call_def stun_call_def wol_call_def cron_call_def
      acme_call_def storage_call_def crud_call_def post_init_def body_text_def del: stringify.simps)

text \<open>
  C7. What is saved on a module page is in its next listing. A form of the page's types whose
  numbers Go's \<open>int\<close> takes is either refused with 400, which only forwarding, proxy and
  certificate rules are and which changes nothing, or answered 201 with one row more, the
  first the page is sent: there every field the page gave has the value it gave, or is absent
  because that value is empty. Only a mount's password is not in it.
\<close>

theorem module_saves_listed:
  assumes "lib_law lib" "db = fold (module_serve lib (module_resource lib m)) qs empty_db" "fresh_draws lib db"
    and "form_ok (module_fields m) f" "int_form f"
    and "init_body (snd (module_call m (Create_item f))) = Some body" "length body \<le> maxJSONBodyBytes"
    and "resource_Create lib (module_resource lib m) db body = (db', ans)"
  shows "(m \<in> {M_forward, M_proxy, M_acme} \<and> db' = db \<and> (\<exists>msg. ans = go_error (ml_enc lib) 400 msg)) \<or>
    (\<exists>x j. ans = go_created (ml_enc lib) j \<and> md_rows db' = md_rows db @ [x] \<and> hd (on_screen m db') = x \<and>
       (\<forall>(k, v) \<in> set (module_payload m f). k \<noteq> ''password'' \<longrightarrow>
          field (row_json (module_resource lib m) db' x) k = Some v \<or>
          (field (row_json (module_resource lib m) db' x) k = None \<and> v \<in> {JStr [], JNum 0, JBool False, JArr [], JObj []})))"
proof -
  let ?R = "module_resource lib m" and ?kvs = "module_payload m f"
  have ok: "db_ok (ml_time lib) ?R db" unfolding assms(2) by (rule ms.run_ok [OF assms(1) ms.empty_ok])
  have body: "body = stringify (JObj ?kvs)"
    using assms(6) by (simp only: module_call_create option.inject)
  note fit = payload_fits [OF assms(4,5), of lib]
  note cols = payload_cols [OF assms(4), of lib]
  have lists: "fst ` set (re_lists ?R) \<subseteq> gf_name ` set (re_fields ?R)"
    by (cases m) (simp_all add: resource_defs fields_defs)
  from ms.create_given [OF ok assms(1,3) fit _ lists cols] assms(7,8) body
  consider w msg where "re_check ?R w = Some msg" "db' = db" "ans = go_error (ml_enc lib) 400 msg"
    | x j where "ans = go_created (ml_enc lib) j" "md_rows db' = md_rows db @ [x]" "body_shown ?R ?kvs (row_json ?R db' x)"
    by blast
  then show ?thesis
  proof cases
    case 1
    then show ?thesis by (cases m) (auto simp: resource_defs)
  next
    case 2
    have named: "field_named (re_fields ?R) k \<noteq> None" if "(k, v) \<in> set ?kvs" "k \<noteq> ''password''" for k v
    proof -
      have "k \<in> fst ` set ?kvs" using that(1) by force
      then have "k \<in> gf_name ` set (re_fields ?R)" using payload_columns [OF assms(4), of k lib] that(2) by blast
      then show ?thesis using field_named_own [OF ms.fields] by fastforce
    qed
    have "hd (on_screen m db') = x" using 2(2) by (simp add: on_screen_def)
    with 2 named show ?thesis unfolding body_shown_def by blast
  qed
qed

subsection \<open>Switches\<close>

lemma shown_id:
  assumes "row_ok (ml_time lib) (module_resource lib m) x"
  shows "js_string (field (row_json (module_resource lib m) db x) ''id'') = row_id x"
proof -
  let ?R = "module_resource lib m"
  obtain f where f: "f \<in> set (re_fields ?R)" "gf_name f = ''id''" "gf_kind f = K_text" "\<not> gf_omit f"
    using ms.id_field by blast
  have nl: "''id'' \<notin> fst ` set (re_lists ?R)" using ms.list_columns by blast
  have sel: "''id'' \<in> set (re_select ?R)" by (cases m) (simp_all add: resource_defs columns_defs)
  have "has_kind (ml_time lib) K_text (gget x ''id'')" using assms f nl by (force simp: row_ok_def)
  then obtain i where i: "gget x ''id'' = V_text i" by (auto split: gval.splits)
  have "map_of (re_lists ?R) ''id'' = None" using nl by (simp add: map_of_eq_None_iff)
  then have "gget (loaded ?R db x) ''id'' = V_text i" using ms.loaded_get [OF f(1), of db x] f(2) sel i by simp
  with ms.row_member [OF f(1), of db x] f(2,4) i show ?thesis by (simp add: row_id_def js_string_def)
qed

text \<open>
  C5. The switch of a listed forwarding or proxy rule changes that rule's \<open>enabled\<close> and nothing
  else. The page's PUT goes to the rule's own address; it is answered 200; in the next listing
  the rule's row is the one before with \<open>enabled\<close> turned around and a new \<open>updated_at\<close>, in its
  place, with its lists, their ids included, and every other row is as it was.
\<close>

theorem switch_flips_one:
  assumes "lib_law lib" "db = fold (module_serve lib (module_resource lib m)) qs empty_db" "fresh_draws lib db"
    and "m \<in> {M_forward, M_proxy}" "x \<in> set (on_screen m db)"
    and "module_call m (Toggle_item (row_json (module_resource lib m) db x)) = (url, req)"
    and "init_body req = Some body" "length body \<le> maxJSONBodyBytes"
    and "resource_Update lib (module_resource lib m) db (row_id x) body = (db', ans)"
  shows "url = CHR ''/'' # module_base m @ ''/'' @ row_id x \<and> ans = go_message (ml_enc lib) ''updated'' \<and>
    map (row_json (module_resource lib m) db') (on_screen m db') =
      map (\<lambda>y. if y = x then flipped (ml_show lib (md_now db)) (row_json (module_resource lib m) db x)
        else row_json (module_resource lib m) db y) (on_screen m db)"
proof -
  let ?R = "module_resource lib m" and ?u = "row_json (module_resource lib m) db x"
  have ok: "db_ok (ml_time lib) ?R db" unfolding assms(2) by (rule ms.run_ok [OF assms(1) ms.empty_ok])
  have x: "x \<in> set (md_rows db)" using assms(5) by (auto simp: on_screen_def dest: in_set_takeD split: if_splits)
  have call: "url = CHR ''/'' # module_base m @ ''/'' @ js_string (field ?u ''id'')" "req = put_init (Some (JObj (toggled ?u)))"
    using assms(6) by (simp_all add: module_call_base crud_call_def)
  have "url = CHR ''/'' # module_base m @ ''/'' @ row_id x" using call(1) shown_id [of lib m x db] ok x by (simp add: db_ok_def)
  moreover have body: "body = stringify (JObj (toggled ?u))"
    using assms(7) call(2) by (simp add: put_init_def body_text_def del: stringify.simps)
  have row: "ans = go_message (ml_enc lib) ''updated'' \<and> map (row_json ?R db') (md_rows db') =
      map (\<lambda>y. if y = x then flipped (ml_show lib (md_now db)) ?u else row_json ?R db y) (md_rows db)"
    using toggled_server.toggle_row [OF toggled_modules ok assms(1,3) x, of db' ans] assms(4,8,9) body by auto
  have take: "map g (on_screen m d) = take 20 (rev (map g (md_rows d)))" for g :: "gstruct \<Rightarrow> json" and d
    using assms(4) by (auto simp: on_screen_def take_map rev_map)
  have "map (row_json ?R db') (on_screen m db') =
      map (\<lambda>y. if y = x then flipped (ml_show lib (md_now db)) ?u else row_json ?R db y) (on_screen m db)"
    unfolding take row [THEN conjunct2] ..
  with calculation row show ?thesis by blast
qed

subsection \<open>Witnesses\<close>

lemma sample_form_body:
  "form_ok (module_fields M_wol) wol_form0" "int_form wol_form0"
  "length (stringify (JObj wol_form0)) \<le> maxJSONBodyBytes"
  "init_body (snd (module_call M_wol (Create_item wol_form0))) = Some (stringify (JObj wol_form0))"
proof -
  show "form_ok (module_fields M_wol) wol_form0" "int_form wol_form0"
    by (simp_all add: form_ok_def wol_form0_def wol_fields_def int_form_def)
  have "length (stringify (JObj wol_form0)) \<le> 150" by code_simp
  then show "length (stringify (JObj wol_form0)) \<le> maxJSONBodyBytes" by (simp add: maxJSONBodyBytes_def)
  show "init_body (snd (module_call M_wol (Create_item wol_form0))) = Some (stringify (JObj wol_form0))"
    by (simp only: module_call_create module_payload.simps)
qed

definition sample_requests :: "module_request list" where
  "sample_requests = [M_create (stringify (JObj wol_form0))]"

definition sample_tables :: module_db where
  "sample_tables = fold (module_serve sample_module_lib (module_resource sample_module_lib M_wol)) sample_requests empty_db"

lemma sample_created:
  "\<exists>x j. resource_Create sample_module_lib (module_resource sample_module_lib M_wol) empty_db (stringify (JObj wol_form0)) =
     (sample_tables, go_created (ml_enc sample_module_lib) j) \<and> md_rows sample_tables = [x]"
proof -
  let ?R = "module_resource sample_module_lib M_wol"
  obtain db1 ans where c: "resource_Create sample_module_lib ?R empty_db (stringify (JObj wol_form0)) = (db1, ans)"
    by (rule prod.exhaust)
  then have db1: "sample_tables = db1" by (simp add: sample_tables_def sample_requests_def del: stringify.simps module_resource.simps)
  have fit: "fits_body ?R wol_form0" using payload_fits [OF sample_form_body(1,2)] by simp
  have cols: "\<forall>k \<in> fst ` set wol_form0. k \<in> fst ` set (re_lists ?R) \<or> k \<in> set (re_insert ?R) \<and> k \<in> set (re_select ?R) \<or>
      field_named (re_fields ?R) k = None"
    by (simp add: wol_resource_def wol_settings_def wol_form0_def)
  have none: "re_check ?R w = None" "fst ` set (re_lists ?R) \<subseteq> gf_name ` set (re_fields ?R)" "md_rows empty_db = []" for w
    by (simp_all add: wol_resource_def empty_db_def)
  from ms.create_given [OF ms.empty_ok sample_law sample_draws_fresh fit sample_form_body(3) none(2) cols c] none(1,3)
  show ?thesis by (simp only: c db1) auto
qed

lemma modules_render_witness:
  "\<exists>e x. md_rows sample_tables = [x] \<and>
     query_rows e = Some (JArr [row_json (module_resource sample_module_lib M_wol) sample_tables x]) \<and>
     (\<forall>show s. \<not> has_broken (module_view show M_wol e s))"
proof -
  let ?R = "module_resource sample_module_lib M_wol"
  obtain x where x: "md_rows sample_tables = [x]" using sample_created by blast
  have ok: "db_ok (ml_time sample_module_lib) ?R sample_tables"
    unfolding sample_tables_def by (rule ms.run_ok [OF sample_law ms.empty_ok])
  obtain j where j: "resource_List sample_module_lib ?R sample_tables (API_BASE @ module_query M_wol) =
      Response 200 (ml_enc sample_module_lib j)" "res_json (ml_enc sample_module_lib j) = Inr j"
    using ms.list_answer [OF ok sample_law] by blast
  let ?e = "\<lparr>env_lang = En, env_user = None, env_data = Some j, env_loading = False\<rparr>"
  have "env_data ?e = Some j" by simp
  note shown = modules_render [OF sample_law sample_tables_def j this]
  then have sound: "\<forall>show s. \<not> has_broken (module_view show M_wol ?e s)" by blast
  have "on_screen M_wol sample_tables = [x]" by (simp add: on_screen_def x)
  then have "query_rows ?e = Some (JArr [row_json ?R sample_tables x])" using shown by (simp del: module_resource.simps)
  with sound x show ?thesis by (intro exI [of _ ?e] exI [of _ x]) simp
qed

lemma module_saves_listed_witness:
  "hd (on_screen M_wol sample_tables) \<in> set (md_rows sample_tables)"
proof -
  have none: "empty_db = fold (module_serve sample_module_lib (module_resource sample_module_lib M_wol)) [] empty_db" by simp
  obtain j where c: "resource_Create sample_module_lib (module_resource sample_module_lib M_wol) empty_db
      (stringify (JObj wol_form0)) = (sample_tables, go_created (ml_enc sample_module_lib) j)" using sample_created by blast
  have "\<exists>x. md_rows sample_tables = md_rows empty_db @ [x] \<and> hd (on_screen M_wol sample_tables) = x"
    using module_saves_listed [OF sample_law none sample_draws_fresh sample_form_body(1,2,4,3) c] by simp
  then show ?thesis by auto
qed

definition sample_rule :: form where
  "sample_rule =
     [(''name'', JStr ''w''), (''protocol'', JStr ''tcp''), (''listen_addr'', JStr []), (''listen_port'', JNum 8),
      (''target_addr'', JStr ''h''), (''target_port'', JNum 9), (''enable_ipv6'', JBool True), (''enabled'', JBool False)]"

definition sample_rules :: module_db where
  "sample_rules = fold (module_serve sample_module_lib (module_resource sample_module_lib M_forward))
     [M_create (stringify (JObj sample_rule))] empty_db"

definition sample_row :: gstruct where
  "sample_row =
     [(''id'', V_text ''i0''), (''tenant_id'', V_text []), (''owner_id'', V_text []), (''name'', V_text ''w''),
      (''protocol'', V_text ''tcp''), (''listen_addr'', V_text []), (''listen_port'', V_int 8),
      (''target_addr'', V_text ''h''), (''target_port'', V_int 9), (''enable_ipv6'', V_bool True),
      (''max_conns'', V_int 0), (''enabled'', V_bool False), (''schedule_on'', V_text []), (''schedule_off'', V_text []),
      (''created_at'', V_time zero_time), (''updated_at'', V_time zero_time)]"

lemma sample_rule_fits:
  "fits_body (module_resource lib M_forward) sample_rule" "length (stringify (JObj sample_rule)) \<le> maxJSONBodyBytes"
proof -
  have "form_ok (module_fields M_forward) sample_rule" "int_form sample_rule"
    by (simp_all add: form_ok_def sample_rule_def forward_fields_def int_form_def)
  from payload_fits [OF this] show "fits_body (module_resource lib M_forward) sample_rule" by simp
  have "length (stringify (JObj sample_rule)) \<le> 250" by code_simp
  then show "length (stringify (JObj sample_rule)) \<le> maxJSONBodyBytes" by (simp add: maxJSONBodyBytes_def)
qed

lemma sample_rules_rows: "md_rows sample_rules = [sample_row]" "md_lists sample_rules = (\<lambda>_. [])" "md_drawn sample_rules = 1"
proof -
  let ?lib = sample_module_lib
  let ?R = "module_resource ?lib M_forward"
  obtain w where w: "decode_body ?lib ?R (stringify (JObj sample_rule)) = Some w"
    "\<And>f. f \<in> set (re_fields ?R) \<Longrightarrow> gget w (gf_name f) =
       (case map_of sample_rule (gf_name f) of None \<Rightarrow> zero_val (gf_kind f) | Some j \<Rightarrow> fit_val (gf_kind f) j)"
    by (rule ms.decode_fits [OF sample_rule_fits]) blast
  have "\<forall>f \<in> set ForwardRule_fields. gget w (gf_name f) =
       (case map_of sample_rule (gf_name f) of None \<Rightarrow> zero_val (gf_kind f) | Some j \<Rightarrow> fit_val (gf_kind f) j)"
    using w(2) by (simp add: forward_resource_def)
  note get = this [unfolded ForwardRule_fields_def, simplified, unfolded sample_rule_def, simplified]
  have checked: "forward_check w = None"
    by (simp add: get forward_check_def int_of_def valid_port_def entries_of_def list_entries_def refuse_def)
  have "columns (forward_resource ?lib) = map fst sample_row" by code_simp
  moreover have "set forward_columns = set (map fst sample_row)" by (simp add: forward_columns_def sample_row_def)
  ultimately have row: "new_row (forward_resource ?lib) (stamped ''i0'' zero_time w) = sample_row"
    by (simp add: new_row_def forward_resource_def sample_row_def stamped_def get)
  have draw: "ml_draw ?lib 0 = ''i0''" "ml_show ?lib n = zero_time" for n
    by (simp_all add: sample_module_lib_def show_nat_zero)
  have "sample_rules = fst (resource_Create ?lib ?R empty_db (stringify (JObj sample_rule)))"
    by (simp add: sample_rules_def del: stringify.simps)
  moreover have "re_check ?R w = None" "re_lists ?R = [(''whitelist'', ''forward_whitelist''), (''blacklist'', ''forward_blacklist'')]"
    "module_resource ?lib M_forward = forward_resource ?lib" "''created'' \<in> set (re_tells (forward_resource ?lib))"
    using checked by (simp_all add: forward_resource_def)
  moreover have "list_entries (gget (stamped ''i0'' zero_time w) ''whitelist'') = []"
    "list_entries (gget (stamped ''i0'' zero_time w) ''blacklist'') = []"
    by (simp_all add: stamped_def get list_entries_def)
  ultimately have "sample_rules = \<lparr>md_rows = [sample_row], md_lists = \<lambda>_. [], md_drawn = 1, md_now = 0,
      md_told = [(re_name (forward_resource ?lib), ''created'', ''i0'')]\<rparr>"
    using w(1) draw row
    by (simp add: resource_Create_def empty_db_def row_ids_def save_entries_def tell_def Let_def del: stringify.simps)
  note stored = this
  show "md_rows sample_rules = [sample_row]" "md_lists sample_rules = (\<lambda>_. [])" "md_drawn sample_rules = 1"
    unfolding stored by simp_all
qed

lemma sample_rules_fresh: "fresh_draws sample_module_lib sample_rules"
proof -
  have "row_ids sample_rules = [''i0'']" by (simp add: row_ids_def sample_rules_rows sample_row_def row_id_def gget_def)
  moreover have "''i0'' = CHR ''i'' # show_nat 0" by (simp add: show_nat_zero)
  moreover have "inj show_nat" by (metis digits_val_show injI)
  ultimately show ?thesis
    by (auto simp: fresh_draws_def sample_module_lib_def sample_rules_rows inj_def)
qed

lemma sample_rules_loaded:
  "row_json (module_resource sample_module_lib M_forward) sample_rules sample_row =
     JObj ([(''id'', JStr ''i0''), (''tenant_id'', JStr []), (''owner_id'', JStr [])] @ take 7 sample_rule @
       [(''max_conns'', JNum 0), (''enabled'', JBool False), (''created_at'', JStr zero_time), (''updated_at'', JStr zero_time)])"
   by (simp add: row_json_def struct_json_def struct_members_def forward_resource_def ForwardRule_fields_def loaded_def
        gget_def load_list_def sample_rules_rows forward_columns_def sample_row_def sample_rule_def)

lemma sample_length: "length (stringify (JObj (toggled (row_json (module_resource sample_module_lib M_forward) sample_rules sample_row)))) \<le> 400"
  unfolding sample_rules_loaded by code_simp

lemma switch_flips_one_witness:
  "\<exists>db'. map (row_json (module_resource sample_module_lib M_forward) db') (on_screen M_forward db') =
     [flipped zero_time (row_json (module_resource sample_module_lib M_forward) sample_rules sample_row)] \<and>
     field (flipped zero_time (row_json (module_resource sample_module_lib M_forward) sample_rules sample_row)) ''enabled'' =
       Some (JBool True)"
proof -
  let ?lib = sample_module_lib
  let ?R = "module_resource ?lib M_forward"
  let ?u = "row_json ?R sample_rules sample_row"
  have on: "on_screen M_forward sample_rules = [sample_row]" by (simp add: on_screen_def sample_rules_rows)
  obtain url req where call: "module_call M_forward (Toggle_item ?u) = (url, req)" by (rule prod.exhaust)
  have body: "init_body req = Some (stringify (JObj (toggled ?u)))"
    using call by (auto simp: module_call_base crud_call_def put_init_def body_text_def simp del: stringify.simps)
  obtain db' ans where up: "resource_Update ?lib ?R sample_rules (row_id sample_row) (stringify (JObj (toggled ?u))) = (db', ans)"
    by (rule prod.exhaust)
  have len: "length (stringify (JObj (toggled ?u))) \<le> maxJSONBodyBytes"
    using sample_length by (simp add: maxJSONBodyBytes_def del: stringify.simps)
  have "ml_show ?lib (md_now sample_rules) = zero_time" by (simp add: sample_module_lib_def)
  then have rows: "map (row_json ?R db') (on_screen M_forward db') = [flipped zero_time ?u]"
    using switch_flips_one [OF sample_law sample_rules_def sample_rules_fresh _ _ call body len up] on by simp
  have turned: "field (flipped zero_time ?u) ''enabled'' = Some (JBool True)"
    unfolding sample_rules_loaded by (simp add: sample_rule_def flipped_def field_def opt_prop_def)
  show ?thesis by (rule exI [of _ db'], rule conjI [OF rows turned])
qed

end
