(* ===== verification/Silent_Engines.thy ===== *)
theory Silent_Engines
  imports Module_Sessions
begin

text \<open>
  Two engines that serve what the pages store: the scheduler (\<open>internal/engine/cron/cron.go\<close>) and
  the FTP service of a mount (\<open>internal/engine/storage/storage.go\<close>). Their tables' handlers tell
  the notifier nothing.

  The scheduler's library is a parameter: \<open>ok\<close> says which schedules \<open>AddFunc\<close> takes. It is made with
  \<open>WithSeconds\<close>, so it wants six fields.
\<close>

subsection \<open>Nothing is told\<close>



subsection \<open>The scheduler\<close>

record cron_job =
  cj_id :: string
  cj_schedule :: string
  cj_type :: string
  cj_command :: string
  cj_enabled :: bool









text \<open>What a job does when its time comes: the command it gives the shell.\<close>

definition cron_execute :: "cron_job \<Rightarrow> string option" where
  "cron_execute j = (if cj_type j = ''command'' \<and> cj_command j \<noteq> [] then Some (cj_command j) else None)"





subsection \<open>FTP\<close>

text \<open>\<open>AuthUser\<close> of the mount's FTP service, which is given the mount's user name and password.\<close>

definition ftp_AuthUser :: "string \<Rightarrow> string \<Rightarrow> string \<Rightarrow> string \<Rightarrow> bool" where
  "ftp_AuthUser username password u p =
     (if username = [] \<and> password = [] then True else u = username \<and> p = password)"

definition mount_admits :: "gstruct \<Rightarrow> string \<Rightarrow> string \<Rightarrow> bool" where
  "mount_admits x = ftp_AuthUser (text_col x ''username'') (text_col x ''password'')"

lemma shown_text:
  assumes "row_ok (ml_time lib) (module_resource lib m) x" "f \<in> set (re_fields (module_resource lib m))"
    and "gf_kind f = K_text" "gf_name f \<notin> fst ` set (re_lists (module_resource lib m))"
    and "gf_name f \<in> set (re_select (module_resource lib m))"
    and "field (row_json (module_resource lib m) db x) (gf_name f) = Some (JStr s)"
  shows "text_col x (gf_name f) = s"
proof -
  let ?R = "module_resource lib m"
  have "map_of (re_lists ?R) (gf_name f) = None" using assms(4) by (simp add: map_of_eq_None_iff)
  then have l: "gget (loaded ?R db x) (gf_name f) = gget x (gf_name f)" using ms.loaded_get [OF assms(2), of db x] assms(5) by simp
  have "has_kind (ml_time lib) K_text (gget x (gf_name f))" using assms(1-4) by (auto simp: row_ok_def)
  then obtain u where "gget x (gf_name f) = V_text u" by (auto split: gval.splits)
  with assms(6) l ms.row_member [OF assms(2), of db x] show ?thesis by (auto simp: text_col_def split: if_splits)
qed

text \<open>
  C31. The password of a mount is lost on its way. After a mount has been saved on the storage page
  with a user name and a password, its FTP service lets in that user with an empty password, and
  nobody else: the password that was typed is refused.
\<close>

theorem mount_password_lost:
  assumes "lib_law lib" "db = fold (module_serve lib storage_resource) qs empty_db" "fresh_draws lib db"
    and "form_ok storage_fields f" "int_form f" "map_of f ''username'' = Some (JStr name)" "name \<noteq> []"
    and "map_of f ''password'' = Some (JStr pw)" "pw \<noteq> []"
    and "init_body (snd (storage_call (Create_item f))) = Some body" "length body \<le> maxJSONBodyBytes"
    and "resource_Create lib storage_resource db body = (db', ans)"
  shows "\<exists>x. md_rows db' = md_rows db @ [x] \<and> (\<forall>u p. mount_admits x u p \<longleftrightarrow> u = name \<and> p = []) \<and> \<not> mount_admits x name pw"
proof -
  let ?R = "module_resource lib M_storage"
  have R: "storage_resource = ?R" by simp
  have ok: "db_ok (ml_time lib) ?R db" unfolding assms(2) R by (rule ms.run_ok [OF assms(1) ms.empty_ok])
  have hid: "hidden_empty ?R db"
    unfolding assms(2) R by (rule ms.hidden_run [OF hidden_inserted]) (simp add: hidden_empty_def empty_db_def)
  have body: "body = stringify (JObj f)"
    using assms(10) module_call_create [of M_storage f] by (simp del: stringify.simps)
  have form: "form_ok (module_fields M_storage) f" using assms(4) by simp
  have fit: "fits_body ?R f" using payload_fits [OF form assms(5), of lib] by simp
  have lists: "fst ` set (re_lists ?R) \<subseteq> gf_name ` set (re_fields ?R)" by (simp add: storage_resource_def)
  have cols: "\<forall>k \<in> fst ` set f. k \<in> fst ` set (re_lists ?R) \<or> k \<in> set (re_insert ?R) \<and> k \<in> set (re_select ?R) \<or>
      field_named (re_fields ?R) k = None"
    using payload_cols [OF form, of lib] by simp
  obtain x where x: "md_rows db' = md_rows db @ [x]" "body_shown ?R f (row_json ?R db' x)"
    using ms.create_given [OF ok assms(1,3) fit _ lists cols, of db' ans] assms(11,12) body
    by (auto simp: storage_resource_def)
  have "db' = module_serve lib ?R (M_create body) db" using assms(12) by simp
  then have ok': "db_ok (ml_time lib) ?R db'" "hidden_empty ?R db'"
    by (simp_all only: ms.serve_ok [OF ok assms(1)] ms.hidden_serve [OF hidden_inserted hid])
  let ?f = "fld_omit K_text ''username''"
  have uf: "?f \<in> set (re_fields ?R)" by (simp add: storage_resource_def StorageMount_fields_def)
  have "(''username'', JStr name) \<in> set f" using assms(6) by (rule map_of_SomeD)
  then have "field (row_json ?R db' x) ''username'' = Some (JStr name)"
    using x(2) assms(7) field_named_own [OF ms.fields uf] unfolding body_shown_def by auto
  then have "text_col x ''username'' = name"
    using shown_text [of lib M_storage x ?f db' name] ok'(1) x(1) uf
    by (simp add: db_ok_def) (simp add: storage_resource_def storage_settings_def)
  moreover have "text_col x ''password'' = []"
    using ok'(2) x(1) by (simp add: hidden_empty_def storage_resource_def text_col_def)
  ultimately show ?thesis
    using x(1) assms(7,9) by (intro exI [of _ x]) (auto simp: mount_admits_def ftp_AuthUser_def)
qed

subsection \<open>Witnesses\<close>


definition sample_mount :: form where
  "sample_mount =
     [(''name'', JStr ''n''), (''type'', JStr ''local''), (''source'', JStr ''s''), (''services'', JArr [JStr ''ftp'']),
      (''ftp_port'', JNum 1), (''enabled'', JBool True), (''username'', JStr ''u''), (''password'', JStr ''p'')]"

lemma mount_password_lost_witness:
  "\<exists>x. mount_admits x ''u'' [] \<and> \<not> mount_admits x ''u'' ''p''"
proof -
  let ?body = "stringify (JObj sample_mount)"
  have form: "form_ok storage_fields sample_mount" "int_form sample_mount"
    by (simp_all add: form_ok_def sample_mount_def storage_fields_def int_form_def)
  have given: "map_of sample_mount ''username'' = Some (JStr ''u'')" "map_of sample_mount ''password'' = Some (JStr ''p'')"
    by (simp_all add: sample_mount_def)
  have body: "init_body (snd (storage_call (Create_item sample_mount))) = Some ?body"
    using module_call_create [of M_storage sample_mount] by (simp del: stringify.simps)
  have "length ?body \<le> 200" by code_simp
  then have len: "length ?body \<le> maxJSONBodyBytes" by (simp add: maxJSONBodyBytes_def)
  have empty: "empty_db = fold (module_serve sample_module_lib storage_resource) [] empty_db" by simp
  obtain db' ans where c: "resource_Create sample_module_lib storage_resource empty_db ?body = (db', ans)" by (rule prod.exhaust)
  from mount_password_lost [OF sample_law empty sample_draws_fresh form given(1) _ given(2) _ body len c]
  show ?thesis by auto
qed

end
