(* ===== verification/Two_Factor.thy ===== *)
theory Two_Factor
  imports Refresh_Race Settings
begin

text \<open>
  Two-factor codes across the program: the settings page, the session handlers and the codes of
  theory \<open>Otp\<close>; and what sign-in makes of them.
\<close>

subsection \<open>Calls of a session\<close>

text \<open>A client whose access token the back end accepts, as these claims.\<close>

definition signed_in :: "auth_lib \<Rightarrow> auth_db \<Rightarrow> client \<Rightarrow> claims \<Rightarrow> bool" where
  "signed_in lib db c cl \<longleftrightarrow>
     (\<exists>tok. accessToken c = Some (JStr tok) \<and> header_token tok \<and> ValidateToken lib db tok = Some cl)"

lemma signed_in_then: "signed_in lib db c cl \<Longrightarrow> db_now db' = db_now db \<Longrightarrow> signed_in lib db' c cl"
  by (simp add: signed_in_def ValidateToken_def)

lemma session_call:
  assumes "signed_in lib db c cl" "init_headers opts = []"
    and "dispatch matches (init_method opts) (url_path (API_BASE @ path)) = Some (Signed_in, m, p)"
    and "\<exists>x \<in> set exempt_prefixes. starts_with x (url_path (API_BASE @ path))"
    and "session_handler lib big rest m p cl db (api_request path opts (request_headers c opts)) = (db', Response status body)"
    and "status \<notin> {401, 403}"
  shows "api (back_end lib big matches rest) c db path opts = (res_json body, c, db')"
proof -
  have "AuthMiddleware lib db (request_headers c opts) = Inr cl"
    using assms(1) bearer_accepted client_header [OF assms(2)]
    by (fastforce simp: signed_in_def header_token_def)
  moreover have "ForcePasswordChange db cl (url_path (API_BASE @ path)) = None"
    using assms(4) by (simp add: ForcePasswordChange_def)
  ultimately have "back_end lib big matches rest db (api_request path opts (request_headers c opts)) = (db', Response status body)"
    using assms(3,5) by (simp add: back_end_def api_request_def Let_def)
  with assms(6) show ?thesis by (simp add: api_def intercept_403_def Let_def)
qed

lemma session_routes:
  assumes "chi_law matches"
  shows "dispatch matches ''GET'' (url_path (API_BASE @ ''/auth/2fa/setup'')) = Some (Signed_in, ''GET'', ''/api/v1/auth/2fa/setup'')"
    and "dispatch matches ''POST'' (url_path (API_BASE @ ''/auth/2fa/enable'')) = Some (Signed_in, ''POST'', ''/api/v1/auth/2fa/enable'')"
    and "dispatch matches ''GET'' (url_path (API_BASE @ ''/auth/me'')) = Some (Signed_in, ''GET'', ''/api/v1/auth/me'')"
proof -
  have routed: "dispatch matches m (url_path (API_BASE @ path)) = Some (Signed_in, m, url_path (API_BASE @ path))"
    if "segments_ok ss" "url_path (API_BASE @ path) = path_of (''api'' # ''v1'' # ss)"
      "find (\<lambda>(a, m', ps). m' = m \<and> fits_path ps ss) api_segs = Some (Signed_in, m, ss)" for m path ss
    using dispatch_segs [OF assms that(1), of m] that(2,3) by simp
  have me: "segments_ok [''auth'', ''me'']" "url_path (API_BASE @ ''/auth/me'') = path_of [''api'', ''v1'', ''auth'', ''me'']"
    "find (\<lambda>(a, m', ps). m' = ''GET'' \<and> fits_path ps [''auth'', ''me'']) api_segs = Some (Signed_in, ''GET'', [''auth'', ''me''])"
    by code_simp+
  have otp: "segments_ok [''auth'', ''2fa'', op]" "url_path (API_BASE @ ''/auth/2fa/'' @ op) = path_of [''api'', ''v1'', ''auth'', ''2fa'', op]"
    "find (\<lambda>(a, m', ps). m' = m \<and> fits_path ps [''auth'', ''2fa'', op]) api_segs = Some (Signed_in, m, [''auth'', ''2fa'', op])"
    if "(m, op) = (''GET'', ''setup'') \<or> (m, op) = (''POST'', ''enable'')" for m op
    using that by (elim disjE; simp only: prod.inject; elim conjE; hypsubst; code_simp)+
  show "dispatch matches ''GET'' (url_path (API_BASE @ ''/auth/me'')) = Some (Signed_in, ''GET'', ''/api/v1/auth/me'')"
    using routed [OF me] me(2) by (simp add: path_of_def)
  show "dispatch matches ''GET'' (url_path (API_BASE @ ''/auth/2fa/setup'')) = Some (Signed_in, ''GET'', ''/api/v1/auth/2fa/setup'')"
    using routed [OF otp, of "''GET''" "''setup''"] otp(2) [of "''GET''" "''setup''"] by (simp add: path_of_def)
  show "dispatch matches ''POST'' (url_path (API_BASE @ ''/auth/2fa/enable'')) = Some (Signed_in, ''POST'', ''/api/v1/auth/2fa/enable'')"
    using routed [OF otp, of "''POST''" "''enable''"] otp(2) [of "''POST''" "''enable''"] by (simp add: path_of_def)
qed

lemma find_updated:
  assumes "find (\<lambda>u. ur_id u = i) us = Some u" "\<And>v. ur_id (f v) = ur_id v"
  shows "find (\<lambda>u. ur_id u = i) (map (\<lambda>v. if ur_id v = i then f v else v) us) = Some (f u)"
  using assms(1) by (induction us) (auto split: if_splits simp: assms(2))

lemma row_of_update:
  assumes "row_of db c = Some u" "\<And>v. ur_id (f v) = ur_id v"
  shows "row_of (update_row f c db) c = Some (f u)"
  using find_updated [of "cl_uid c" "db_users db" u f] assms by (simp add: row_of_def update_row_def)

lemma update_row_simps [simp]:
  "db_now (update_row f c db) = db_now db" "db_drawn (update_row f c db) = db_drawn db"
  by (simp_all add: update_row_def)

lemma quote_length: "length (quote_str s) \<le> 6 * length s + 2"
proof -
  have "length (escape_char c) \<le> 6" for c by (simp add: escape_char_def Let_def)
  then have "length (concat (map escape_char s)) \<le> 6 * length s" by (induction s) (simp_all add: add_mono)
  then show ?thesis by (simp add: quote_str_def)
qed

definition enable_body :: "string \<Rightarrow> string" where
  "enable_body digits = stringify (JObj [(''code'', JStr digits)])"

lemma enable_body_code:
  assumes "length digits \<le> 6"
  shows "decode_one ''code'' (decode_upto maxJSONBodyBytes (enable_body digits)) = Some digits"
proof -
  have "length (quote_str digits) \<le> 38" "length (quote_str ''code'') \<le> 26"
    using quote_length [of digits] quote_length [of "''code''"] assms by simp_all
  then have "length (enable_body digits) \<le> maxJSONBodyBytes"
    by (simp add: enable_body_def maxJSONBodyBytes_def)
  then have "decode_upto maxJSONBodyBytes (enable_body digits) = Some [(''code'', JStr digits)]"
    using decode_stringify [of "[(''code'', JStr digits)]" False]
    by (simp add: decode_upto_def enable_body_def del: stringify.simps)
  then show ?thesis by (simp add: decode_one_def)
qed

text \<open>What the handlers answer, where they succeed.\<close>

lemma setup_served:
  assumes "row_of db cl = Some u" "al_bytes lib (db_drawn db) = Some key"
  shows "Setup2FA_handler lib db cl =
    (update_row (\<lambda>v. v\<lparr>ur_secret := base32_encode key\<rparr>) cl (db\<lparr>db_drawn := db_drawn db + 1\<rparr>),
     go_success (al_enc lib) (JObj [(''secret'', JStr (base32_encode key)),
       (''qr_code'', JStr (otp_url (ur_username u) (base32_encode key)))]))"
  using assms by (simp add: Setup2FA_handler_def GenerateOTPSecret_def Let_def)

lemma enable_served:
  assumes "row_of db cl = Some u" "ur_secret u = base32_encode key" "key \<noteq> []"
    and "db_now db \<le> clock + 30" "clock \<le> db_now db + 30"
    and "totpCode key (int (clock div 30)) = Some digits" "length digits = 6"
  shows "Enable2FA_handler lib db cl (enable_body digits) =
    (update_row (\<lambda>v. v\<lparr>ur_otp := True\<rparr>) cl db, go_message (al_enc lib) ''2FA enabled'')"
proof -
  have "base32_encode key \<noteq> []" using base32_roundtrip [of key] assms(3) by (auto simp: base32_decode_def base32_groups.simps)
  moreover have "ValidateTOTP (db_now db) (base32_encode key) digits"
    by (rule code_accepted [OF assms(3-6)])
  ultimately show ?thesis
    using assms(1,2,7) by (simp add: Enable2FA_handler_def enable_body_code Let_def)
qed

text \<open>The three calls.\<close>

lemma exempt_paths:
  "\<exists>x \<in> set exempt_prefixes. starts_with x (url_path (API_BASE @ ''/auth/2fa/setup''))"
  "\<exists>x \<in> set exempt_prefixes. starts_with x (url_path (API_BASE @ ''/auth/2fa/enable''))"
  "\<exists>x \<in> set exempt_prefixes. starts_with x (url_path (API_BASE @ ''/auth/me''))"
  by code_simp+

lemma setup_call:
  assumes "chi_law matches" "encodes (al_enc lib)" "signed_in lib db c cl" "row_of db cl = Some u"
    and "al_bytes lib (db_drawn db) = Some key"
  shows "api (back_end lib big matches rest) c db ''/auth/2fa/setup'' get_init =
    (Inr (JObj [(''success'', JBool True), (''data'', JObj [(''secret'', JStr (base32_encode key)),
       (''qr_code'', JStr (otp_url (ur_username u) (base32_encode key)))])]), c,
     update_row (\<lambda>v. v\<lparr>ur_secret := base32_encode key\<rparr>) cl (db\<lparr>db_drawn := db_drawn db + 1\<rparr>))"
  using session_call [OF assms(3) _ _ exempt_paths(1)] session_routes(1) [OF assms(1)] setup_served [OF assms(4,5)] assms(2)
  by (simp add: get_init_def session_handler_def go_success_def go_json_def encodes_def res_json_def)

lemma enable_call:
  assumes "chi_law matches" "encodes (al_enc lib)" "signed_in lib db c cl"
    and "Enable2FA_handler lib db cl (enable_body digits) = (db', go_message (al_enc lib) msg)"
  shows "api (back_end lib big matches rest) c db ''/auth/2fa/enable'' (post_init (Some (JObj [(''code'', JStr digits)]))) =
    (Inr (JObj [(''success'', JBool True), (''message'', JStr msg)]), c, db')"
  using session_call [OF assms(3) _ _ exempt_paths(2)] session_routes(2) [OF assms(1)] assms(2,4)
  by (simp add: post_init_def body_text_def session_handler_def go_message_def go_json_def request_body_def api_request_def
      enable_body_def encodes_def res_json_def del: stringify.simps)

lemma me_call:
  assumes "chi_law matches" "encodes (al_enc lib)" "signed_in lib db c cl" "row_of db cl = Some u"
  shows "api (back_end lib big matches rest) c db ''/auth/me'' get_init =
    (Inr (JObj [(''success'', JBool True), (''data'', sanitizeUser (u\<lparr>ur_enabled := False\<rparr>))]), c, db)"
proof -
  have "plain_json (sanitizeUser v)" for v by (simp add: sanitizeUser_def)
  with session_call [OF assms(3) _ _ exempt_paths(3)] session_routes(3) [OF assms(1)] assms(2,4) show ?thesis
    by (simp add: get_init_def session_handler_def Me_handler_def row_of_def go_success_def go_json_def encodes_def res_json_def)
qed

text \<open>
  C12. Two-factor authentication can be set up from the settings. The page is given a secret whose
  base-32 text is the key the back end drew; an authenticator that has it shows six digits, and as
  long as its clock is within half a minute of the back end's those digits, sent by the page, are
  accepted; the account's own description then says that two-factor authentication is enabled, and
  no other account is changed.
\<close>

theorem two_factor_enrolled:
  assumes "chi_law matches" "encodes (al_enc lib)"
    and "signed_in lib db c cl" "row_of db cl = Some u" "al_bytes lib (db_drawn db) = Some key" "key \<noteq> []"
    and "api (back_end lib big matches rest) c db (fst (settings_call Setup_2fa)) (snd (settings_call Setup_2fa)) = (res, c1, db1)"
    and "db2 = db1\<lparr>db_now := later\<rparr>" "signed_in lib db2 c1 cl" "later \<le> clock + 30" "clock \<le> later + 30"
  shows "\<exists>s1 secret digits j db3 me. settings_done e Setup_2fa res s = Done s1 [] \<and>
    st_otpSecret s1 = Some (JStr secret) \<and> base32_decode secret = Some key \<and>
    totpCode key (int (clock div 30)) = Some digits \<and> length digits = 6 \<and>
    api (back_end lib big matches rest) c1 db2 (fst (settings_call (Enable_2fa digits))) (snd (settings_call (Enable_2fa digits))) =
      (Inr j, c1, db3) \<and> field j ''message'' = Some (JStr ''2FA enabled'') \<and>
    db_users db3 = map (\<lambda>v. if ur_id v = cl_uid cl then v\<lparr>ur_otp := True, ur_secret := secret\<rparr> else v) (db_users db) \<and>
    api (back_end lib big matches rest) c1 db3 ''/auth/me'' get_init = (Inr me, c1, db3) \<and>
    opt_prop (field me ''data'') ''otp_enabled'' = Some (JBool True)"
proof -
  let ?secret = "base32_encode key"
  let ?set = "\<lambda>v :: user_rec. v\<lparr>ur_secret := ?secret\<rparr>"
  let ?on = "\<lambda>v :: user_rec. v\<lparr>ur_otp := True\<rparr>"
  let ?me = "JObj [(''success'', JBool True), (''data'', sanitizeUser ((?on (?set u))\<lparr>ur_enabled := False\<rparr>))]"
  have out: "res = Inr (JObj [(''success'', JBool True), (''data'', JObj [(''secret'', JStr ?secret),
        (''qr_code'', JStr (otp_url (ur_username u) ?secret))])])" "c1 = c"
    "db1 = update_row ?set cl (db\<lparr>db_drawn := db_drawn db + 1\<rparr>)"
    using assms(7) setup_call [OF assms(1,2,3-5)] by (simp_all add: settings_call_def)
  have u2: "row_of db2 cl = Some (?set u)"
    using row_of_update [of "db\<lparr>db_drawn := db_drawn db + 1\<rparr>" cl u ?set] assms(4)
    by (simp add: assms(8) out(3) row_of_def update_row_def)
  obtain digits where code: "totpCode key (int (clock div 30)) = Some digits" "length digits = 6"
    by (rule six_digit_code)
  define db3 where "db3 = update_row ?on cl db2"
  have "Enable2FA_handler lib db2 cl (enable_body digits) = (db3, go_message (al_enc lib) ''2FA enabled'')"
    unfolding db3_def by (rule enable_served [OF u2 _ assms(6) _ _ code]) (use assms(8,10,11) in simp_all)
  note enabled = enable_call [OF assms(1,2,9) this, where big = big and rest = rest]
  have "signed_in lib db3 c1 cl" by (rule signed_in_then [OF assms(9)]) (simp add: db3_def)
  moreover have "row_of db3 cl = Some (?on (?set u))" using row_of_update [OF u2, of ?on] by (simp add: db3_def)
  ultimately have me: "api (back_end lib big matches rest) c1 db3 ''/auth/me'' get_init = (Inr ?me, c1, db3)"
    by (rule me_call [OF assms(1,2)])
  have users: "db_users db3 = map (\<lambda>v. if ur_id v = cl_uid cl then v\<lparr>ur_otp := True, ur_secret := ?secret\<rparr> else v) (db_users db)"
    by (simp add: db3_def assms(8) out(3) update_row_def comp_def)
  obtain s1 where "settings_done e Setup_2fa res s = Done s1 []" "st_otpSecret s1 = Some (JStr ?secret)"
    by (simp add: settings_done_def out(1) take_setup_def otp_msg_def opt_prop_def)
  with enabled me users code show ?thesis
    by - (rule exI [of _ s1], rule exI [of _ ?secret], rule exI [of _ digits],
        rule exI [of _ "JObj [(''success'', JBool True), (''message'', JStr ''2FA enabled'')]"], rule exI [of _ db3],
        rule exI [of _ ?me],
        simp add: settings_call_def base32_roundtrip sanitizeUser_def field_def opt_prop_def)
qed

subsection \<open>Sign-in\<close>

text \<open>The accounts with other two-factor columns.\<close>

definition with_otp :: "(user_rec \<Rightarrow> bool) \<Rightarrow> (user_rec \<Rightarrow> string) \<Rightarrow> auth_db \<Rightarrow> auth_db" where
  "with_otp f g db = db\<lparr>db_users := map (\<lambda>v. v\<lparr>ur_otp := f v, ur_secret := g v\<rparr>) (db_users db)\<rparr>"

lemma with_otp_simps [simp]:
  "db_tokens (with_otp f g db) = db_tokens db" "db_now (with_otp f g db) = db_now db"
  "db_drawn (with_otp f g db) = db_drawn db"
  "with_otp f g (db\<lparr>db_drawn := n\<rparr>) = (with_otp f g db)\<lparr>db_drawn := n\<rparr>"
  "with_otp f g (db\<lparr>db_tokens := ts\<rparr>) = (with_otp f g db)\<lparr>db_tokens := ts\<rparr>"
  by (simp_all add: with_otp_def)

lemma with_otp_generated:
  "GenerateTokens lib (with_otp f g db) (u\<lparr>ur_otp := x, ur_secret := y\<rparr>) =
    (fst (GenerateTokens lib db u), with_otp f g (snd (GenerateTokens lib db u)))"
  by (simp add: GenerateTokens_def new_claims_def split: option.split)

lemma with_otp_stored: "store_pair lib (with_otp f g db) tp = with_otp f g (store_pair lib db tp)"
  by (simp add: store_pair_def storeRefreshToken_def ValidateToken_def split: option.split)

lemma with_otp_found:
  "find (\<lambda>u. ur_username u = n) (db_users (with_otp f g db)) =
    map_option (\<lambda>v. v\<lparr>ur_otp := f v, ur_secret := g v\<rparr>) (find (\<lambda>u. ur_username u = n) (db_users db))"
  by (simp add: with_otp_def find_map_option)

text \<open>
  C13. Signing in never asks for a second factor. Whatever the two-factor columns of the accounts
  say, a sign-in is answered alike and leaves the same behind: the one difference is the member
  \<open>otp_enabled\<close> in the description of the account.
\<close>

theorem second_factor_never_asked:
  "fst (Login_handler lib big (with_otp f g db) body) = with_otp f g (fst (Login_handler lib big db body)) \<and>
   (snd (Login_handler lib big (with_otp f g db) body) = snd (Login_handler lib big db body) \<or>
    (\<exists>u \<in> set (db_users db). \<exists>tp.
       snd (Login_handler lib big db body) =
         go_success (al_enc lib) (JObj [(''tokens'', tokens_json tp), (''user'', sanitizeUser u)]) \<and>
       snd (Login_handler lib big (with_otp f g db) body) =
         go_success (al_enc lib) (JObj [(''tokens'', tokens_json tp), (''user'', sanitizeUser (u\<lparr>ur_otp := f u\<rparr>))])))"
proof (cases "decode_two ''username'' ''password'' (decode_limited body)")
  case None
  then show ?thesis by (simp add: Login_handler_def Let_def)
next
  case (Some x)
  obtain n pw where x: "x = (n, pw)" by (cases x)
  show ?thesis
  proof (cases "find (\<lambda>u. ur_username u = n) (db_users db)")
    case None
    then show ?thesis by (simp add: Login_handler_def Some x with_otp_found Let_def)
  next
    case found: (Some u)
    then have u: "u \<in> set (db_users db)" using find_SomeD by fastforce
    obtain tp db1 where g: "GenerateTokens lib db u = (tp, db1)" by (cases "GenerateTokens lib db u")
    note same = with_otp_generated [where lib = lib and f = f and g = g and db = db and u = u and x = "f u" and y = "g u", unfolded g fst_conv snd_conv]
    have "sanitizeUser (u\<lparr>ur_otp := f u, ur_secret := g u\<rparr>) = sanitizeUser (u\<lparr>ur_otp := f u\<rparr>)"
      by (simp add: sanitizeUser_def)
    with u found g same show ?thesis
      by (auto simp: Login_handler_def Some x with_otp_found with_otp_stored Let_def split: option.split)
  qed
qed

text \<open>An administrator's session sets up two-factor codes, and verifies a code 40 seconds later.\<close>

definition admin_client :: client where
  "admin_client = stale_client\<lparr>accessToken := Some (JStr (sample_sign sample_claims))\<rparr>"

lemma two_factor_enrolled_witness:
  "\<exists>(s1 :: settings_state) secret digits. st_otpSecret s1 = Some (JStr secret) \<and> base32_decode secret = Some (replicate 20 2) \<and>
     totpCode (replicate 20 2) 1 = Some digits \<and> length digits = 6"
proof -
  let ?net = "back_end sample_lib (\<lambda>_. False) segment_matcher (\<lambda>_ _ _ db _. (db, Response 200 []))"
  let ?key = "replicate 20 2 :: byte list"
  let ?call = "settings_call Setup_2fa"
  have laws: "encodes (al_enc sample_lib)" by (simp add: stringify_encodes)
  have token: "signed_in sample_lib db admin_client sample_claims" if "db_now db < 99" for db
    using that by (simp add: signed_in_def admin_client_def sample_header_token ValidateToken_def sample_parse_sign
        sample_claims_def)
  have row: "row_of sample_db sample_claims = Some admin_rec" "al_bytes sample_lib (db_drawn sample_db) = Some ?key" "?key \<noteq> []"
    by (simp_all add: row_of_def admin_rec_def sample_claims_def)
  have now: "signed_in sample_lib sample_db admin_client sample_claims" by (rule token) simp
  obtain res db1 where out: "api ?net admin_client sample_db (fst ?call) (snd ?call) = (res, admin_client, db1)"
    using setup_call [OF segment_matcher_law laws now row(1,2), of "\<lambda>_. False" "\<lambda>_ _ _ db _. (db, Response 200 [])"]
    by (simp add: settings_call_def)
  have later: "signed_in sample_lib (db1\<lparr>db_now := 40\<rparr>) admin_client sample_claims" by (rule token) simp
  have "(40::nat) \<le> 50 + 30" "(50::nat) \<le> 40 + 30" by simp_all
  from two_factor_enrolled [OF segment_matcher_law laws now row out refl later this,
      of "\<lparr>env_lang = En, env_user = None, env_data = None, env_loading = False\<rparr>" settings_init] show ?thesis
    by (simp del: replicate.simps) blast
qed

end
