(* ===== verification/Acl.thy ===== *)
theory Acl
  imports Netip
begin

text \<open>
  Access lists (\<open>pkg/acl/matcher.go\<close>) beside the check that the handlers make of their entries
  (\<open>pkg/validator\<close>, \<open>IPOrCIDR\<close>): which entries are read, and whom the lists admit.
\<close>

unbundle bit_operations_syntax

datatype acl_entry = Network ip_prefix | Single ip_addr

definition parseEntry :: "string \<Rightarrow> acl_entry option" where
  "parseEntry raw =
     (case ParsePrefix raw of Some p \<Rightarrow> Some (Network p) | None \<Rightarrow> map_option Single (ParseAddr raw))"

fun entry_match :: "ip_addr \<Rightarrow> acl_entry \<Rightarrow> bool" where
  "entry_match a (Network p) = Contains p a"
| "entry_match a (Single b) = (b = a)"

definition acl_Load :: "string list \<Rightarrow> acl_entry list" where
  "acl_Load raws = List.map_filter parseEntry raws"

definition parse_peer :: "string \<Rightarrow> ip_addr option" where
  "parse_peer s =
     (case ParseAddr s of
        Some a \<Rightarrow> Some a
      | None \<Rightarrow> (case SplitHostPort s of None \<Rightarrow> None | Some host \<Rightarrow> ParseAddr host))"

definition IsAllowed :: "string list \<Rightarrow> string list \<Rightarrow> string \<Rightarrow> bool" where
  "IsAllowed whitelist blacklist peer =
     (case parse_peer peer of
        None \<Rightarrow> False
      | Some a \<Rightarrow>
          if list_ex (entry_match a) (acl_Load blacklist) then False
          else if acl_Load whitelist \<noteq> [] then list_ex (entry_match a) (acl_Load whitelist)
          else True)"

subsection \<open>Dotted addresses\<close>

text \<open>As \<open>net.IP\<close> prints them.\<close>

definition v4_fields :: "32 word \<Rightarrow> nat list" where
  "v4_fields w = map (\<lambda>i. unat (ucast (drop_bit (8 * i) w) :: 8 word)) [3, 2, 1, 0]"

definition v4_text :: "32 word \<Rightarrow> string" where
  "v4_text w = js_join ''.'' (map show_nat (v4_fields w))"

lemma show_nat_zero_iff: "hd (show_nat n) = CHR ''0'' \<longleftrightarrow> n = 0"
  using show_nat_hd [of n] by (auto simp: show_nat_zero)

lemma ipv4_field_show:
  assumes "n \<le> 255"
  shows "ipv4_field (show_nat n) = Some n"
proof -
  have "hd (show_nat n) = CHR ''0'' \<Longrightarrow> length (show_nat n) = 1" by (simp add: show_nat_zero_iff show_nat_zero)
  moreover have "list_all is_digit (show_nat n)" using show_nat_digits by (simp add: list_all_iff)
  ultimately show ?thesis using assms by (simp add: ipv4_field_def show_nat_nonempty digits_val_show)
qed

lemma v4_fields_ok: "length (v4_fields w) = 4" "\<forall>n \<in> set (v4_fields w). n \<le> 255" "of_fields 8 (v4_fields w) = w"
proof -
  show "length (v4_fields w) = 4" by (simp add: v4_fields_def)
  have "unat x \<le> 255" for x :: "8 word"
  proof -
    have "unat x < 2 ^ LENGTH(8)" by (rule unsigned_less)
    then show ?thesis by simp
  qed
  then show "\<forall>n \<in> set (v4_fields w). n \<le> 255" by (auto simp: v4_fields_def)
  show "of_fields 8 (v4_fields w) = w"
    by (rule bit_word_eqI) (auto simp: of_fields_def v4_fields_def bit_simps not_less; rule ccontr; simp)
qed

lemma digits_dotless: "\<forall>x \<in> set (map show_nat ns). c \<notin> set x" if "\<not> is_digit c"
  using that show_nat_digits by auto

lemma v4_text_fields: "parseIPv4Fields (v4_text w) = Some (v4_fields w)"
proof -
  have "v4_fields w \<noteq> []" using v4_fields_ok(1) [of w] by auto
  moreover have "\<not> is_digit CHR ''.''" by code_simp
  ultimately have "js_split ''.'' (v4_text w) = map show_nat (v4_fields w)"
    unfolding v4_text_def by (intro js_split_join_char digits_dotless) auto
  moreover have "map ipv4_field (map show_nat (v4_fields w)) = map Some (v4_fields w)"
    using v4_fields_ok(2) [of w] by (simp add: ipv4_field_show)
  moreover have "map the (map Some ns) = ns" for ns :: "nat list" by (induction ns) simp_all
  ultimately show ?thesis using v4_fields_ok(1) [of w] by (auto simp: parseIPv4Fields_def simp del: map_map)
qed

lemma find_skip: "\<forall>x \<in> set xs. \<not> P x \<Longrightarrow> find P (xs @ ys) = find P ys"
  by (induction xs) auto

lemma v4_first_stop: "find (\<lambda>c. c \<in> {CHR ''.'', CHR '':'', CHR ''%''}) (v4_text w) = Some CHR ''.''"
proof -
  obtain a b c d where f: "v4_fields w = [a, b, c, d]"
    using v4_fields_ok(1) [of w] by (auto simp: length_Suc_conv numeral_eq_Suc)
  have "\<forall>c \<in> set (show_nat a). c \<notin> {CHR ''.'', CHR '':'', CHR ''%''}"
    using show_nat_digits [of a] by (auto simp: is_digit_def code_def)
  from find_skip [OF this] show ?thesis by (simp add: v4_text_def f)
qed

lemma v4_text_parses: "ParseAddr (v4_text w) = Some (V4 w)"
  using v4_first_stop [of w] by (simp add: ParseAddr_def v4_text_fields v4_fields_ok(3))

lemma v4_text_slash: "CHR ''/'' \<notin> set (v4_text w)"
proof -
  have "set (js_join sep xs) \<subseteq> set sep \<union> \<Union> (set ` set xs)" for sep xs
    by (induction sep xs rule: js_join.induct) auto
  moreover have "\<not> is_digit CHR ''/''" by code_simp
  ultimately show ?thesis using show_nat_digits by (fastforce simp: v4_text_def)
qed

subsection \<open>What is read\<close>

lemma split_first_some: "c \<notin> set a \<Longrightarrow> split_first c (a @ c # b) = Some (a, b)"
proof -
  assume c: "c \<notin> set a"
  have "takeWhile (\<lambda>x. x \<noteq> c) (a @ c # b) = a" using c by (induction a) auto
  moreover have "dropWhile (\<lambda>x. x \<noteq> c) (a @ c # b) = c # b" using c by (induction a) auto
  ultimately show ?thesis by (simp add: split_first_def)
qed

lemma split_first_someD: "split_first c s = Some (a, b) \<Longrightarrow> s = a @ c # b \<and> c \<notin> set a"
proof -
  assume c: "split_first c s = Some (a, b)"
  then have "c \<in> set s" by (simp add: split_first_def split: if_splits)
  then obtain u v where s: "s = u @ c # v" "c \<notin> set u" by (meson split_list_first)
  with c split_first_some [of c u v] show ?thesis by simp
qed

lemma slash_digit: "list_all is_digit m \<Longrightarrow> CHR ''/'' \<notin> set m"
proof
  assume "list_all is_digit m" "CHR ''/'' \<in> set m"
  then have "is_digit CHR ''/''" by (auto simp: list_all_iff)
  moreover have "\<not> is_digit CHR ''/''" by code_simp
  ultimately show False by blast
qed

lemma prefix_parsed:
  assumes "list_all is_digit m"
  shows "ParsePrefix (a @ CHR ''/'' # m) =
    (case (ParseAddr a, prefix_bits m) of
       (Some x, Some n) \<Rightarrow> if zone x = [] \<and> n \<le> bit_len x then Some (x, n) else None | _ \<Rightarrow> None)"
proof -
  have "split_first CHR ''/'' (rev (a @ CHR ''/'' # m)) = Some (rev m, rev a)"
    using split_first_some [of "CHR ''/''" "rev m" "rev a"] slash_digit [OF assms] by simp
  then show ?thesis by (simp add: ParsePrefix_def split: option.split)
qed

text \<open>
  What the handlers' check lets through is read, but for networks whose length is written with a
  leading zero: \<open>dtoi\<close> takes those, \<open>ParsePrefix\<close> does not, and no address has a \<open>/\<close>.
\<close>

definition zero_led :: "string \<Rightarrow> bool" where
  "zero_led v \<longleftrightarrow> (\<exists>a m. v = a @ CHR ''/'' # m \<and> list_all is_digit m \<and> 1 < length m \<and> hd m = CHR ''0'')"

lemma accepted_read:
  assumes "IPOrCIDR v"
  shows "parseEntry v \<noteq> None \<or> zero_led v"
proof (cases "ParseIP_ok v")
  case True
  then show ?thesis by (auto simp: ParseIP_ok_def parseEntry_def split: option.splits)
next
  case False
  with assms obtain a m x where v: "split_first CHR ''/'' v = Some (a, m)" "ParseAddr a = Some x" "zone x = []" "m \<noteq> []"
    "list_all is_digit m" "digits_val m \<le> bit_len x"
    by (auto simp: IPOrCIDR_def ParseCIDR_ok_def split: option.splits)
  then have s: "v = a @ CHR ''/'' # m" using split_first_someD by blast
  show ?thesis
  proof (cases "1 < length m \<and> hd m = CHR ''0''")
    case True
    with s v(5) show ?thesis by (auto simp: zero_led_def)
  next
    case False
    then have "prefix_bits m = Some (digits_val m)" using v(4,5) by (auto simp: prefix_bits_def)
    with v(2,3,6) show ?thesis by (simp add: parseEntry_def s prefix_parsed [OF v(5)])
  qed
qed

text \<open>IPv4 networks and addresses, as the entries write them.\<close>

definition v4_net :: "32 word \<times> nat \<Rightarrow> string" where
  "v4_net = (\<lambda>(p, n). v4_text p @ CHR ''/'' # show_nat n)"

definition v4_net_zero :: "32 word \<times> nat \<Rightarrow> string" where
  "v4_net_zero = (\<lambda>(p, n). v4_text p @ ''/0'' @ show_nat n)"

definition in_net :: "32 word \<Rightarrow> 32 word \<times> nat \<Rightarrow> bool" where
  "in_net a = (\<lambda>(p, n). drop_bit (32 - n) a = drop_bit (32 - n) p)"

lemma show_nat_list: "list_all is_digit (show_nat n)"
  using show_nat_digits by (simp add: list_all_iff)

lemma net_read:
  assumes "n \<le> 32"
  shows "parseEntry (v4_net (p, n)) = Some (Network (V4 p, n))"
proof -
  have "1 < length (show_nat n) \<longrightarrow> hd (show_nat n) \<noteq> CHR ''0''" by (cases "n = 0") (simp_all add: show_nat_zero_iff show_nat_zero)
  then have "prefix_bits (show_nat n) = Some n" by (simp add: prefix_bits_def show_nat_list show_nat_nonempty digits_val_show)
  with assms show ?thesis by (simp add: parseEntry_def v4_net_def prefix_parsed [OF show_nat_list] v4_text_parses)
qed

lemma net_match: "entry_match (V4 a) (Network (V4 p, n)) = in_net a (p, n)"
proof -
  have "drop_bit k (a XOR p) = drop_bit k a XOR drop_bit k p" for k by (rule drop_bit_xor)
  moreover have "x XOR y = 0 \<longleftrightarrow> x = y" for x y :: "32 word" by (auto simp: bit_eq_iff bit_xor_iff)
  ultimately show ?thesis by (simp add: in_net_def)
qed

lemma fields_chars:
  assumes "parseIPv4Fields s = Some fs" "c \<in> set s"
  shows "is_digit c \<or> c = CHR ''.''"
proof -
  have "set (js_join sep xs) \<subseteq> set sep \<union> \<Union> (set ` set xs)" for sep xs
    by (induction sep xs rule: js_join.induct) auto
  from this [of "''.''" "js_split ''.'' s"] assms(2) have "c = CHR ''.'' \<or> (\<exists>x \<in> set (js_split ''.'' s). c \<in> set x)"
    by (auto simp: js_split_join)
  moreover have "is_digit c" if x: "x \<in> set (js_split ''.'' s)" "c \<in> set x" for x
  proof -
    have "None \<notin> ipv4_field ` set (js_split ''.'' s)" using assms(1) by (auto simp: parseIPv4Fields_def Let_def split: if_splits)
    with x(1) have "ipv4_field x \<noteq> None" by (metis image_eqI)
    with x(2) show ?thesis by (auto simp: ipv4_field_def list_all_iff split: if_splits)
  qed
  ultimately show ?thesis by blast
qed

lemma net_zero_dropped:
  assumes "n \<le> 32"
  shows "parseEntry (v4_net_zero (p, n)) = None" "IPOrCIDR (v4_net_zero (p, n))"
proof -
  let ?m = "CHR ''0'' # show_nat n"
  let ?v = "v4_net_zero (p, n)"
  have v: "?v = v4_text p @ CHR ''/'' # ?m" by (simp add: v4_net_zero_def)
  have m: "list_all is_digit ?m" "digits_val ?m = n"
    using digits_val_show [of n] show_nat_list by (simp_all add: is_digit_def code_def digits_val_def)
  have "ParsePrefix ?v = None" unfolding v prefix_parsed [OF m(1)] by (simp add: prefix_bits_def show_nat_nonempty split: option.split)
  moreover have "ParseAddr ?v = None"
  proof -
    have "find P (xs @ ys) = Some c" if "find P xs = Some c" for P :: "char \<Rightarrow> bool" and xs ys c
      using that by (induction xs) (auto split: if_splits)
    from this [OF v4_first_stop] have "ParseAddr ?v = map_option (\<lambda>fs. V4 (of_fields 8 fs)) (parseIPv4Fields ?v)"
      by (simp add: ParseAddr_def v)
    moreover have "\<not> is_digit CHR ''/''" by code_simp
    then have "parseIPv4Fields ?v = None" using fields_chars [of ?v _ "CHR ''/''"] by (cases "parseIPv4Fields ?v") (auto simp: v)
    ultimately show ?thesis by simp
  qed
  ultimately show "parseEntry ?v = None" by (simp add: parseEntry_def)
  have "ParseCIDR_ok ?v"
    using assms m split_first_some [OF v4_text_slash, of p ?m] by (simp add: ParseCIDR_ok_def v v4_text_parses)
  then show "IPOrCIDR ?v" by (simp add: IPOrCIDR_def v)
qed

lemma nets_loaded:
  assumes "\<forall>(p, n) \<in> set ns. n \<le> 32"
  shows "acl_Load (map v4_net ns) = map (\<lambda>(p, n). Network (V4 p, n)) ns" "acl_Load (map v4_net_zero ns) = []"
  using assms by (induction ns) (auto simp: acl_Load_def List.map_filter_simps net_read net_zero_dropped)

lemma nets_match: "list_ex (entry_match (V4 a)) (map (\<lambda>(p, n). Network (V4 p, n)) ns) = (\<exists>x \<in> set ns. in_net a x)"
  by (auto simp: list_ex_iff net_match split_beta simp del: entry_match.simps)

text \<open>
  C11. Whom access lists admit, and which of their entries count. Of IPv4 networks the blacklist's
  come first: an address in one of them is refused; the others are admitted if a network of the
  whitelist has them or the whitelist has none. Every entry that the handlers let through is read
  but those that write a network's length with a leading zero: they pass the check and are dropped,
  so a whitelist of such entries admits everybody.
\<close>

theorem access_lists_decide:
  assumes "\<forall>(p, n) \<in> set (white @ black @ zeros). n \<le> 32"
  shows "IsAllowed (map v4_net white @ map v4_net_zero zeros) (map v4_net black) (v4_text a) =
      (\<not> (\<exists>x \<in> set black. in_net a x) \<and> (white = [] \<or> (\<exists>x \<in> set white. in_net a x))) \<and>
    (\<forall>v \<in> set (map v4_net_zero zeros). IPOrCIDR v) \<and>
    (\<forall>v. IPOrCIDR v \<longrightarrow> parseEntry v \<noteq> None \<or> zero_led v)"
proof -
  have "acl_Load (xs @ ys) = acl_Load xs @ acl_Load ys" for xs ys by (simp add: acl_Load_def List.map_filter_def)
  with assms have "IsAllowed (map v4_net white @ map v4_net_zero zeros) (map v4_net black) (v4_text a) =
      (\<not> (\<exists>x \<in> set black. in_net a x) \<and> (white = [] \<or> (\<exists>x \<in> set white. in_net a x)))"
    by (simp add: IsAllowed_def parse_peer_def v4_text_parses nets_loaded nets_match)
  moreover have "IPOrCIDR (v4_net_zero x)" if "x \<in> set zeros" for x
  proof -
    obtain p n where x: "x = (p, n)" by (cases x)
    with that assms have "n \<le> 32" by (auto dest: bspec [of _ _ x])
    then show ?thesis unfolding x by (rule net_zero_dropped)
  qed
  ultimately show ?thesis using accepted_read by auto
qed

text \<open>A whitelist of \<open>10.0.0.0/08\<close> lets \<open>8.8.8.8\<close> in.\<close>

lemma access_lists_decide_witness:
  "v4_net_zero (0x0a000000, 8) = ''10.0.0.0/08'' \<and> IPOrCIDR ''10.0.0.0/08'' \<and>
    IsAllowed [''10.0.0.0/08''] [] (v4_text 0x08080808) \<and> \<not> IsAllowed [''10.0.0.0/8''] [] (v4_text 0x08080808)"
proof -
  let ?net = "(0x0a000000, 8) :: 32 word \<times> nat"
  have "v4_fields 0x0a000000 = [10, 0, 0, 0]" by (simp add: v4_fields_def)
  moreover have "show_nat 10 = ''10''" "show_nat 8 = ''8''" "show_nat 0 = ''0''" by code_simp+
  ultimately have t: "v4_net_zero ?net = ''10.0.0.0/08''" "v4_net ?net = ''10.0.0.0/8''"
    by (simp_all add: v4_net_zero_def v4_net_def v4_text_def)
  have "\<not> in_net 0x08080808 ?net" by (simp add: in_net_def)
  moreover have zero: "\<forall>(p, n) \<in> set ([] @ [] @ [?net]). n \<le> 32" and plain: "\<forall>(p, n) \<in> set ([?net] @ [] @ []). n \<le> 32" by simp_all
  ultimately show ?thesis
    using access_lists_decide [OF zero, of "0x08080808"] access_lists_decide [OF plain, of "0x08080808"] t by simp
qed

end
