(* ===== verification/Forward_Engine.thy ===== *)
theory Forward_Engine
  imports Engine_Events Proxy_Engine Acl
begin

text \<open>
  Port forwarding (\<open>internal/engine/forward/forward.go\<close>) beside the table of
  forwarding rules: which rules run, and how many may connect at a time. A rule that runs is
  its value; that its listeners follow it, and the copying of bytes, are left out.
\<close>

subsection \<open>Rules\<close>

record forward_rule =
  fr_id :: string
  fr_protocol :: string
  fr_listen :: "string \<times> int"
  fr_target :: "string \<times> int"
  fr_max :: int
  fr_wl :: "string list"
  fr_bl :: "string list"
  fr_enabled :: bool

definition forward_rule_of :: "module_db \<Rightarrow> gstruct \<Rightarrow> forward_rule" where
  "forward_rule_of db x =
     (let vals = (\<lambda>table. map snd (list_entries (load_list K_acl table (row_id x) db)))
      in \<lparr>fr_id = row_id x, fr_protocol = text_col x ''protocol'',
          fr_listen = (text_col x ''listen_addr'', int_of x ''listen_port''),
          fr_target = (text_col x ''target_addr'', int_of x ''target_port''), fr_max = int_of x ''max_conns'',
          fr_wl = vals ''forward_whitelist'', fr_bl = vals ''forward_blacklist'', fr_enabled = bool_of x ''enabled''\<rparr>)"

definition ForwardRules :: "module_db \<Rightarrow> forward_rule list" where
  "ForwardRules db = rules_read forward_rule_of db"

definition loadForwardRule :: "module_db \<Rightarrow> string \<Rightarrow> forward_rule option" where
  "loadForwardRule db i = rule_read forward_rule_of db i"

subsection \<open>What runs\<close>

type_synonym forward_rules = "string \<Rightarrow> forward_rule option"

definition forward_Start :: "module_db \<Rightarrow> forward_rules" where
  "forward_Start db = engine_Start fr_id fr_enabled (ForwardRules db)"

definition forward_Reload :: "forward_rule \<Rightarrow> forward_rules \<Rightarrow> forward_rules" where
  "forward_Reload = engine_Reload fr_id fr_enabled"

definition forward_Remove :: "string \<Rightarrow> forward_rules \<Rightarrow> forward_rules" where
  "forward_Remove = engine_Remove"

text \<open>A tick of the watchdog: what it finds to be started or stopped in the table.\<close>

definition forward_watchdog :: "module_db \<Rightarrow> forward_rules \<Rightarrow> forward_rules" where
  "forward_watchdog db e =
     fold (\<lambda>r e. case e (fr_id r) of
         Some _ \<Rightarrow> if \<not> fr_enabled r then e(fr_id r := None) else e
       | None \<Rightarrow> if fr_enabled r then e(fr_id r \<mapsto> r) else e) (ForwardRules db) e"

definition forward_event :: "module_db \<Rightarrow> string \<times> string \<times> string \<Rightarrow> forward_rules \<Rightarrow> forward_rules" where
  "forward_event = engine_event ''forward'' forward_rule_of fr_id fr_enabled"

text \<open>A request to the handlers, or a tick.\<close>

fun forward_step :: "module_lib \<Rightarrow> module_request option \<Rightarrow> module_db \<times> forward_rules \<Rightarrow> module_db \<times> forward_rules" where
  "forward_step lib (Some q) s = serve_heard lib (forward_resource lib) forward_event q s"
| "forward_step lib None s = (fst s, forward_watchdog (fst s) (snd s))"

interpretation rf: rule_reader "forward_resource lib" forward_rule_of fr_id
  by unfold_locales (auto simp: forward_resource_def forward_rule_of_def)

lemma fold_idle: "(\<And>r. r \<in> set rs \<Longrightarrow> f r e = e) \<Longrightarrow> fold f rs e = e"
  by (induction rs) simp_all

lemma watchdog_idle:
  assumes "distinct (row_ids db)"
  shows "forward_watchdog db (due forward_rule_of fr_enabled db) = due forward_rule_of fr_enabled db"
proof -
  let ?e = "due forward_rule_of fr_enabled db"
  have "?e (fr_id r) = (if fr_enabled r then Some r else None)" if r: "r \<in> set (ForwardRules db)" for r
  proof -
    obtain x where x: "x \<in> set (md_rows db)" "r = forward_rule_of db x"
      using r by (auto simp: ForwardRules_def rules_read_def)
    with find_row [OF assms x(1)] show ?thesis by (simp add: due_def rule_read_def rf.load_id)
  qed
  then have still: "(case ?e (fr_id r) of Some _ \<Rightarrow> if \<not> fr_enabled r then ?e(fr_id r := None) else ?e
       | None \<Rightarrow> if fr_enabled r then ?e(fr_id r \<mapsto> r) else ?e) = ?e" if "r \<in> set (ForwardRules db)" for r
    using that by simp
  show ?thesis unfolding forward_watchdog_def by (rule fold_idle) (rule still)
qed

text \<open>
  C9. Port forwarding does what the table says. From the engine's start on, whatever rules are
  created, changed, switched and deleted and whenever the watchdog looks, the engine runs exactly
  the enabled rules of the table, each as it is now with its access lists; the watchdog finds
  nothing to do.
\<close>

theorem forward_follows_table:
  assumes "lib_law lib" "db_ok (ml_time lib) (forward_resource lib) db0"
    and "fold (forward_step lib) qs (db0, forward_Start db0) = (db, e)"
  shows "db = fold (module_serve lib (forward_resource lib)) (List.map_filter id qs) db0 \<and> forward_watchdog db e = e \<and>
    (\<forall>i. e i = (case loadForwardRule db i of None \<Rightarrow> None | Some r \<Rightarrow> if fr_enabled r then Some r else None))"
proof -
  let ?due = "due forward_rule_of fr_enabled" and ?R = "forward_resource lib"
  have tells: "re_name ?R = ''forward''" "set (re_tells ?R) = {''created'', ''updated'', ''deleted''}"
    by (simp_all add: forward_resource_def)
  have run: "e = ?due db \<and> db = fold (module_serve lib ?R) (List.map_filter id qs) db1 \<and> distinct (row_ids db)"
    if "db_ok (ml_time lib) ?R db1" "fold (forward_step lib) qs (db1, ?due db1) = (db, e)" for db1
    using that
  proof (induction qs arbitrary: db1)
    case Nil
    then show ?case by (auto simp: List.map_filter_simps db_ok_def)
  next
    case (Cons occ qs)
    show ?case
    proof (cases occ)
      case None
      have "distinct (row_ids db1)" using Cons.prems(1) by (simp add: db_ok_def)
      with Cons None show ?thesis by (simp add: watchdog_idle List.map_filter_simps)
    next
      case (Some q)
      obtain db2 e2 where s: "serve_heard lib ?R forward_event q (db1, ?due db1) = (db2, e2)" by (rule prod.exhaust)
      then have db2: "db2 = module_serve lib ?R q db1" by (auto simp: serve_heard_def Let_def)
      have "e2 = ?due db2"
        using rf.keyed_step [of lib lib fr_enabled q db1 "?due db1" db2 e2] s tells
        by (simp add: forward_event_def runs_only_def)
      moreover have "db_ok (ml_time lib) ?R db2" using tf.serve_ok [OF Cons.prems(1) assms(1)] by (simp add: db2)
      moreover have "fold (forward_step lib) qs (db2, e2) = (db, e)" using Cons.prems(2) Some s by simp
      ultimately have IH: "e = ?due db \<and> db = fold (module_serve lib ?R) (List.map_filter id qs) db2 \<and> distinct (row_ids db)"
        using Cons.IH by blast
      have eq: "fold (module_serve lib ?R) (List.map_filter id (occ # qs)) db1 = fold (module_serve lib ?R) (List.map_filter id qs) db2"
        by (simp add: Some db2 List.map_filter_simps)
      show ?thesis unfolding eq by (rule IH)
    qed
  qed
  have "forward_Start db0 = ?due db0"
    unfolding forward_Start_def ForwardRules_def by (rule rf.started) (use assms(2) in \<open>simp add: db_ok_def\<close>)
  with assms(3) have "fold (forward_step lib) qs (db0, ?due db0) = (db, e)" by simp
  from run [OF assms(2) this] have r: "e = ?due db" "db = fold (module_serve lib ?R) (List.map_filter id qs) db0"
    "distinct (row_ids db)" by blast+
  have "\<forall>i. e i = (case loadForwardRule db i of None \<Rightarrow> None | Some r \<Rightarrow> if fr_enabled r then Some r else None)"
    by (simp add: r(1) due_def loadForwardRule_def)
  with r(2) watchdog_idle [OF r(3)] show ?thesis unfolding r(1) by blast
qed

text \<open>An enabled rule runs when the engine starts, and goes on running when the watchdog looks.\<close>

definition sample_forward :: gstruct where
  "sample_forward =
     [(''id'', V_text ''f''), (''tenant_id'', V_text []), (''owner_id'', V_text []), (''name'', V_text ''n''),
      (''protocol'', V_text ''tcp''), (''listen_addr'', V_text ''0.0.0.0''), (''listen_port'', V_int 80),
      (''target_addr'', V_text ''10.0.0.2''), (''target_port'', V_int 8080), (''enable_ipv6'', V_bool False),
      (''max_conns'', V_int 2), (''enabled'', V_bool True), (''schedule_on'', V_text []), (''schedule_off'', V_text []),
      (''created_at'', V_time zero_time), (''updated_at'', V_time zero_time)]"

definition sample_forwards :: module_db where
  "sample_forwards = empty_db\<lparr>md_rows := [sample_forward]\<rparr>"

lemma sample_forward_id: "row_id sample_forward = ''f''"
  by (simp add: row_id_def gget_def sample_forward_def)

lemma sample_forwards_ok: "db_ok (ml_time sample_module_lib) (forward_resource sample_module_lib) sample_forwards"
proof -
  have "columns (forward_resource sample_module_lib) = map fst sample_forward" by code_simp
  then have "row_ok (ml_time sample_module_lib) (forward_resource sample_module_lib) sample_forward"
    by (simp add: row_ok_def forward_resource_def ForwardRule_fields_def sample_forward_def gget_def sample_module_lib_def)
  then show ?thesis
    by (auto simp: db_ok_def lists_ok_def row_ids_def sample_forwards_def empty_db_def)
qed

lemma forward_follows_table_witness:
  "\<exists>e r. fold (forward_step sample_module_lib) [None, Some (M_time 1)] (sample_forwards, forward_Start sample_forwards) =
       (sample_forwards\<lparr>md_now := 1\<rparr>, e) \<and> e ''f'' = Some r \<and> fr_max r = 2"
proof -
  let ?qs = "[None, Some (M_time 1)]"
  obtain db e where out: "fold (forward_step sample_module_lib) ?qs (sample_forwards, forward_Start sample_forwards) = (db, e)"
    by (rule prod.exhaust)
  note f = forward_follows_table [OF sample_law sample_forwards_ok out]
  have db: "db = sample_forwards\<lparr>md_now := 1\<rparr>" using f by (simp add: List.map_filter_simps sample_forwards_def empty_db_def)
  have "loadForwardRule db ''f'' = Some (forward_rule_of db sample_forward)"
    by (simp add: db loadForwardRule_def rule_read_def sample_forwards_def sample_forward_id)
  moreover have "fr_enabled (forward_rule_of db sample_forward)" "fr_max (forward_rule_of db sample_forward) = 2"
    by (simp_all add: forward_rule_of_def sample_forward_def gget_def bool_of_def int_of_def Let_def)
  ultimately have "e ''f'' = Some (forward_rule_of db sample_forward)" using f by simp
  with out db \<open>fr_max (forward_rule_of db sample_forward) = 2\<close> show ?thesis by blast
qed

subsection \<open>How many at a time\<close>

text \<open>
  The listeners of a rule (\<open>tcp\<close>, \<open>tcp6\<close>) accept at the same time. \<open>AddInt64\<close> is atomic; what it
  returned is compared afterwards, and a connection over the limit takes its increment back:
  \<open>ln_counted\<close> are the connections in between, by what their increment returned.
\<close>

record listeners =
  ln_conns :: int
  ln_counted :: "int list"
  ln_open :: nat

definition ln_init :: listeners where
  "ln_init = \<lparr>ln_conns = 0, ln_counted = [], ln_open = 0\<rparr>"

definition over_limit :: "forward_rule \<Rightarrow> int \<Rightarrow> bool" where
  "over_limit r v \<longleftrightarrow> 0 < fr_max r \<and> fr_max r < v"

inductive listen_step :: "forward_rule \<Rightarrow> listeners \<Rightarrow> listeners \<Rightarrow> bool" for r where
  refused: "\<not> IsAllowed (fr_wl r) (fr_bl r) peer \<Longrightarrow> listen_step r s s"
| accepted: "IsAllowed (fr_wl r) (fr_bl r) peer \<Longrightarrow>
    listen_step r s (s\<lparr>ln_conns := ln_conns s + 1, ln_counted := ln_counted s @ [ln_conns s + 1]\<rparr>)"
| served: "v \<in> set (ln_counted s) \<Longrightarrow> \<not> over_limit r v \<Longrightarrow>
    listen_step r s (s\<lparr>ln_counted := remove1 v (ln_counted s), ln_open := ln_open s + 1\<rparr>)"
| dropped: "v \<in> set (ln_counted s) \<Longrightarrow> over_limit r v \<Longrightarrow>
    listen_step r s (s\<lparr>ln_conns := ln_conns s - 1, ln_counted := remove1 v (ln_counted s)\<rparr>)"
| closed: "0 < ln_open s \<Longrightarrow> listen_step r s (s\<lparr>ln_conns := ln_conns s - 1, ln_open := ln_open s - 1\<rparr>)"

inductive_cases listen_stepE: "listen_step r s s'"

text \<open>The connections that are open or will be: \<open>ln_granted\<close>.\<close>

definition ln_granted :: "forward_rule \<Rightarrow> listeners \<Rightarrow> nat" where
  "ln_granted r s = ln_open s + length (filter (\<lambda>v. \<not> over_limit r v) (ln_counted s))"

definition ln_ok :: "forward_rule \<Rightarrow> listeners \<Rightarrow> bool" where
  "ln_ok r s \<longleftrightarrow> ln_conns s = int (ln_open s + length (ln_counted s)) \<and> (0 < fr_max r \<longrightarrow> int (ln_granted r s) \<le> fr_max r)"

lemma counted_out:
  "v \<in> set xs \<Longrightarrow> length xs = Suc (length (remove1 v xs))"
  "v \<in> set xs \<Longrightarrow> length (filter P xs) = length (filter P (remove1 v xs)) + (if P v then 1 else 0)"
  by (induction xs) auto

lemma listen_step_ok:
  assumes "listen_step r s s'" "ln_ok r s"
  shows "ln_ok r s'"
  using assms(1)
proof cases
  case (accepted peer)
  have s': "ln_granted r s' = ln_granted r s + (if over_limit r (ln_conns s + 1) then 0 else 1)"
    by (simp add: accepted(1) ln_granted_def)
  have "int (ln_granted r s) \<le> ln_conns s" using assms(2) by (simp add: ln_ok_def ln_granted_def)
  moreover have "ln_conns s' = int (ln_open s' + length (ln_counted s'))" using assms(2) by (simp add: accepted(1) ln_ok_def)
  ultimately show ?thesis using assms(2) by (auto simp: ln_ok_def s' over_limit_def)
next
  case (served v)
  note out = counted_out(1) [OF served(2)] counted_out(2) [OF served(2), of "\<lambda>v. \<not> over_limit r v"]
  have "ln_granted r s' = ln_granted r s" using out(2) served(3) by (simp add: served(1) ln_granted_def)
  moreover have "ln_conns s' = int (ln_open s' + length (ln_counted s'))"
    using assms(2) out(1) by (simp add: served(1) ln_ok_def)
  ultimately show ?thesis using assms(2) by (simp add: ln_ok_def)
next
  case (dropped v)
  note out = counted_out(1) [OF dropped(2)] counted_out(2) [OF dropped(2), of "\<lambda>v. \<not> over_limit r v"]
  have "ln_granted r s' = ln_granted r s" using out(2) dropped(3) by (simp add: dropped(1) ln_granted_def)
  moreover have "ln_conns s' = int (ln_open s' + length (ln_counted s'))"
    using assms(2) out(1) by (simp add: dropped(1) ln_ok_def)
  ultimately show ?thesis using assms(2) by (simp add: ln_ok_def)
next
  case closed
  with assms(2) show ?thesis by (auto simp: ln_ok_def ln_granted_def)
qed (use assms(2) in simp)

text \<open>
  C10. A rule's limit of connections holds under every interleaving of its listeners: connections
  that are accepted at once may be counted together before any of them is compared with the limit,
  but never more are served than the limit says; and when none is in between, the counter is the
  number of open connections.
\<close>

theorem forward_limit:
  assumes "(listen_step r)\<^sup>*\<^sup>* ln_init s" "0 < fr_max r"
  shows "int (ln_open s) \<le> fr_max r \<and> ln_conns s = int (ln_open s + length (ln_counted s))"
proof -
  have "ln_ok r s" using assms(1)
  proof induction
    case base
    then show ?case using assms(2) by (simp add: ln_init_def ln_ok_def ln_granted_def)
  next
    case (step s s')
    from listen_step_ok [OF step(2,3)] show ?case .
  qed
  then have "int (ln_granted r s) \<le> fr_max r" "ln_conns s = int (ln_open s + length (ln_counted s))"
    using assms(2) by (simp_all add: ln_ok_def)
  then show ?thesis by (simp add: ln_granted_def)
qed

text \<open>One connection is allowed; two are accepted, the first is served, the second dropped.\<close>

lemma forward_limit_witness:
  "\<exists>r. fr_max r = 1 \<and> (listen_step r)\<^sup>*\<^sup>* ln_init \<lparr>ln_conns = 1, ln_counted = [], ln_open = 1\<rparr> \<and>
     int (ln_open \<lparr>ln_conns = 1, ln_counted = [], ln_open = 1\<rparr>) \<le> 1"
proof -
  let ?r = "\<lparr>fr_id = ''f'', fr_protocol = ''tcp'', fr_listen = ([], 80), fr_target = ([], 80), fr_max = 1, fr_wl = [],
    fr_bl = [''10.0.0.7''], fr_enabled = True\<rparr>"
  have peer: "IsAllowed (fr_wl ?r) (fr_bl ?r) ''10.0.0.1''"
    by code_simp
  let ?s1 = "\<lparr>ln_conns = 1, ln_counted = [1], ln_open = 0\<rparr>" and ?s2 = "\<lparr>ln_conns = 2, ln_counted = [1, 2], ln_open = 0\<rparr>"
    and ?s3 = "\<lparr>ln_conns = 2, ln_counted = [2], ln_open = 1\<rparr>" and ?s4 = "\<lparr>ln_conns = 1, ln_counted = [], ln_open = 1\<rparr>"
  have "listen_step ?r ln_init ?s1" using listen_step.accepted [OF peer, of ln_init] by (simp add: ln_init_def)
  moreover have "listen_step ?r ?s1 ?s2" using listen_step.accepted [OF peer, of ?s1] by simp
  moreover have "listen_step ?r ?s2 ?s3" using listen_step.served [of 1 ?s2 ?r] by (simp add: over_limit_def)
  moreover have "listen_step ?r ?s3 ?s4" using listen_step.dropped [of 2 ?s3 ?r] by (simp add: over_limit_def)
  ultimately have run: "(listen_step ?r)\<^sup>*\<^sup>* ln_init ?s4" by (meson rtranclp.rtrancl_into_rtrancl rtranclp.rtrancl_refl)
  from forward_limit [OF run] run show ?thesis by (intro exI [of _ ?r]) simp
qed

end
