(* ===== verification/Keyed_Engines.thy ===== *)
theory Keyed_Engines
  imports Engine_Events "HOL-Library.Word"
begin

text \<open>
  Two more engines beside their tables: dynamic DNS (\<open>internal/engine/ddns/ddns.go\<close>) and the STUN
  tunnels (\<open>internal/engine/stun/stun.go\<close>). A job or tunnel that runs is its configuration; the
  updates and bindings it makes, and the date an update leaves in its row, are left out.
\<close>

subsection \<open>Dynamic DNS\<close>

record ddns_config =
  dc_id :: string
  dc_name :: string
  dc_provider :: string
  dc_domain :: "string \<times> string"    \<comment> \<open>subdomain and domain\<close>
  dc_record :: "string \<times> int"
  dc_credentials :: gval
  dc_source :: "string \<times> string \<times> string"
  dc_interval :: int
  dc_enabled :: bool

definition ddns_of :: "module_db \<Rightarrow> gstruct \<Rightarrow> ddns_config" where
  "ddns_of db x =
     \<lparr>dc_id = row_id x, dc_name = text_col x ''name'', dc_provider = text_col x ''provider'',
      dc_domain = (text_col x ''sub_domain'', text_col x ''domain''),
      dc_record = (text_col x ''record_type'', int_of x ''ttl''), dc_credentials = gget x ''credentials'',
      dc_source = (text_col x ''get_ip_url'', text_col x ''get_ip_type'', text_col x ''net_interface''),
      dc_interval = int_of x ''interval'', dc_enabled = bool_of x ''enabled''\<rparr>"

definition GetConfigs :: "module_db \<Rightarrow> ddns_config list" where
  "GetConfigs db = rules_read ddns_of db"

definition loadDDNSConfig :: "module_db \<Rightarrow> string \<Rightarrow> ddns_config option" where
  "loadDDNSConfig db i = rule_read ddns_of db i"

definition ddns_Start :: "module_db \<Rightarrow> (string \<Rightarrow> ddns_config option)" where
  "ddns_Start db = engine_Start dc_id dc_enabled (GetConfigs db)"

definition ddns_event :: "module_db \<Rightarrow> string \<times> string \<times> string \<Rightarrow> (string \<Rightarrow> ddns_config option) \<Rightarrow> (string \<Rightarrow> ddns_config option)" where
  "ddns_event = engine_event ''ddns'' ddns_of dc_id dc_enabled"

text \<open>The period of a job in nanoseconds: the product wraps around at 64 bits, the minimum is compared after it.\<close>

definition ddns_period :: "ddns_config \<Rightarrow> int" where
  "ddns_period c = (let interval = sint (word_of_int (dc_interval c * 1000000000) :: 64 word) in if interval < 60 * 1000000000 then 60 * 1000000000 else interval)"

lemma keyed_contracts: "module_server ddns_resource" "module_server stun_resource"
  using module_resource_contract [of undefined M_ddns] module_resource_contract [of undefined M_stun] by simp_all

interpretation rd: rule_reader ddns_resource ddns_of dc_id
  by (intro rule_reader.intro rule_reader_axioms.intro keyed_contracts) (simp_all add: ddns_resource_def ddns_of_def)

subsection \<open>STUN tunnels\<close>

record stun_tunnel =
  st_id :: string
  st_name :: string
  st_protocol :: string
  st_local :: int
  st_remote :: int
  st_server :: string
  st_target :: "string \<times> int"
  st_enabled :: bool

definition tunnel_of :: "module_db \<Rightarrow> gstruct \<Rightarrow> stun_tunnel" where
  "tunnel_of db x =
     \<lparr>st_id = row_id x, st_name = text_col x ''name'', st_protocol = text_col x ''protocol'', st_local = int_of x ''local_port'',
      st_remote = int_of x ''remote_port'', st_server = text_col x ''stun_server'',
      st_target = (text_col x ''target_addr'', int_of x ''target_port''), st_enabled = bool_of x ''enabled''\<rparr>"

definition GetTunnels :: "module_db \<Rightarrow> stun_tunnel list" where
  "GetTunnels db = rules_read tunnel_of db"

definition loadSTUNTunnel :: "module_db \<Rightarrow> string \<Rightarrow> stun_tunnel option" where
  "loadSTUNTunnel db i = rule_read tunnel_of db i"

definition stun_Start :: "module_db \<Rightarrow> (string \<Rightarrow> stun_tunnel option)" where
  "stun_Start db = engine_Start st_id st_enabled (GetTunnels db)"

definition stun_event :: "module_db \<Rightarrow> string \<times> string \<times> string \<Rightarrow> (string \<Rightarrow> stun_tunnel option) \<Rightarrow> (string \<Rightarrow> stun_tunnel option)" where
  "stun_event = engine_event ''stun'' tunnel_of st_id st_enabled"

interpretation rs: rule_reader stun_resource tunnel_of st_id
  by (intro rule_reader.intro rule_reader_axioms.intro keyed_contracts) (simp_all add: stun_resource_def tunnel_of_def)

subsection \<open>What follows the tables, and what does not\<close>

text \<open>
  C30. Dynamic DNS runs exactly the enabled configurations of its table, each as it is, whatever
  requests are served. Of the tunnels nothing runs that is not in the table as it runs, and
  enabled; but the handler of a creation tells nobody, so a tunnel that is created enabled does
  not run, and is listed all the same. Whatever interval a configuration names, even one whose
  nanoseconds wrap around, its job never runs more than once a minute.
\<close>

theorem tunnels_start_late:
  assumes "distinct (row_ids ddns0)" "fold (serve_heard lib ddns_resource ddns_event) qs (ddns0, ddns_Start ddns0) = (ddns, jobs)"
    and "distinct (row_ids stun0)" "fold (serve_heard lib stun_resource stun_event) ps (stun0, stun_Start stun0) = (stun, tunnels)"
    and "serve_heard lib stun_resource stun_event (M_create body) (stun, tunnels) = (stun', tunnels')"
  shows "(\<forall>i. jobs i = (case loadDDNSConfig ddns i of None \<Rightarrow> None | Some c \<Rightarrow> if dc_enabled c then Some c else None)) \<and>
    (\<forall>i r. tunnels i = Some r \<longrightarrow> loadSTUNTunnel stun i = Some r \<and> st_enabled r) \<and>
    (\<forall>i. i \<notin> set (row_ids stun) \<longrightarrow> tunnels' i = None) \<and> (\<forall>i \<in> set (row_ids stun). tunnels' i = tunnels i) \<and>
    (\<forall>c. 60 * 1000000000 \<le> ddns_period c)"
proof -
  have dt: "re_name ddns_resource = ''ddns''" "set (re_tells ddns_resource) = {''created'', ''updated'', ''deleted''}"
    and st: "re_name stun_resource = ''stun''" "set (re_tells stun_resource) = {''updated'', ''deleted''}"
    by (simp_all add: ddns_resource_def stun_resource_def)
  have d0: "ddns_Start ddns0 = due ddns_of dc_enabled ddns0" unfolding ddns_Start_def GetConfigs_def by (rule rd.started [OF assms(1)])
  have s0: "stun_Start stun0 = due tunnel_of st_enabled stun0" unfolding stun_Start_def GetTunnels_def by (rule rs.started [OF assms(3)])
  have "fold (serve_heard lib ddns_resource (engine_event (re_name ddns_resource) ddns_of dc_id dc_enabled)) qs (ddns0, ddns_Start ddns0) = (ddns, jobs)"
    using assms(2) by (simp add: dt ddns_event_def)
  from rd.keyed_run [OF this] have "jobs = due ddns_of dc_enabled ddns" by (simp add: dt d0 runs_only_def)
  moreover have "fold (serve_heard lib stun_resource (engine_event (re_name stun_resource) tunnel_of st_id st_enabled)) ps
      (stun0, stun_Start stun0) = (stun, tunnels)"
    using assms(4) by (simp add: st stun_event_def)
  from rs.keyed_run [OF this, THEN conjunct1] have runs: "runs_only tunnel_of st_enabled stun tunnels"
    by (simp add: st s0 runs_only_def)
  have only: "loadSTUNTunnel stun i = Some r \<and> st_enabled r" if "tunnels i = Some r" for i r
  proof -
    have "due tunnel_of st_enabled stun i = Some r" using runs that unfolding runs_only_def map_le_def by (metis domI)
    then show ?thesis by (auto simp: due_def loadSTUNTunnel_def split: option.splits if_splits)
  qed
  moreover have "tunnels' = tunnels"
  proof -
    have "md_told (fst (resource_Create lib stun_resource stun body)) = md_told stun"
      using rs.created [of stun lib body] by (auto simp: rows_kept_def row_added_def told_by_def st)
    then show ?thesis using assms(5) by (auto simp: serve_heard_def Let_def)
  qed
  moreover have "tunnels i = None" if "i \<notin> set (row_ids stun)" for i
    using only [of i] that by (cases "tunnels i") (auto simp: loadSTUNTunnel_def dest: rule_read_None [THEN iffD2, of _ _ tunnel_of])
  moreover have "60 * 1000000000 \<le> ddns_period c" for c by (simp add: ddns_period_def Let_def)
  ultimately show ?thesis by (simp add: due_def loadDDNSConfig_def)
qed

text \<open>A tunnel named \<open>n\<close>, created enabled in an empty table.\<close>

definition sample_tunnel :: "(string \<times> json) list" where
  "sample_tunnel = [(''name'', JStr ''n''), (''enabled'', JBool True)]"

lemma sample_tunnel_created:
  "\<exists>x. md_rows (module_serve sample_module_lib stun_resource (M_create (stringify (JObj sample_tunnel))) empty_db) = [x] \<and> bool_of x ''enabled''"
proof -
  let ?lib = sample_module_lib
  have fit: "fits_body stun_resource sample_tunnel"
    by (simp add: fits_body_def sample_tunnel_def stun_resource_def STUNTunnel_fields_def field_named_def)
  have "length (stringify (JObj sample_tunnel)) \<le> 50" by code_simp
  then have short: "length (stringify (JObj sample_tunnel)) \<le> maxJSONBodyBytes" by (simp add: maxJSONBodyBytes_def)
  have law: "db_ok (ml_time ?lib) stun_resource empty_db" by (rule rs.empty_ok)
  obtain w where w: "decode_body ?lib stun_resource (stringify (JObj sample_tunnel)) = Some w"
    "\<And>f. f \<in> set (re_fields stun_resource) \<Longrightarrow> gget w (gf_name f) =
       (case map_of sample_tunnel (gf_name f) of None \<Rightarrow> zero_val (gf_kind f) | Some j \<Rightarrow> fit_val (gf_kind f) j)"
    by (rule rs.decode_fits [OF fit short]) blast
  have "fld K_bool ''enabled'' \<in> set (re_fields stun_resource)"
    by (simp add: stun_resource_def STUNTunnel_fields_def)
  from w(2) [OF this] have "gget w ''enabled'' = V_bool True" by (simp add: sample_tunnel_def)
  then have "gget (stamped i t w) ''enabled'' = V_bool True" for i t by (simp add: rs.stamped_gget)
  then have "bool_of (new_row stun_resource (stamped i t w)) ''enabled''" for i t
    by (simp add: bool_of_def new_row_def gget_def columns_def stun_resource_def stun_settings_def STUNTunnel_fields_def)
  moreover have "re_check stun_resource v = None" "re_lists stun_resource = []" for v by (simp_all add: stun_resource_def)
  ultimately show ?thesis
    by (simp add: resource_Create_def w(1) Let_def empty_db_def row_ids_def tell_def del: stringify.simps)
qed

lemma tunnels_start_late_witness:
  "\<exists>stun tunnels x. serve_heard sample_module_lib stun_resource stun_event (M_create (stringify (JObj sample_tunnel)))
       (empty_db, stun_Start empty_db) = (stun, tunnels) \<and>
     md_rows stun = [x] \<and> bool_of x ''enabled'' \<and> tunnels (row_id x) = None"
proof -
  let ?q = "M_create (stringify (JObj sample_tunnel))"
  obtain stun tunnels where s: "serve_heard sample_module_lib stun_resource stun_event ?q (empty_db, stun_Start empty_db) = (stun, tunnels)"
    by (rule prod.exhaust)
  have none: "distinct (row_ids empty_db)" "fold f [] z = z" for f :: "module_request \<Rightarrow> 'z \<Rightarrow> 'z" and z
    by (simp_all add: row_ids_def empty_db_def)
  have "row_id x \<notin> set (row_ids empty_db)" for x by (simp add: row_ids_def empty_db_def)
  moreover from tunnels_start_late [OF none none s] have "\<forall>i. i \<notin> set (row_ids empty_db) \<longrightarrow> tunnels i = None" by blast
  moreover have "stun = module_serve sample_module_lib stun_resource ?q empty_db" using s by (simp add: serve_heard_def Let_def)
  ultimately show ?thesis using sample_tunnel_created s by blast
qed

end
