(* ===== verification/Stun_Message.thy ===== *)
theory Stun_Message
  imports Sha1
begin

text \<open>
  The STUN client (\<open>internal/engine/stun/attributes.go\<close> and \<open>stunBind\<close> of \<open>stun.go\<close>): how an answer
  of a server is read, byte by byte, and which answers are taken. Sockets are what they deliver.
\<close>

unbundle bit_operations_syntax

subsection \<open>Numbers and addresses\<close>

text \<open>\<open>BigEndian.Uint16\<close> at a position, and what writes it.\<close>

definition uint16_at :: "byte list \<Rightarrow> nat \<Rightarrow> 16 word" where
  "uint16_at bs i = push_bit 8 (ucast (bs ! i)) OR ucast (bs ! (i + 1))"

definition put16 :: "16 word \<Rightarrow> byte list" where
  "put16 w = [ucast (drop_bit 8 w), ucast w]"

definition stunMagicCookie :: "32 word" where
  "stunMagicCookie = 0x2112A442"

record udp_addr =
  ua_ip :: "byte list"    \<comment> \<open>4 or 16 bytes\<close>
  ua_port :: "16 word"

definition xor_bytes :: "byte list \<Rightarrow> byte list \<Rightarrow> byte list" where
  "xor_bytes xs ys = map2 (XOR) xs ys"

definition parseAddressValue :: "byte list \<Rightarrow> bool \<Rightarrow> byte list \<Rightarrow> udp_addr option" where
  "parseAddressValue val xored tid =
     (if length val < 4 then None
      else
        let family = val ! 1; port = uint16_at val 2;
            port' = (if xored then port XOR ucast (drop_bit 16 stunMagicCookie) else port)
        in if family = 1 then
             (if length val < 8 then None
              else let ip = take 4 (drop 4 val)
                   in Some \<lparr>ua_ip = if xored then xor_bytes ip (word_bytes stunMagicCookie) else ip, ua_port = port'\<rparr>)
           else if family = 2 then
             (if length val < 20 then None
              else let ip = take 16 (drop 4 val)
                   in Some \<lparr>ua_ip = if xored then xor_bytes ip (word_bytes stunMagicCookie @ tid) else ip, ua_port = port'\<rparr>)
           else None)"

subsection \<open>Attributes\<close>

record stun_attrs =
  sa_mapped :: "udp_addr option"
  sa_error :: "(nat \<times> byte list) option"
  sa_alternate :: "udp_addr option"

definition no_attrs :: stun_attrs where
  "no_attrs = \<lparr>sa_mapped = None, sa_error = None, sa_alternate = None\<rparr>"

definition take_attribute :: "byte list \<Rightarrow> 16 word \<Rightarrow> byte list \<Rightarrow> stun_attrs \<Rightarrow> stun_attrs" where
  "take_attribute tid ty val acc =
     (if ty = 0x0001 then
        (case parseAddressValue val False tid of None \<Rightarrow> acc | Some a \<Rightarrow> acc\<lparr>sa_mapped := Some a\<rparr>)
      else if ty = 0x0020 then
        (case parseAddressValue val True tid of None \<Rightarrow> acc | Some a \<Rightarrow> acc\<lparr>sa_mapped := Some a\<rparr>)
      else if ty = 0x0009 then
        (if 4 \<le> length val
         then acc\<lparr>sa_error := Some (unat (val ! 2 AND 0x07) * 100 + unat (val ! 3), drop 4 val)\<rparr>
         else acc)
      else if ty = 0x8023 then
        (case parseAddressValue val False tid of None \<Rightarrow> acc | Some a \<Rightarrow> acc\<lparr>sa_alternate := Some a\<rparr>)
      else acc)"

definition padded :: "nat \<Rightarrow> nat" where
  "padded pos = (if pos mod 4 = 0 then pos else pos + (4 - pos mod 4))"

text \<open>The loop of \<open>parseAttributes\<close>, over positions.\<close>

function attributes_from :: "byte list \<Rightarrow> byte list \<Rightarrow> nat \<Rightarrow> stun_attrs \<Rightarrow> stun_attrs" where
  "attributes_from data tid pos acc =
     (if length data < pos + 4 then acc
      else
        let ty = uint16_at data pos; len = unat (uint16_at data (pos + 2)); at = pos + 4
        in if length data - at < len then acc
           else attributes_from data tid (padded (at + len)) (take_attribute tid ty (take len (drop at data)) acc))"
  by pat_completeness auto
termination
  by (relation "measure (\<lambda>(data, tid, pos, acc). length data - pos)") (auto simp: padded_def)

declare attributes_from.simps [simp del]

definition parseAttributes :: "byte list \<Rightarrow> byte list \<Rightarrow> stun_attrs" where
  "parseAttributes data tid = attributes_from data tid 0 no_attrs"

subsection \<open>Fingerprints\<close>

text \<open>\<open>crc32.ChecksumIEEE\<close>.\<close>

definition crc_bit :: "32 word \<Rightarrow> 32 word" where
  "crc_bit c = (if bit c 0 then drop_bit 1 c XOR 0xEDB88320 else drop_bit 1 c)"

definition crc32 :: "byte list \<Rightarrow> 32 word" where
  "crc32 bs = NOT (foldl (\<lambda>c b. (crc_bit ^^ 8) (c XOR ucast b)) 0xFFFFFFFF bs)"

function fingerprint_from :: "byte list \<Rightarrow> nat \<Rightarrow> nat option" where
  "fingerprint_from body pos =
     (if length body < pos + 4 then None
      else
        let ty = uint16_at body pos; len = unat (uint16_at body (pos + 2)); at = pos + 4
        in if length body - at < len then None
           else if ty = 0x8028 then Some (20 + pos)
           else fingerprint_from body (padded (at + len)))"
  by pat_completeness auto
termination
  by (relation "measure (\<lambda>(body, pos). length body - pos)") (auto simp: padded_def)

declare fingerprint_from.simps [simp del]

definition fingerprintOffset :: "byte list \<Rightarrow> nat option" where
  "fingerprintOffset pkt = (if length pkt < 24 then None else fingerprint_from (drop 20 pkt) 0)"

definition validFingerprint :: "byte list \<Rightarrow> bool" where
  "validFingerprint pkt =
     (case fingerprintOffset pkt of
        None \<Rightarrow> True
      | Some off \<Rightarrow> off + 8 = length pkt \<and> crc32 (take off pkt) XOR 0x5354554e = be_word (take 4 (drop (off + 4) pkt)))"

subsection \<open>Binding\<close>

record stun_header =
  sh_type :: "16 word"
  sh_length :: "16 word"
  sh_cookie :: "32 word"
  sh_tid :: "byte list"

definition parseHeader :: "byte list \<Rightarrow> stun_header option" where
  "parseHeader data =
     (if length data < 20 then None
      else Some \<lparr>sh_type = uint16_at data 0, sh_length = uint16_at data 2, sh_cookie = be_word (take 4 (drop 4 data)),
        sh_tid = take 12 (drop 8 data)\<rparr>)"

definition buildBindingRequest :: "byte list \<Rightarrow> byte list" where
  "buildBindingRequest random = put16 0x0001 @ put16 0 @ word_bytes stunMagicCookie @ random"

definition reqTID :: "byte list \<Rightarrow> byte list" where
  "reqTID req = take 12 (drop 8 req)"

datatype stun_error =
    Write_failed
  | Deadline_failed
  | Timed_out
  | Read_failed
  | Server_error "(nat \<times> byte list) option" "udp_addr option"
  | No_address
  | All_failed

text \<open>What becomes of a packet: it is passed over (\<open>None\<close>), or decides the call.\<close>

definition take_packet :: "udp_addr \<Rightarrow> byte list \<Rightarrow> udp_addr \<Rightarrow> byte list \<Rightarrow> (stun_error + udp_addr) option" where
  "take_packet server tid remote buf =
     (if remote \<noteq> server then None
      else (case parseHeader buf of
          None \<Rightarrow> None
        | Some hdr \<Rightarrow>
            if sh_cookie hdr \<noteq> stunMagicCookie \<or> sh_tid hdr \<noteq> tid then None
            else
              let n = unat (sh_length hdr); pkt = take (20 + n) buf
              in if length buf < 20 + n then None
                 else if \<not> validFingerprint pkt then None
                 else
                   let attrs = parseAttributes (drop 20 pkt) tid
                   in if sh_type hdr = 0x0111 then Some (Inl (Server_error (sa_error attrs) (sa_alternate attrs)))
                      else if sh_type hdr = 0x0101 then
                        (case sa_mapped attrs of None \<Rightarrow> Some (Inl No_address) | Some a \<Rightarrow> Some (Inr a))
                      else None))"

text \<open>What the socket does in an attempt.\<close>

datatype socket_turn =
    Write_fails
  | Deadline_fails
  | Read_times_out
  | Read_fails
  | Packet udp_addr "byte list"

text \<open>The attempts that are left, and what the socket does in each.\<close>

fun bind_attempts :: "udp_addr \<Rightarrow> byte list \<Rightarrow> nat \<Rightarrow> socket_turn list \<Rightarrow> stun_error + udp_addr" where
  "bind_attempts server tid (Suc left) (Write_fails # r) =
     (if left = 0 then Inl Write_failed else bind_attempts server tid left r)"
| "bind_attempts server tid (Suc left) (Deadline_fails # r) = Inl Deadline_failed"
| "bind_attempts server tid (Suc left) (Read_times_out # r) =
     (if 0 < left then bind_attempts server tid left r else Inl Timed_out)"
| "bind_attempts server tid (Suc left) (Read_fails # r) =
     (if left = 0 then Inl Read_failed else bind_attempts server tid left r)"
| "bind_attempts server tid (Suc left) (Packet remote buf # r) =
     (case take_packet server tid remote buf of None \<Rightarrow> bind_attempts server tid left r | Some res \<Rightarrow> res)"
| "bind_attempts server tid left r = Inl All_failed"

definition maxRetries :: nat where
  "maxRetries = 3"

definition stunBind :: "udp_addr \<Rightarrow> byte list \<Rightarrow> socket_turn list \<Rightarrow> stun_error + udp_addr" where
  "stunBind server random turns = bind_attempts server (reqTID (buildBindingRequest random)) maxRetries turns"

subsection \<open>Reading what a server writes\<close>

lemma put16_length [simp]: "length (put16 w) = 2"
  by (simp add: put16_def)

lemma word_bytes_length [simp]: "length (word_bytes w) = 4"
  by (simp add: word_bytes_def)




























lemma request_id: "length random = 12 \<Longrightarrow> reqTID (buildBindingRequest random) = random"
  by (simp add: reqTID_def buildBindingRequest_def put16_def word_bytes_def)


lemma taken_own:
  assumes "take_packet server tid remote buf = Some (Inr a)"
  shows "remote = server \<and> uint16_at buf 0 = 0x0101 \<and> take 12 (drop 8 buf) = tid \<and>
    20 + unat (uint16_at buf 2) \<le> length buf \<and> validFingerprint (take (20 + unat (uint16_at buf 2)) buf) \<and>
    sa_mapped (parseAttributes (drop 20 (take (20 + unat (uint16_at buf 2)) buf)) tid) = Some a"
  using assms by (auto simp: take_packet_def parseHeader_def Let_def split: if_splits option.splits)

lemma attempts_own:
  "bind_attempts server tid k turns = Inr a \<Longrightarrow>
    \<exists>i buf. i < k \<and> i < length turns \<and> turns ! i = Packet server buf \<and> take_packet server tid server buf = Some (Inr a)"
proof (induction server tid k turns rule: bind_attempts.induct)
  case (5 server tid left remote buf r)
  show ?case
  proof (cases "take_packet server tid remote buf")
    case None
    with 5 obtain i b where "i < left" "i < length r" "r ! i = Packet server b" "take_packet server tid server b = Some (Inr a)"
      by auto
    then show ?thesis by (intro exI [of _ "Suc i"] exI [of _ b]) simp
  next
    case (Some res)
    with "5.prems" have res: "take_packet server tid remote buf = Some (Inr a)" by simp
    with taken_own [OF res] show ?thesis by (intro exI [of _ 0] exI [of _ buf]) simp
  qed
qed (force split: if_splits)+

text \<open>
  C29. Which answers count. An address comes from a packet among the first three that the server
  sent, with the identifier of the request, a coherent length, the type of a success and, where it
  has a fingerprint, the right one. But every packet that is passed over, whoever sent it, uses up
  one of the three attempts: after three of them the call fails, whatever the server sends.
\<close>

theorem stun_own_answer:
  assumes "length random = 12"
  shows "(stunBind server random turns = Inr a \<longrightarrow>
      (\<exists>i < 3. \<exists>buf. i < length turns \<and> turns ! i = Packet server buf \<and> uint16_at buf 0 = 0x0101 \<and>
         take 12 (drop 8 buf) = random \<and> 20 + unat (uint16_at buf 2) \<le> length buf \<and>
         validFingerprint (take (20 + unat (uint16_at buf 2)) buf) \<and>
         sa_mapped (parseAttributes (drop 20 (take (20 + unat (uint16_at buf 2)) buf)) random) = Some a)) \<and>
    (\<forall>p q r. take_packet server random (fst p) (snd p) = None \<and> take_packet server random (fst q) (snd q) = None \<and>
       take_packet server random (fst r) (snd r) = None \<longrightarrow>
       stunBind server random (Packet (fst p) (snd p) # Packet (fst q) (snd q) # Packet (fst r) (snd r) # turns) = Inl All_failed)"
proof (intro conjI impI allI)
  assume "stunBind server random turns = Inr a"
  then have "bind_attempts server random 3 turns = Inr a"
    by (simp add: stunBind_def request_id [OF assms] maxRetries_def)
  from attempts_own [OF this] obtain i buf where i: "i < 3" "i < length turns" "turns ! i = Packet server buf"
    "take_packet server random server buf = Some (Inr a)" by blast
  with taken_own [OF i(4)] show "\<exists>i < 3. \<exists>buf. i < length turns \<and> turns ! i = Packet server buf \<and> uint16_at buf 0 = 0x0101 \<and>
      take 12 (drop 8 buf) = random \<and> 20 + unat (uint16_at buf 2) \<le> length buf \<and>
      validFingerprint (take (20 + unat (uint16_at buf 2)) buf) \<and>
      sa_mapped (parseAttributes (drop 20 (take (20 + unat (uint16_at buf 2)) buf)) random) = Some a" by blast
next
  fix p q r :: "udp_addr \<times> byte list"
  assume "take_packet server random (fst p) (snd p) = None \<and> take_packet server random (fst q) (snd q) = None \<and>
    take_packet server random (fst r) (snd r) = None"
  then show "stunBind server random (Packet (fst p) (snd p) # Packet (fst q) (snd q) # Packet (fst r) (snd r) # turns) = Inl All_failed"
    by (simp add: stunBind_def request_id [OF assms] maxRetries_def numeral_3_eq_3 del: bind_attempts.simps) simp
qed

subsection \<open>Witnesses\<close>

definition sample_server :: udp_addr where
  "sample_server = \<lparr>ua_ip = [198, 51, 100, 7], ua_port = 3478\<rparr>"

definition sample_mapped :: udp_addr where
  "sample_mapped = \<lparr>ua_ip = [192, 0, 2, 1], ua_port = 32853\<rparr>"


lemma stun_own_answer_witness:
  "stunBind sample_server (replicate 12 7)
     [Packet sample_mapped [], Packet sample_mapped [], Packet sample_mapped [], Packet sample_server [1]] = Inl All_failed"
proof -
  have "sample_mapped \<noteq> sample_server" by (simp add: sample_mapped_def sample_server_def)
  then have "take_packet sample_server (replicate 12 7) sample_mapped [] = None" by (simp add: take_packet_def)
  with stun_own_answer [of "replicate 12 7" sample_server "[Packet sample_server [1]]" sample_mapped] show ?thesis
    by (metis fst_conv length_replicate snd_conv)
qed

end
