(* ===== verification/Rate_Limit.thy ===== *)
theory Rate_Limit
  imports Prelude Complex_Main
begin







datatype limit_event = Request real string | Sweep real




primrec clients :: "limit_event list \<Rightarrow> string set" where
  "clients [] = {}"
| "clients (e # es) = (case e of Request now key \<Rightarrow> {key} | Sweep now \<Rightarrow> {}) \<union> clients es"

subsection \<open>What a client may still send\<close>











lemma finite_clients [simp]: "finite (clients es)"
  by (induction es) (auto split: limit_event.split)





end
