(* ===== verification/Client_IP.thy ===== *)
theory Client_IP
  imports Acl
begin

text \<open>
  Whose request it is (\<open>internal/api/middleware/clientip.go\<close>): the peer of the connection, or, when
  the peer is a trusted proxy, the client that the proxy's headers name. Rate limiting, lock-out
  and audit log go by the address found here.
\<close>

unbundle bit_operations_syntax

subsection \<open>Addresses of package \<open>net\<close>\<close>

text \<open>\<open>To4\<close>: an IPv6 address that stands for an IPv4 address is one.\<close>

definition mapped_v4 :: "128 word \<Rightarrow> (32 word) option" where
  "mapped_v4 w = (if drop_bit 32 w = 0xffff then Some (ucast w) else None)"

fun short_form :: "ip_addr \<Rightarrow> ip_addr" where
  "short_form (V4 w) = V4 w"
| "short_form (V6 w z) = (case mapped_v4 w of Some v \<Rightarrow> V4 v | None \<Rightarrow> V6 w [])"

definition ParseIP :: "string \<Rightarrow> ip_addr option" where
  "ParseIP s = (case ParseAddr s of None \<Rightarrow> None | Some a \<Rightarrow> if zone a = [] then Some (short_form a) else None)"






text \<open>\<open>ParseCIDR\<close> and \<open>IPNet.Contains\<close>: a network is masked first and compared in its short form.\<close>

fun masked :: "ip_addr \<Rightarrow> nat \<Rightarrow> ip_prefix" where
  "masked (V4 w) n = (V4 (w AND NOT (mask (32 - n))), n)"
| "masked (V6 w z) n =
     (let m = w AND NOT (mask (128 - n))
      in case mapped_v4 m of Some v \<Rightarrow> (V4 v, n - 96) | None \<Rightarrow> (V6 m [], n))"

definition ParseCIDR :: "string \<Rightarrow> ip_prefix option" where
  "ParseCIDR s =
     (case split_first CHR ''/'' s of
        None \<Rightarrow> None
      | Some (addr, m) \<Rightarrow>
          (case ParseAddr addr of
             None \<Rightarrow> None
           | Some a \<Rightarrow>
               if zone a = [] \<and> m \<noteq> [] \<and> list_all is_digit m \<and> digits_val m \<le> bit_len a
               then Some (masked a (digits_val m)) else None))"

subsection \<open>The resolver\<close>

definition trusted_net :: "string \<Rightarrow> ip_prefix option" where
  "trusted_net s =
     (if CHR ''/'' \<in> set s then ParseCIDR s
      else map_option (\<lambda>a. (a, bit_len a)) (ParseIP s))"

text \<open>\<open>None\<close> is the error; the server then trusts no proxy.\<close>

fun NewClientIPResolver :: "string list \<Rightarrow> ip_prefix list option" where
  "NewClientIPResolver [] = Some []"
| "NewClientIPResolver (s # r) =
     (if go_trim s = [] then NewClientIPResolver r
      else (case (trusted_net (go_trim s), NewClientIPResolver r) of
          (Some n, Some ns) \<Rightarrow> Some (n # ns)
        | _ \<Rightarrow> None))"








subsection \<open>What a client can and cannot choose\<close>

lemma join_nonempty: "xs \<noteq> [] \<Longrightarrow> tl xs \<noteq> [] \<Longrightarrow> sep \<noteq> [] \<Longrightarrow> js_join sep xs \<noteq> []"
  by (cases xs; cases "tl xs") (auto simp: neq_Nil_conv)







end
