(* ===== verification/Spec2Isabelle.thy ===== *)
theory Spec2Isabelle
  imports Rendering Utils Login Settings QA_Runs Status_Hub Audit_Server Webhook_Server Lockout
    Proxy_Runs Silent_Engines Two_Factor Forward_Engine Keyed_Engines Stun_Message Rate_Limit Client_IP
begin

text \<open>
  NetBerth: a web console (React, under \<open>web/src\<close>), the Go back end that serves it (under
  \<open>internal\<close> and \<open>pkg\<close>), and k6 scripts that load it (under \<open>qa\<close>). The console is modelled whole:
  state, handlers, requests and rendered controls of every page. Of the back end the parts the
  console's correctness rests on are modelled: routes, sessions, user management, audit log,
  webhook endpoints, status messages, sign-in lock-out, the tables of the eight modules; and of
  the engines behind those tables the proxy, port forwarding, the jobs of dynamic DNS, the STUN
  client, the scheduler's table of jobs and the FTP sign-in.

  How the parts interact. A page (\<open>web/src/pages\<close>) renders controls from its state, the signed-in
  user and the data of its queries. A control's handler yields a new state and effects: an
  operation to start, a navigation, a question to the user. An operation is a call of \<open>api\<close>
  (\<open>lib/api.ts\<close>), which adds the bearer token, refreshes it once on a 401, and resolves to the
  parsed body; the page's success or failure handler then runs. The store (\<open>stores/auth.ts\<close>) holds
  the user, and the routes (\<open>App.tsx\<close>) decide from it what is shown. On the server a request is
  given its client's address, meets the rate limiter, the router, then sign-in, forced password
  change and role, then its handler, which reads and writes the tables. A change of a module's
  table is told to the notifier, which tells the module's engine and the webhook endpoints, if the
  handler calls it.

  Foundations.
  \<^item> \<open>Prelude\<close>: hint collections (\<open>inv_intros\<close> and others), association lists read as JavaScript
    objects, the locale \<open>codec\<close> (a writer and a reader that undoes it on a set of values).
  \<^item> \<open>JS_Text\<close>: strings as UTF-8 bytes; length in UTF-16 units, trim, split, join,
    \<open>encodeURIComponent\<close>. \<open>JSON\<close>: values, \<open>JSON.stringify\<close>, \<open>JSON.parse\<close> (a parser with fuel:
    twice the length of the text and two, which \<open>json_parse_stringify\<close> shows to be enough for
    every printed value), exceptions. Both interpret \<open>codec\<close>.
  \<^item> \<open>Browser\<close>: \<open>localStorage\<close> behind the locale \<open>kv_store\<close>; \<open>fetch\<close> is a network, a function from
    its state and a request to its state and a result.
  \<^item> \<open>View\<close>: elements, handlers and their reactions, the relation \<open>fires\<close> (which reactions a
    rendered page offers), pages as state machines, and the locale \<open>safe_page\<close>: what every control
    and every success handler keeps holds of every run. \<open>Ui\<close>: the building blocks of
    \<open>components/ui\<close>. \<open>I18n\<close>: dictionary and provider. \<open>Types\<close>: the interfaces of \<open>types/index.ts\<close>
    as descriptions with a conformance check. \<open>Utils\<close>: \<open>lib/utils.ts\<close>.

  The console.
  \<^item> \<open>Api\<close>: the token variables, \<open>refreshAccessToken\<close>, the 403 interceptor and \<open>api\<close>, once as one
    function and once as the step relation \<open>call_step\<close>, in which calls interleave between their
    requests. Its lemmas: the session ends exactly on a refused refresh, at most three requests,
    termination by a measure, tokens and storage agree under every interleaving, and the function
    is what the steps of a call run alone compute (at most eight of them).
  \<^item> \<open>Auth_Store\<close>, \<open>App\<close> (routes and layout; a path settles after at most two redirects), \<open>Login\<close>,
    \<open>Users\<close>, \<open>Audit_Page\<close>, \<open>Settings\<close>, \<open>Webhooks\<close>, \<open>Dashboard\<close>: one page each, with its state
    record, operations, handlers and controls; most interpret \<open>safe_page\<close>.
  \<^item> \<open>Crud\<close>: what the eight module pages share, as the locale \<open>crud_page\<close>; \<open>Forward\<close>, \<open>Proxy\<close>,
    \<open>DDNS\<close>, \<open>STUN\<close>, \<open>WOL\<close>, \<open>Cron\<close>, \<open>ACME\<close>, \<open>Storage\<close> each interpret it on their own form and
    controls; \<open>Crud_Pages\<close> states what holds of all. \<open>Rendering\<close>: well-typed data renders.

  The back end.
  \<^item> \<open>Go_Lib\<close>: \<open>encoding/json\<close> into structs (folded member names, null, duplicates; a decoder reads
    one value and ignores what follows; bodies beyond the handler's limit are refused).
  \<^item> \<open>Auth_Server\<close> and \<open>Sessions\<close>: token pairs (\<open>auth.go\<close>), the sign-in handlers
    (\<open>auth_handler.go\<close>) and the life of a refresh token along runs of them. Signing, hashing and
    random identifiers are the parameter \<open>auth_lib\<close>, with the law \<open>jwt_law\<close> that a token signed is
    a token parsed until it expires; \<open>sample_lib\<close> satisfies it.
  \<^item> \<open>Netip\<close> (on \<open>Digits\<close>): addresses and networks, IPv4 and IPv6, as Go's \<open>net/netip\<close> and \<open>net\<close>
    parse them, into words. \<open>Acl\<close>: access lists (\<open>pkg/acl/matcher.go\<close>) beside the validator's
    check of their entries. \<open>Client_IP\<close>: whose request it is (\<open>middleware/clientip.go\<close>).
    \<open>Rate_Limit\<close>: buckets of tokens (\<open>middleware/ratelimit.go\<close>), with exact reals for Go's floats;
    a potential argument bounds what gets past.
  \<^item> \<open>Sha1\<close>: SHA-1 and HMAC on words. \<open>Otp\<close>: two-factor codes (\<open>auth.go\<close>): base 32 and its round
    trip, the code of a half minute in 32-bit arithmetic. \<open>Two_Factor\<close>: the settings page, the
    three handlers and the codes together, and sign-in.
  \<^item> \<open>Router\<close> and \<open>Back_End\<close>: the routing table (\<open>router.go\<close>), its middleware, and the server as
    the console's network. Handlers that are not modelled are the parameter \<open>rest\<close>, matching of
    paths the parameter \<open>matches\<close>. \<open>Refresh_Race\<close>: the console's refreshing on that network.
  \<^item> \<open>Users_Server\<close>, \<open>Audit_Server\<close>, \<open>Webhook_Server\<close>, \<open>Status_Hub\<close>, \<open>Lockout\<close>: user management,
    audit trail, webhook endpoints, status messages and lock-out, the first four with what the
    console's page sees of them: page, request, handler and answer in one statement. The page
    numbers of the audit log are kept at 64 bits, where their product can wrap around.
  \<^item> \<open>Go_Struct\<close>: structs as \<open>encoding/json\<close> reads and writes them. \<open>Resource_Server\<close>: the handlers
    \<open>Create\<close>, \<open>Update\<close>, \<open>Delete\<close> and \<open>List\<close> that the eight modules repeat, over a description
    (\<open>resource\<close>) of the struct, its columns, lists, check and notifier calls; times, UUIDs, the
    encoder and \<open>url.Parse\<close> are the parameter \<open>module_lib\<close> with the law \<open>lib_law\<close>
    (\<open>sample_module_lib\<close> satisfies it). Its invariant \<open>db_ok\<close> is proved once, in the locale
    \<open>module_server\<close>. \<open>Resource_Lists\<close>: the access lists of a rule. \<open>Resource_Saves\<close>: what a
    decoded body leaves in the row. \<open>Resource_Toggle\<close>: a listed row sent back with \<open>enabled\<close>
    turned, in the locale \<open>toggled_server\<close>, which extends the first. \<open>Module_Servers\<close>: the eight
    descriptions (\<open>forward_handler.go\<close>, \<open>proxy_handler.go\<close>, \<open>ddns_handler.go\<close>,
    \<open>module_handlers.go\<close>) and the validators; the locales are interpreted on all eight and on the
    two that have lists. \<open>Module_Runs\<close> and \<open>Module_Sessions\<close>: the module pages of the console on
    these handlers.
  \<^item> \<open>Engine_Events\<close>: what an engine behind a table is told and reads again (\<open>service/notifier.go\<close>,
    \<open>service/wire.go\<close>), in the locale \<open>rule_reader\<close>, which extends \<open>module_server\<close>; engines that
    keep what they run by identifier. \<open>Forward_Engine\<close> interprets it: which forwarding rules run
    (\<open>engine/forward/forward.go\<close>), and the connections of a rule as the step relation
    \<open>listen_step\<close>, in which its listeners interleave.
  \<^item> \<open>Proxy_Engine\<close> and \<open>Proxy_Runs\<close>: the reverse proxy (\<open>engine/proxy/proxy.go\<close>) beside the table
    of its rules, on \<open>Engine_Events\<close> as well; the order in which Go walks a map is the parameter
    \<open>pick\<close>. \<open>Keyed_Engines\<close>: dynamic DNS (\<open>engine/ddns/ddns.go\<close>) and the tunnels
    (\<open>engine/stun/stun.go\<close>) beside their tables. \<open>Stun_Message\<close>: the messages of the STUN client
    byte by byte, CRC included, and its three attempts. \<open>Silent_Engines\<close>: the scheduler
    (\<open>engine/cron/cron.go\<close>; the schedules its library takes are the parameter \<open>ok\<close>) and the FTP
    sign-in (\<open>engine/storage/storage.go\<close>), whose tables' handlers tell the notifier nothing.

  Load scripts. \<open>K6\<close> models what they use of k6; \<open>Load\<close> and \<open>Soak\<close> are the two scripts; \<open>QA_Runs\<close>
  runs their scenarios on the modelled back end.

  What the properties show. That requests carry what the page may send and reach a registered
  route of the right role; that sessions start, renew and end as the protocol says, and how they
  fail (two calls that refresh at once, answers whose status nobody looks at); that every refresh
  token works once; that two-factor codes can be enrolled, and are asked for by nobody; that
  administrators cannot lock themselves out and guessers are locked out, that clients are limited,
  and under which address; whom access lists admit; that the address a STUN server writes is the
  one read; that well-typed data never makes a page throw; that lists, paging, saving and
  switching show and keep what the server holds; and how the engines follow the tables: port
  forwarding does what its table says, within the limits of connections, dynamic DNS too, the
  proxy while every rule has one domain (it keeps serving removed domains otherwise); new tunnels
  start late, and the scheduler hears of nothing.

  Conventions. What the code uses of Go's standard library is modelled; third-party packages are
  parameters, and so are clocks, random values, argon2, JSON Web Tokens, SHA-256 and \<open>url.Parse\<close>.
  Requests are served one at a time and database statements succeed (their failure branches, all
  of the form \<open>500\<close>, are named in each theory where a unique index makes one reachable). Times are
  seconds. A step of the user interface is a whole handler, up to its next \<open>await\<close>.

  Not modelled: class names, icons and other presentation; the internals of React, react-query,
  Radix and the router package beyond the laws they document; unpaired surrogates; numbers that
  need rounding (numbers are exact); the wording of errors the engine throws itself; the bundled
  front end and the build configuration, which are generated or have no behaviour of their own; of
  the back end the other engines (certificates, Wake-on-LAN, the storage services past the
  sign-in), the calls of DNS providers, NAT detection and hole punching, the transport of
  forwarded requests and bytes, backups, CORS and CSRF headers, and delivery of webhooks.
\<close>

end
